(* ===== verification/Prelude.thy ===== *)
theory Prelude
  imports Main "HOL-Library.Word" "HOL-Library.AList" "HOL-Library.List_Lexorder"
    "HOL-Library.Char_ord"
begin

text \<open>
  Shared vocabulary of the development: the machine integers of the Go sources, the results of Go
  calls (a value, an error, or a panic), Go maps as association lists, the parts of \<open>strings\<close>,
  \<open>strconv\<close>, \<open>math/big\<close> and \<open>encoding/hex\<close> that the sources use, and the two interfaces
  that several components share: an encoder with its decoder, and a step relation with its
  invariant. The collections \<open>go_simps\<close> and \<open>codec_simps\<close> gather the rewrite rules that the
  component proofs pass to the simplifier.
\<close>

named_theorems go_simps \<open>rules on results of calls, maps and tables\<close>

named_theorems codec_simps \<open>rules on byte and text encodings\<close>

section \<open>Types\<close>

type_synonym u8 = "8 word"

type_synonym u16 = "16 word"

type_synonym u32 = "32 word"

type_synonym u64 = "64 word"

text \<open>An \<open>int32\<close> is the same 32 bits, read with \<open>sint\<close>.\<close>

type_synonym i32 = "32 word"

type_synonym bytes = "u8 list"

text \<open>
  An error is a message, or a message wrapped around a cause
  (\<open>fmt.Errorf("...: %w", err)\<close>). Formatted arguments are left out of the messages.
\<close>

datatype error = Err string | Wrap string error

primrec error_text :: "error \<Rightarrow> string" where
  "error_text (Err s) = s"
| "error_text (Wrap s e) = s @ '': '' @ error_text e"

text \<open>What a Go call ends with: a value, a non-nil error, or a run-time panic.\<close>

datatype 'a res = Ret 'a | Fail error | Panic

text \<open>
  \<open>call msg r k\<close> is the idiom
  \<^verbatim>\<open>x, err := f(); if err != nil { return fmt.Errorf(msg + ": %w", err) }; k(x)\<close>
  over a state that is threaded through, and \<open>call'\<close> the same where the error is returned as it is.
\<close>

definition call :: "string \<Rightarrow> 'a res \<times> 'w \<Rightarrow> ('a \<Rightarrow> 'w \<Rightarrow> 'b res \<times> 'w) \<Rightarrow> 'b res \<times> 'w" where
  "call msg r k =
     (case r of
        (Ret x, w) \<Rightarrow> k x w
      | (Fail e, w) \<Rightarrow> (Fail (Wrap msg e), w)
      | (Panic, w) \<Rightarrow> (Panic, w))"

definition call' :: "'a res \<times> 'w \<Rightarrow> ('a \<Rightarrow> 'w \<Rightarrow> 'b res \<times> 'w) \<Rightarrow> 'b res \<times> 'w" where
  "call' r k =
     (case r of
        (Ret x, w) \<Rightarrow> k x w
      | (Fail e, w) \<Rightarrow> (Fail e, w)
      | (Panic, w) \<Rightarrow> (Panic, w))"

definition is_Ret :: "'a res \<Rightarrow> bool" where
  "is_Ret r = (case r of Ret _ \<Rightarrow> True | _ \<Rightarrow> False)"

text \<open>
  A Go map is the list of its entries; the order of the list stands for the unspecified order in
  which \<open>range\<close> visits them.
\<close>

type_synonym ('k, 'v) gomap = "('k \<times> 'v) list"

definition gokeys :: "('k, 'v) gomap \<Rightarrow> 'k list" where
  "gokeys m = map fst m"

section \<open>Text\<close>

definition ascii_lower :: "char \<Rightarrow> char" where
  "ascii_lower c =
     (if 65 \<le> (of_char c :: nat) \<and> (of_char c :: nat) \<le> 90
      then char_of ((of_char c :: nat) + 32) else c)"

text \<open>\<open>strings.ToLower\<close> and SQL's \<open>LOWER\<close> on ASCII text.\<close>

definition lower :: "string \<Rightarrow> string" where
  "lower s = map ascii_lower s"

text \<open>\<open>strings.Contains(s, sub)\<close>, with the arguments in that order.\<close>

fun contains :: "string \<Rightarrow> string \<Rightarrow> bool" where
  "contains [] sub = (sub = [])"
| "contains (c # cs) sub = (take (length sub) (c # cs) = sub \<or> contains cs sub)"

text \<open>The value of a digit of a base up to 36; letters count in both cases.\<close>

definition digit_val :: "char \<Rightarrow> nat option" where
  "digit_val c =
     (let n = (of_char c :: nat) in
      if 48 \<le> n \<and> n \<le> 57 then Some (n - 48)
      else if 97 \<le> n \<and> n \<le> 122 then Some (n - 87)
      else if 65 \<le> n \<and> n \<le> 90 then Some (n - 55)
      else None)"

definition digit_char :: "nat \<Rightarrow> char" where
  "digit_char d = (if d < 10 then char_of (48 + d) else char_of (87 + d))"

fun parse_digits :: "nat \<Rightarrow> nat \<Rightarrow> string \<Rightarrow> nat option" where
  "parse_digits b acc [] = Some acc"
| "parse_digits b acc (c # cs) =
     (case digit_val c of
        None \<Rightarrow> None
      | Some d \<Rightarrow> if d < b then parse_digits b (acc * b + d) cs else None)"

text \<open>A non-empty digit string in base \<open>b\<close>.\<close>

definition parse_nat :: "nat \<Rightarrow> string \<Rightarrow> nat option" where
  "parse_nat b s = (if s = [] then None else parse_digits b 0 s)"

fun show_nat :: "nat \<Rightarrow> string" where
  "show_nat n = (if n < 10 then [digit_char n] else show_nat (n div 10) @ [digit_char (n mod 10)])"

declare show_nat.simps [simp del]

text \<open>\<open>(*big.Int).String\<close>, and \<open>(*big.Int).SetString(s, 10)\<close>, whose \<open>false\<close> is \<open>None\<close>.\<close>

definition big_String :: "int \<Rightarrow> string" where
  "big_String x = (if x < 0 then CHR ''-'' # show_nat (nat (- x)) else show_nat (nat x))"

definition big_SetString10 :: "string \<Rightarrow> int option" where
  "big_SetString10 s =
     (case s of
        [] \<Rightarrow> None
      | c # cs \<Rightarrow>
          if c = CHR ''-'' then map_option (\<lambda>n. - int n) (parse_nat 10 cs)
          else if c = CHR ''+'' then map_option int (parse_nat 10 cs)
          else map_option int (parse_nat 10 s))"

text \<open>\<open>hex.EncodeToString\<close>.\<close>

definition hex_encode :: "bytes \<Rightarrow> string" where
  "hex_encode bs =
     concat (map (\<lambda>b. [digit_char (unat b div 16), digit_char (unat b mod 16)]) bs)"

section \<open>Results of calls\<close>

lemma call_simps [simp, go_simps]:
  "call msg (Ret x, w) k = k x w"
  "call msg (Fail e, w) k = (Fail (Wrap msg e), w)"
  "call msg (Panic, w) k = (Panic, w)"
  by (simp_all add: call_def)

lemma call'_simps [simp, go_simps]:
  "call' (Ret x, w) k = k x w"
  "call' (Fail e, w) k = (Fail e, w)"
  "call' (Panic, w) k = (Panic, w)"
  by (simp_all add: call'_def)

lemma is_Ret_simps [simp]: "is_Ret (Ret x)" "\<not> is_Ret (Fail e)" "\<not> is_Ret Panic"
  by (simp_all add: is_Ret_def)

lemma is_Ret_iff: "is_Ret r \<longleftrightarrow> (\<exists>x. r = Ret x)"
  by (cases r) auto

text \<open>A call returns a value exactly when each of its parts does.\<close>

lemma call_Ret_iff:
  "call msg r k = (Ret y, w') \<longleftrightarrow> (\<exists>x w. r = (Ret x, w) \<and> k x w = (Ret y, w'))"
  by (cases r; cases "fst r") auto

lemma call'_Ret_iff:
  "call' r k = (Ret y, w') \<longleftrightarrow> (\<exists>x w. r = (Ret x, w) \<and> k x w = (Ret y, w'))"
  by (cases r; cases "fst r") auto

text \<open>What holds of the state after the first part and is kept by the rest holds at the end.\<close>

lemma call_state:
  assumes "Q (snd r)" and "\<And>x w. r = (Ret x, w) \<Longrightarrow> Q w \<Longrightarrow> Q (snd (k x w))"
  shows "Q (snd (call msg r k))"
  using assms by (cases r; cases "fst r") auto

lemma call'_state:
  assumes "Q (snd r)" and "\<And>x w. r = (Ret x, w) \<Longrightarrow> Q w \<Longrightarrow> Q (snd (k x w))"
  shows "Q (snd (call' r k))"
  using assms by (cases r; cases "fst r") auto

lemma call_split:
  "P (call msg r k) \<longleftrightarrow>
     (\<forall>x w. r = (Ret x, w) \<longrightarrow> P (k x w)) \<and>
     (\<forall>e w. r = (Fail e, w) \<longrightarrow> P (Fail (Wrap msg e), w)) \<and>
     (\<forall>w. r = (Panic, w) \<longrightarrow> P (Panic, w))"
  by (cases r; cases "fst r") auto

section \<open>Maps\<close>

lemma gokeys_Nil [simp]: "gokeys [] = []"
  by (simp add: gokeys_def)

lemma set_gokeys [simp, go_simps]: "set (gokeys m) = dom (map_of m)"
  by (simp add: gokeys_def dom_map_of_conv_image_fst)

lemma distinct_gokeys_update [simp, go_simps]:
  "distinct (gokeys m) \<Longrightarrow> distinct (gokeys (AList.update k v m))"
  by (simp add: gokeys_def distinct_update)

lemma distinct_gokeys_delete [simp, go_simps]:
  "distinct (gokeys m) \<Longrightarrow> distinct (gokeys (AList.delete k m))"
  by (simp add: gokeys_def distinct_delete)

lemma map_of_update [simp, go_simps]:
  "map_of (AList.update k v m) = (map_of m)(k \<mapsto> v)"
  by (simp add: update_conv')

lemma map_of_delete [simp, go_simps]:
  "map_of (AList.delete k m) = (map_of m)(k := None)"
  by (simp add: delete_conv')

section \<open>Interfaces: an encoder and its decoder\<close>

locale codec =
  fixes enc :: "'a \<Rightarrow> 'b"
    and dec :: "'b \<Rightarrow> 'a option"
    and valid :: "'a \<Rightarrow> bool"
  assumes dec_enc: "valid x \<Longrightarrow> dec (enc x) = Some x"
begin

lemma enc_inj:
  assumes "valid x" and "valid y" and "enc x = enc y"
  shows "x = y"
proof -
  have "Some x = dec (enc x)" using assms(1) by (simp add: dec_enc)
  also have "\<dots> = dec (enc y)" by (simp add: assms(3))
  also have "\<dots> = Some y" using assms(2) by (simp add: dec_enc)
  finally show ?thesis by simp
qed

lemma enc_inj_on: "inj_on enc {x. valid x}"
  by (rule inj_onI) (auto intro: enc_inj)

end

section \<open>Interfaces: steps and invariants\<close>

text \<open>
  The contract of a state machine: where it starts, how it moves, and what every step keeps.
  The client lemma is that the invariant holds wherever the machine can get.
\<close>

locale step_invariant =
  fixes start :: "'s \<Rightarrow> bool"
    and step :: "'s \<Rightarrow> 's \<Rightarrow> bool"
    and inv :: "'s \<Rightarrow> bool"
  assumes inv_start: "start s \<Longrightarrow> inv s"
    and inv_step: "inv s \<Longrightarrow> step s t \<Longrightarrow> inv t"
begin

lemma inv_reachable:
  assumes "start s" and "step\<^sup>*\<^sup>* s t"
  shows "inv t"
  using assms(2)
proof (induction rule: rtranclp_induct)
  case base
  show ?case using assms(1) by (rule inv_start)
next
  case (step t u)
  then show ?case by (blast intro: inv_step)
qed

end

section \<open>Words\<close>

lemma unat_u32_less: "unat (e :: u32) < 4294967296"
  using unsigned_less [of e] by simp

lemma unat_u64_less: "unat (b :: u64) < 18446744073709551616"
  using unsigned_less [of b] by simp

lemma unat_minus_one_word: "(a :: 'a :: len word) \<noteq> 0 \<Longrightarrow> unat (a - 1) = unat a - 1"
  by (subst unat_sub) (simp_all add: word_le_nat_alt Suc_le_eq unat_gt_0)

lemma unat_plus_one_word: "(a :: 'a :: len word) \<noteq> - 1 \<Longrightarrow> unat (a + 1) = Suc (unat a)"
  using unatSuc [of a] by (metis add.commute add_eq_0_iff)

lemma small_u16_not_max: "unat (a :: u16) < 2 ^ 15 - 1 \<Longrightarrow> a \<noteq> - 1"
  by (auto simp: unsigned_minus_1_eq_mask mask_eq_exp_minus_1)

lemma unat_minus_of_nat:
  assumes "d \<le> unat (a :: 'a :: len word)"
  shows "unat (a - of_nat d) = unat a - d"
proof -
  have d: "unat (of_nat d :: 'a word) = d"
  proof -
    have "unat a < 2 ^ LENGTH('a)" by (rule unsigned_less)
    with assms have "d < 2 ^ LENGTH('a)" by linarith
    then show ?thesis by (simp add: unat_of_nat)
  qed
  with assms have "(of_nat d :: 'a word) \<le> a" by (simp add: word_le_nat_alt)
  with d show ?thesis by (simp add: unat_sub)
qed


lemma sint_i32_range: "- (2 ^ 31) \<le> sint (e :: i32) \<and> sint e < 2 ^ 31"
  using sint_range_size [of e] by (simp add: word_size)

text \<open>Negation of an \<open>int32\<close> is exact but at the minimum, which is its own negation.\<close>

lemma sint_uminus_i32:
  assumes "(e :: i32) \<noteq> 0x80000000"
  shows "sint (- e) = - sint e"
proof -
  have "sint e \<noteq> sint (0x80000000 :: i32)"
    using assms signed_word_eqI by blast
  then have "- (2 ^ 31) \<le> - sint e" and "- sint e < 2 ^ 31"
    using sint_i32_range [of e] by simp_all
  then show ?thesis by (simp add: sint_word_minus signed_take_bit_int_eq_self)
qed

section \<open>Decimal text\<close>

lemma of_char_char_of_small: "n < 256 \<Longrightarrow> (of_char (char_of n :: char) :: nat) = n"
  by simp

lemma digit_val_char [simp]: "d < 36 \<Longrightarrow> digit_val (digit_char d) = Some d"
  by (auto simp: digit_val_def digit_char_def Let_def of_char_char_of_small
      simp del: of_char_of)

lemma parse_digits_append:
  "parse_digits b acc (xs @ ys) = Option.bind (parse_digits b acc xs) (\<lambda>a. parse_digits b a ys)"
  by (induction xs arbitrary: acc) (auto split: option.splits)

lemma show_nat_nonempty [simp]: "show_nat n \<noteq> []"
  by (subst show_nat.simps) simp

lemma parse_digits_show_nat: "parse_digits 10 0 (show_nat n) = Some n"
proof (induction n rule: show_nat.induct)
  case (1 n)
  show ?case
  proof (cases "n < 10")
    case True
    then show ?thesis by (subst show_nat.simps) simp
  next
    case False
    with 1 have "parse_digits 10 0 (show_nat (n div 10)) = Some (n div 10)" by simp
    with False show ?thesis
      by (subst show_nat.simps) (simp add: parse_digits_append)
  qed
qed

lemma parse_nat_show_nat [codec_simps]: "parse_nat 10 (show_nat n) = Some n"
  by (simp add: parse_nat_def parse_digits_show_nat)

lemma hd_show_nat_digit: "\<exists>d < 10. hd (show_nat n) = digit_char d"
proof (induction n rule: show_nat.induct)
  case (1 n)
  then show ?case by (cases "n < 10") (auto simp: show_nat.simps [of n])
qed

lemma digit_char_not_sign: "d < 10 \<Longrightarrow> digit_char d \<noteq> CHR ''-'' \<and> digit_char d \<noteq> CHR ''+''"
  by (auto simp: digit_char_def of_char_char_of_small simp del: of_char_of
      dest!: arg_cong [where f = "of_char :: char \<Rightarrow> nat"])

lemma big_SetString10_String: "big_SetString10 (big_String x) = Some x"
proof (cases "x < 0")
  case True
  then show ?thesis
    by (simp add: big_String_def big_SetString10_def parse_nat_show_nat)
next
  case False
  obtain c cs where s: "show_nat (nat x) = c # cs"
    by (cases "show_nat (nat x)") auto
  obtain d where "d < 10" and "c = digit_char d"
    using hd_show_nat_digit [of "nat x"] s by auto
  then have "c \<noteq> CHR ''-''" and "c \<noteq> CHR ''+''" using digit_char_not_sign by auto
  with False s show ?thesis
    using parse_nat_show_nat [of "nat x"]
    by (simp add: big_String_def big_SetString10_def)
qed

interpretation decimal: codec big_String big_SetString10 "\<lambda>_. True"
  by unfold_locales (simp add: big_SetString10_String)

lemma lower_append [simp]: "lower (xs @ ys) = lower xs @ lower ys"
  by (simp add: lower_def)

lemma contains_appendI: "contains (xs @ sub @ ys) sub"
proof (induction xs)
  case Nil
  have "take (length sub) (sub @ ys) = sub" by simp
  then show ?case by (cases "sub @ ys") (auto simp del: append_eq_conv_conj)
next
  case (Cons x xs)
  then show ?case by simp
qed

end
