(* ===== verification/Numeric.thy ===== *)
theory Numeric
  imports Prelude
begin

text \<open>
  The conversions between \<open>pgtype.Numeric\<close>, \<open>*big.Int\<close> and decimal text of
  \<open>pkg/common/utils.go\<close>. A \<open>*big.Int\<close> is an \<open>int option\<close>, \<open>None\<close> being the nil
  pointer; reading through nil is a \<open>Panic\<close>. The exponent is an \<open>int32\<close>, so that negating it
  wraps at its minimum, as in the code.
\<close>

record Numeric =
  num_Int :: "int option"
  num_Exp :: i32
  num_Valid :: bool

text \<open>\<open>new(big.Int).Exp(x, y, nil)\<close>: one for every exponent that is not positive.\<close>

definition big_Exp :: "int \<Rightarrow> int \<Rightarrow> int" where
  "big_Exp x y = (if y \<le> 0 then 1 else x ^ nat y)"

definition NumericToString :: "Numeric \<Rightarrow> string" where
  "NumericToString n =
     (case num_Int n of
        None \<Rightarrow> ''0''
      | Some i \<Rightarrow>
          if \<not> num_Valid n then ''0''
          else if 0 < sint (num_Exp n) then big_String (i * big_Exp 10 (sint (num_Exp n)))
          else if sint (num_Exp n) < 0 then big_String (i div big_Exp 10 (sint (- num_Exp n)))
          else big_String i)"

text \<open>
  The conversions through a floating point number. \<open>Float64Value\<close> is the library's, and what Go
  makes of a number outside the range of the integer is left to the implementation.
\<close>

definition NumericToInt64 :: "(Numeric \<Rightarrow> 'f) \<Rightarrow> ('f \<Rightarrow> 64 word) \<Rightarrow> Numeric \<Rightarrow> 64 word" where
  "NumericToInt64 float64Value int64 num =
     (if \<not> num_Valid num then 0 else int64 (float64Value num))"

definition NumericToUint64 :: "(Numeric \<Rightarrow> 'f) \<Rightarrow> ('f \<Rightarrow> u64) \<Rightarrow> Numeric \<Rightarrow> u64" where
  "NumericToUint64 float64Value uint64 num =
     (if \<not> num_Valid num then 0 else uint64 (float64Value num))"

definition NumericToBigInt :: "Numeric \<Rightarrow> int option res" where
  "NumericToBigInt n =
     (if num_Exp n = 0 then Ret (num_Int n)
      else
        (case num_Int n of
           None \<Rightarrow> Panic
         | Some i \<Rightarrow>
             if 0 < sint (num_Exp n) then Ret (Some (i * big_Exp 10 (sint (num_Exp n))))
             else
               (let d = big_Exp 10 (sint (- num_Exp n)) in
                if i mod d \<noteq> 0 then Fail (Err ''cannot convert to integer'')
                else Ret (Some (i div d)))))"

text \<open>
  \<open>StringToBigInt\<close> drops the \<open>bool\<close> of \<open>SetString\<close>: text that is not a number gives the nil
  pointer.
\<close>

definition StringToBigInt :: "string \<Rightarrow> int option" where
  "StringToBigInt s = (if s = [] then Some 0 else big_SetString10 s)"

definition BigIntToNumeric :: "int option \<Rightarrow> Numeric" where
  "BigIntToNumeric x = \<lparr>num_Int = x, num_Exp = 0, num_Valid = True\<rparr>"

definition StringToNumeric :: "string \<Rightarrow> Numeric" where
  "StringToNumeric s = BigIntToNumeric (StringToBigInt s)"

section \<open>Exactness\<close>

lemma big_Exp_pos [simp]: "0 < big_Exp 10 y"
  by (simp add: big_Exp_def)

lemma StringToBigInt_big_String [simp, codec_simps]: "StringToBigInt (big_String x) = Some x"
proof -
  have "big_String x \<noteq> []" by (simp add: big_String_def)
  then show ?thesis by (simp add: StringToBigInt_def big_SetString10_String)
qed

lemma NumericToBigInt_BigIntToNumeric [simp, codec_simps]:
  "NumericToBigInt (BigIntToNumeric x) = Ret x"
  by (simp add: NumericToBigInt_def BigIntToNumeric_def)

lemma NumericToString_BigIntToNumeric [simp, codec_simps]:
  "NumericToString (BigIntToNumeric (Some x)) = big_String x"
  by (simp add: NumericToString_def BigIntToNumeric_def)

lemma num_Int_BigIntToNumeric [simp]: "num_Int (BigIntToNumeric x) = x"
  by (simp add: BigIntToNumeric_def)

text \<open>
  A conversion to \<open>*big.Int\<close> that succeeds is exact: scaled back by the power of ten of a
  negative exponent it gives the coefficient again, and for the other exponents it is the
  coefficient times the power of ten. The only exponent left out is the minimum of \<open>int32\<close>, which
  has no negation.
\<close>

theorem NumericToBigInt_exact:
  assumes "NumericToBigInt n = Ret (Some x)" and "num_Exp n \<noteq> 0x80000000"
  shows "\<exists>i. num_Int n = Some i \<and>
    (if 0 \<le> sint (num_Exp n) then x = i * 10 ^ nat (sint (num_Exp n))
     else x * 10 ^ nat (- sint (num_Exp n)) = i)"
  using assms(1) sint_uminus_i32 [OF assms(2)]
  by (auto simp: NumericToBigInt_def big_Exp_def Let_def signed_eq_0_iff
      split: if_splits option.splits)

theorem NumericToBigInt_exact_witness:
  "NumericToBigInt \<lparr>num_Int = Some 2500, num_Exp = - 2, num_Valid = True\<rparr> = Ret (Some 25) \<and>
   (\<exists>i. Some (2500 :: int) = Some i \<and> 25 * 10 ^ nat 2 = i)"
  using NumericToBigInt_exact
    [of "\<lparr>num_Int = Some 2500, num_Exp = - 2, num_Valid = True\<rparr>" 25]
  by (simp add: NumericToBigInt_def big_Exp_def)

lemma NumericToString_eq:
  assumes "NumericToBigInt n = Ret (Some x)" and "num_Valid n"
  shows "NumericToString n = big_String x"
  using assms
  by (auto simp: NumericToBigInt_def NumericToString_def Let_def signed_eq_0_iff
      split: if_splits option.splits)

text \<open>
  The two readings of a stored number agree: whenever \<open>NumericToBigInt\<close> returns an integer
  for a valid number, \<open>NumericToString\<close> prints exactly that integer.
\<close>

theorem NumericToString_NumericToBigInt:
  assumes "NumericToBigInt n = Ret (Some x)" and "num_Valid n"
  shows "NumericToString n = big_String x"
  using assms by (rule NumericToString_eq)

theorem NumericToString_NumericToBigInt_witness:
  "NumericToString \<lparr>num_Int = Some 7, num_Exp = 3, num_Valid = True\<rparr> = big_String 7000"
  by (rule NumericToString_NumericToBigInt) (simp_all add: NumericToBigInt_def big_Exp_def)

text \<open>
  Decimal text is a faithful wire format for integers: what an operator prints for a stored
  integer, its peers read back as the same \<open>Numeric\<close>, and two integers never share a text.
\<close>

theorem StringToNumeric_NumericToString:
  "StringToNumeric (NumericToString (BigIntToNumeric (Some x))) = BigIntToNumeric (Some x) \<and>
   (big_String x = big_String y \<longleftrightarrow> x = y)"
  using decimal.enc_inj [of x y] by (auto simp: StringToNumeric_def)

text \<open>
  \<open>StringToBigInt\<close> returns the nil pointer exactly for non-empty text that is not a decimal
  integer; the digits after \<open>0x\<close> are such text.
\<close>

theorem StringToBigInt_nil_iff:
  "(StringToBigInt s = None \<longleftrightarrow> s \<noteq> [] \<and> big_SetString10 s = None) \<and>
   StringToBigInt ''0x10'' = None"
  by (auto simp: StringToBigInt_def big_SetString10_def parse_nat_def digit_val_def Let_def)

end
