(* ===== verification/Tables.thy ===== *)
theory Tables
  imports Numeric
begin

text \<open>
  The database as the repositories see it: the row types of \<open>pkg/repos/*/models.go\<close>, the tables of
  the \<open>Schema\<close> constants of \<open>pkg/repos/*/db.go\<close> with their column types and constraints, and what
  running one statement means.

  A table is the list of its rows. The order of the list stands for the order, unspecified in SQL,
  in which a query without \<open>ORDER BY\<close> finds rows. The database server and its driver are the
  parameter \<open>pg\<close>: at each call, counted by \<open>calls\<close>, the server may refuse a statement
  (\<open>Lost\<close>), execute it and lose the reply (\<open>Late\<close>: timeouts of the query context), or answer;
  it gives \<open>NOW()\<close>; the driver reads a \<open>NUMERIC\<close> back in a form of its own; and the read-through
  cache of the \<open>dcache\<close> package answers a cached query from what it stored, or lets the read go to
  the database. A cache that is nil is \<open>None\<close>.
\<close>

type_synonym time = int

section \<open>Rows\<close>

record Tasks =
  t_TaskID :: string
  t_ChainID :: u32
  t_TargetAddress :: string
  t_Key :: Numeric
  t_BlockNumber :: u64
  t_Value :: Numeric
  t_Epoch :: u32
  t_Status :: string
  t_RequiredConfirmations :: u16
  t_RetryCount :: u16
  t_CreatedAt :: time
  t_UpdatedAt :: time

record Operators =
  o_Address :: string
  o_SigningKey :: string
  o_P2pKey :: string
  o_RegisteredAtBlockNumber :: u64
  o_ActiveEpoch :: u32
  o_ExitEpoch :: u32
  o_IsActive :: bool
  o_Weight :: Numeric
  o_CreatedAt :: time
  o_UpdatedAt :: time

record ConsensusResponse =
  c_TaskID :: string
  c_Epoch :: u32
  c_ChainID :: u32
  c_TargetAddress :: string
  c_BlockNumber :: u64
  c_Key :: Numeric
  c_Value :: Numeric
  c_AggregatedSignatures :: "bytes list"
  c_OperatorAddresses :: "string list"
  c_CreatedAt :: time
  c_UpdatedAt :: time

record Blacklist =
  b_PeerID :: string
  b_ViolationCount :: i32
  b_CreatedAt :: time
  b_UpdatedAt :: time
  b_ExpiresAt :: "time option"

text \<open>The values of \<open>constants.TaskStatus\<close>.\<close>

definition TaskStatusPending :: string where
  "TaskStatusPending = ''pending''"

definition TaskStatusCompleted :: string where
  "TaskStatusCompleted = ''completed''"

definition TaskStatusConfirming :: string where
  "TaskStatusConfirming = ''confirming''"

section \<open>Column types\<close>

definition fits_int2 :: "u16 \<Rightarrow> bool" where
  "fits_int2 x \<longleftrightarrow> unat x < 2 ^ 15"

definition fits_int4 :: "u32 \<Rightarrow> bool" where
  "fits_int4 x \<longleftrightarrow> unat x < 2 ^ 31"

definition fits_int8 :: "u64 \<Rightarrow> bool" where
  "fits_int8 x \<longleftrightarrow> unat x < 2 ^ 63"

definition fits_varchar :: "nat \<Rightarrow> string \<Rightarrow> bool" where
  "fits_varchar n s \<longleftrightarrow> length s \<le> n"

text \<open>A number without digits has no encoding; an invalid one is NULL.\<close>

definition fits_numeric :: "Numeric \<Rightarrow> bool" where
  "fits_numeric x \<longleftrightarrow> \<not> num_Valid x \<or> num_Int x \<noteq> None"

definition not_null :: "Numeric \<Rightarrow> bool" where
  "not_null x \<longleftrightarrow> num_Valid x"

text \<open>Equality of \<open>NUMERIC\<close> values: of the numbers, not of their representations.\<close>

definition num_eq :: "Numeric \<Rightarrow> Numeric \<Rightarrow> bool" where
  "num_eq a b \<longleftrightarrow>
     (if num_Valid a \<and> num_Valid b then
        (case (num_Int a, num_Int b) of
           (Some i, Some j) \<Rightarrow>
             (let m = min (sint (num_Exp a)) (sint (num_Exp b)) in
              i * 10 ^ nat (sint (num_Exp a) - m) = j * 10 ^ nat (sint (num_Exp b) - m))
         | _ \<Rightarrow> False)
      else False)"

section \<open>Constraints of the four tables\<close>

definition tasks_check :: "Tasks \<Rightarrow> bool" where
  "tasks_check r \<longleftrightarrow>
     fits_varchar 66 (t_TaskID r) \<and> fits_int4 (t_ChainID r) \<and>
     fits_varchar 42 (t_TargetAddress r) \<and> fits_numeric (t_Key r) \<and> not_null (t_Key r) \<and>
     fits_int8 (t_BlockNumber r) \<and> fits_numeric (t_Value r) \<and> fits_int4 (t_Epoch r) \<and>
     fits_varchar 20 (t_Status r) \<and>
     t_Status r \<in> {TaskStatusConfirming, TaskStatusPending, TaskStatusCompleted} \<and>
     fits_int2 (t_RequiredConfirmations r) \<and> fits_int2 (t_RetryCount r)"

definition operators_check :: "Operators \<Rightarrow> bool" where
  "operators_check r \<longleftrightarrow>
     fits_varchar 42 (o_Address r) \<and> fits_varchar 42 (o_SigningKey r) \<and>
     fits_varchar 42 (o_P2pKey r) \<and> fits_int8 (o_RegisteredAtBlockNumber r) \<and>
     fits_numeric (o_Weight r) \<and> not_null (o_Weight r)"

definition consensus_check :: "ConsensusResponse \<Rightarrow> bool" where
  "consensus_check r \<longleftrightarrow>
     fits_varchar 66 (c_TaskID r) \<and> fits_int4 (c_Epoch r) \<and> fits_int4 (c_ChainID r) \<and>
     fits_varchar 42 (c_TargetAddress r) \<and> fits_int8 (c_BlockNumber r) \<and>
     fits_numeric (c_Key r) \<and> not_null (c_Key r) \<and>
     fits_numeric (c_Value r) \<and> not_null (c_Value r) \<and>
     (\<forall>a \<in> set (c_OperatorAddresses r). fits_varchar 42 a)"

definition blacklist_check :: "Blacklist \<Rightarrow> bool" where
  "blacklist_check r \<longleftrightarrow>
     fits_varchar 128 (b_PeerID r) \<and> 0 \<le> sint (b_ViolationCount r) \<and>
     (case b_ExpiresAt r of None \<Rightarrow> True | Some e \<Rightarrow> b_CreatedAt r < e)"

text \<open>The constraint \<open>unique_consensus_request\<close>: the two rows answer the same request.\<close>

definition same_request :: "ConsensusResponse \<Rightarrow> ConsensusResponse \<Rightarrow> bool" where
  "same_request r s \<longleftrightarrow>
     c_TargetAddress r = c_TargetAddress s \<and> c_ChainID r = c_ChainID s \<and>
     c_BlockNumber r = c_BlockNumber s \<and> num_eq (c_Key r) (c_Key s)"

fun pairwise_distinct :: "('a \<Rightarrow> 'a \<Rightarrow> bool) \<Rightarrow> 'a list \<Rightarrow> bool" where
  "pairwise_distinct same [] = True"
| "pairwise_distinct same (x # xs) = (list_all (\<lambda>y. \<not> same x y) xs \<and> pairwise_distinct same xs)"

text \<open>What the server guarantees of a table: keys are unique and every row satisfies its checks.\<close>

definition keyed :: "('r \<Rightarrow> 'k) \<Rightarrow> ('r \<Rightarrow> bool) \<Rightarrow> 'r list \<Rightarrow> bool" where
  "keyed key check t \<longleftrightarrow> distinct (map key t) \<and> list_all check t"

definition tasks_ok :: "Tasks list \<Rightarrow> bool" where
  "tasks_ok t \<longleftrightarrow> keyed t_TaskID tasks_check t"

definition operators_ok :: "Operators list \<Rightarrow> bool" where
  "operators_ok t \<longleftrightarrow> keyed o_Address operators_check t"

definition consensus_ok :: "ConsensusResponse list \<Rightarrow> bool" where
  "consensus_ok t \<longleftrightarrow>
     keyed c_TaskID consensus_check t \<and> pairwise_distinct same_request t"

definition blacklist_ok :: "Blacklist list \<Rightarrow> bool" where
  "blacklist_ok t \<longleftrightarrow> keyed b_PeerID blacklist_check t"

section \<open>Statements\<close>

text \<open>
  A statement reads and changes one table or is refused. \<open>insert_row\<close>, \<open>update_row\<close> (of the one
  row with a key) and \<open>delete_rows\<close> are what the statements are made of.
\<close>

type_synonym ('r, 'a) stmt = "'r list \<Rightarrow> error + 'a \<times> 'r list"

definition insert_row :: "('r \<Rightarrow> 'k) \<Rightarrow> ('r \<Rightarrow> bool) \<Rightarrow> 'r \<Rightarrow> ('r, 'r option) stmt" where
  "insert_row key check r t =
     (if \<not> check r then Inl (Err ''violates check constraint'')
      else if key r \<in> set (map key t) then Inl (Err ''duplicate key value'')
      else Inr (Some r, t @ [r]))"

definition update_row ::
  "('r \<Rightarrow> 'k) \<Rightarrow> ('r \<Rightarrow> bool) \<Rightarrow> 'k \<Rightarrow> ('r \<Rightarrow> 'r) \<Rightarrow> ('r, 'r option) stmt" where
  "update_row key check k f t =
     (case find (\<lambda>r. key r = k) t of
        None \<Rightarrow> Inr (None, t)
      | Some r \<Rightarrow>
          if \<not> check (f r) then Inl (Err ''violates check constraint'')
          else Inr (Some (f r), map (\<lambda>r. if key r = k then f r else r) t))"

definition delete_rows :: "('r \<Rightarrow> bool) \<Rightarrow> ('r, unit) stmt" where
  "delete_rows p t = Inr ((), filter (\<lambda>r. \<not> p r) t)"

definition select_one :: "('r \<Rightarrow> bool) \<Rightarrow> ('r, 'r option) stmt" where
  "select_one p t = Inr (find p t, t)"

definition select_many :: "('r list \<Rightarrow> 'r list) \<Rightarrow> ('r, 'r list) stmt" where
  "select_many f t = Inr (f t, t)"

text \<open>\<open>INSERT ... ON CONFLICT (key) DO UPDATE\<close>.\<close>

definition upsert_row ::
  "('r \<Rightarrow> 'k) \<Rightarrow> ('r \<Rightarrow> bool) \<Rightarrow> 'r \<Rightarrow> ('r \<Rightarrow> 'r) \<Rightarrow> ('r, 'r option) stmt" where
  "upsert_row key check r f t =
     (if \<not> check r then Inl (Err ''violates check constraint'')
      else if key r \<in> set (map key t) then update_row key check (key r) f t
      else Inr (Some r, t @ [r]))"

text \<open>A statement run with \<open>WExec\<close>, whose rows are not read.\<close>

definition exec_stmt :: "('r, 'a) stmt \<Rightarrow> ('r, unit) stmt" where
  "exec_stmt s t = (case s t of Inl e \<Rightarrow> Inl e | Inr (_, t') \<Rightarrow> Inr ((), t'))"

text \<open>How the server and the connection treat one statement.\<close>

datatype fault = NoFault | Lost error | Late error

definition run_stmt :: "fault \<Rightarrow> ('r, 'a) stmt \<Rightarrow> 'r list \<Rightarrow> 'a res \<times> 'r list" where
  "run_stmt f s t =
     (case f of
        Lost e \<Rightarrow> (Fail e, t)
      | NoFault \<Rightarrow> (case s t of Inl e \<Rightarrow> (Fail e, t) | Inr (x, t') \<Rightarrow> (Ret x, t'))
      | Late e \<Rightarrow> (case s t of Inl _ \<Rightarrow> (Fail e, t) | Inr (x, t') \<Rightarrow> (Fail e, t')))"

text \<open>The values that cached queries return.\<close>

datatype cached = CachedOperator "Operators option" | CachedBool "bool option"

text \<open>What the cache does with a query: ask the database, answer itself, or fail.\<close>

datatype cache_answer = AskDatabase | Stored cached | CacheError error

record pg =
  fault_at :: "nat \<Rightarrow> fault"
  now_at :: "nat \<Rightarrow> time"
  scan_numeric :: "Numeric \<Rightarrow> Numeric"
  cache_at :: "(nat \<Rightarrow> string \<Rightarrow> cache_answer) option"
  sha256 :: "string \<Rightarrow> bytes"

text \<open>
  The database state: the number of external calls made, the tables, the cache keys that were
  invalidated, the last one first, and the keys that an open transaction will invalidate once it
  commits.
\<close>

record DB =
  calls :: nat
  tasks_rows :: "Tasks list"
  operators_rows :: "Operators list"
  consensus_rows :: "ConsensusResponse list"
  blacklist_rows :: "Blacklist list"
  invalidated :: "string list"
  post_exec :: "string list"

definition tick :: "('z) DB_scheme \<Rightarrow> ('z) DB_scheme" where
  "tick w = w\<lparr>calls := Suc (calls w)\<rparr>"

definition db_ok :: "('z) DB_scheme \<Rightarrow> bool" where
  "db_ok w \<longleftrightarrow> tasks_ok (tasks_rows w) \<and> operators_ok (operators_rows w) \<and>
     consensus_ok (consensus_rows w) \<and> blacklist_ok (blacklist_rows w)"

text \<open>One statement on one table; it is given the server's clock.\<close>

definition on_tasks :: "pg \<Rightarrow> (time \<Rightarrow> (Tasks, 'a) stmt) \<Rightarrow> ('z) DB_scheme \<Rightarrow> 'a res \<times> ('z) DB_scheme" where
  "on_tasks p s w =
     (case run_stmt (fault_at p (calls w)) (s (now_at p (calls w))) (tasks_rows w) of
        (r, t) \<Rightarrow> (r, tick w\<lparr>tasks_rows := t\<rparr>))"

definition on_operators ::
  "pg \<Rightarrow> (time \<Rightarrow> (Operators, 'a) stmt) \<Rightarrow> ('z) DB_scheme \<Rightarrow> 'a res \<times> ('z) DB_scheme" where
  "on_operators p s w =
     (case run_stmt (fault_at p (calls w)) (s (now_at p (calls w))) (operators_rows w) of
        (r, t) \<Rightarrow> (r, tick w\<lparr>operators_rows := t\<rparr>))"

definition on_consensus ::
  "pg \<Rightarrow> (time \<Rightarrow> (ConsensusResponse, 'a) stmt) \<Rightarrow> ('z) DB_scheme \<Rightarrow> 'a res \<times> ('z) DB_scheme" where
  "on_consensus p s w =
     (case run_stmt (fault_at p (calls w)) (s (now_at p (calls w))) (consensus_rows w) of
        (r, t) \<Rightarrow> (r, tick w\<lparr>consensus_rows := t\<rparr>))"

definition on_blacklist ::
  "pg \<Rightarrow> (time \<Rightarrow> (Blacklist, 'a) stmt) \<Rightarrow> ('z) DB_scheme \<Rightarrow> 'a res \<times> ('z) DB_scheme" where
  "on_blacklist p s w =
     (case run_stmt (fault_at p (calls w)) (s (now_at p (calls w))) (blacklist_rows w) of
        (r, t) \<Rightarrow> (r, tick w\<lparr>blacklist_rows := t\<rparr>))"

section \<open>Cached queries\<close>

definition hashIfLong :: "pg \<Rightarrow> string \<Rightarrow> string" where
  "hashIfLong p v = (if 64 < length v then ''h('' @ hex_encode (sha256 p v) @ '')'' else v)"

definition ptrStr :: "('a \<Rightarrow> string) \<Rightarrow> 'a option \<Rightarrow> string" where
  "ptrStr fmt v = (case v of None \<Rightarrow> ''<nil>'' | Some x \<Rightarrow> fmt x)"

text \<open>
  \<open>GetWithTtl\<close>, with the result read into a variable of the query's own type. An answer of the other
  type cannot be decoded.
\<close>

definition GetWithTtl ::
  "pg \<Rightarrow> string \<Rightarrow> (cached \<Rightarrow> 'a option) \<Rightarrow> (('z) DB_scheme \<Rightarrow> 'a res \<times> ('z) DB_scheme) \<Rightarrow>
     ('z) DB_scheme \<Rightarrow> 'a res \<times> ('z) DB_scheme" where
  "GetWithTtl p key decode dbRead w =
     (case cache_at p of
        None \<Rightarrow> dbRead w
      | Some cache \<Rightarrow>
          (case cache (calls w) key of
             AskDatabase \<Rightarrow> dbRead (tick w)
           | Stored v \<Rightarrow>
               (case decode v of
                  Some x \<Rightarrow> (Ret x, tick w)
                | None \<Rightarrow> (Fail (Err ''cannot decode cached value''), tick w))
           | CacheError e \<Rightarrow> (Fail e, tick w)))"

primrec as_operator :: "cached \<Rightarrow> Operators option option" where
  "as_operator (CachedOperator x) = Some x"
| "as_operator (CachedBool b) = None"

primrec as_bool :: "cached \<Rightarrow> bool option option" where
  "as_bool (CachedBool b) = Some b"
| "as_bool (CachedOperator x) = None"

text \<open>
  \<open>PostExec\<close> with an \<open>Invalidate\<close> of a key that is not nil. On a connection of the pool the
  function runs at once, in a transaction after the commit. Failures to invalidate are only logged.
\<close>

datatype conn = Pool | Tx

definition Invalidate ::
  "pg \<Rightarrow> conn \<Rightarrow> string \<Rightarrow> string option \<Rightarrow> ('z) DB_scheme \<Rightarrow> ('z) DB_scheme" where
  "Invalidate p c prefix k w =
     (case k of
        None \<Rightarrow> w
      | Some s \<Rightarrow>
          (let key = prefix @ hashIfLong p s in
           case c of
             Pool \<Rightarrow> w\<lparr>invalidated := key # invalidated w\<rparr>
           | Tx \<Rightarrow> w\<lparr>post_exec := key # post_exec w\<rparr>))"

text \<open>What a query reads back: the stored row with its numbers in the driver's form.\<close>

definition scan_task :: "pg \<Rightarrow> Tasks \<Rightarrow> Tasks" where
  "scan_task p r = r\<lparr>t_Key := scan_numeric p (t_Key r), t_Value := scan_numeric p (t_Value r)\<rparr>"

definition scan_operator :: "pg \<Rightarrow> Operators \<Rightarrow> Operators" where
  "scan_operator p r = r\<lparr>o_Weight := scan_numeric p (o_Weight r)\<rparr>"

definition scan_consensus :: "pg \<Rightarrow> ConsensusResponse \<Rightarrow> ConsensusResponse" where
  "scan_consensus p r = r\<lparr>c_Key := scan_numeric p (c_Key r), c_Value := scan_numeric p (c_Value r)\<rparr>"

text \<open>Scanning the result of a query.\<close>

definition scanned :: "('a \<Rightarrow> 'b) \<Rightarrow> 'a res \<times> 'w \<Rightarrow> 'b res \<times> 'w" where
  "scanned f r = call' r (\<lambda>x w. (Ret (f x), w))"

section \<open>Statements keep the constraints\<close>

lemma map_update_keys:
  assumes "\<And>r. key (f r) = key r"
  shows "map key (map (\<lambda>r. if p r then f r else r) t) = map key t"
  using assms by (induction t) auto

lemma insert_row_keyed:
  assumes "keyed key check t" and "insert_row key check r t = Inr (x, t')"
  shows "keyed key check t'"
  using assms by (auto simp: insert_row_def keyed_def split: if_splits)

lemma find_key_eq:
  assumes "distinct (map key t)" and "find (\<lambda>r. key r = k) t = Some r" and "s \<in> set t"
    and "key s = k"
  shows "s = r"
proof -
  have "r \<in> set t" and "key r = k"
    using assms(2) by (auto simp: find_Some_iff)
  with assms(1,3,4) show ?thesis by (auto simp: distinct_map dest: inj_onD)
qed

lemma update_row_keyed:
  assumes "keyed key check t" and "\<And>r. key (f r) = key r"
    and "update_row key check k f t = Inr (x, t')"
  shows "keyed key check t'"
proof (cases "find (\<lambda>r. key r = k) t")
  case None
  with assms show ?thesis by (simp add: update_row_def)
next
  case (Some r)
  with assms(3) have r: "check (f r)" and t': "t' = map (\<lambda>r. if key r = k then f r else r) t"
    by (auto simp: update_row_def split: if_splits)
  have "check (f s)" if "s \<in> set t" and "key s = k" for s
    using find_key_eq [OF _ Some that] assms(1) r by (simp add: keyed_def)
  with assms(1) have "list_all check t'"
    unfolding t' keyed_def by (auto simp: list_all_iff)
  moreover have "map key t' = map key t" unfolding t' using assms(2) by (rule map_update_keys)
  ultimately show ?thesis using assms(1) by (simp add: keyed_def)
qed

lemma upsert_row_keyed:
  assumes "keyed key check t" and "\<And>r. key (f r) = key r"
    and "upsert_row key check r f t = Inr (x, t')"
  shows "keyed key check t'"
  using assms update_row_keyed [OF assms(1,2)]
  by (auto simp: upsert_row_def keyed_def split: if_splits)

lemma delete_rows_keyed:
  assumes "keyed key check t" and "delete_rows p t = Inr (x, t')"
  shows "keyed key check t'"
  using assms
  by (auto simp: delete_rows_def keyed_def list_all_iff distinct_map inj_on_def)

lemma exec_stmt_Inr: "exec_stmt s t = Inr (x, t') \<longleftrightarrow> (\<exists>y. s t = Inr (y, t'))"
  by (auto simp: exec_stmt_def split: sum.splits)

section \<open>Interfaces: statements and stores\<close>

text \<open>
  The contract between a table and the statements on it: a statement that succeeds keeps the
  constraints. Whatever the connection does, running the statement then keeps them too.
\<close>

locale table_stmt =
  fixes ok :: "'r list \<Rightarrow> bool"
    and s :: "'r list \<Rightarrow> error + 'a \<times> 'r list"
  assumes stmt_ok: "ok t \<Longrightarrow> s t = Inr (x, t') \<Longrightarrow> ok t'"
begin

lemma run_ok: "ok t \<Longrightarrow> ok (snd (run_stmt f s t))"
  by (auto simp: run_stmt_def stmt_ok split: fault.split sum.split prod.split)

end

text \<open>A query only reads; that is more than keeping the constraints.\<close>

locale table_query =
  fixes s :: "'r list \<Rightarrow> error + 'a \<times> 'r list"
  assumes query_reads: "s t = Inr (x, t') \<Longrightarrow> t' = t"
begin

lemma run_reads: "snd (run_stmt f s t) = t"
  by (auto simp: run_stmt_def dest: query_reads split: fault.split sum.split prod.split)

end

sublocale table_query \<subseteq> table_stmt "\<lambda>_. True" s
  by unfold_locales simp

text \<open>
  A store with a primary key: what a lookup sees after a row was put, whatever other rows there are,
  and after a row was deleted.
\<close>

locale keyed_store =
  fixes look :: "'k \<Rightarrow> 'r list \<Rightarrow> 'r option"
    and put :: "'a \<Rightarrow> 'r list \<Rightarrow> error + 'r option \<times> 'r list"
    and key_of :: "'a \<Rightarrow> 'k"
  assumes look_put:
    "put a t = Inr (x, t') \<Longrightarrow> x \<noteq> None \<and> look j t' = (if j = key_of a then x else look j t)"
begin

lemma look_put_same: "put a t = Inr (x, t') \<Longrightarrow> \<exists>r. x = Some r \<and> look (key_of a) t' = Some r"
  using look_put [of a t x t' "key_of a"] by auto

lemma look_put_other: "put a t = Inr (x, t') \<Longrightarrow> j \<noteq> key_of a \<Longrightarrow> look j t' = look j t"
  by (simp add: look_put)

end

locale deleting_store = keyed_store +
  fixes del :: "'a \<Rightarrow> 'c list \<Rightarrow> error + unit \<times> 'c list"
  assumes look_del: "del k t = Inr (u, t') \<Longrightarrow> look j t' = (if j = k then None else look j t)"
begin

lemma look_put_del:
  assumes "put a t = Inr (x, t')" and "del (key_of a) t' = Inr (u, t'')"
  shows "look j t'' = (if j = key_of a then None else look j t)"
  using look_put [OF assms(1)] look_del [OF assms(2)] by simp

end

lemma find_filter_neq:
  "find (\<lambda>r. key r = j) (filter (\<lambda>r. key r \<noteq> k) t) =
   (if j = k then None else find (\<lambda>r. key r = j) t)"
  by (induction t) auto

lemma find_append: "find p (xs @ ys) = (case find p xs of None \<Rightarrow> find p ys | Some x \<Rightarrow> Some x)"
  by (induction xs) auto

lemma find_key_None: "find (\<lambda>r. key r = k) t = None \<longleftrightarrow> k \<notin> set (map key t)"
  by (induction t) auto

lemma find_map_update:
  assumes "\<And>r. key (f r) = key r"
  shows "find (\<lambda>r. key r = j) (map (\<lambda>r. if key r = k then f r else r) t) =
    map_option (\<lambda>r. if j = k then f r else r) (find (\<lambda>r. key r = j) t)"
  using assms by (induction t) auto

text \<open>The laws of the store for the building blocks of the statements.\<close>

lemma look_insert_row:
  assumes "insert_row key check r t = Inr (x, t')"
  shows "x \<noteq> None \<and> find (\<lambda>s. key s = j) t' =
    (if j = key r then x else find (\<lambda>s. key s = j) t)"
  using assms find_key_None [of key "key r" t]
  by (auto simp: insert_row_def find_append split: if_splits option.splits)

lemma look_update_row:
  assumes "update_row key check k f t = Inr (x, t')" and "\<And>r. key (f r) = key r"
  shows "find (\<lambda>r. key r = j) t' =
    map_option (\<lambda>r. if j = k then f r else r) (find (\<lambda>r. key r = j) t)"
proof (cases "find (\<lambda>r. key r = k) t")
  case None
  with assms(1) show ?thesis
    by (cases "find (\<lambda>r. key r = j) t") (auto simp: update_row_def)
next
  case (Some r)
  with assms(1) have "t' = map (\<lambda>r. if key r = k then f r else r) t"
    by (auto simp: update_row_def split: if_splits)
  then show ?thesis using find_map_update [of key f j k t, OF assms(2)] by simp
qed

lemma look_upsert_row:
  assumes "\<And>s. key (f s) = key s" and "upsert_row key check r f t = Inr (x, t')"
  shows "x \<noteq> None \<and> find (\<lambda>s. key s = j) t' =
    (if j = key r then x else find (\<lambda>s. key s = j) t)"
proof (cases "key r \<in> set (map key t)")
  case True
  then obtain s where s: "find (\<lambda>s. key s = key r) t = Some s"
    using find_key_None [of key "key r" t] by (cases "find (\<lambda>s. key s = key r) t") auto
  with assms(2) True have "x = Some (f s)" and "t' = map (\<lambda>s. if key s = key r then f s else s) t"
    by (auto simp: upsert_row_def update_row_def split: if_splits)
  moreover from this(2) have "find (\<lambda>s. key s = j) t' =
      map_option (\<lambda>s. if j = key r then f s else s) (find (\<lambda>s. key s = j) t)"
    using find_map_update [of key f j "key r" t, OF assms(1)] by simp
  ultimately show ?thesis
    using s by (cases "j = key r") (simp_all add: option.map_ident)
next
  case False
  with assms(2) have "insert_row key check r t = Inr (x, t')"
    by (auto simp: upsert_row_def insert_row_def split: if_splits)
  then show ?thesis by (rule look_insert_row)
qed

lemma look_delete_row:
  assumes "delete_rows (\<lambda>r. key r = k) t = Inr (u, t')"
  shows "find (\<lambda>s. key s = j) t' = (if j = k then None else find (\<lambda>s. key s = j) t)"
  using assms by (auto simp: delete_rows_def find_filter_neq)

section \<open>Running statements on the database\<close>

lemma tick_simps [simp]:
  "calls (tick w) = Suc (calls w)" "tasks_rows (tick w) = tasks_rows w"
  "operators_rows (tick w) = operators_rows w" "consensus_rows (tick w) = consensus_rows w"
  "blacklist_rows (tick w) = blacklist_rows w" "invalidated (tick w) = invalidated w"
  "post_exec (tick w) = post_exec w"
  "DB.more (tick w) = DB.more w" "db_ok (tick w) = db_ok w"
  by (simp_all add: tick_def db_ok_def)

lemma on_tasks_state:
  assumes "\<And>n. table_stmt tasks_ok (s n)" and "db_ok w"
  shows "db_ok (snd (on_tasks p s w))"
  using assms(2)
  by (simp add: on_tasks_def case_prod_beta db_ok_def table_stmt.run_ok [OF assms(1)])

lemma on_operators_state:
  assumes "\<And>n. table_stmt operators_ok (s n)" and "db_ok w"
  shows "db_ok (snd (on_operators p s w))"
  using assms(2)
  by (simp add: on_operators_def case_prod_beta db_ok_def table_stmt.run_ok [OF assms(1)])

lemma on_consensus_state:
  assumes "\<And>n. table_stmt consensus_ok (s n)" and "db_ok w"
  shows "db_ok (snd (on_consensus p s w))"
  using assms(2)
  by (simp add: on_consensus_def case_prod_beta db_ok_def table_stmt.run_ok [OF assms(1)])

lemma on_blacklist_state:
  assumes "\<And>n. table_stmt blacklist_ok (s n)" and "db_ok w"
  shows "db_ok (snd (on_blacklist p s w))"
  using assms(2)
  by (simp add: on_blacklist_def case_prod_beta db_ok_def table_stmt.run_ok [OF assms(1)])

lemma scanned_Ret [simp]: "scanned f (Ret x, w) = (Ret (f x), w)"
  by (simp add: scanned_def)

lemma scanned_snd [simp]: "snd (scanned f r) = snd r"
  by (cases r; cases "fst r") (auto simp: scanned_def)

lemma scanned_Ret_iff: "scanned f r = (Ret y, w) \<longleftrightarrow> (\<exists>x. r = (Ret x, w) \<and> y = f x)"
  by (cases r; cases "fst r") (auto simp: scanned_def)

lemma Invalidate_simps [simp]:
  "calls (Invalidate p c s k w) = calls w" "tasks_rows (Invalidate p c s k w) = tasks_rows w"
  "operators_rows (Invalidate p c s k w) = operators_rows w"
  "consensus_rows (Invalidate p c s k w) = consensus_rows w"
  "blacklist_rows (Invalidate p c s k w) = blacklist_rows w"
  "DB.more (Invalidate p c s k w) = DB.more w" "db_ok (Invalidate p c s k w) = db_ok w"
  by (simp_all add: Invalidate_def db_ok_def Let_def split: option.split conn.split)

text \<open>
  The state after a query: a cached query makes one or two external calls and changes nothing else.
\<close>

definition only_calls :: "('z) DB_scheme \<Rightarrow> ('z) DB_scheme \<Rightarrow> bool" where
  "only_calls w w' \<longleftrightarrow> w' = w\<lparr>calls := calls w'\<rparr>"

lemma only_calls_refl [simp]: "only_calls w w"
  by (simp add: only_calls_def)

lemma only_calls_tick [simp]: "only_calls w (tick w)"
  by (simp add: only_calls_def tick_def)

lemma only_calls_trans: "only_calls u v \<Longrightarrow> only_calls v w \<Longrightarrow> only_calls u w"
  unfolding only_calls_def by (metis DB.surjective DB.update_convs(1) DB.select_convs(1))

lemma GetWithTtl_only_calls:
  assumes "\<And>w. only_calls w (snd (dbRead w))"
  shows "only_calls w (snd (GetWithTtl p key decode dbRead w))"
  using assms [of w] only_calls_trans [OF only_calls_tick assms [of "tick w"]]
  by (simp add: GetWithTtl_def split: option.split cache_answer.split)

end
