(* ===== verification/TasksRepo.thy ===== *)
theory TasksRepo
  imports Tables
begin

text \<open>
  The repository of tasks, \<open>pkg/repos/tasks/query.sql.go\<close>. For each query there are two
  definitions: the SQL statement, named like the constant that holds its text, as a function on the
  table, and the Go method that runs it. A \<open>:one\<close> query that finds no row returns nil and no error.
\<close>

section \<open>Statements\<close>

definition day :: time where
  "day = 86400000"

definition cleanupOldTasks :: "time \<Rightarrow> (Tasks, unit) stmt" where
  "cleanupOldTasks now =
     delete_rows (\<lambda>r. t_CreatedAt r < now - day \<and> t_Status r \<in> {TaskStatusCompleted})"

record CreateTaskParams =
  ct_TaskID :: string
  ct_TargetAddress :: string
  ct_ChainID :: u32
  ct_BlockNumber :: u64
  ct_Epoch :: u32
  ct_Key :: Numeric
  ct_Value :: Numeric
  ct_Status :: string
  ct_RequiredConfirmations :: u16

definition createTask :: "CreateTaskParams \<Rightarrow> time \<Rightarrow> (Tasks, Tasks option) stmt" where
  "createTask arg now =
     insert_row t_TaskID tasks_check
       \<lparr>t_TaskID = ct_TaskID arg, t_ChainID = ct_ChainID arg,
        t_TargetAddress = ct_TargetAddress arg, t_Key = ct_Key arg,
        t_BlockNumber = ct_BlockNumber arg, t_Value = ct_Value arg, t_Epoch = ct_Epoch arg,
        t_Status = ct_Status arg, t_RequiredConfirmations = ct_RequiredConfirmations arg,
        t_RetryCount = 0, t_CreatedAt = now, t_UpdatedAt = now\<rparr>"

definition deleteTaskByID :: "string \<Rightarrow> time \<Rightarrow> (Tasks, unit) stmt" where
  "deleteTaskByID taskID now = delete_rows (\<lambda>r. t_TaskID r = taskID)"

definition getTaskByID :: "string \<Rightarrow> time \<Rightarrow> (Tasks, Tasks option) stmt" where
  "getTaskByID taskID now = select_one (\<lambda>r. t_TaskID r = taskID)"

definition incrementRetryCount :: "string \<Rightarrow> time \<Rightarrow> (Tasks, Tasks option) stmt" where
  "incrementRetryCount taskID now =
     update_row t_TaskID tasks_check taskID
       (\<lambda>r. r\<lparr>t_RetryCount := t_RetryCount r + 1, t_UpdatedAt := now\<rparr>)"

definition listAllTasks :: "time \<Rightarrow> (Tasks, Tasks list) stmt" where
  "listAllTasks now = select_many (sort_key (\<lambda>r. - t_CreatedAt r))"

definition listConfirmingTasks :: "time \<Rightarrow> (Tasks, Tasks list) stmt" where
  "listConfirmingTasks now =
     select_many (\<lambda>t. sort_key (\<lambda>r. - t_CreatedAt r)
       (filter (\<lambda>r. t_Status r = TaskStatusConfirming) t))"

definition listPendingTasks :: "time \<Rightarrow> (Tasks, Tasks list) stmt" where
  "listPendingTasks now =
     select_many (\<lambda>t. sort_key t_CreatedAt (filter (\<lambda>r. t_Status r = TaskStatusPending) t))"

definition updateTaskToCompleted :: "string \<Rightarrow> time \<Rightarrow> (Tasks, unit) stmt" where
  "updateTaskToCompleted taskID now =
     exec_stmt (update_row t_TaskID tasks_check taskID
       (\<lambda>r. r\<lparr>t_Status := TaskStatusCompleted, t_UpdatedAt := now\<rparr>))"

definition updateTaskToPending :: "string \<Rightarrow> time \<Rightarrow> (Tasks, unit) stmt" where
  "updateTaskToPending taskID now =
     exec_stmt (update_row t_TaskID tasks_check taskID
       (\<lambda>r. r\<lparr>t_Status := TaskStatusPending, t_UpdatedAt := now\<rparr>))"

section \<open>Methods\<close>

definition CleanupOldTasks :: "pg \<Rightarrow> ('z) DB_scheme \<Rightarrow> unit res \<times> ('z) DB_scheme" where
  "CleanupOldTasks p = on_tasks p cleanupOldTasks"

definition CreateTask ::
  "pg \<Rightarrow> CreateTaskParams \<Rightarrow> ('z) DB_scheme \<Rightarrow> Tasks option res \<times> ('z) DB_scheme" where
  "CreateTask p arg w = scanned (map_option (scan_task p)) (on_tasks p (createTask arg) w)"

definition DeleteTaskByID :: "pg \<Rightarrow> string \<Rightarrow> ('z) DB_scheme \<Rightarrow> unit res \<times> ('z) DB_scheme" where
  "DeleteTaskByID p taskID = on_tasks p (deleteTaskByID taskID)"

definition GetTaskByID :: "pg \<Rightarrow> string \<Rightarrow> ('z) DB_scheme \<Rightarrow> Tasks option res \<times> ('z) DB_scheme" where
  "GetTaskByID p taskID w = scanned (map_option (scan_task p)) (on_tasks p (getTaskByID taskID) w)"

definition IncrementRetryCount ::
  "pg \<Rightarrow> string \<Rightarrow> ('z) DB_scheme \<Rightarrow> Tasks option res \<times> ('z) DB_scheme" where
  "IncrementRetryCount p taskID w =
     scanned (map_option (scan_task p)) (on_tasks p (incrementRetryCount taskID) w)"

definition ListAllTasks :: "pg \<Rightarrow> ('z) DB_scheme \<Rightarrow> Tasks list res \<times> ('z) DB_scheme" where
  "ListAllTasks p w = scanned (map (scan_task p)) (on_tasks p listAllTasks w)"

definition ListConfirmingTasks :: "pg \<Rightarrow> ('z) DB_scheme \<Rightarrow> Tasks list res \<times> ('z) DB_scheme" where
  "ListConfirmingTasks p w = scanned (map (scan_task p)) (on_tasks p listConfirmingTasks w)"

definition ListPendingTasks :: "pg \<Rightarrow> ('z) DB_scheme \<Rightarrow> Tasks list res \<times> ('z) DB_scheme" where
  "ListPendingTasks p w = scanned (map (scan_task p)) (on_tasks p listPendingTasks w)"

definition UpdateTaskToCompleted ::
  "pg \<Rightarrow> string \<Rightarrow> ('z) DB_scheme \<Rightarrow> unit res \<times> ('z) DB_scheme" where
  "UpdateTaskToCompleted p taskID = on_tasks p (updateTaskToCompleted taskID)"

definition UpdateTaskToPending ::
  "pg \<Rightarrow> string \<Rightarrow> ('z) DB_scheme \<Rightarrow> unit res \<times> ('z) DB_scheme" where
  "UpdateTaskToPending p taskID = on_tasks p (updateTaskToPending taskID)"

section \<open>The statements keep the table's constraints\<close>

interpretation create_task: table_stmt tasks_ok "createTask arg now" for arg now
  by unfold_locales (auto simp: createTask_def tasks_ok_def intro: insert_row_keyed)

interpretation cleanup_tasks: table_stmt tasks_ok "cleanupOldTasks now" for now
  by unfold_locales (auto simp: cleanupOldTasks_def tasks_ok_def intro: delete_rows_keyed)

interpretation delete_task: table_stmt tasks_ok "deleteTaskByID k now" for k now
  by unfold_locales (auto simp: deleteTaskByID_def tasks_ok_def intro: delete_rows_keyed)

interpretation retry_task: table_stmt tasks_ok "incrementRetryCount k now" for k now
  by unfold_locales (auto simp: incrementRetryCount_def tasks_ok_def elim: update_row_keyed [rotated 2])

interpretation complete_task: table_stmt tasks_ok "updateTaskToCompleted k now" for k now
  by unfold_locales
    (auto simp: updateTaskToCompleted_def tasks_ok_def exec_stmt_Inr elim: update_row_keyed [rotated 2])

interpretation pend_task: table_stmt tasks_ok "updateTaskToPending k now" for k now
  by unfold_locales
    (auto simp: updateTaskToPending_def tasks_ok_def exec_stmt_Inr elim: update_row_keyed [rotated 2])

interpretation get_task: table_query "getTaskByID k now" for k now
  by unfold_locales (simp add: getTaskByID_def select_one_def)

interpretation all_tasks: table_query "listAllTasks now" for now
  by unfold_locales (simp add: listAllTasks_def select_many_def)

interpretation confirming_tasks: table_query "listConfirmingTasks now" for now
  by unfold_locales (simp add: listConfirmingTasks_def select_many_def)

interpretation pending_tasks: table_query "listPendingTasks now" for now
  by unfold_locales (simp add: listPendingTasks_def select_many_def)

text \<open>A query leaves the database as it is but for the count of calls.\<close>

lemma on_tasks_query:
  assumes "\<And>n. table_query (s n)"
  shows "snd (on_tasks p s w) = tick w"
  using table_query.run_reads [OF assms] by (simp add: on_tasks_def case_prod_beta)

lemmas task_query_states =
  on_tasks_query [OF get_task.table_query_axioms]
  on_tasks_query [OF all_tasks.table_query_axioms]
  on_tasks_query [OF confirming_tasks.table_query_axioms]
  on_tasks_query [OF pending_tasks.table_query_axioms]

lemma task_reads [simp, go_simps]:
  "snd (GetTaskByID p k w) = tick w" "snd (ListAllTasks p w) = tick w"
  "snd (ListConfirmingTasks p w) = tick w" "snd (ListPendingTasks p w) = tick w"
  by (simp_all add: GetTaskByID_def ListAllTasks_def ListConfirmingTasks_def ListPendingTasks_def
      task_query_states)

lemma task_writes_ok:
  assumes "db_ok w"
  shows "db_ok (snd (CreateTask p arg w))" "db_ok (snd (DeleteTaskByID p k w))"
    "db_ok (snd (IncrementRetryCount p k w))" "db_ok (snd (UpdateTaskToCompleted p k w))"
    "db_ok (snd (UpdateTaskToPending p k w))" "db_ok (snd (CleanupOldTasks p w))"
  using assms
  by (simp_all add: CreateTask_def DeleteTaskByID_def IncrementRetryCount_def
      UpdateTaskToCompleted_def UpdateTaskToPending_def CleanupOldTasks_def
      on_tasks_state create_task.table_stmt_axioms delete_task.table_stmt_axioms
      retry_task.table_stmt_axioms complete_task.table_stmt_axioms pend_task.table_stmt_axioms
      cleanup_tasks.table_stmt_axioms)

section \<open>The table as a store\<close>

text \<open>The task that \<open>getTaskByID\<close> finds.\<close>

definition task_of :: "string \<Rightarrow> Tasks list \<Rightarrow> Tasks option" where
  "task_of k t = find (\<lambda>r. t_TaskID r = k) t"

interpretation task_store:
  deleting_store task_of "\<lambda>arg. createTask arg now" ct_TaskID "\<lambda>k. deleteTaskByID k now" for now
proof
  show "x \<noteq> None \<and> task_of j t' = (if j = ct_TaskID a then x else task_of j t)"
    if "createTask a now t = Inr (x, t')" for a t x t' j
    using that look_insert_row [of t_TaskID tasks_check _ t x t' j]
    unfolding createTask_def task_of_def by fastforce
  show "task_of j t' = (if j = k then None else task_of j t)"
    if "deleteTaskByID k now t = Inr (u, t')" for k t u t' j
    using that unfolding deleteTaskByID_def task_of_def by (rule look_delete_row)
qed

text \<open>
  The life of a task. \<open>rank\<close> orders the three states; every statement other than the insertion of
  a new task leaves the state of a task as it is, moves it to a given state, or removes it.
\<close>

datatype lifecycle = Confirming | Pending | Completed

fun rank :: "lifecycle \<Rightarrow> nat" where
  "rank Confirming = 0"
| "rank Pending = 1"
| "rank Completed = 2"

instantiation lifecycle :: linorder
begin

definition less_eq_lifecycle :: "lifecycle \<Rightarrow> lifecycle \<Rightarrow> bool" where
  "a \<le> b \<longleftrightarrow> rank a \<le> rank b"

definition less_lifecycle :: "lifecycle \<Rightarrow> lifecycle \<Rightarrow> bool" where
  "a < b \<longleftrightarrow> rank a < rank b"

instance
proof
  fix x y :: lifecycle
  show "x \<le> y \<Longrightarrow> y \<le> x \<Longrightarrow> x = y"
    by (cases x; cases y) (simp_all add: less_eq_lifecycle_def)
qed (auto simp: less_eq_lifecycle_def less_lifecycle_def)

end

definition status_of :: "string \<Rightarrow> Tasks list \<Rightarrow> lifecycle option" where
  "status_of k t =
     (case task_of k t of
        None \<Rightarrow> None
      | Some r \<Rightarrow>
          if t_Status r = TaskStatusConfirming then Some Confirming
          else if t_Status r = TaskStatusPending then Some Pending
          else if t_Status r = TaskStatusCompleted then Some Completed
          else None)"

end
