(* ===== verification/OperatorsRepo.thy ===== *)
theory OperatorsRepo
  imports Tables
begin

text \<open>
  The repository of operators, \<open>pkg/repos/operators/query.sql.go\<close>: the statements, the cached
  queries, and the updates, which invalidate the cache keys that the caller names once the row is
  written.
\<close>

section \<open>Statements\<close>

definition getOperatorByAddress :: "string \<Rightarrow> time \<Rightarrow> (Operators, Operators option) stmt" where
  "getOperatorByAddress address now = select_one (\<lambda>r. o_Address r = address)"

definition getOperatorByP2PKey :: "string \<Rightarrow> time \<Rightarrow> (Operators, Operators option) stmt" where
  "getOperatorByP2PKey key now = select_one (\<lambda>r. lower (o_P2pKey r) = lower key)"

definition getOperatorBySigningKey :: "string \<Rightarrow> time \<Rightarrow> (Operators, Operators option) stmt" where
  "getOperatorBySigningKey signingKey now = select_one (\<lambda>r. o_SigningKey r = signingKey)"

definition isActiveOperator :: "string \<Rightarrow> time \<Rightarrow> (Operators, bool option) stmt" where
  "isActiveOperator key now t =
     Inr (Some (list_ex (\<lambda>r. lower (o_P2pKey r) = lower key \<and> o_IsActive r) t), t)"

definition listActiveOperators :: "time \<Rightarrow> (Operators, Operators list) stmt" where
  "listActiveOperators now = select_many (filter o_IsActive)"

definition listAllOperators :: "time \<Rightarrow> (Operators, Operators list) stmt" where
  "listAllOperators now = select_many (\<lambda>t. t)"

record UpdateOperatorExitEpochParams =
  ux_Address :: string
  ux_ExitEpoch :: u32

definition updateOperatorExitEpoch ::
  "UpdateOperatorExitEpochParams \<Rightarrow> time \<Rightarrow> (Operators, Operators option) stmt" where
  "updateOperatorExitEpoch arg now =
     update_row o_Address operators_check (ux_Address arg)
       (\<lambda>r. r\<lparr>o_ExitEpoch := ux_ExitEpoch arg, o_UpdatedAt := now\<rparr>)"

record UpdateOperatorStateParams =
  us_Address :: string
  us_IsActive :: bool
  us_Weight :: Numeric
  us_SigningKey :: string
  us_P2pKey :: string

definition updateOperatorState ::
  "UpdateOperatorStateParams \<Rightarrow> time \<Rightarrow> (Operators, Operators option) stmt" where
  "updateOperatorState arg now =
     update_row o_Address operators_check (us_Address arg)
       (\<lambda>r. r\<lparr>o_IsActive := us_IsActive arg, o_Weight := us_Weight arg,
              o_SigningKey := us_SigningKey arg, o_P2pKey := us_P2pKey arg, o_UpdatedAt := now\<rparr>)"

record UpsertOperatorParams =
  up_Address :: string
  up_SigningKey :: string
  up_P2pKey :: string
  up_RegisteredAtBlockNumber :: u64
  up_ActiveEpoch :: u32
  up_ExitEpoch :: u32
  up_IsActive :: bool
  up_Weight :: Numeric

definition upsertOperator ::
  "UpsertOperatorParams \<Rightarrow> time \<Rightarrow> (Operators, Operators option) stmt" where
  "upsertOperator arg now =
     upsert_row o_Address operators_check
       \<lparr>o_Address = up_Address arg, o_SigningKey = up_SigningKey arg, o_P2pKey = up_P2pKey arg,
        o_RegisteredAtBlockNumber = up_RegisteredAtBlockNumber arg,
        o_ActiveEpoch = up_ActiveEpoch arg, o_ExitEpoch = up_ExitEpoch arg,
        o_IsActive = up_IsActive arg, o_Weight = up_Weight arg,
        o_CreatedAt = now, o_UpdatedAt = now\<rparr>
       (\<lambda>r. r\<lparr>o_SigningKey := up_SigningKey arg, o_P2pKey := up_P2pKey arg,
              o_RegisteredAtBlockNumber := up_RegisteredAtBlockNumber arg,
              o_ActiveEpoch := up_ActiveEpoch arg, o_ExitEpoch := up_ExitEpoch arg,
              o_IsActive := up_IsActive arg, o_Weight := up_Weight arg, o_UpdatedAt := now\<rparr>)"

section \<open>Queries\<close>

definition GetOperatorByAddress ::
  "pg \<Rightarrow> string \<Rightarrow> ('z) DB_scheme \<Rightarrow> Operators option res \<times> ('z) DB_scheme" where
  "GetOperatorByAddress p address =
     GetWithTtl p (''operators:GetOperatorByAddress:'' @ hashIfLong p address) as_operator
       (\<lambda>w. scanned (map_option (scan_operator p))
              (on_operators p (getOperatorByAddress address) w))"

definition GetOperatorByP2PKey ::
  "pg \<Rightarrow> string \<Rightarrow> ('z) DB_scheme \<Rightarrow> Operators option res \<times> ('z) DB_scheme" where
  "GetOperatorByP2PKey p key =
     GetWithTtl p (''operators:GetOperatorByP2PKey:'' @ hashIfLong p key) as_operator
       (\<lambda>w. scanned (map_option (scan_operator p)) (on_operators p (getOperatorByP2PKey key) w))"

definition GetOperatorBySigningKey ::
  "pg \<Rightarrow> string \<Rightarrow> ('z) DB_scheme \<Rightarrow> Operators option res \<times> ('z) DB_scheme" where
  "GetOperatorBySigningKey p signingKey =
     GetWithTtl p (''operators:GetOperatorBySigningKey:'' @ hashIfLong p signingKey) as_operator
       (\<lambda>w. scanned (map_option (scan_operator p))
              (on_operators p (getOperatorBySigningKey signingKey) w))"

definition IsActiveOperator ::
  "pg \<Rightarrow> string \<Rightarrow> ('z) DB_scheme \<Rightarrow> bool option res \<times> ('z) DB_scheme" where
  "IsActiveOperator p key =
     GetWithTtl p (''operators:IsActiveOperator:'' @ hashIfLong p key) as_bool
       (on_operators p (isActiveOperator key))"

definition ListActiveOperators ::
  "pg \<Rightarrow> ('z) DB_scheme \<Rightarrow> Operators list res \<times> ('z) DB_scheme" where
  "ListActiveOperators p w = scanned (map (scan_operator p)) (on_operators p listActiveOperators w)"

definition ListAllOperators ::
  "pg \<Rightarrow> ('z) DB_scheme \<Rightarrow> Operators list res \<times> ('z) DB_scheme" where
  "ListAllOperators p w = scanned (map (scan_operator p)) (on_operators p listAllOperators w)"

section \<open>Updates\<close>

text \<open>The invalidations that follow every update of a row that exists.\<close>

definition invalidateOperator ::
  "pg \<Rightarrow> conn \<Rightarrow> string option \<Rightarrow> string option \<Rightarrow> string option \<Rightarrow> string option \<Rightarrow>
     ('z) DB_scheme \<Rightarrow> ('z) DB_scheme" where
  "invalidateOperator p c byAddress bySigningKey byP2PKey isActive w =
     Invalidate p c ''operators:IsActiveOperator:'' isActive
       (Invalidate p c ''operators:GetOperatorByP2PKey:'' byP2PKey
         (Invalidate p c ''operators:GetOperatorBySigningKey:'' bySigningKey
           (Invalidate p c ''operators:GetOperatorByAddress:'' byAddress w)))"

definition after_update ::
  "(('z) DB_scheme \<Rightarrow> ('z) DB_scheme) \<Rightarrow> 'r option res \<times> ('z) DB_scheme \<Rightarrow>
     'r option res \<times> ('z) DB_scheme" where
  "after_update inval r =
     call' r (\<lambda>i w. case i of None \<Rightarrow> (Ret None, w) | Some x \<Rightarrow> (Ret (Some x), inval w))"

definition UpdateOperatorExitEpoch ::
  "pg \<Rightarrow> conn \<Rightarrow> UpdateOperatorExitEpochParams \<Rightarrow>
     string option \<Rightarrow> string option \<Rightarrow> string option \<Rightarrow> string option \<Rightarrow>
     ('z) DB_scheme \<Rightarrow> Operators option res \<times> ('z) DB_scheme" where
  "UpdateOperatorExitEpoch p c arg byAddress bySigningKey byP2PKey isActive w =
     after_update (invalidateOperator p c byAddress bySigningKey byP2PKey isActive)
       (scanned (map_option (scan_operator p)) (on_operators p (updateOperatorExitEpoch arg) w))"

definition UpdateOperatorState ::
  "pg \<Rightarrow> conn \<Rightarrow> UpdateOperatorStateParams \<Rightarrow>
     string option \<Rightarrow> string option \<Rightarrow> string option \<Rightarrow> string option \<Rightarrow>
     ('z) DB_scheme \<Rightarrow> Operators option res \<times> ('z) DB_scheme" where
  "UpdateOperatorState p c arg byAddress bySigningKey byP2PKey isActive w =
     after_update (invalidateOperator p c byAddress bySigningKey byP2PKey isActive)
       (scanned (map_option (scan_operator p)) (on_operators p (updateOperatorState arg) w))"

definition UpsertOperator ::
  "pg \<Rightarrow> conn \<Rightarrow> UpsertOperatorParams \<Rightarrow>
     string option \<Rightarrow> string option \<Rightarrow> string option \<Rightarrow> string option \<Rightarrow>
     ('z) DB_scheme \<Rightarrow> Operators option res \<times> ('z) DB_scheme" where
  "UpsertOperator p c arg byAddress bySigningKey byP2PKey isActive w =
     after_update (invalidateOperator p c byAddress bySigningKey byP2PKey isActive)
       (scanned (map_option (scan_operator p)) (on_operators p (upsertOperator arg) w))"

section \<open>The statements keep the table's constraints\<close>

interpretation exit_operator: table_stmt operators_ok "updateOperatorExitEpoch arg now" for arg now
  by unfold_locales
    (auto simp: updateOperatorExitEpoch_def operators_ok_def elim: update_row_keyed [rotated 2])

interpretation state_operator: table_stmt operators_ok "updateOperatorState arg now" for arg now
  by unfold_locales
    (auto simp: updateOperatorState_def operators_ok_def elim: update_row_keyed [rotated 2])

interpretation upsert_operator: table_stmt operators_ok "upsertOperator arg now" for arg now
  by unfold_locales
    (auto simp: upsertOperator_def operators_ok_def elim: upsert_row_keyed [rotated 2])

interpretation operator_by_address: table_query "getOperatorByAddress k now" for k now
  by unfold_locales (simp add: getOperatorByAddress_def select_one_def)

interpretation operator_by_p2p: table_query "getOperatorByP2PKey k now" for k now
  by unfold_locales (simp add: getOperatorByP2PKey_def select_one_def)

interpretation operator_by_signing: table_query "getOperatorBySigningKey k now" for k now
  by unfold_locales (simp add: getOperatorBySigningKey_def select_one_def)

interpretation active_operator: table_query "isActiveOperator k now" for k now
  by unfold_locales (simp add: isActiveOperator_def)

interpretation active_operators: table_query "listActiveOperators now" for now
  by unfold_locales (simp add: listActiveOperators_def select_many_def)

interpretation all_operators: table_query "listAllOperators now" for now
  by unfold_locales (simp add: listAllOperators_def select_many_def)

lemma on_operators_query:
  assumes "\<And>n. table_query (s n)"
  shows "snd (on_operators p s w) = tick w"
  using table_query.run_reads [OF assms] by (simp add: on_operators_def case_prod_beta)

lemmas operator_query_states =
  on_operators_query [OF operator_by_address.table_query_axioms]
  on_operators_query [OF operator_by_p2p.table_query_axioms]
  on_operators_query [OF operator_by_signing.table_query_axioms]
  on_operators_query [OF active_operator.table_query_axioms]
  on_operators_query [OF active_operators.table_query_axioms]
  on_operators_query [OF all_operators.table_query_axioms]

lemma operator_reads_only_calls:
  "only_calls w (snd (GetOperatorByAddress p k w))"
  "only_calls w (snd (GetOperatorByP2PKey p k w))"
  "only_calls w (snd (GetOperatorBySigningKey p k w))"
  "only_calls w (snd (IsActiveOperator p k w))"
  "only_calls w (snd (ListActiveOperators p w))"
  "only_calls w (snd (ListAllOperators p w))"
  by (simp_all add: GetOperatorByAddress_def GetOperatorByP2PKey_def GetOperatorBySigningKey_def
      IsActiveOperator_def ListActiveOperators_def ListAllOperators_def
      GetWithTtl_only_calls operator_query_states)

lemma after_update_ok:
  assumes "db_ok (snd r)" and "\<And>w. db_ok (inval w) = db_ok w"
  shows "db_ok (snd (after_update inval r))"
  using assms
  by (cases r; cases "fst r") (auto simp: after_update_def split: option.split)

lemma operator_writes_ok:
  assumes "db_ok w"
  shows "db_ok (snd (UpdateOperatorExitEpoch p c xarg k1 k2 k3 k4 w))"
    "db_ok (snd (UpdateOperatorState p c sarg k1 k2 k3 k4 w))"
    "db_ok (snd (UpsertOperator p c uarg k1 k2 k3 k4 w))"
  using assms
  by (simp_all add: UpdateOperatorExitEpoch_def UpdateOperatorState_def UpsertOperator_def
      invalidateOperator_def after_update_ok on_operators_state exit_operator.table_stmt_axioms
      state_operator.table_stmt_axioms upsert_operator.table_stmt_axioms)

section \<open>The table as a store\<close>

definition operator_of :: "string \<Rightarrow> Operators list \<Rightarrow> Operators option" where
  "operator_of k t = find (\<lambda>r. o_Address r = k) t"

interpretation operator_store:
  keyed_store operator_of "\<lambda>arg. upsertOperator arg now" up_Address for now
proof
  show "x \<noteq> None \<and> operator_of j t' = (if j = up_Address a then x else operator_of j t)"
    if "upsertOperator a now t = Inr (x, t')" for a t x t' j
    using look_upsert_row [OF _ that [unfolded upsertOperator_def], of j]
    by (simp add: operator_of_def)
qed

end
