(* ===== verification/ConsensusRepo.thy ===== *)
theory ConsensusRepo
  imports Tables
begin

text \<open>
  The repository of consensus responses, \<open>pkg/repos/consensus_responses/query.sql.go\<close>. The table
  has two unique constraints: the task identifier, and the request (address, chain, block, key).
\<close>

record CreateConsensusResponseParams =
  cc_TaskID :: string
  cc_Epoch :: u32
  cc_Value :: Numeric
  cc_Key :: Numeric
  cc_ChainID :: u32
  cc_BlockNumber :: u64
  cc_TargetAddress :: string
  cc_AggregatedSignatures :: "bytes list"
  cc_OperatorAddresses :: "string list"

definition createConsensusResponse ::
  "CreateConsensusResponseParams \<Rightarrow> time \<Rightarrow> (ConsensusResponse, ConsensusResponse option) stmt" where
  "createConsensusResponse arg now t =
     (let r = \<lparr>c_TaskID = cc_TaskID arg, c_Epoch = cc_Epoch arg, c_ChainID = cc_ChainID arg,
               c_TargetAddress = cc_TargetAddress arg, c_BlockNumber = cc_BlockNumber arg,
               c_Key = cc_Key arg, c_Value = cc_Value arg,
               c_AggregatedSignatures = cc_AggregatedSignatures arg,
               c_OperatorAddresses = cc_OperatorAddresses arg,
               c_CreatedAt = now, c_UpdatedAt = now\<rparr>
      in if list_ex (\<lambda>s. same_request s r) t \<and> consensus_check r
         then Inl (Err ''duplicate key value'')
         else insert_row c_TaskID consensus_check r t)"

record GetConsensusResponseByRequestParams =
  cr_TargetAddress :: string
  cr_ChainID :: u32
  cr_BlockNumber :: u64
  cr_Key :: Numeric

text \<open>The arguments of a query are encoded too: one that does not fit its column is an error.\<close>

definition getConsensusResponseByRequest ::
  "GetConsensusResponseByRequestParams \<Rightarrow> time \<Rightarrow>
     (ConsensusResponse, ConsensusResponse option) stmt" where
  "getConsensusResponseByRequest arg now t =
     (if fits_int4 (cr_ChainID arg) \<and> fits_int8 (cr_BlockNumber arg) \<and> fits_numeric (cr_Key arg)
      then select_one
        (\<lambda>r. c_TargetAddress r = cr_TargetAddress arg \<and> c_ChainID r = cr_ChainID arg \<and>
             c_BlockNumber r = cr_BlockNumber arg \<and> num_eq (c_Key r) (cr_Key arg)) t
      else Inl (Err ''cannot encode argument''))"

definition getConsensusResponseByTaskId ::
  "string \<Rightarrow> time \<Rightarrow> (ConsensusResponse, ConsensusResponse option) stmt" where
  "getConsensusResponseByTaskId taskID now = select_one (\<lambda>r. c_TaskID r = taskID)"

definition CreateConsensusResponse ::
  "pg \<Rightarrow> CreateConsensusResponseParams \<Rightarrow> ('z) DB_scheme \<Rightarrow>
     ConsensusResponse option res \<times> ('z) DB_scheme" where
  "CreateConsensusResponse p arg w =
     scanned (map_option (scan_consensus p)) (on_consensus p (createConsensusResponse arg) w)"

definition GetConsensusResponseByRequest ::
  "pg \<Rightarrow> GetConsensusResponseByRequestParams \<Rightarrow> ('z) DB_scheme \<Rightarrow>
     ConsensusResponse option res \<times> ('z) DB_scheme" where
  "GetConsensusResponseByRequest p arg w =
     scanned (map_option (scan_consensus p)) (on_consensus p (getConsensusResponseByRequest arg) w)"

definition GetConsensusResponseByTaskId ::
  "pg \<Rightarrow> string \<Rightarrow> ('z) DB_scheme \<Rightarrow> ConsensusResponse option res \<times> ('z) DB_scheme" where
  "GetConsensusResponseByTaskId p taskID w =
     scanned (map_option (scan_consensus p)) (on_consensus p (getConsensusResponseByTaskId taskID) w)"

section \<open>The statements keep the table's constraints\<close>

lemma pairwise_distinct_append:
  "pairwise_distinct same (t @ [r]) \<longleftrightarrow>
     pairwise_distinct same t \<and> \<not> list_ex (\<lambda>s. same s r) t"
  by (induction t) (auto simp: list_all_iff list_ex_iff)

lemma createConsensusResponse_Inr:
  assumes "createConsensusResponse arg now t = Inr (x, t')"
  shows "\<exists>r. x = Some r \<and> t' = t @ [r] \<and> consensus_check r \<and> c_TaskID r \<notin> set (map c_TaskID t) \<and>
    \<not> list_ex (\<lambda>s. same_request s r) t \<and> c_TaskID r = cc_TaskID arg \<and> c_Epoch r = cc_Epoch arg \<and>
    c_AggregatedSignatures r = cc_AggregatedSignatures arg \<and>
    c_OperatorAddresses r = cc_OperatorAddresses arg"
  using assms
  by (auto simp: createConsensusResponse_def insert_row_def Let_def split: if_splits)

interpretation create_consensus: table_stmt consensus_ok "createConsensusResponse arg now"
  for arg now
  by unfold_locales
    (auto simp: consensus_ok_def keyed_def pairwise_distinct_append
      dest!: createConsensusResponse_Inr)

interpretation consensus_by_request: table_query "getConsensusResponseByRequest arg now" for arg now
  by unfold_locales
    (simp add: getConsensusResponseByRequest_def select_one_def split: if_splits)

interpretation consensus_by_task: table_query "getConsensusResponseByTaskId k now" for k now
  by unfold_locales (simp add: getConsensusResponseByTaskId_def select_one_def)

lemma on_consensus_query:
  assumes "\<And>n. table_query (s n)"
  shows "snd (on_consensus p s w) = tick w"
  using table_query.run_reads [OF assms] by (simp add: on_consensus_def case_prod_beta)

lemma consensus_reads [simp, go_simps]:
  "snd (GetConsensusResponseByRequest p arg w) = tick w"
  "snd (GetConsensusResponseByTaskId p k w) = tick w"
  by (simp_all add: GetConsensusResponseByRequest_def GetConsensusResponseByTaskId_def
      on_consensus_query [OF consensus_by_request.table_query_axioms]
      on_consensus_query [OF consensus_by_task.table_query_axioms])

lemma consensus_writes_ok: "db_ok w \<Longrightarrow> db_ok (snd (CreateConsensusResponse p arg w))"
  by (simp add: CreateConsensusResponse_def on_consensus_state create_consensus.table_stmt_axioms)

end
