(* ===== verification/BlacklistRepo.thy ===== *)
theory BlacklistRepo
  imports OperatorsRepo
begin

text \<open>
  The repository of the blacklist, \<open>pkg/repos/blacklist/query.sql.go\<close>. A peer is blocked while its
  row counts three violations or more and has not expired. The counter is an \<open>INT\<close>: both summands
  of an addition are non-negative, so an addition that overflows is a negative word and violates the
  check, and the server refuses it.
\<close>

definition cleanExpiredBlocks :: "time \<Rightarrow> (Blacklist, unit) stmt" where
  "cleanExpiredBlocks now =
     delete_rows (\<lambda>r. case b_ExpiresAt r of None \<Rightarrow> False | Some e \<Rightarrow> e < now)"

record IncrementViolationCountParams =
  iv_PeerID :: string
  iv_ViolationCount :: i32
  iv_ExpiresAt :: "time option"

definition incrementViolationCount ::
  "IncrementViolationCountParams \<Rightarrow> time \<Rightarrow> (Blacklist, Blacklist option) stmt" where
  "incrementViolationCount arg now =
     upsert_row b_PeerID blacklist_check
       \<lparr>b_PeerID = iv_PeerID arg, b_ViolationCount = iv_ViolationCount arg,
        b_CreatedAt = now, b_UpdatedAt = now, b_ExpiresAt = iv_ExpiresAt arg\<rparr>
       (\<lambda>r. r\<lparr>b_ViolationCount := b_ViolationCount r + iv_ViolationCount arg,
              b_ExpiresAt := iv_ExpiresAt arg, b_UpdatedAt := now\<rparr>)"

definition unexpired :: "time \<Rightarrow> Blacklist \<Rightarrow> bool" where
  "unexpired now r \<longleftrightarrow> (case b_ExpiresAt r of None \<Rightarrow> True | Some e \<Rightarrow> now < e)"

definition isBlocked :: "string \<Rightarrow> time \<Rightarrow> (Blacklist, bool option) stmt" where
  "isBlocked peerID now t =
     Inr (Some (list_ex (\<lambda>r. b_PeerID r = peerID \<and> 3 \<le> sint (b_ViolationCount r) \<and>
                              unexpired now r) t), t)"

record ListBlacklistParams =
  lb_Offset :: i32
  lb_Limit :: i32

definition listBlacklist :: "ListBlacklistParams \<Rightarrow> time \<Rightarrow> (Blacklist, Blacklist list) stmt" where
  "listBlacklist arg now t =
     (if sint (lb_Limit arg) < 0 then Inl (Err ''LIMIT must not be negative'')
      else if sint (lb_Offset arg) < 0 then Inl (Err ''OFFSET must not be negative'')
      else select_many
        (\<lambda>t. take (nat (sint (lb_Limit arg))) (drop (nat (sint (lb_Offset arg)))
               (sort_key (\<lambda>r. - b_CreatedAt r) (filter (unexpired now) t)))) t)"

definition unblockNode :: "string \<Rightarrow> time \<Rightarrow> (Blacklist, unit) stmt" where
  "unblockNode peerID now = delete_rows (\<lambda>r. b_PeerID r = peerID)"

section \<open>Methods\<close>

definition CleanExpiredBlocks ::
  "pg \<Rightarrow> conn \<Rightarrow> string option \<Rightarrow> ('z) DB_scheme \<Rightarrow> unit res \<times> ('z) DB_scheme" where
  "CleanExpiredBlocks p c blockedKey w =
     call' (on_blacklist p cleanExpiredBlocks w)
       (\<lambda>u w. (Ret (), Invalidate p c ''blacklist:IsBlocked:'' blockedKey w))"

definition IncrementViolationCount ::
  "pg \<Rightarrow> conn \<Rightarrow> IncrementViolationCountParams \<Rightarrow> string option \<Rightarrow> ('z) DB_scheme \<Rightarrow>
     Blacklist option res \<times> ('z) DB_scheme" where
  "IncrementViolationCount p c arg blockedKey w =
     after_update (Invalidate p c ''blacklist:IsBlocked:'' blockedKey)
       (on_blacklist p (incrementViolationCount arg) w)"

definition IsBlocked :: "pg \<Rightarrow> string \<Rightarrow> ('z) DB_scheme \<Rightarrow> bool option res \<times> ('z) DB_scheme" where
  "IsBlocked p peerID =
     GetWithTtl p (''blacklist:IsBlocked:'' @ hashIfLong p peerID) as_bool
       (on_blacklist p (isBlocked peerID))"

definition ListBlacklist ::
  "pg \<Rightarrow> ListBlacklistParams \<Rightarrow> ('z) DB_scheme \<Rightarrow> Blacklist list res \<times> ('z) DB_scheme" where
  "ListBlacklist p arg = on_blacklist p (listBlacklist arg)"

definition UnblockNode ::
  "pg \<Rightarrow> conn \<Rightarrow> string \<Rightarrow> string option \<Rightarrow> ('z) DB_scheme \<Rightarrow> unit res \<times> ('z) DB_scheme" where
  "UnblockNode p c peerID blockedKey w =
     call' (on_blacklist p (unblockNode peerID) w)
       (\<lambda>u w. (Ret (), Invalidate p c ''blacklist:IsBlocked:'' blockedKey w))"

section \<open>The statements keep the table's constraints\<close>

interpretation clean_blocks: table_stmt blacklist_ok "cleanExpiredBlocks now" for now
  by unfold_locales (auto simp: cleanExpiredBlocks_def blacklist_ok_def intro: delete_rows_keyed)

interpretation violation: table_stmt blacklist_ok "incrementViolationCount arg now" for arg now
  by unfold_locales
    (auto simp: incrementViolationCount_def blacklist_ok_def elim: upsert_row_keyed [rotated 2])

interpretation unblock: table_stmt blacklist_ok "unblockNode k now" for k now
  by unfold_locales (auto simp: unblockNode_def blacklist_ok_def intro: delete_rows_keyed)

interpretation blocked_query: table_query "isBlocked k now" for k now
  by unfold_locales (simp add: isBlocked_def)

interpretation list_blacklist: table_query "listBlacklist arg now" for arg now
  by unfold_locales (simp add: listBlacklist_def select_many_def split: if_splits)

lemma on_blacklist_query:
  assumes "\<And>n. table_query (s n)"
  shows "snd (on_blacklist p s w) = tick w"
  using table_query.run_reads [OF assms] by (simp add: on_blacklist_def case_prod_beta)

lemma blacklist_reads_only_calls:
  "only_calls w (snd (IsBlocked p k w))" "only_calls w (snd (ListBlacklist p arg w))"
  by (simp_all add: IsBlocked_def ListBlacklist_def GetWithTtl_only_calls
      on_blacklist_query [OF blocked_query.table_query_axioms]
      on_blacklist_query [OF list_blacklist.table_query_axioms])

lemma call'_db_ok:
  assumes "db_ok (snd r)" and "\<And>x w. db_ok w \<Longrightarrow> db_ok (snd (k x w))"
  shows "db_ok (snd (call' r k))"
  using assms by (cases r; cases "fst r") auto

lemma call_db_ok:
  assumes "db_ok (snd r)" and "\<And>x w. db_ok w \<Longrightarrow> db_ok (snd (k x w))"
  shows "db_ok (snd (call msg r k))"
  using assms by (cases r; cases "fst r") auto

lemma blacklist_writes_ok:
  assumes "db_ok w"
  shows "db_ok (snd (CleanExpiredBlocks p c k w))"
    "db_ok (snd (IncrementViolationCount p c arg k w))" "db_ok (snd (UnblockNode p c j k w))"
  using assms
  by (simp_all add: CleanExpiredBlocks_def IncrementViolationCount_def UnblockNode_def
      after_update_ok call'_db_ok on_blacklist_state clean_blocks.table_stmt_axioms
      violation.table_stmt_axioms unblock.table_stmt_axioms)

section \<open>The table as a store, and the count of violations\<close>

definition blacklist_of :: "string \<Rightarrow> Blacklist list \<Rightarrow> Blacklist option" where
  "blacklist_of k t = find (\<lambda>r. b_PeerID r = k) t"

definition violations :: "string \<Rightarrow> Blacklist list \<Rightarrow> int" where
  "violations k t = (case blacklist_of k t of None \<Rightarrow> 0 | Some r \<Rightarrow> sint (b_ViolationCount r))"

interpretation blacklist_store:
  deleting_store blacklist_of "\<lambda>arg. incrementViolationCount arg now" iv_PeerID
    "\<lambda>k. unblockNode k now" for now
proof
  show "x \<noteq> None \<and> blacklist_of j t' = (if j = iv_PeerID a then x else blacklist_of j t)"
    if "incrementViolationCount a now t = Inr (x, t')" for a t x t' j
    using look_upsert_row [OF _ that [unfolded incrementViolationCount_def], of j]
    by (simp add: blacklist_of_def)
  show "blacklist_of j t' = (if j = k then None else blacklist_of j t)"
    if "unblockNode k now t = Inr (u, t')" for k t u t' j
    using that unfolding unblockNode_def blacklist_of_def by (rule look_delete_row)
qed

text \<open>Addition of two counts that do not go negative is exact when its result is not negative.\<close>

lemma sint_plus_nonneg:
  fixes a b :: i32
  assumes "0 \<le> sint a" and "0 \<le> sint b" and "0 \<le> sint (a + b)"
  shows "sint (a + b) = sint a + sint b"
proof -
  define x where "x = sint a + sint b"
  have r: "0 \<le> x" "x < 2 ^ 32" using sint_i32_range [of a] sint_i32_range [of b] assms
    by (simp_all add: x_def)
  have s: "sint (a + b) = (x + 2 ^ 31) mod 2 ^ 32 - 2 ^ 31"
    by (simp add: sint_word_ariths signed_take_bit_eq_take_bit_shift take_bit_eq_mod x_def)
  have "x < 2 ^ 31"
  proof (rule ccontr)
    assume "\<not> x < 2 ^ 31"
    then have "(x + 2 ^ 31) mod 2 ^ 32 = x + 2 ^ 31 - 2 ^ 32"
      using r by (subst minus_mod_self2 [symmetric]) (simp add: mod_pos_pos_trivial)
    then show False using s r assms(3) by simp
  qed
  then show ?thesis using s r by (simp add: x_def)
qed

lemma blacklist_of_check: "blacklist_ok t \<Longrightarrow> blacklist_of k t = Some r \<Longrightarrow> blacklist_check r"
  by (auto simp: blacklist_ok_def keyed_def blacklist_of_def list_all_iff find_Some_iff)

lemma violations_nonneg: "blacklist_ok t \<Longrightarrow> 0 \<le> violations k t"
  using blacklist_of_check [of t k]
  by (auto simp: violations_def blacklist_check_def split: option.split)

lemma incrementViolationCount_row:
  assumes "incrementViolationCount arg now t = Inr (x, t')"
  shows "\<exists>r. x = Some r \<and> b_ExpiresAt r = iv_ExpiresAt arg \<and> blacklist_check r \<and>
    0 \<le> sint (iv_ViolationCount arg) \<and>
    b_ViolationCount r =
      (case blacklist_of (iv_PeerID arg) t of
         None \<Rightarrow> iv_ViolationCount arg
       | Some q \<Rightarrow> b_ViolationCount q + iv_ViolationCount arg)"
proof -
  define r0 where "r0 = \<lparr>b_PeerID = iv_PeerID arg, b_ViolationCount = iv_ViolationCount arg,
    b_CreatedAt = now, b_UpdatedAt = now, b_ExpiresAt = iv_ExpiresAt arg\<rparr>"
  have c: "blacklist_check r0"
    using assms by (auto simp: incrementViolationCount_def upsert_row_def r0_def split: if_splits)
  then have n: "0 \<le> sint (iv_ViolationCount arg)" by (simp add: blacklist_check_def r0_def)
  show ?thesis
    using assms n c find_key_None [of b_PeerID "iv_PeerID arg" t]
    by (cases "blacklist_of (iv_PeerID arg) t")
      (auto simp: incrementViolationCount_def upsert_row_def update_row_def blacklist_of_def
        r0_def split: if_splits)
qed

lemma incrementViolationCount_sum:
  assumes "blacklist_ok t" and "incrementViolationCount arg now t = Inr (x, t')"
  shows "violations k t' =
    violations k t + (if k = iv_PeerID arg then sint (iv_ViolationCount arg) else 0)"
proof (cases "k = iv_PeerID arg")
  case True
  from incrementViolationCount_row [OF assms(2)] obtain r where r: "x = Some r"
    "0 \<le> sint (b_ViolationCount r)" "0 \<le> sint (iv_ViolationCount arg)"
    "b_ViolationCount r = (case blacklist_of k t of None \<Rightarrow> iv_ViolationCount arg
       | Some q \<Rightarrow> b_ViolationCount q + iv_ViolationCount arg)"
    unfolding True by (auto simp: blacklist_check_def)
  have "blacklist_of k t' = Some r"
    using blacklist_store.look_put [OF assms(2), of k] True r(1) by simp
  then show ?thesis
    using True r(2,3,4) violations_nonneg [OF assms(1), of k] sint_plus_nonneg
    by (auto simp: violations_def split: option.splits)
next
  case False
  then show ?thesis
    using blacklist_store.look_put_other [OF assms(2) False] by (simp add: violations_def)
qed

text \<open>
  The counter is exact. A violation recorded for a peer, whether it has a row or not, adds its
  count to the violations of that peer, without wrap-around, and to those of no other peer.
\<close>

theorem incrementViolationCount_adds:
  assumes "blacklist_ok t" and "incrementViolationCount arg now t = Inr (x, t')"
  shows "violations k t' =
    violations k t + (if k = iv_PeerID arg then sint (iv_ViolationCount arg) else 0)"
  using assms by (rule incrementViolationCount_sum)

theorem incrementViolationCount_adds_witness:
  "violations ''p'' [\<lparr>b_PeerID = ''p'', b_ViolationCount = 3, b_CreatedAt = 5, b_UpdatedAt = 9,
     b_ExpiresAt = None\<rparr>] =
   violations ''p'' [\<lparr>b_PeerID = ''p'', b_ViolationCount = 2, b_CreatedAt = 5, b_UpdatedAt = 5,
     b_ExpiresAt = None\<rparr>] + (if ''p'' = ''p'' then sint (1 :: i32) else 0)"
  using incrementViolationCount_adds [of "[\<lparr>b_PeerID = ''p'', b_ViolationCount = 2,
      b_CreatedAt = 5, b_UpdatedAt = 5, b_ExpiresAt = None\<rparr>]"
      "\<lparr>iv_PeerID = ''p'', iv_ViolationCount = 1, iv_ExpiresAt = None\<rparr>" 9]
  by (simp add: blacklist_ok_def keyed_def blacklist_check_def fits_varchar_def
      incrementViolationCount_def upsert_row_def update_row_def)

lemma isBlocked_iff:
  assumes "blacklist_ok t"
  shows "isBlocked k now t =
    Inr (Some (case blacklist_of k t of
                 None \<Rightarrow> False
               | Some r \<Rightarrow> 3 \<le> sint (b_ViolationCount r) \<and> unexpired now r), t)"
proof (cases "blacklist_of k t")
  case None
  then have "\<not> list_ex (\<lambda>r. b_PeerID r = k \<and> 3 \<le> sint (b_ViolationCount r) \<and> unexpired now r) t"
    by (auto simp: blacklist_of_def find_None_iff list_ex_iff)
  with None show ?thesis by (simp add: isBlocked_def)
next
  case (Some r)
  then have "r \<in> set t" and "b_PeerID r = k" by (auto simp: blacklist_of_def find_Some_iff)
  moreover have "s = r" if "s \<in> set t" and "b_PeerID s = k" for s
    using find_key_eq [of b_PeerID t k r s] assms Some that
    by (simp add: blacklist_ok_def keyed_def blacklist_of_def)
  ultimately have "list_ex (\<lambda>r. b_PeerID r = k \<and> 3 \<le> sint (b_ViolationCount r) \<and> unexpired now r) t
      \<longleftrightarrow> 3 \<le> sint (b_ViolationCount r) \<and> unexpired now r"
    unfolding list_ex_iff by blast
  with Some show ?thesis by (simp add: isBlocked_def)
qed

text \<open>
  Three violations block. After a violation without an expiry date was recorded for a peer, that
  peer is blocked, at any later time, exactly when its recorded violations add up to three or more,
  and every other peer is blocked exactly when it was before.
\<close>

theorem violations_block:
  assumes "blacklist_ok t" and "incrementViolationCount arg now t = Inr (x, t')"
    and "iv_ExpiresAt arg = None"
  shows "isBlocked k later t' =
    Inr (if k = iv_PeerID arg then Some (3 \<le> violations k t + sint (iv_ViolationCount arg))
         else case_sum (\<lambda>_. None) fst (isBlocked k later t), t')"
proof -
  have ok': "blacklist_ok t'" using violation.stmt_ok [OF assms(1,2)] .
  have look: "blacklist_of k t' = (if k = iv_PeerID arg then x else blacklist_of k t)"
    using blacklist_store.look_put [OF assms(2)] by simp
  show ?thesis
  proof (cases "k = iv_PeerID arg")
    case True
    from incrementViolationCount_row [OF assms(2)] obtain r where r: "x = Some r"
      "b_ExpiresAt r = None"
      using assms(3) by auto
    with True look have v: "violations k t' = sint (b_ViolationCount r)" by (simp add: violations_def)
    have "violations k t' = violations k t + sint (iv_ViolationCount arg)"
      unfolding True using incrementViolationCount_sum [OF assms(1,2)] by simp
    with v r True look show ?thesis by (simp add: isBlocked_iff [OF ok'] unexpired_def)
  next
    case False
    with look show ?thesis by (simp add: isBlocked_iff [OF ok'] isBlocked_iff [OF assms(1)])
  qed
qed

theorem violations_block_witness:
  "isBlocked ''p'' 100 [\<lparr>b_PeerID = ''p'', b_ViolationCount = 3, b_CreatedAt = 5, b_UpdatedAt = 9,
     b_ExpiresAt = None\<rparr>] =
   Inr (Some True, [\<lparr>b_PeerID = ''p'', b_ViolationCount = 3, b_CreatedAt = 5, b_UpdatedAt = 9,
     b_ExpiresAt = None\<rparr>])"
  using violations_block [of "[\<lparr>b_PeerID = ''p'', b_ViolationCount = 2,
      b_CreatedAt = 5, b_UpdatedAt = 5, b_ExpiresAt = None\<rparr>]"
      "\<lparr>iv_PeerID = ''p'', iv_ViolationCount = 1, iv_ExpiresAt = None\<rparr>" 9 _ _ "''p''" 100]
  by (simp add: blacklist_ok_def keyed_def blacklist_check_def fits_varchar_def
      incrementViolationCount_def upsert_row_def update_row_def violations_def blacklist_of_def)

end
