(* ===== verification/Codec.thy ===== *)
theory Codec
  imports Prelude
begin

text \<open>
  Byte encodings: the parts of \<open>encoding/binary\<close>, \<open>encoding/hex\<close> and \<open>math/big\<close> that the
  sources use, and the stream helpers of \<open>pkg/common/utils.go\<close>. A libp2p stream is a parameter: it
  accepts a write, or fails after some of the bytes; what a stream received can be read from its
  other end.
\<close>

section \<open>Big-endian numbers\<close>

fun be_bytes :: "nat \<Rightarrow> nat \<Rightarrow> bytes" where
  "be_bytes 0 k = []"
| "be_bytes (Suc n) k = be_bytes n (k div 256) @ [word_of_nat k]"

definition be_val :: "bytes \<Rightarrow> nat" where
  "be_val bs = foldl (\<lambda>a b. a * 256 + unat b) 0 bs"

definition PutUint32 :: "u32 \<Rightarrow> bytes" where
  "PutUint32 x = be_bytes 4 (unat x)"

definition Uint32 :: "bytes \<Rightarrow> u32" where
  "Uint32 bs = word_of_nat (be_val bs)"

definition Uint64ToBytes :: "u64 \<Rightarrow> bytes" where
  "Uint64ToBytes i = be_bytes 8 (unat i)"

text \<open>\<open>(*big.Int).Bytes\<close>: the absolute value without leading zeros.\<close>

fun nat_bytes :: "nat \<Rightarrow> bytes" where
  "nat_bytes k = (if k = 0 then [] else nat_bytes (k div 256) @ [word_of_nat k])"

declare nat_bytes.simps [simp del]

definition big_Bytes :: "int \<Rightarrow> bytes" where
  "big_Bytes x = nat_bytes (nat \<bar>x\<bar>)"

section \<open>Hexadecimal text\<close>

fun hex_decode :: "string \<Rightarrow> bytes option" where
  "hex_decode [] = Some []"
| "hex_decode [c] = None"
| "hex_decode (c # d # cs) =
     (case (digit_val c, digit_val d, hex_decode cs) of
        (Some i, Some j, Some bs) \<Rightarrow>
          if i < 16 \<and> j < 16 then Some (word_of_nat (16 * i + j) # bs) else None
      | _ \<Rightarrow> None)"

definition TrimPrefix :: "string \<Rightarrow> string \<Rightarrow> string" where
  "TrimPrefix s p = (if take (length p) s = p then drop (length p) s else s)"

section \<open>Streams\<close>

text \<open>
  The bytes written so far, the bytes that can still be read, and the number of writes made, by which
  the parameter \<open>wr\<close> decides: \<open>None\<close> is a write that succeeds, \<open>Some (e, n)\<close> one that fails with
  \<open>e\<close> after \<open>n\<close> bytes.
\<close>

record stream =
  s_out :: bytes
  s_in :: bytes
  s_writes :: nat

definition Write :: "(nat \<Rightarrow> (error \<times> nat) option) \<Rightarrow> bytes \<Rightarrow> stream \<Rightarrow> unit res \<times> stream" where
  "Write wr data s =
     (case wr (s_writes s) of
        None \<Rightarrow> (Ret (), s\<lparr>s_out := s_out s @ data, s_writes := Suc (s_writes s)\<rparr>)
      | Some (e, n) \<Rightarrow>
          (Fail e, s\<lparr>s_out := s_out s @ take n data, s_writes := Suc (s_writes s)\<rparr>))"

text \<open>\<open>io.ReadFull\<close> into a buffer of \<open>n\<close> bytes.\<close>

definition ReadFull :: "nat \<Rightarrow> stream \<Rightarrow> bytes res \<times> stream" where
  "ReadFull n s =
     (if length (s_in s) < n
      then (Fail (Err (if s_in s = [] then ''EOF'' else ''unexpected EOF'')), s\<lparr>s_in := []\<rparr>)
      else (Ret (take n (s_in s)), s\<lparr>s_in := drop n (s_in s)\<rparr>))"

definition WriteLengthPrefix ::
  "(nat \<Rightarrow> (error \<times> nat) option) \<Rightarrow> u32 \<Rightarrow> stream \<Rightarrow> unit res \<times> stream" where
  "WriteLengthPrefix wr len s =
     call ''failed to write length prefix'' (Write wr (PutUint32 len) s) (\<lambda>_ s. (Ret (), s))"

definition ReadLengthPrefix :: "stream \<Rightarrow> u32 res \<times> stream" where
  "ReadLengthPrefix s =
     call ''failed to read length prefix'' (ReadFull 4 s) (\<lambda>buf s. (Ret (Uint32 buf), s))"

definition WriteLengthPrefixedData ::
  "(nat \<Rightarrow> (error \<times> nat) option) \<Rightarrow> bytes \<Rightarrow> stream \<Rightarrow> unit res \<times> stream" where
  "WriteLengthPrefixedData wr data s =
     call' (WriteLengthPrefix wr (word_of_nat (length data)) s)
       (\<lambda>_ s. call ''failed to write data'' (Write wr data s) (\<lambda>_ s. (Ret (), s)))"

text \<open>Multiaddresses are values of a library: \<open>toString\<close> and \<open>NewMultiaddr\<close> are parameters.\<close>

definition MultiaddrsToStrings :: "('m \<Rightarrow> string) \<Rightarrow> 'm list \<Rightarrow> string list" where
  "MultiaddrsToStrings toString multiaddrs = map toString multiaddrs"

fun StringsToMultiaddrs :: "(string \<Rightarrow> error + 'm) \<Rightarrow> string list \<Rightarrow> 'm list res" where
  "StringsToMultiaddrs NewMultiaddr [] = Ret []"
| "StringsToMultiaddrs NewMultiaddr (a # as) =
     (case NewMultiaddr a of
        Inl e \<Rightarrow> Fail (Wrap ''invalid multiaddr'' e)
      | Inr m \<Rightarrow>
          (case StringsToMultiaddrs NewMultiaddr as of
             Ret ms \<Rightarrow> Ret (m # ms)
           | Fail e \<Rightarrow> Fail e
           | Panic \<Rightarrow> Panic))"

section \<open>Round trips\<close>

lemma be_val_append [codec_simps]: "be_val (bs @ [b]) = be_val bs * 256 + unat b"
  by (simp add: be_val_def)

lemma be_val_Nil [simp]: "be_val [] = 0"
  by (simp add: be_val_def)

lemma unat_word_of_nat_u8: "unat (word_of_nat k :: u8) = k mod 256"
  by (simp add: unat_of_nat)

lemma length_be_bytes [simp]: "length (be_bytes n k) = n"
  by (induction n arbitrary: k) auto

lemma be_val_be_bytes: "be_val (be_bytes n k) = k mod 256 ^ n"
proof (induction n arbitrary: k)
  case (Suc n)
  have "k mod 256 ^ Suc n = 256 * (k div 256 mod 256 ^ n) + k mod 256"
    by (simp add: mod_mult2_eq)
  then show ?case by (simp add: Suc be_val_append unat_word_of_nat_u8)
qed simp

interpretation be_bytes_codec: codec "be_bytes n" "\<lambda>bs. Some (be_val bs)" "\<lambda>k. k < 256 ^ n" for n
  by unfold_locales (simp add: be_val_be_bytes)

interpretation uint32_codec: codec PutUint32 "\<lambda>bs. Some (Uint32 bs)" "\<lambda>_. True"
  by unfold_locales (use unat_u32_less in \<open>simp add: PutUint32_def Uint32_def be_val_be_bytes\<close>)

lemma be_val_nat_bytes: "be_val (nat_bytes k) = k"
proof (induction k rule: nat_bytes.induct)
  case (1 k)
  then show ?case
    by (subst nat_bytes.simps) (simp add: be_val_append unat_word_of_nat_u8)
qed

interpretation nat_bytes_codec: codec nat_bytes "\<lambda>bs. Some (be_val bs)" "\<lambda>_. True"
  by unfold_locales (simp add: be_val_nat_bytes)

lemma length_nat_bytes: "k < 256 ^ n \<Longrightarrow> length (nat_bytes k) \<le> n"
proof (induction n arbitrary: k)
  case (Suc n)
  then have "k div 256 < 256 ^ n" by (simp add: less_mult_imp_div_less mult.commute)
  with Suc.IH show ?case by (subst nat_bytes.simps) simp
qed (simp add: nat_bytes.simps)

lemma be_val_replicate_0: "be_val (replicate n 0 @ bs) = be_val bs"
proof -
  have "foldl (\<lambda>a b. a * 256 + unat b) 0 (replicate n (0 :: u8)) = 0"
    by (induction n) auto
  then show ?thesis by (simp add: be_val_def)
qed

text \<open>A number padded to a fixed width is the number in that width.\<close>

lemma pad_nat_bytes:
  assumes "k < 256 ^ n"
  shows "length (replicate (n - length (nat_bytes k)) 0 @ nat_bytes k) = n \<and>
    be_val (replicate (n - length (nat_bytes k)) 0 @ nat_bytes k) = k"
  using length_nat_bytes [OF assms] by (simp add: be_val_replicate_0 be_val_nat_bytes)

lemma hex_decode_encode: "hex_decode (hex_encode bs) = Some bs"
proof (induction bs)
  case (Cons b bs)
  have "unat b < 256" using unsigned_less [of b] by simp
  then have "unat b div 16 < 16" and "unat b mod 16 < 16" by auto
  moreover have "16 * (unat b div 16) + unat b mod 16 = unat b" by simp
  ultimately show ?case
    using Cons by (simp add: hex_encode_def)
qed (simp add: hex_encode_def)

interpretation hex_codec: codec hex_encode hex_decode "\<lambda>_. True"
  by unfold_locales (simp add: hex_decode_encode)

text \<open>
  Framing round trip. On a stream that accepts its writes, length-prefixed data is four bytes
  followed by the data, and the reader at the other end gets the length of the data back and is left
  with exactly the data, for all data shorter than 4 GiB.
\<close>

theorem length_prefix_roundtrip:
  assumes "\<And>n. wr n = None" and "length data < 2 ^ 32"
  shows "\<exists>s'. WriteLengthPrefixedData wr data s = (Ret (), s') \<and>
    ReadLengthPrefix (r\<lparr>s_in := drop (length (s_out s)) (s_out s') @ rest\<rparr>) =
      (Ret (word_of_nat (length data)), r\<lparr>s_in := data @ rest\<rparr>) \<and>
    unat (word_of_nat (length data) :: u32) = length data"
proof -
  have "Uint32 (PutUint32 (word_of_nat (length data))) = word_of_nat (length data)"
    using uint32_codec.dec_enc by simp
  with assms show ?thesis
    by (auto simp: WriteLengthPrefixedData_def WriteLengthPrefix_def Write_def ReadLengthPrefix_def
        ReadFull_def PutUint32_def unat_of_nat)
qed

theorem length_prefix_roundtrip_witness:
  "\<exists>s'. WriteLengthPrefixedData (\<lambda>_. None) [1, 2, 3] \<lparr>s_out = [9], s_in = [], s_writes = 0\<rparr> =
      (Ret (), s') \<and>
    ReadLengthPrefix (\<lparr>s_out = [], s_in = [], s_writes = 0\<rparr>
        \<lparr>s_in := drop (length [9 :: u8]) (s_out s') @ [7]\<rparr>) =
      (Ret (word_of_nat (length [1, 2, 3 :: u8])),
       \<lparr>s_out = [], s_in = [], s_writes = 0\<rparr>\<lparr>s_in := [1, 2, 3] @ [7]\<rparr>) \<and>
    unat (word_of_nat (length [1, 2, 3 :: u8]) :: u32) = length [1, 2, 3 :: u8]"
  using length_prefix_roundtrip [where wr = "\<lambda>_. None" and data = "[1, 2, 3]" and rest = "[7]" and
      s = "\<lparr>s_out = [9], s_in = [], s_writes = 0\<rparr>" and
      r = "\<lparr>s_out = [], s_in = [], s_writes = 0\<rparr>"]
  by simp

text \<open>
  Conversion of a list of multiaddresses to text and back is the identity, for every library in
  which parsing inverts printing; and a list with a text that does not parse is refused as a whole.
\<close>

theorem multiaddrs_roundtrip:
  assumes "\<And>m. NewMultiaddr (toString m) = Inr m"
  shows "StringsToMultiaddrs NewMultiaddr (MultiaddrsToStrings toString ms) = Ret ms \<and>
    (NewMultiaddr bad = Inl e \<longrightarrow>
      StringsToMultiaddrs NewMultiaddr (MultiaddrsToStrings toString ms @ bad # others) =
        Fail (Wrap ''invalid multiaddr'' e))"
  using assms by (induction ms) (auto simp: MultiaddrsToStrings_def)

theorem multiaddrs_roundtrip_witness:
  "StringsToMultiaddrs
     (\<lambda>s. if s = ''/a'' then Inr True else if s = ''/b'' then Inr False else Inl (Err ''bad''))
     (MultiaddrsToStrings (\<lambda>m. if m then ''/a'' else ''/b'') [True, False]) = Ret [True, False]"
  using multiaddrs_roundtrip
    [where NewMultiaddr = "\<lambda>s. if s = ''/a'' then Inr True else if s = ''/b'' then Inr False
        else Inl (Err ''bad'')"
      and toString = "\<lambda>m. if m then ''/a'' else ''/b''" and ms = "[True, False]"
      and bad = "''/c''" and e = "Err ''bad''"]
  by auto

section \<open>Messages\<close>

text \<open>
  \<open>WriteStreamMessage\<close> and \<open>ReadStreamMessage\<close>. The framing by \<open>msgio\<close> and the encoding of messages
  are libraries.
\<close>

definition WriteStreamMessage ::
  "(bytes \<Rightarrow> 's \<Rightarrow> error option \<times> 's) \<Rightarrow> ('m \<Rightarrow> error + bytes) \<Rightarrow> 'm \<Rightarrow> 's \<Rightarrow> unit res \<times> 's" where
  "WriteStreamMessage writeMsg marshal msg s =
     (case marshal msg of
        Inl e \<Rightarrow> (Fail e, s)
      | Inr bs \<Rightarrow>
          (case writeMsg bs s of
             (Some e, s) \<Rightarrow> (Fail e, s)
           | (None, s) \<Rightarrow> (Ret (), s)))"

definition ReadStreamMessage ::
  "(nat \<Rightarrow> 's \<Rightarrow> (error + bytes) \<times> 's) \<Rightarrow> (bytes \<Rightarrow> error + 'm) \<Rightarrow> nat \<Rightarrow> 's \<Rightarrow> 'm res \<times> 's" where
  "ReadStreamMessage readMsg unmarshal maxMessageSize s =
     (case readMsg maxMessageSize s of
        (Inl e, s) \<Rightarrow> (Fail e, s)
      | (Inr bs, s) \<Rightarrow>
          (case unmarshal bs of
             Inl e \<Rightarrow> (Fail e, s)
           | Inr msg \<Rightarrow> (Ret msg, s)))"

text \<open>
  A message that was written is read back, if it is not longer than the reader allows; a longer one,
  which the library refuses, is an error and no message.
\<close>

lemma stream_message_roundtrip:
  assumes "WriteStreamMessage writeMsg marshal msg s = (Ret (), s')"
    and "\<And>m bs. marshal m = Inr bs \<Longrightarrow> unmarshal bs = Inr m"
    and "\<And>bs s s' n. writeMsg bs s = (None, s') \<Longrightarrow>
      fst (readMsg n s') = (if length bs \<le> n then Inr bs else Inl tooLarge)"
  shows "\<exists>bs. marshal msg = Inr bs \<and>
    fst (ReadStreamMessage readMsg unmarshal n s') = (if length bs \<le> n then Ret msg else Fail tooLarge)"
proof -
  from assms(1) obtain bs where bs: "marshal msg = Inr bs" "writeMsg bs s = (None, s')"
    by (auto simp: WriteStreamMessage_def split: sum.splits prod.splits option.splits)
  with assms(2) [OF bs(1)] assms(3) [OF bs(2), of n] show ?thesis
    by (auto simp: ReadStreamMessage_def split: prod.splits)
qed

end
