(* ===== verification/Signing.thy ===== *)
theory Signing
  imports Codec
begin

text \<open>
  The signer of task responses, \<open>pkg/common/crypto/signer/signer.go\<close>, and the derivation of a P2P
  key from a peer identifier, \<open>PeerIDToP2PKey\<close> of \<open>pkg/common/utils.go\<close>. The cryptography
  (Keccak-256, ECDSA, the libp2p keys) and the address type of go-ethereum are libraries: the record
  \<open>crypto\<close> holds the functions that the code calls. An address is the list of its bytes. Reading the
  bytes of a nil \<open>*big.Int\<close> is a \<open>Panic\<close>.
\<close>

type_synonym address = bytes

type_synonym privkey = bytes

type_synonym pubkey = bytes

type_synonym peerID = string

record crypto =
  keccak256 :: "bytes \<Rightarrow> bytes"
  HexToAddress :: "string \<Rightarrow> address"
  IsHexAddress :: "string \<Rightarrow> bool"
  addressHex :: "address \<Rightarrow> string"
  LeftPadBytes :: "bytes \<Rightarrow> nat \<Rightarrow> bytes"
  ecdsaSign :: "bytes \<Rightarrow> privkey \<Rightarrow> error + bytes"
  SigToPub :: "bytes \<Rightarrow> bytes \<Rightarrow> error + pubkey"
  publicKey :: "privkey \<Rightarrow> pubkey"
  PubkeyToAddress :: "pubkey \<Rightarrow> address"
  ToECDSA :: "bytes \<Rightarrow> error + privkey"
  ReadFile :: "string \<Rightarrow> error + bytes"
  DecryptKey :: "bytes \<Rightarrow> string \<Rightarrow> error + privkey"
  ExtractPublicKey :: "peerID \<Rightarrow> error + pubkey"
  MarshalPublicKey :: "pubkey \<Rightarrow> error + bytes"
  peerIDString :: "peerID \<Rightarrow> string"

record signer_Config =
  SigningKeyPath :: string
  SigningKey :: string
  Password :: string

text \<open>\<open>NewLocalSigner\<close>; the signer is its private key.\<close>

definition NewLocalSigner :: "crypto \<Rightarrow> signer_Config option \<Rightarrow> privkey res" where
  "NewLocalSigner cr cfg =
     (case cfg of
        None \<Rightarrow> Fail (Err ''config is nil'')
      | Some c \<Rightarrow>
          if ((SigningKeyPath c = []) = (SigningKey c = [])) \<or>
             (SigningKeyPath c \<noteq> [] \<and> SigningKey c \<noteq> [])
          then Fail (Err ''exactly one of SigningKeyPath or SigningKey must be provided'')
          else if SigningKeyPath c \<noteq> [] then
            (case ReadFile cr (SigningKeyPath c) of
               Inl e \<Rightarrow> Fail (Wrap ''failed to read signing key file'' e)
             | Inr json \<Rightarrow>
                 (case DecryptKey cr json (Password c) of
                    Inl e \<Rightarrow> Fail (Wrap ''failed to decrypt signing key'' e)
                  | Inr key \<Rightarrow> Ret key))
          else
            (case hex_decode (TrimPrefix (SigningKey c) ''0x'') of
               None \<Rightarrow> Fail (Wrap ''failed to decode private key hex string'' (Err ''hex''))
             | Some bs \<Rightarrow>
                 (case ToECDSA cr bs of
                    Inl e \<Rightarrow> Fail (Wrap ''failed to convert private key bytes to ECDSA'' e)
                  | Inr key \<Rightarrow> Ret key)))"

definition GetSigningAddress :: "crypto \<Rightarrow> privkey \<Rightarrow> address" where
  "GetSigningAddress cr k = PubkeyToAddress cr (publicKey cr k)"

record TaskSignParams =
  sp_User :: address
  sp_ChainID :: u32
  sp_BlockNumber :: u64
  sp_Key :: "int option"
  sp_Value :: "int option"

text \<open>
  The message that is signed and verified. A chain number is converted to \<open>int64\<close> exactly, a block
  number may become negative, and \<open>Bytes\<close> drops the sign.
\<close>

definition pack :: "crypto \<Rightarrow> TaskSignParams \<Rightarrow> bytes res" where
  "pack cr params =
     (case (sp_Key params, sp_Value params) of
        (Some key, Some value) \<Rightarrow>
          Ret (sp_User params @
               LeftPadBytes cr (big_Bytes (uint (sp_ChainID params))) 32 @
               LeftPadBytes cr (big_Bytes (sint (sp_BlockNumber params))) 32 @
               LeftPadBytes cr (big_Bytes key) 32 @
               LeftPadBytes cr (big_Bytes value) 32)
      | _ \<Rightarrow> Panic)"

definition of_sum :: "error + 'a \<Rightarrow> 'a res" where
  "of_sum r = (case r of Inl e \<Rightarrow> Fail e | Inr x \<Rightarrow> Ret x)"

definition SignTaskResponse :: "crypto \<Rightarrow> privkey \<Rightarrow> TaskSignParams \<Rightarrow> bytes res" where
  "SignTaskResponse cr k params =
     (case pack cr params of
        Ret msg \<Rightarrow> of_sum (ecdsaSign cr (keccak256 cr msg) k)
      | Fail e \<Rightarrow> Fail e
      | Panic \<Rightarrow> Panic)"

definition VerifyTaskResponse :: "crypto \<Rightarrow> TaskSignParams \<Rightarrow> bytes \<Rightarrow> string \<Rightarrow> unit res" where
  "VerifyTaskResponse cr params signature signerAddr =
     (case pack cr params of
        Ret msg \<Rightarrow>
          (case SigToPub cr (keccak256 cr msg) signature of
             Inl e \<Rightarrow> Fail (Wrap ''failed to recover public key'' e)
           | Inr pubKey \<Rightarrow>
               if addressHex cr (PubkeyToAddress cr pubKey) \<noteq> signerAddr
               then Fail (Err ''invalid signature: recovered address does not match signer'')
               else Ret ())
      | Fail e \<Rightarrow> Fail e
      | Panic \<Rightarrow> Panic)"

definition Sign :: "crypto \<Rightarrow> privkey \<Rightarrow> bytes \<Rightarrow> bytes res" where
  "Sign cr k message = of_sum (ecdsaSign cr (keccak256 cr message) k)"

definition PeerIDToP2PKey :: "crypto \<Rightarrow> peerID \<Rightarrow> string res" where
  "PeerIDToP2PKey cr peer =
     (case ExtractPublicKey cr peer of
        Inl e \<Rightarrow> Fail (Wrap ''failed to extract public key'' e)
      | Inr pubKey \<Rightarrow>
          (case MarshalPublicKey cr pubKey of
             Inl e \<Rightarrow> Fail (Wrap ''failed to marshal public key'' e)
           | Inr pubKeyBytes \<Rightarrow>
               (let hash = keccak256 cr pubKeyBytes in
                if length hash < 20 then Panic
                else Ret (''0x'' @ lower (hex_encode (drop (length hash - 20) hash))))))"

section \<open>What is documented of the libraries\<close>

text \<open>\<open>LeftPadBytes\<close> zero-pads on the left up to the given length.\<close>

definition pads_left :: "crypto \<Rightarrow> bool" where
  "pads_left cr \<longleftrightarrow> (\<forall>bs n. LeftPadBytes cr bs n = replicate (n - length bs) 0 @ bs)"

text \<open>The public key recovered from a signature is that of the key that signed.\<close>

definition recovers :: "crypto \<Rightarrow> bool" where
  "recovers cr \<longleftrightarrow>
     (\<forall>h k sig. ecdsaSign cr h k = Inr sig \<longrightarrow> SigToPub cr h sig = Inr (publicKey cr k))"

section \<open>Packing\<close>

text \<open>Parameters that packing keeps apart: 20-byte addresses, 256-bit numbers, 63-bit blocks.\<close>

definition packable :: "TaskSignParams \<Rightarrow> bool" where
  "packable p \<longleftrightarrow> length (sp_User p) = 20 \<and> unat (sp_BlockNumber p) < 2 ^ 63 \<and>
     (\<exists>k. sp_Key p = Some k \<and> 0 \<le> k \<and> k < 2 ^ 256) \<and>
     (\<exists>v. sp_Value p = Some v \<and> 0 \<le> v \<and> v < 2 ^ 256)"

lemma pad_big_Bytes:
  assumes "pads_left cr" and "\<bar>x\<bar> < 2 ^ 256"
  shows "length (LeftPadBytes cr (big_Bytes x) 32) = 32"
    and "be_val (LeftPadBytes cr (big_Bytes x) 32) = nat \<bar>x\<bar>"
proof -
  have "nat \<bar>x\<bar> < 256 ^ 32" using assms(2) by (simp add: nat_less_iff)
  then show "length (LeftPadBytes cr (big_Bytes x) 32) = 32"
    and "be_val (LeftPadBytes cr (big_Bytes x) 32) = nat \<bar>x\<bar>"
    using assms(1) pad_nat_bytes [of "nat \<bar>x\<bar>" 32] by (simp_all add: pads_left_def big_Bytes_def)
qed

lemma pad_inj:
  assumes "pads_left cr" and "0 \<le> x" and "x < 2 ^ 256" and "0 \<le> y" and "y < 2 ^ 256"
  shows "LeftPadBytes cr (big_Bytes x) 32 = LeftPadBytes cr (big_Bytes y) 32 \<longleftrightarrow> x = y"
proof
  assume eq: "LeftPadBytes cr (big_Bytes x) 32 = LeftPadBytes cr (big_Bytes y) 32"
  have "nat \<bar>x\<bar> = be_val (LeftPadBytes cr (big_Bytes x) 32)"
    using pad_big_Bytes(2) [OF assms(1), of x] assms by simp
  also have "\<dots> = nat \<bar>y\<bar>"
    unfolding eq using pad_big_Bytes(2) [OF assms(1), of y] assms by simp
  finally show "x = y" using assms by simp
qed simp

lemma sint_small_u64:
  assumes "unat (b :: u64) < 2 ^ 63"
  shows "sint b = int (unat b)"
proof -
  have "sint b = signed_take_bit 63 (int (unat b))" by (simp add: sint_uint)
  moreover have "int (unat b) < int (2 ^ 63)" using assms by (simp only: of_nat_less_iff)
  ultimately show ?thesis
    by (simp only: signed_take_bit_int_eq_self [of 63 "int (unat b)"] of_nat_power of_nat_numeral)
qed

lemma uint_u32_less: "uint (c :: u32) < 2 ^ 32"
  using unsigned_less [of c] by simp

lemma uint_u64_less: "uint (b :: u64) < 2 ^ 64"
  using unsigned_less [of b] by simp

lemma pack_parts:
  assumes "pads_left cr" and "packable p"
  shows "\<exists>k v. sp_Key p = Some k \<and> sp_Value p = Some v \<and> 0 \<le> k \<and> k < 2 ^ 256 \<and>
    0 \<le> v \<and> v < 2 ^ 256 \<and>
    pack cr p = Ret (sp_User p @ LeftPadBytes cr (big_Bytes (uint (sp_ChainID p))) 32 @
      LeftPadBytes cr (big_Bytes (uint (sp_BlockNumber p))) 32 @
      LeftPadBytes cr (big_Bytes k) 32 @ LeftPadBytes cr (big_Bytes v) 32)"
  using assms by (auto simp: packable_def pack_def sint_small_u64)

lemma pack_unique:
  assumes cr: "pads_left cr" and p: "packable p" and q: "packable q"
    and eq: "pack cr p = pack cr q"
  shows "p = q"
proof -
  obtain k v where kv: "sp_Key p = Some k" "sp_Value p = Some v" "0 \<le> k" "k < 2 ^ 256"
      "0 \<le> v" "v < 2 ^ 256"
    and pp: "pack cr p = Ret (sp_User p @ LeftPadBytes cr (big_Bytes (uint (sp_ChainID p))) 32 @
      LeftPadBytes cr (big_Bytes (uint (sp_BlockNumber p))) 32 @
      LeftPadBytes cr (big_Bytes k) 32 @ LeftPadBytes cr (big_Bytes v) 32)"
    using pack_parts [OF cr p] by auto
  obtain k' v' where kv': "sp_Key q = Some k'" "sp_Value q = Some v'" "0 \<le> k'" "k' < 2 ^ 256"
      "0 \<le> v'" "v' < 2 ^ 256"
    and pq: "pack cr q = Ret (sp_User q @ LeftPadBytes cr (big_Bytes (uint (sp_ChainID q))) 32 @
      LeftPadBytes cr (big_Bytes (uint (sp_BlockNumber q))) 32 @
      LeftPadBytes cr (big_Bytes k') 32 @ LeftPadBytes cr (big_Bytes v') 32)"
    using pack_parts [OF cr q] by auto
  have small: "0 \<le> uint c" "uint c < 2 ^ 256" "0 \<le> uint b" "uint b < 2 ^ 256"
    for c :: u32 and b :: u64
    using uint_u32_less [of c] uint_u64_less [of b] by simp_all
  have len: "length (LeftPadBytes cr (big_Bytes x) 32) = 32" if "0 \<le> x" "x < 2 ^ 256" for x
    using pad_big_Bytes(1) [OF cr] that by simp
  have "sp_User p = sp_User q" "uint (sp_ChainID p) = uint (sp_ChainID q)"
    "uint (sp_BlockNumber p) = uint (sp_BlockNumber q)" "k = k'" "v = v'"
    using eq p q len kv kv' small unfolding pp pq packable_def
    by (simp_all only: res.inject append_eq_append_conv pad_inj [OF cr] simp_thms)
  with kv kv' show ?thesis
    by (cases p; cases q) (simp add: word_uint_eq_iff)
qed

section \<open>Properties\<close>

text \<open>
  C28. The signed message determines the response. For 20-byte addresses, keys and values of 256 bits
  and block numbers below \<open>2 ^ 63\<close>, two responses with the same packed message are the same
  response, so a signature cannot be moved to another user, chain, block, key or value.
\<close>

theorem pack_injective:
  assumes "pads_left cr" and "packable p" and "packable q" and "pack cr p = pack cr q"
  shows "p = q"
  using assms by (rule pack_unique)

text \<open>A concrete library, for the witnesses: it signs with the key itself and hashes to the message.\<close>

definition toy_crypto :: crypto where
  "toy_crypto =
     \<lparr>keccak256 = (\<lambda>m. m), HexToAddress = (\<lambda>s. map (\<lambda>c. word_of_nat (of_char c)) s),
      IsHexAddress = (\<lambda>s. length s = 42), addressHex = (\<lambda>a. hex_encode a),
      LeftPadBytes = (\<lambda>bs n. replicate (n - length bs) 0 @ bs),
      ecdsaSign = (\<lambda>h k. Inr (k @ h)), SigToPub = (\<lambda>h s. Inr (take (length s - length h) s)),
      publicKey = (\<lambda>k. k), PubkeyToAddress = (\<lambda>p. p), ToECDSA = (\<lambda>b. Inr b),
      ReadFile = (\<lambda>f. Inl (Err ''no file'')), DecryptKey = (\<lambda>b p. Inr b),
      ExtractPublicKey = (\<lambda>p. Inr (map (\<lambda>c. word_of_nat (of_char c)) p)),
      MarshalPublicKey = (\<lambda>k. Inr (replicate 20 0 @ k)), peerIDString = (\<lambda>p. p)\<rparr>"

lemma toy_crypto_ok: "pads_left toy_crypto" "recovers toy_crypto"
  by (simp_all add: pads_left_def recovers_def toy_crypto_def)

theorem pack_injective_witness:
  "\<lparr>sp_User = replicate 20 1, sp_ChainID = 1, sp_BlockNumber = 5, sp_Key = Some 7, sp_Value = Some 9\<rparr> =
   \<lparr>sp_User = replicate 20 1, sp_ChainID = 1, sp_BlockNumber = 5, sp_Key = Some 7, sp_Value = Some 9\<rparr>"
  by (rule pack_injective [OF toy_crypto_ok(1)]) (simp_all add: packable_def)

lemma sign_verify:
  assumes "recovers cr" and "SignTaskResponse cr k params = Ret sig"
  shows "VerifyTaskResponse cr params sig addr = Ret ()
    \<longleftrightarrow> addr = addressHex cr (GetSigningAddress cr k)"
  using assms
  by (auto simp: SignTaskResponse_def VerifyTaskResponse_def recovers_def of_sum_def
      GetSigningAddress_def split: res.splits sum.splits)

text \<open>
  C27. Signing round trip. A response that an operator signs is accepted by every operator that
  verifies it against the address of the signing key, and against no other address; the message
  packed for signing and for verifying is the same.
\<close>

theorem SignTaskResponse_VerifyTaskResponse:
  assumes "recovers cr" and "SignTaskResponse cr k params = Ret sig"
  shows "VerifyTaskResponse cr params sig addr = Ret ()
    \<longleftrightarrow> addr = addressHex cr (GetSigningAddress cr k)"
  using assms by (rule sign_verify)

theorem SignTaskResponse_VerifyTaskResponse_witness:
  "\<exists>sig. SignTaskResponse toy_crypto [4, 2] \<lparr>sp_User = [1], sp_ChainID = 1, sp_BlockNumber = 5,
        sp_Key = Some 0, sp_Value = Some 0\<rparr> = Ret sig \<and>
     (VerifyTaskResponse toy_crypto \<lparr>sp_User = [1], sp_ChainID = 1, sp_BlockNumber = 5,
        sp_Key = Some 0, sp_Value = Some 0\<rparr> sig ''0402'' = Ret ()
      \<longleftrightarrow> ''0402'' = addressHex toy_crypto (GetSigningAddress toy_crypto [4, 2]))"
proof -
  obtain sig where "SignTaskResponse toy_crypto [4, 2] \<lparr>sp_User = [1], sp_ChainID = 1,
      sp_BlockNumber = 5, sp_Key = Some 0, sp_Value = Some 0\<rparr> = Ret sig"
    by (simp add: SignTaskResponse_def pack_def toy_crypto_def of_sum_def)
  then show ?thesis
    using SignTaskResponse_VerifyTaskResponse [OF toy_crypto_ok(2)] by blast
qed

text \<open>
  C9. Block numbers above \<open>2 ^ 63\<close> collide with small ones: the conversion to \<open>int64\<close> makes them
  negative and the packed bytes hold the absolute value, so a block \<open>b\<close> and the block \<open>2 ^ 64 - b\<close>
  give the same signed message; and a key and its negation do too.
\<close>

theorem pack_sign_collision:
  "pack cr (p\<lparr>sp_BlockNumber := - b\<rparr>) = pack cr (p\<lparr>sp_BlockNumber := b\<rparr>) \<and>
   pack cr (p\<lparr>sp_Key := Some (- k)\<rparr>) = pack cr (p\<lparr>sp_Key := Some k\<rparr>)"
proof -
  have "\<bar>sint (- b)\<bar> = \<bar>sint b\<bar>"
  proof (cases "b = 0x8000000000000000")
    case False
    then have "sint b \<noteq> sint (0x8000000000000000 :: u64)" using signed_word_eqI by blast
    moreover have "- (2 ^ 63) \<le> sint b \<and> sint b < 2 ^ 63"
      using sint_range_size [of b] by (simp add: word_size)
    ultimately have "- (2 ^ 63) \<le> - sint b" and "- sint b < 2 ^ 63" by simp_all
    then have "sint (- b) = - sint b"
      by (simp add: sint_word_minus signed_take_bit_int_eq_self)
    then show ?thesis by simp
  qed simp
  then show ?thesis by (simp add: pack_def big_Bytes_def split: option.split)
qed

text \<open>
  A P2P key has the shape of an address in lower case: it is \<open>0x\<close> and 40 characters, none of
  which changes under \<open>LOWER\<close>, whenever the hash has the 32 bytes of Keccak-256.
\<close>

lemma length_hex_encode [simp]: "length (hex_encode bs) = 2 * length bs"
  by (induction bs) (simp_all add: hex_encode_def)

lemma ascii_lower_idem [simp]: "ascii_lower (ascii_lower c) = ascii_lower c"
  by (auto simp: ascii_lower_def of_char_char_of_small simp del: of_char_of)

lemma lower_idem [simp]: "lower (lower s) = lower s"
  by (simp add: lower_def)

lemma lower_Cons [simp]: "lower (c # s) = ascii_lower c # lower s"
  by (simp add: lower_def)

lemma length_lower [simp]: "length (lower s) = length s"
  by (simp add: lower_def)

theorem PeerIDToP2PKey_shape:
  assumes "\<And>m. length (keccak256 cr m) = 32"
  shows "PeerIDToP2PKey cr peer \<noteq> Panic \<and>
    (\<forall>key. PeerIDToP2PKey cr peer = Ret key \<longrightarrow> length key = 42 \<and> lower key = key)"
proof -
  have "ascii_lower CHR ''0'' = CHR ''0''" "ascii_lower CHR ''x'' = CHR ''x''"
    by (simp_all add: ascii_lower_def)
  with assms show ?thesis
    by (auto simp: PeerIDToP2PKey_def Let_def split: sum.split)
qed

theorem PeerIDToP2PKey_shape_witness:
  "\<exists>key. PeerIDToP2PKey (toy_crypto\<lparr>keccak256 := (\<lambda>m. replicate 32 1)\<rparr>) ''Qm'' = Ret key \<and>
     length key = 42 \<and> lower key = key"
proof -
  obtain key where "PeerIDToP2PKey (toy_crypto\<lparr>keccak256 := (\<lambda>m. replicate 32 1)\<rparr>) ''Qm'' = Ret key"
    by (simp add: PeerIDToP2PKey_def toy_crypto_def Let_def)
  with PeerIDToP2PKey_shape [of "toy_crypto\<lparr>keccak256 := (\<lambda>m. replicate 32 1)\<rparr>" "''Qm''"]
  show ?thesis by simp
qed

lemma digit_char_not_x: "d < 16 \<Longrightarrow> digit_char d \<noteq> CHR ''x''"
  by (auto simp: digit_char_def of_char_char_of_small simp del: of_char_of
      dest!: arg_cong [where f = "of_char :: char \<Rightarrow> nat"])

lemma TrimPrefix_hex: "TrimPrefix (hex_encode bs) ''0x'' = hex_encode bs"
proof (cases bs)
  case (Cons b bs')
  have "unat b mod 16 < 16" by simp
  then have "digit_char (unat b mod 16) \<noteq> CHR ''x''" by (rule digit_char_not_x)
  with Cons show ?thesis by (simp add: TrimPrefix_def hex_encode_def numeral_2_eq_2)
qed (simp add: TrimPrefix_def hex_encode_def)

lemma TrimPrefix_0x [simp]: "TrimPrefix (''0x'' @ s) ''0x'' = s"
  by (simp add: TrimPrefix_def)

text \<open>
  A signer is only made from exactly one source of its key: with both a path and a key, or with
  neither, there is no signer; and from a key in hexadecimal, with or without \<open>0x\<close>, the signer
  holds the key of exactly the encoded bytes.
\<close>

theorem NewLocalSigner_source:
  assumes "bs \<noteq> []" and "ToECDSA cr bs = Inr k"
  shows "NewLocalSigner cr (Some \<lparr>SigningKeyPath = path, SigningKey = hex_encode bs, Password = pw\<rparr>)
      = (if path = [] then Ret k
         else Fail (Err ''exactly one of SigningKeyPath or SigningKey must be provided'')) \<and>
    NewLocalSigner cr
      (Some \<lparr>SigningKeyPath = path, SigningKey = ''0x'' @ hex_encode bs, Password = pw\<rparr>)
      = NewLocalSigner cr
          (Some \<lparr>SigningKeyPath = path, SigningKey = hex_encode bs, Password = pw\<rparr>) \<and>
    \<not> is_Ret (NewLocalSigner cr (Some \<lparr>SigningKeyPath = [], SigningKey = [], Password = pw\<rparr>))"
proof -
  have "hex_encode bs \<noteq> []" using assms(1) by (cases bs) (simp_all add: hex_encode_def)
  moreover have "TrimPrefix (CHR ''0'' # CHR ''x'' # hex_encode bs) ''0x'' = hex_encode bs"
    using TrimPrefix_0x [of "hex_encode bs"] by simp
  ultimately show ?thesis
    using assms(2) by (simp add: NewLocalSigner_def TrimPrefix_hex hex_decode_encode)
qed

theorem NewLocalSigner_source_witness:
  "NewLocalSigner toy_crypto
     (Some \<lparr>SigningKeyPath = [], SigningKey = hex_encode [171], Password = []\<rparr>) = Ret [171]"
  using NewLocalSigner_source [of "[171]" toy_crypto "[171]" "[]" "[]"]
  by (simp add: toy_crypto_def)

end
