(* ===== verification/Configuration.thy ===== *)
theory Configuration
  imports Prelude
begin

text \<open>
  The configuration file, \<open>pkg/config/config.go\<close>: its structures and its validation. Reading the
  file, expanding the environment and parsing YAML are parameters. The entries of \<open>Chains\<close> are
  pointers; an empty YAML entry is a nil one.
\<close>

text \<open>A \<open>float64\<close>: \<open>Finite m e\<close> is \<open>m * 2 ^ e\<close>.\<close>

datatype float64 = Finite int int | Infinite bool | NaN

definition f64_le_zero :: "float64 \<Rightarrow> bool" where
  "f64_le_zero x = (case x of Finite m _ \<Rightarrow> m \<le> 0 | Infinite negative \<Rightarrow> negative | NaN \<Rightarrow> False)"

record ContractsConfig =
  Registry :: string
  EpochManager :: string
  StateManager :: string

record ChainConfig =
  RPC :: string
  Contracts :: ContractsConfig
  RequiredConfirmations :: u16
  AverageBlockTime :: float64

record P2PConfig =
  p2p_Port :: int
  BootstrapPeers :: "string list"
  Rendezvous :: string

text \<open>The sections that validation reads, and the whole file.\<close>

record Config =
  Chains :: "(u32, ChainConfig option) gomap"
  P2P :: P2PConfig

text \<open>Durations are in nanoseconds.\<close>

record DatabaseConfig =
  db_AppName :: string
  db_Username :: string
  db_Password :: string
  db_Host :: string
  db_Port :: int
  db_DBName :: string
  db_MaxConns :: int
  db_MinConns :: int
  db_MaxConnLifetime :: int
  db_MaxConnIdleTime :: int
  db_IsProxy :: bool
  db_EnablePrometheus :: bool
  db_EnableTracing :: bool
  db_ReplicaPrefixes :: "string list"

record RedisConfig =
  rd_Host :: string
  rd_Port :: int
  rd_Password :: string
  rd_IsFailover :: bool
  rd_IsElasticache :: bool
  rd_IsClusterMode :: bool
  rd_ClusterAddrs :: "string list"
  rd_ClusterMaxRedirects :: int
  rd_ReadTimeout :: int
  rd_PoolSize :: int

record FullConfig = Config +
  Database :: DatabaseConfig
  http_Port :: int
  http_Host :: string
  log_Level :: string
  log_Format :: string
  metric_Port :: int
  Redis :: RedisConfig

fun bootstrapPeers :: "(string \<Rightarrow> error + 'p) \<Rightarrow> string list \<Rightarrow> 'p list \<Rightarrow> 'p list res" where
  "bootstrapPeers AddrInfoFromString [] peers = Ret peers"
| "bootstrapPeers AddrInfoFromString (addr # addrs) peers =
     (if addr = [] then bootstrapPeers AddrInfoFromString addrs peers
      else
        (case AddrInfoFromString addr of
           Inl e \<Rightarrow> Fail (Wrap ''invalid bootstrap peer address'' e)
         | Inr pi \<Rightarrow> bootstrapPeers AddrInfoFromString addrs (peers @ [pi])))"

definition GetBootstrapPeers :: "(string \<Rightarrow> error + 'p) \<Rightarrow> P2PConfig \<Rightarrow> 'p list res" where
  "GetBootstrapPeers AddrInfoFromString c = bootstrapPeers AddrInfoFromString (BootstrapPeers c) []"

definition validateChain :: "u32 \<Rightarrow> ChainConfig option \<Rightarrow> unit res" where
  "validateChain chainID entry =
     (case entry of
        None \<Rightarrow> Panic
      | Some chainCfg \<Rightarrow>
          if chainID = 1 \<and> Registry (Contracts chainCfg) = [] then
            Fail (Err ''registry address is required for mainnet'')
          else if chainID = 1 \<and> EpochManager (Contracts chainCfg) = [] then
            Fail (Err ''epoch manager address is required for mainnet'')
          else if RPC chainCfg = [] then Fail (Err ''rpc url is required for chain'')
          else if StateManager (Contracts chainCfg) = [] then
            Fail (Err ''state manager address is required for chain'')
          else if RequiredConfirmations chainCfg \<le> 0 then
            Fail (Err ''required confirmations must be positive for chain'')
          else if f64_le_zero (AverageBlockTime chainCfg) then
            Fail (Err ''average block time must be positive for chain'')
          else Ret ())"

fun validateChains :: "(u32, ChainConfig option) gomap \<Rightarrow> unit res" where
  "validateChains [] = Ret ()"
| "validateChains ((chainID, entry) # rest) =
     (case validateChain chainID entry of Ret _ \<Rightarrow> validateChains rest | r \<Rightarrow> r)"

definition validate :: "(string \<Rightarrow> error + 'p) \<Rightarrow> ('z) Config_scheme \<Rightarrow> unit res" where
  "validate AddrInfoFromString c =
     (if length (Chains c) = 0 then
        Fail (Err ''at least one chain configuration is required'')
      else
        (case validateChains (Chains c) of
           Fail e \<Rightarrow> Fail e
         | Panic \<Rightarrow> Panic
         | Ret _ \<Rightarrow>
             if p2p_Port (P2P c) < 0 then Fail (Err ''p2p port must be non-negative'')
             else if Rendezvous (P2P c) = [] then
               Fail (Err ''p2p rendezvous string is required'')
             else if 0 < length (BootstrapPeers (P2P c)) then
               (case GetBootstrapPeers AddrInfoFromString (P2P c) of
                  Fail e \<Rightarrow> Fail (Wrap ''invalid bootstrap peers'' e)
                | Panic \<Rightarrow> Panic
                | Ret _ \<Rightarrow> Ret ())
             else Ret ()))"

definition LoadConfig ::
  "(string \<Rightarrow> error + string) \<Rightarrow> (string \<Rightarrow> string) \<Rightarrow> (string \<Rightarrow> error + ('z) Config_scheme) \<Rightarrow>
     (string \<Rightarrow> error + 'p) \<Rightarrow> string \<Rightarrow> ('z) Config_scheme res" where
  "LoadConfig readFile expandEnv unmarshal AddrInfoFromString path =
     (case readFile path of
        Inl e \<Rightarrow> Fail (Wrap ''failed to read config file'' e)
      | Inr data \<Rightarrow>
          (case unmarshal (expandEnv data) of
             Inl e \<Rightarrow> Fail (Wrap ''failed to parse config'' e)
           | Inr cfg \<Rightarrow>
               (case validate AddrInfoFromString cfg of
                  Fail e \<Rightarrow> Fail (Wrap ''invalid configuration'' e)
                | Panic \<Rightarrow> Panic
                | Ret _ \<Rightarrow> Ret cfg)))"

section \<open>Properties\<close>

lemma bootstrapPeers_Ret:
  "bootstrapPeers f addrs peers = Ret ps \<longleftrightarrow>
     (\<exists>qs. ps = peers @ qs \<and> list_all2 (\<lambda>a q. f a = Inr q) (filter (\<lambda>a. a \<noteq> []) addrs) qs)"
proof (induction f addrs peers rule: bootstrapPeers.induct)
  case (2 f addr addrs peers)
  show ?case
  proof (cases "addr = []")
    case False
    then show ?thesis
      by (cases "f addr") (auto simp: 2 list_all2_Cons1)
  qed (simp add: 2)
qed auto

lemma list_all2_member: "list_all2 P xs ys \<Longrightarrow> x \<in> set xs \<Longrightarrow> \<exists>y. P x y"
  by (induction rule: list_all2_induct) auto

text \<open>\<open>GetConfig\<close> reads a variable of the package, which is nil until somebody sets it.\<close>

definition GetConfig :: "('z) Config_scheme option \<Rightarrow> ('z) Config_scheme res" where
  "GetConfig variable = (case variable of None \<Rightarrow> Panic | Some c \<Rightarrow> Ret c)"

lemma validate_Ret:
  "validate f c = Ret () \<longleftrightarrow> Chains c \<noteq> [] \<and> validateChains (Chains c) = Ret () \<and>
     0 \<le> p2p_Port (P2P c) \<and> Rendezvous (P2P c) \<noteq> [] \<and>
     (BootstrapPeers (P2P c) \<noteq> [] \<longrightarrow> (\<exists>ps. GetBootstrapPeers f (P2P c) = Ret ps))"
  by (auto simp: validate_def split: res.split)

lemma validateChains_Ret:
  "validateChains m = Ret () \<longleftrightarrow> (\<forall>(c, e) \<in> set m. validateChain c e = Ret ())"
  by (induction m rule: validateChains.induct) (auto split: res.split)

text \<open>
  What a configuration that loads guarantees, whatever the order in which the chains are
  visited: there is a chain, every chain has an RPC endpoint, a state manager, at least one
  confirmation and a positive (or undefined) block time, and every non-empty bootstrap address
  parses.
\<close>

theorem validate_guarantees:
  assumes "validate f c = Ret ()"
  shows "Chains c \<noteq> [] \<and> 0 \<le> p2p_Port (P2P c) \<and> Rendezvous (P2P c) \<noteq> [] \<and>
    (\<forall>(chainID, e) \<in> set (Chains c). \<exists>cc. e = Some cc \<and> RPC cc \<noteq> [] \<and>
       StateManager (Contracts cc) \<noteq> [] \<and> 0 < RequiredConfirmations cc \<and>
       \<not> f64_le_zero (AverageBlockTime cc) \<and>
       (chainID = 1 \<longrightarrow> Registry (Contracts cc) \<noteq> [] \<and> EpochManager (Contracts cc) \<noteq> [])) \<and>
    (\<forall>a \<in> set (BootstrapPeers (P2P c)). a \<noteq> [] \<longrightarrow> (\<exists>pi. f a = Inr pi))"
proof -
  have chains: "validateChains (Chains c) = Ret ()"
    using assms by (auto simp: validate_def split: if_splits res.splits)
  have "\<exists>cc. e = Some cc \<and> RPC cc \<noteq> [] \<and>
       StateManager (Contracts cc) \<noteq> [] \<and> 0 < RequiredConfirmations cc \<and>
       \<not> f64_le_zero (AverageBlockTime cc) \<and>
       (chainID = 1 \<longrightarrow> Registry (Contracts cc) \<noteq> [] \<and> EpochManager (Contracts cc) \<noteq> [])"
    if "validateChain chainID e = Ret ()" for chainID e
    using that by (auto simp: validateChain_def word_gt_0 split: option.splits if_splits)
  then have "\<forall>(chainID, e) \<in> set (Chains c). \<exists>cc. e = Some cc \<and> RPC cc \<noteq> [] \<and>
       StateManager (Contracts cc) \<noteq> [] \<and> 0 < RequiredConfirmations cc \<and>
       \<not> f64_le_zero (AverageBlockTime cc) \<and>
       (chainID = 1 \<longrightarrow> Registry (Contracts cc) \<noteq> [] \<and> EpochManager (Contracts cc) \<noteq> [])"
    using chains unfolding validateChains_Ret by fast
  moreover have "\<exists>pi. f a = Inr pi" if "a \<in> set (BootstrapPeers (P2P c))" and "a \<noteq> []" for a
  proof -
    from that(1) have "BootstrapPeers (P2P c) \<noteq> []" by auto
    then obtain ps where "bootstrapPeers f (BootstrapPeers (P2P c)) [] = Ret ps"
      using assms
      by (auto simp: validate_def GetBootstrapPeers_def split: if_splits res.splits)
    then obtain qs where
      "list_all2 (\<lambda>a q. f a = Inr q) (filter (\<lambda>a. a \<noteq> []) (BootstrapPeers (P2P c))) qs"
      by (auto simp: bootstrapPeers_Ret)
    moreover from that have "a \<in> set (filter (\<lambda>a. a \<noteq> []) (BootstrapPeers (P2P c)))" by simp
    ultimately show ?thesis by (rule list_all2_member)
  qed
  ultimately show ?thesis
    using assms by (auto simp: validate_def split: if_splits res.splits)
qed

theorem validate_guarantees_witness:
  "\<exists>c :: Config. validate (\<lambda>a. Inr a) c = Ret () \<and> Chains c \<noteq> [] \<and> Rendezvous (P2P c) \<noteq> []"
proof -
  define c where "c = \<lparr>Chains = [(11155111, Some \<lparr>RPC = ''http'', Contracts = \<lparr>Registry = [],
      EpochManager = [], StateManager = ''0x1''\<rparr>, RequiredConfirmations = 2,
      AverageBlockTime = Finite 25 (- 1)\<rparr>)],
    P2P = \<lparr>p2p_Port = 10000, BootstrapPeers = [''/ip4'', []], Rendezvous = ''r''\<rparr>\<rparr>"
  have "validate (\<lambda>a. Inr a) c = Ret ()"
    by (simp add: c_def validate_def validateChain_def GetBootstrapPeers_def f64_le_zero_def)
  with validate_guarantees [OF this] show ?thesis by blast
qed

end
