(* ===== verification/Blocks.thy ===== *)
theory Blocks
  imports Prelude
begin

text \<open>
  Block numbers, epochs and timestamps: the constants of \<open>pkg/operator/constants/common.go\<close>, the
  epoch arithmetic and the conversions between block numbers and timestamps of
  \<open>pkg/common/utils.go\<close>, and \<open>IsOperatorActive\<close> of \<open>pkg/operator/epoch/helpers.go\<close>. All
  block numbers and timestamps are \<open>uint64\<close>, epochs are \<open>uint32\<close>, and arithmetic wraps as in Go.

  A chain client is a parameter: \<open>latest\<close> is the answer of \<open>BlockNumber\<close> and \<open>blockTime\<close> the
  time of the block that \<open>BlockByNumber\<close> answers with; both may fail.
\<close>

definition GenesisBlock :: u64 where
  "GenesisBlock = 7698497"

definition EpochPeriod :: u64 where
  "EpochPeriod = 12"

definition GracePeriod :: u64 where
  "GracePeriod = 3"

section \<open>Epochs\<close>

definition CalculateCurrentEpochNumber :: "u64 \<Rightarrow> u32" where
  "CalculateCurrentEpochNumber blockNumber = ucast ((blockNumber - GenesisBlock) div EpochPeriod)"

definition GetEffectiveEpochByBlockNumber :: "u64 \<Rightarrow> u32" where
  "GetEffectiveEpochByBlockNumber currentBlockNumber =
     (let blocksSinceGenesis = currentBlockNumber - GenesisBlock;
          absoluteEpoch = (ucast (blocksSinceGenesis div EpochPeriod) :: u32);
          epochStartBlock = GenesisBlock + ucast absoluteEpoch * EpochPeriod;
          epochEndBlock = epochStartBlock + EpochPeriod;
          isGracePeriod = (epochEndBlock - GracePeriod \<le> currentBlockNumber)
      in if isGracePeriod then absoluteEpoch + 2 else absoluteEpoch + 1)"

text \<open>The first block of an epoch, as \<open>IsOperatorActive\<close> computes it for both of its epochs.\<close>

definition epochStart :: "u32 \<Rightarrow> u64" where
  "epochStart e = GenesisBlock + ucast e * EpochPeriod"

definition IsOperatorActive :: "u64 \<Rightarrow> u32 \<Rightarrow> u32 \<Rightarrow> bool" where
  "IsOperatorActive currentBlock activeEpoch exitEpoch =
     (let activeEpochStartBlock = epochStart activeEpoch;
          exitEpochStartBlock = epochStart exitEpoch
      in if activeEpoch = exitEpoch then False
         else if exitEpoch = 4294967295 then
           (if activeEpochStartBlock \<le> currentBlock then True else False)
         else if activeEpoch < exitEpoch then
           (if activeEpochStartBlock \<le> currentBlock \<and> currentBlock < exitEpochStartBlock
            then True else False)
         else if currentBlock < exitEpochStartBlock then True
         else if exitEpochStartBlock \<le> currentBlock \<and> currentBlock \<le> activeEpochStartBlock
           then False
         else True)"

section \<open>Timestamps\<close>

definition BlockNumberToTimestamp :: "(u64 \<Rightarrow> error + u64) \<Rightarrow> u64 \<Rightarrow> error + u64" where
  "BlockNumberToTimestamp blockTime blockNumber =
     (case blockTime blockNumber of
        Inr t \<Rightarrow> Inr t
      | Inl e \<Rightarrow> Inl (Wrap ''failed to get block'' e))"

text \<open>
  \<open>float64\<close> arithmetic on positive numbers: \<open>f64_round p q\<close> is the float nearest to \<open>p / q\<close>
  (ties to even), as a mantissa of 53 bits and a binary exponent, and \<open>f64_frac\<close> that float as a
  fraction again. Nothing here is small or large enough for the exponent's range to matter.
\<close>

fun bitlen :: "nat \<Rightarrow> nat" where
  "bitlen n = (if n = 0 then 0 else Suc (bitlen (n div 2)))"

declare bitlen.simps [simp del]

definition f64_exp :: "nat \<Rightarrow> nat \<Rightarrow> int" where
  "f64_exp p q =
     (let k = int (bitlen p) - int (bitlen q) in
      if (if 0 \<le> k then q * 2 ^ nat k \<le> p else q \<le> p * 2 ^ nat (- k)) then k else k - 1)"

definition f64_round :: "nat \<Rightarrow> nat \<Rightarrow> nat \<times> int" where
  "f64_round p q =
     (let s = f64_exp p q - 52;
          P = (if 0 \<le> s then p else p * 2 ^ nat (- s));
          Q = (if 0 \<le> s then q * 2 ^ nat s else q);
          m = P div Q;
          r = P mod Q
      in (if Q < 2 * r \<or> (2 * r = Q \<and> odd m) then m + 1 else m, s))"

definition f64_frac :: "nat \<times> int \<Rightarrow> nat \<times> nat" where
  "f64_frac x = (case x of (m, s) \<Rightarrow> if 0 \<le> s then (m * 2 ^ nat s, 1) else (m, 2 ^ nat (- s)))"

text \<open>The average block time of a chain, as a fraction of seconds.\<close>

definition averageBlockTime :: "u32 \<Rightarrow> nat \<times> nat" where
  "averageBlockTime chainID =
     (if chainID = 1 then (25, 2)
      else if chainID = 137 then (2, 1)
      else if chainID = 56 then (3, 1)
      else (25, 2))"

text \<open>\<open>math.Floor(float64(dt) / averageBlockTime)\<close>.\<close>

definition decreaseBlocks :: "u32 \<Rightarrow> u64 \<Rightarrow> nat" where
  "decreaseBlocks chainID dt =
     (case (f64_frac (f64_round (unat dt) 1), averageBlockTime chainID) of
        ((p, q), (a, b)) \<Rightarrow>
          (case f64_frac (f64_round (p * b) (q * a)) of (n, d) \<Rightarrow> n div d))"

text \<open>
  The first pass. It returns the block number and the time of the block last read; when the estimate
  would go below block 0 the number becomes 0 while the block stays the one last read.
\<close>

function firstPass :: "(u64 \<Rightarrow> error + u64) \<Rightarrow> u32 \<Rightarrow> u64 \<Rightarrow> u64 \<Rightarrow> u64 \<Rightarrow> error + u64 \<times> u64" where
  "firstPass blockTime chainID timestamp blockNumber time =
     (if timestamp < time then
        (let d = decreaseBlocks chainID (time - timestamp) in
         if d < 1 then Inr (blockNumber, time)
         else if unat blockNumber \<le> d then Inr (0, time)
         else
           (let blockNumber' = blockNumber - of_nat d in
            case blockTime blockNumber' of
              Inr time' \<Rightarrow> firstPass blockTime chainID timestamp blockNumber' time'
            | Inl e \<Rightarrow> Inl (Wrap ''failed to get block'' e)))
      else Inr (blockNumber, time))"
  by pat_completeness auto
termination
  by (relation "measure (\<lambda>(_, _, _, b, _). unat b)") (auto simp: unat_minus_of_nat)

text \<open>How a walk ends: it found the closest block, or it stopped at a block.\<close>

datatype walk = Found u64 | Stopped u64 u64

text \<open>
  The walk forward. The next number wraps after the largest \<open>uint64\<close>, so the loop is a partial
  function: \<open>None\<close> would be a loop that does not end.
\<close>

partial_function (option) walkForward ::
  "(u64 \<Rightarrow> error + u64) \<Rightarrow> u64 \<Rightarrow> u64 \<Rightarrow> u64 \<Rightarrow> u64 \<Rightarrow> walk option" where
  "walkForward blockTime current timestamp blockNumber time =
     (if time < timestamp then
        (let nextBlockNumber = blockNumber + 1 in
         if current < nextBlockNumber then Some (Stopped blockNumber time)
         else
           (case blockTime nextBlockNumber of
              Inr nextTime \<Rightarrow>
                if timestamp < nextTime then
                  (if timestamp - time < nextTime - timestamp then Some (Found blockNumber)
                   else Some (Found nextBlockNumber))
                else walkForward blockTime current timestamp nextBlockNumber nextTime
            | Inl _ \<Rightarrow> Some (Stopped blockNumber time)))
      else Some (Stopped blockNumber time))"

function walkBackward :: "(u64 \<Rightarrow> error + u64) \<Rightarrow> u64 \<Rightarrow> u64 \<Rightarrow> u64 \<Rightarrow> u64" where
  "walkBackward blockTime timestamp blockNumber time =
     (if timestamp < time then
        (if blockNumber = 0 then blockNumber
         else
           (let prevBlockNumber = blockNumber - 1 in
            case blockTime prevBlockNumber of
              Inr prevTime \<Rightarrow>
                if prevTime < timestamp then
                  (if timestamp - prevTime < time - timestamp then prevBlockNumber
                   else blockNumber)
                else walkBackward blockTime timestamp prevBlockNumber prevTime
            | Inl _ \<Rightarrow> blockNumber))
      else blockNumber)"
  by pat_completeness auto
termination
  by (relation "measure (\<lambda>(_, _, b, _). unat b)") 
    (auto simp: unat_minus_one_word unat_gt_0)

definition TimestampToBlockNumber ::
  "error + u64 \<Rightarrow> (u64 \<Rightarrow> error + u64) \<Rightarrow> u32 \<Rightarrow> u64 \<Rightarrow> (error + u64) option" where
  "TimestampToBlockNumber latest blockTime chainID timestamp =
     (case latest of
        Inl e \<Rightarrow> Some (Inl (Wrap ''failed to get latest block'' e))
      | Inr currentBlockNumber \<Rightarrow>
          (case blockTime currentBlockNumber of
             Inl e \<Rightarrow> Some (Inl (Wrap ''failed to get current block'' e))
           | Inr currentTime \<Rightarrow>
               (case firstPass blockTime chainID timestamp currentBlockNumber currentTime of
                  Inl e \<Rightarrow> Some (Inl e)
                | Inr (blockNumber, time) \<Rightarrow>
                    (case walkForward blockTime currentBlockNumber timestamp blockNumber time of
                       None \<Rightarrow> None
                     | Some (Found n) \<Rightarrow> Some (Inr n)
                     | Some (Stopped n t) \<Rightarrow>
                         Some (Inr (walkBackward blockTime timestamp n t))))))"

text \<open>A nil \<open>*uint64\<close> is \<open>None\<close>.\<close>

definition ValidateBlockNumberAndTimestamp ::
  "error + u64 \<Rightarrow> (u64 \<Rightarrow> error + u64) \<Rightarrow> u32 \<Rightarrow> u64 option \<Rightarrow> u64 option \<Rightarrow>
     (error + u64 \<times> u64) option" where
  "ValidateBlockNumberAndTimestamp latest blockTime chainID blockNumber timestamp =
     (case (blockNumber, timestamp) of
        (None, None) \<Rightarrow>
          Some (Inl (Err ''exactly one of block_number or timestamp must be provided''))
      | (Some _, Some _) \<Rightarrow>
          Some (Inl (Err ''exactly one of block_number or timestamp must be provided''))
      | (Some b, None) \<Rightarrow>
          (case BlockNumberToTimestamp blockTime b of
             Inl e \<Rightarrow> Some (Inl (Wrap ''failed to convert block number to timestamp'' e))
           | Inr t \<Rightarrow> Some (Inr (b, t)))
      | (None, Some t) \<Rightarrow>
          (case TimestampToBlockNumber latest blockTime chainID t of
             None \<Rightarrow> None
           | Some (Inl e) \<Rightarrow> Some (Inl (Wrap ''failed to convert timestamp to block number'' e))
           | Some (Inr b) \<Rightarrow> Some (Inr (b, t))))"

declare firstPass.simps [simp del] walkBackward.simps [simp del]

section \<open>Epoch arithmetic\<close>

lemma unat_epochStart: "unat (epochStart e) = 7698497 + unat e * 12"
  using unat_u32_less [of e]
  by (simp add: epochStart_def GenesisBlock_def EpochPeriod_def unat_word_ariths
      unsigned_ucast_eq take_bit_eq_mod)

lemma unat_CalculateCurrentEpochNumber:
  assumes "7698497 \<le> unat b" and "(unat b - 7698497) div 12 < 2 ^ 32"
  shows "unat (CalculateCurrentEpochNumber b) = (unat b - 7698497) div 12"
proof -
  have g: "GenesisBlock \<le> b" using assms(1) by (simp add: word_le_nat_alt GenesisBlock_def)
  have "unat (b - GenesisBlock) = unat b - 7698497"
    by (simp add: unat_sub [OF g]) (simp add: GenesisBlock_def)
  with assms show ?thesis
    by (simp add: CalculateCurrentEpochNumber_def EpochPeriod_def unsigned_ucast_eq
        take_bit_eq_mod unat_div)
qed

lemma epochStart_mono: "e \<le> e' \<longleftrightarrow> epochStart e \<le> epochStart e'"
  by (simp add: word_le_nat_alt unat_epochStart)

lemma epochStart_less: "e < e' \<longleftrightarrow> epochStart e < epochStart e'"
  by (simp add: word_less_nat_alt unat_epochStart)

text \<open>The effective epoch, read over the natural numbers.\<close>

lemma div12_grace: "(if 9 \<le> n mod 12 then n div 12 + 2 else n div 12 + 1) = (n + 3) div 12 + (1 :: nat)"
proof -
  have "n + 3 = (n mod 12 + 3) + n div 12 * 12" by simp
  then have "(n + 3) div 12 = n div 12 + (n mod 12 + 3) div 12"
    by (metis div_mult_self1 zero_neq_numeral)
  moreover have "(n mod 12 + 3) div 12 = (if 9 \<le> n mod 12 then 1 else 0)"
    using mod_less_divisor [of 12 n] by (auto intro: div_nat_eqI)
  ultimately show ?thesis by simp
qed

lemma div12_bounds: "n div 12 * 12 \<le> n" "n < n div 12 * 12 + (12 :: nat)"
  using div_mult_mod_eq [of n 12] mod_less_divisor [of 12 n] by linarith+

lemma unat_GetEffectiveEpoch:
  assumes "7698497 \<le> unat b" and "unat b + 24 < 7698497 + 12 * 2 ^ 32"
  shows "unat (GetEffectiveEpochByBlockNumber b) = (unat b - 7698497 + 3) div 12 + 1"
proof -
  define n where "n = unat b - 7698497"
  define a where "a = CalculateCurrentEpochNumber b"
  have a: "unat a = n div 12"
    unfolding a_def n_def using assms by (intro unat_CalculateCurrentEpochNumber) auto
  have "n div 12 + 2 < 4294967296" using assms unfolding n_def by simp
  then have a12: "unat (a + 2) = n div 12 + 2" "unat (a + 1) = n div 12 + 1"
    using a by (simp_all add: unat_word_ariths)
  have "unat (epochStart a + 9) = 7698497 + n div 12 * 12 + 9"
    using a unat_u32_less [of a] by (simp add: unat_word_ariths unat_epochStart)
  moreover have "unat b = 7698497 + (n div 12 * 12 + n mod 12)"
    using assms(1) unfolding n_def by simp
  ultimately have "epochStart a + 9 \<le> b \<longleftrightarrow> 9 \<le> n mod 12"
    unfolding word_le_nat_alt by linarith
  then have "GetEffectiveEpochByBlockNumber b = (if 9 \<le> n mod 12 then a + 2 else a + 1)"
    by (simp add: GetEffectiveEpochByBlockNumber_def Let_def a_def GracePeriod_def
        CalculateCurrentEpochNumber_def epochStart_def EpochPeriod_def algebra_simps)
  with a12 have "unat (GetEffectiveEpochByBlockNumber b) =
      (if 9 \<le> n mod 12 then n div 12 + 2 else n div 12 + 1)"
    by simp
  also have "\<dots> = (unat b - 7698497 + 3) div 12 + 1" by (simp only: div12_grace n_def)
  finally show ?thesis .
qed

text \<open>
  The current epoch is the one whose blocks contain the block number, for every block from
  genesis on whose epoch fits into 32 bits.
\<close>

theorem CalculateCurrentEpochNumber_contains:
  assumes "7698497 \<le> unat b" and "unat b < 7698497 + 12 * 2 ^ 32"
  shows "unat (epochStart (CalculateCurrentEpochNumber b)) \<le> unat b \<and>
         unat b < unat (epochStart (CalculateCurrentEpochNumber b)) + unat EpochPeriod"
proof -
  have "unat (CalculateCurrentEpochNumber b) = (unat b - 7698497) div 12"
    using assms by (intro unat_CalculateCurrentEpochNumber) auto
  then have start: "unat (epochStart (CalculateCurrentEpochNumber b)) =
      7698497 + (unat b - 7698497) div 12 * 12"
    by (simp add: unat_epochStart)
  have period: "unat EpochPeriod = 12" by (simp add: EpochPeriod_def)
  show ?thesis
    unfolding start period using div12_bounds [of "unat b - 7698497"] assms(1) by linarith
qed

theorem CalculateCurrentEpochNumber_contains_witness:
  "CalculateCurrentEpochNumber 7698520 = 1 \<and>
   unat (epochStart 1) \<le> 7698520 \<and> (7698520 :: nat) < unat (epochStart 1) + unat EpochPeriod"
proof -
  have "CalculateCurrentEpochNumber 7698520 = 1"
    by (simp add: CalculateCurrentEpochNumber_def GenesisBlock_def EpochPeriod_def)
  then show ?thesis using CalculateCurrentEpochNumber_contains [of 7698520] by simp
qed

text \<open>
  A registration or an exit at block \<open>b\<close> takes effect at the start of the effective epoch, and
  that start is always more than the grace period and at most the grace period and one epoch away:
  between 4 and 15 blocks after \<open>b\<close>.
\<close>

theorem GetEffectiveEpoch_window:
  assumes "7698497 \<le> unat b" and "unat b + 24 < 7698497 + 12 * 2 ^ 32"
  shows "unat b + unat GracePeriod < unat (epochStart (GetEffectiveEpochByBlockNumber b)) \<and>
         unat (epochStart (GetEffectiveEpochByBlockNumber b))
           \<le> unat b + unat GracePeriod + unat EpochPeriod"
proof -
  have start: "unat (epochStart (GetEffectiveEpochByBlockNumber b)) =
      7698497 + ((unat b - 7698497 + 3) div 12 + 1) * 12"
    using unat_GetEffectiveEpoch [OF assms] by (simp only: unat_epochStart)
  have periods: "unat EpochPeriod = 12" "unat GracePeriod = 3"
    by (simp_all add: EpochPeriod_def GracePeriod_def)
  have "unat b + 3 = 7698497 + (unat b - 7698497 + 3)" using assms(1) by simp
  then show ?thesis
    unfolding start periods using div12_bounds [of "unat b - 7698497 + 3"]
    by (simp only: distrib_right) linarith
qed

theorem GetEffectiveEpoch_window_witness:
  "(7698506 :: nat) + unat GracePeriod
     < unat (epochStart (GetEffectiveEpochByBlockNumber 7698506)) \<and>
   unat (epochStart (GetEffectiveEpochByBlockNumber 7698506))
     \<le> 7698506 + unat GracePeriod + unat EpochPeriod"
  using GetEffectiveEpoch_window [of 7698506] by simp

lemma GetEffectiveEpoch_mono:
  assumes "7698497 \<le> unat r" and "r \<le> d" and "unat d + 24 < 7698497 + 12 * 2 ^ 32"
  shows "GetEffectiveEpochByBlockNumber r \<le> GetEffectiveEpochByBlockNumber d"
proof -
  have rd: "unat r \<le> unat d" using assms(2) by (simp add: word_le_nat_alt)
  have "unat (GetEffectiveEpochByBlockNumber r) = (unat r - 7698497 + 3) div 12 + 1"
    using assms rd by (intro unat_GetEffectiveEpoch) auto
  moreover have "unat (GetEffectiveEpochByBlockNumber d) = (unat d - 7698497 + 3) div 12 + 1"
    using assms rd by (intro unat_GetEffectiveEpoch) auto
  moreover have "(unat r - 7698497 + 3) div 12 \<le> (unat d - 7698497 + 3) div 12"
    using rd by (intro div_le_mono) simp
  ultimately show ?thesis by (simp add: word_le_nat_alt)
qed

lemma IsOperatorActive_window:
  assumes "7698497 \<le> unat r" and "r \<le> d" and "unat d + 24 < 7698497 + 12 * 2 ^ 32"
    and "GetEffectiveEpochByBlockNumber d \<noteq> 4294967295"
  shows "IsOperatorActive b (GetEffectiveEpochByBlockNumber r) (GetEffectiveEpochByBlockNumber d)
    \<longleftrightarrow> epochStart (GetEffectiveEpochByBlockNumber r) \<le> b \<and>
        b < epochStart (GetEffectiveEpochByBlockNumber d)"
  using GetEffectiveEpoch_mono [OF assms(1,2,3)] assms(4)
  by (auto simp: IsOperatorActive_def Let_def)

text \<open>
  The life of an operator. With the epochs computed from its registration block \<open>r\<close> and its
  later deregistration block \<open>d\<close>, the operator is active on exactly the blocks from the start of
  the first epoch up to the start of the second, and on none if the two epochs are the same.
\<close>

theorem IsOperatorActive_lifetime:
  assumes "7698497 \<le> unat r" and "r \<le> d" and "unat d + 24 < 7698497 + 12 * 2 ^ 32"
    and "GetEffectiveEpochByBlockNumber d \<noteq> 4294967295"
  shows "IsOperatorActive b (GetEffectiveEpochByBlockNumber r) (GetEffectiveEpochByBlockNumber d)
    \<longleftrightarrow> epochStart (GetEffectiveEpochByBlockNumber r) \<le> b \<and>
        b < epochStart (GetEffectiveEpochByBlockNumber d)"
  using assms by (rule IsOperatorActive_window)

theorem IsOperatorActive_lifetime_witness:
  "IsOperatorActive 7698540 (GetEffectiveEpochByBlockNumber 7698500)
     (GetEffectiveEpochByBlockNumber 7698600)
    \<longleftrightarrow> epochStart (GetEffectiveEpochByBlockNumber 7698500) \<le> 7698540 \<and>
        7698540 < epochStart (GetEffectiveEpochByBlockNumber 7698600)"
  by (rule IsOperatorActive_lifetime)
     (simp_all add: GetEffectiveEpochByBlockNumber_def GenesisBlock_def EpochPeriod_def
        GracePeriod_def Let_def)

text \<open>
  On the first block of its active epoch an operator that has no exit epoch, or a later one, is
  active, while one whose recorded exit epoch is earlier (deregistered, then registered again) is
  still inactive there: the third case of the code excludes the block that the other two include.
\<close>

theorem IsOperatorActive_first_block:
  "IsOperatorActive (epochStart a) a x \<longleftrightarrow> a < x"
proof -
  have "a \<le> 4294967295"
    using unat_u32_less [of a] by (simp add: word_le_nat_alt)
  then have "a = 4294967295 \<or> a < 4294967295" by (auto simp: le_less)
  moreover have "x \<le> 4294967295"
    using unat_u32_less [of x] by (simp add: word_le_nat_alt)
  ultimately show ?thesis
    using epochStart_less [of a x] epochStart_less [of x a]
    by (auto simp: IsOperatorActive_def Let_def)
qed

section \<open>The search for a block by its timestamp\<close>

text \<open>Distance of two timestamps, and what the closest block of a chain up to \<open>current\<close> is.\<close>

definition udist :: "u64 \<Rightarrow> u64 \<Rightarrow> nat" where
  "udist a b = (if a \<le> b then unat b - unat a else unat a - unat b)"

definition closest :: "(u64 \<Rightarrow> u64) \<Rightarrow> u64 \<Rightarrow> u64 \<Rightarrow> u64 \<Rightarrow> bool" where
  "closest T current ts r \<longleftrightarrow> r \<le> current \<and> (\<forall>j \<le> current. udist (T r) ts \<le> udist (T j) ts)"

text \<open>A chain whose block times increase up to its latest block.\<close>

definition chain_times :: "(u64 \<Rightarrow> u64) \<Rightarrow> u64 \<Rightarrow> bool" where
  "chain_times T current \<longleftrightarrow> (\<forall>i j. i < j \<longrightarrow> j \<le> current \<longrightarrow> T i < T j)"

lemma chain_times_le: "chain_times T c \<Longrightarrow> i \<le> j \<Longrightarrow> j \<le> c \<Longrightarrow> T i \<le> T j"
  unfolding chain_times_def by (cases "i = j") (auto intro: less_imp_le simp: le_less)

lemma udist_between: "a \<le> b \<Longrightarrow> b \<le> t \<Longrightarrow> udist b t \<le> udist a t"
  "t \<le> a \<Longrightarrow> a \<le> b \<Longrightarrow> udist a t \<le> udist b t"
  by (auto simp: udist_def word_le_nat_alt)

lemma closest_exact: "r \<le> c \<Longrightarrow> T r = ts \<Longrightarrow> closest T c ts r"
  by (simp add: closest_def udist_def)

lemma closest_last: "chain_times T c \<Longrightarrow> T c \<le> ts \<Longrightarrow> closest T c ts c"
  by (simp add: closest_def udist_between(1) chain_times_le)

lemma closest_first: "chain_times T c \<Longrightarrow> ts \<le> T 0 \<Longrightarrow> closest T c ts 0"
  by (simp add: closest_def udist_between(2) chain_times_le)

lemma closest_between:
  assumes "chain_times T c" and "r < c" and "T r \<le> ts" and "ts \<le> T (r + 1)"
  shows "closest T c ts (if ts - T r < T (r + 1) - ts then r else r + 1)"
proof -
  have r1: "r + 1 \<le> c" using assms(2) by (rule inc_le)
  have near: "udist (T r) ts \<le> udist (T j) ts \<or> udist (T (r + 1)) ts \<le> udist (T j) ts"
    if "j \<le> c" for j
  proof (cases "j \<le> r")
    case True
    then have "T j \<le> T r" using assms(1,2) by (auto intro: chain_times_le)
    then show ?thesis using assms(3) udist_between by blast
  next
    case False
    then have "r + 1 \<le> j" by (auto intro: inc_le)
    then have "T (r + 1) \<le> T j" by (rule chain_times_le [OF assms(1) _ that])
    then show ?thesis using assms(4) udist_between by blast
  qed
  have "ts - T r < T (r + 1) - ts \<longleftrightarrow> udist (T r) ts < udist (T (r + 1)) ts"
    using assms(3,4) by (auto simp: udist_def word_less_nat_alt unat_sub word_le_nat_alt)
  then show ?thesis
    using near r1 assms(2) by (auto simp: closest_def intro: order_trans less_imp_le) fastforce+
qed

text \<open>The walk forward ends, whatever the client answers, unless the chain is full.\<close>

lemma walkForward_returns:
  assumes "current \<noteq> - 1" and "blockNumber \<le> current"
  shows "\<exists>w. walkForward bt current ts blockNumber time = Some w \<and>
    (case w of Found n \<Rightarrow> n \<le> current | Stopped n t \<Rightarrow> n \<le> current)"
  using assms(2)
proof (induction "unat current - unat blockNumber" arbitrary: blockNumber time
    rule: less_induct)
  case less
  have step: "\<exists>w. walkForward bt current ts (blockNumber + 1) t = Some w \<and>
      (case w of Found n \<Rightarrow> n \<le> current | Stopped n t \<Rightarrow> n \<le> current)"
    if "\<not> current < blockNumber + 1" for t
  proof (rule less.hyps)
    have "blockNumber \<noteq> - 1" using assms(1) less.prems
      by (metis word_order.extremum_uniqueI word_n1_ge)
    then have "unat (blockNumber + 1) = Suc (unat blockNumber)" by (rule unat_plus_one_word)
    with that show "unat current - unat (blockNumber + 1) < unat current - unat blockNumber"
      by (simp add: word_less_nat_alt)
    show "blockNumber + 1 \<le> current" using that by simp
  qed
  show ?case
    using less.prems step
    by (subst walkForward.simps) (auto simp: Let_def split: sum.split)
qed

lemma firstPass_le: "firstPass bt cid ts b t = Inr (n, t') \<Longrightarrow> n \<le> b"
proof (induction bt cid ts b t rule: firstPass.induct)
  case (1 bt cid ts b t)
  define d where "d = decreaseBlocks cid (t - ts)"
  show ?case
  proof (cases "ts < t \<and> 1 \<le> d \<and> d < unat b")
    case True
    then obtain t1 where t1: "bt (b - of_nat d) = Inr t1"
      and rec: "firstPass bt cid ts (b - of_nat d) t1 = Inr (n, t')"
      using "1.prems"
      by (auto simp: firstPass.simps [of bt cid ts b t] Let_def d_def split: sum.splits)
    have "n \<le> b - of_nat d"
      using True rec t1 by (intro "1.IH" [OF _ d_def]) (auto simp: d_def)
    also have "b - of_nat d \<le> b"
      using True by (simp add: word_le_nat_alt unat_minus_of_nat)
    finally show ?thesis .
  next
    case False
    with "1.prems" show ?thesis
      by (auto simp: firstPass.simps [of bt cid ts b t] Let_def d_def split: if_splits)
  qed
qed

text \<open>
  The first pass returns a block together with its own time, but for the case in which its estimate
  passes block 0.
\<close>

lemma firstPass_time:
  assumes "\<forall>j \<le> current. bt j = Inr (T j)" and "b \<le> current"
  shows "\<exists>n t. firstPass bt cid ts b (T b) = Inr (n, t) \<and> (t = T n \<or> n = 0 \<and> ts < t)"
  using assms(2)
proof (induction "unat b" arbitrary: b rule: less_induct)
  case less
  define d where "d = decreaseBlocks cid (T b - ts)"
  show ?case
  proof (cases "ts < T b \<and> 1 \<le> d \<and> d < unat b")
    case True
    define b' where "b' = b - of_nat d"
    have b': "unat b' = unat b - d" using True by (simp add: b'_def unat_minus_of_nat)
    then have "b' \<le> current" and "unat b' < unat b"
      using True less.prems by (auto simp: word_le_nat_alt)
    moreover from this have "firstPass bt cid ts b (T b) = firstPass bt cid ts b' (T b')"
      using True assms(1)
      by (simp add: firstPass.simps [of bt cid ts b] Let_def d_def b'_def)
    ultimately show ?thesis using less.hyps by simp
  next
    case False
    then show ?thesis
      by (auto simp: firstPass.simps [of bt cid ts b] Let_def d_def)
  qed
qed

lemma walkForward_closest:
  assumes "chain_times T current" and "\<forall>j \<le> current. bt j = Inr (T j)" and "current \<noteq> - 1"
    and "b \<le> current" and "T b < ts"
  shows "\<exists>w. walkForward bt current ts b (T b) = Some w \<and>
    (case w of
       Found n \<Rightarrow> closest T current ts n
     | Stopped n t \<Rightarrow> closest T current ts n \<and> t = T n \<and> t \<le> ts)"
  using assms(4,5)
proof (induction "unat current - unat b" arbitrary: b rule: less_induct)
  case less
  show ?case
  proof (cases "b = current")
    case True
    have "current < current + 1" using assms(3)
      by (simp add: word_less_nat_alt unat_plus_one_word)
    with True less.prems assms(1) show ?thesis
      by (subst walkForward.simps) (auto simp: Let_def intro: closest_last)
  next
    case False
    with less.prems have b: "b < current" by simp
    from inc_le [OF b] have b1: "b + 1 \<le> current" "\<not> current < b + 1"
      by (simp_all add: not_less)
    have "b \<noteq> - 1" using b by auto
    then have "unat current - unat (b + 1) < unat current - unat b"
      using b by (simp add: unat_plus_one_word word_less_nat_alt)
    note IH = less.hyps [OF this b1(1)]
    have "walkForward bt current ts (b + 1) (T (b + 1)) = Some (Stopped (b + 1) (T (b + 1)))"
      if "\<not> T (b + 1) < ts"
      using that by (subst walkForward.simps) simp
    moreover have "closest T current ts (if ts - T b < T (b + 1) - ts then b else b + 1)"
      if "ts < T (b + 1)"
      using closest_between [OF assms(1) b] less.prems that by simp
    moreover have "closest T current ts (b + 1)" if "T (b + 1) = ts"
      using b1 that by (auto intro: closest_exact)
    moreover have "walkForward bt current ts b (T b) =
        (if ts < T (b + 1)
         then Some (Found (if ts - T b < T (b + 1) - ts then b else b + 1))
         else walkForward bt current ts (b + 1) (T (b + 1)))"
      using less.prems b1 assms(2) by (subst walkForward.simps) (simp add: Let_def)
    ultimately show ?thesis
      using IH by (cases "T (b + 1)" ts rule: linorder_cases) (simp_all only: if_True, simp_all)
  qed
qed

lemma walkBackward_closest:
  assumes "chain_times T current" and "\<forall>j \<le> current. bt j = Inr (T j)"
    and "b \<le> current" and "ts \<le> T b"
  shows "closest T current ts (walkBackward bt ts b (T b))"
  using assms(3,4)
proof (induction "unat b" arbitrary: b rule: less_induct)
  case less
  consider "T b = ts" | "ts < T b" "b = 0" | "ts < T b" "b \<noteq> 0"
    using less.prems by fastforce
  then show ?case
  proof cases
    case 1
    with less.prems show ?thesis by (subst walkBackward.simps) (simp add: closest_exact)
  next
    case 2
    with assms(1) show ?thesis by (subst walkBackward.simps) (simp add: closest_first)
  next
    case 3
    define p where "p = b - 1"
    have p: "p + 1 = b" and pb: "unat p < unat b"
      using 3 by (auto simp: p_def unat_minus_one_word unat_gt_0)
    then have pc: "p < current" "p \<le> current"
      using less.prems by (auto simp: word_less_nat_alt word_le_nat_alt)
    have "closest T current ts (if ts - T p < T b - ts then p else b)" if "T p < ts"
      using closest_between [OF assms(1) pc(1), of ts] 3 that unfolding p by (simp add: less_imp_le)
    moreover have "closest T current ts (walkBackward bt ts p (T p))" if "ts \<le> T p"
      using less.hyps [OF pb pc(2) that] .
    ultimately show ?thesis
      using 3 assms(2) pc(2)
      by (subst walkBackward.simps) (auto simp: Let_def p_def [symmetric] split: if_splits)
  qed
qed

text \<open>
  C31. The search for the block of a timestamp returns, and returns the block closest to the
  timestamp among all blocks of the chain, for every chain client that answers and whose block times
  increase, unless it returns block 0.
\<close>

theorem TimestampToBlockNumber_closest:
  assumes "chain_times T current" and "\<forall>j \<le> current. bt j = Inr (T j)" and "current \<noteq> - 1"
  shows "\<exists>n. TimestampToBlockNumber (Inr current) bt cid ts = Some (Inr n) \<and>
    n \<le> current \<and> (n \<noteq> 0 \<longrightarrow> closest T current ts n)"
proof -
  obtain b t where fp: "firstPass bt cid ts current (T current) = Inr (b, t)"
    and bt: "t = T b \<or> b = 0 \<and> ts < t"
    using firstPass_time [OF assms(2) order_refl, of cid ts] by auto
  have b: "b \<le> current" using fp by (rule firstPass_le)
  have run: "TimestampToBlockNumber (Inr current) bt cid ts =
      (case walkForward bt current ts b t of
         None \<Rightarrow> None
       | Some (Found n) \<Rightarrow> Some (Inr n)
       | Some (Stopped n t) \<Rightarrow> Some (Inr (walkBackward bt ts n t)))"
    using fp assms(2) by (simp add: TimestampToBlockNumber_def)
  show ?thesis
  proof (cases "T b < ts \<and> t = T b")
    case True
    then obtain w where w: "walkForward bt current ts b t = Some w"
      and cl: "case w of Found n \<Rightarrow> closest T current ts n
        | Stopped n t \<Rightarrow> closest T current ts n \<and> t = T n \<and> t \<le> ts"
      using walkForward_closest [OF assms b] by auto
    from cl show ?thesis
      by (cases w)
        (auto simp: run w walkBackward.simps [of bt ts] closest_def)
  next
    case False
    with bt have "\<not> t < ts" by auto
    then have fw: "walkForward bt current ts b t = Some (Stopped b t)"
      by (subst walkForward.simps) simp
    show ?thesis
    proof (cases "t = T b")
      case True
      with False have "closest T current ts (walkBackward bt ts b t)"
        using walkBackward_closest [OF assms(1,2) b] by auto
      then show ?thesis by (simp add: run fw closest_def)
    next
      case False
      with bt have "walkBackward bt ts b t = 0" by (subst walkBackward.simps) simp
      then show ?thesis by (simp add: run fw)
    qed
  qed
qed

theorem TimestampToBlockNumber_closest_witness:
  "\<exists>n. TimestampToBlockNumber (Inr 100) (\<lambda>j. Inr j) 1 40 = Some (Inr n) \<and>
    n \<le> 100 \<and> (n \<noteq> 0 \<longrightarrow> closest (\<lambda>j. j) 100 40 n)"
  by (rule TimestampToBlockNumber_closest) (simp_all add: chain_times_def)

text \<open>
  The exception of the previous theorem is real. When the estimate of the first pass reaches
  block 0 the search answers 0 without looking at the blocks in between: on a chain of 20 blocks,
  one a minute, the timestamp of block 15 is converted to block 0.
\<close>

theorem TimestampToBlockNumber_clamps:
  "chain_times (\<lambda>j. 60 * j) 20 \<and> closest (\<lambda>j. 60 * j) 20 900 15 \<and>
   TimestampToBlockNumber (Inr 20) (\<lambda>j. Inr (60 * j)) 1 900 = Some (Inr 0) \<and>
   \<not> closest (\<lambda>j. 60 * j) 20 900 0"
proof -
  have "unat (60 * j) = 60 * unat j" if "j \<le> 20" for j :: u64
    using that by (simp add: word_le_nat_alt unat_word_ariths)
  then have ct: "chain_times (\<lambda>j. 60 * j) 20"
    by (auto simp: chain_times_def word_less_nat_alt word_le_nat_alt)
  have "f64_round 300 1 = (5277655813324800, - 44)"
    by (simp add: f64_round_def f64_exp_def bitlen.simps Let_def)
  moreover have "f64_round 10555311626649600 439804651110400 = (6755399441055744, - 48)"
    by (simp add: f64_round_def f64_exp_def bitlen.simps Let_def)
  ultimately have d: "decreaseBlocks 1 300 = 24"
    by (simp add: decreaseBlocks_def f64_frac_def averageBlockTime_def)
  have fp: "firstPass (\<lambda>j. Inr (60 * j)) 1 900 20 1200 = Inr (0, 1200)"
    by (subst firstPass.simps) (simp add: d)
  have fw: "walkForward (\<lambda>j. Inr (60 * j)) 20 900 0 1200 = Some (Stopped 0 1200)"
    by (subst walkForward.simps) simp
  have bw: "walkBackward (\<lambda>j. Inr (60 * j)) 900 0 1200 = 0"
    by (subst walkBackward.simps) simp
  have "TimestampToBlockNumber (Inr 20) (\<lambda>j. Inr (60 * j)) 1 900 = Some (Inr 0)"
    by (simp add: TimestampToBlockNumber_def fp fw bw)
  moreover have "closest (\<lambda>j. 60 * j) 20 900 15" by (rule closest_exact) simp_all
  moreover have "\<not> closest (\<lambda>j. 60 * j) 20 900 0"
    by (auto simp: closest_def udist_def word_le_nat_alt intro!: exI [of _ 15])
  ultimately show ?thesis using ct by simp
qed

end
