(* ===== verification/Eth.thy ===== *)
theory Eth
  imports Tables Signing Configuration Blocks
begin

text \<open>
  The chain clients, \<open>pkg/common/contracts/ethereum\<close>: the client of one chain, the manager that
  holds a client per chain, and the polling of registration events. The node behind a client and the
  generated contract bindings are the parameter \<open>rpc\<close>: each call names the chain and is answered
  by the number of the call, so the answers of two calls are independent and any call may fail. Only
  the client of the main chain has the epoch manager and the registry; calling through the nil
  binding of another client is a \<open>Panic\<close>.
\<close>

definition MainnetChainID :: u32 where
  "MainnetChainID = 11155111"

record OperatorRegisteredEvent =
  reg_Operator :: address
  reg_BlockNumber :: int
  reg_SigningKey :: address
  reg_P2PKey :: address
  reg_AVS :: address

record OperatorDeregisteredEvent =
  dereg_Operator :: address
  dereg_BlockNumber :: int
  dereg_AVS :: address

record rpc =
  rpcDial :: "string \<Rightarrow> error option"
  rpcBindStateManager :: "address \<Rightarrow> error option"
  rpcBindEpochManager :: "address \<Rightarrow> error option"
  rpcBindRegistry :: "address \<Rightarrow> error option"
  rpcBlockNumber :: "nat \<Rightarrow> u32 \<Rightarrow> error + u64"
  rpcBlockTime :: "nat \<Rightarrow> u32 \<Rightarrow> u64 \<Rightarrow> error + u64"
  rpcGetCurrentValue :: "nat \<Rightarrow> u32 \<Rightarrow> address \<Rightarrow> int option \<Rightarrow> error + int"
  rpcGetHistoryAtBlock :: "nat \<Rightarrow> u32 \<Rightarrow> address \<Rightarrow> int option \<Rightarrow> int \<Rightarrow> error + int"
  rpcGetHistoryAfterTimestamp :: "nat \<Rightarrow> u32 \<Rightarrow> address \<Rightarrow> int option \<Rightarrow> int \<Rightarrow> error + int list"
  rpcGetCurrentEpoch :: "nat \<Rightarrow> u32 \<Rightarrow> error + u32"
  rpcGetEffectiveEpochForBlock :: "nat \<Rightarrow> u32 \<Rightarrow> u64 \<Rightarrow> error + u32"
  rpcGetOperatorWeightAtEpoch :: "nat \<Rightarrow> u32 \<Rightarrow> address \<Rightarrow> u32 \<Rightarrow> error + int"
  rpcGetTotalWeightAtEpoch :: "nat \<Rightarrow> u32 \<Rightarrow> u32 \<Rightarrow> error + int"
  rpcMinimumWeight :: "nat \<Rightarrow> u32 \<Rightarrow> error + int"
  rpcGetThresholdWeightAtEpoch :: "nat \<Rightarrow> u32 \<Rightarrow> u32 \<Rightarrow> error + int"
  rpcOperatorRegistered :: "nat \<Rightarrow> u32 \<Rightarrow> address \<Rightarrow> error + bool"
  rpcGetOperatorSigningKeyAtEpoch :: "nat \<Rightarrow> u32 \<Rightarrow> address \<Rightarrow> u32 \<Rightarrow> error + address"
  rpcGetOperatorP2pKeyAtEpoch :: "nat \<Rightarrow> u32 \<Rightarrow> address \<Rightarrow> u32 \<Rightarrow> error + address"
  rpcFilterRegistered :: "nat \<Rightarrow> u32 \<Rightarrow> u64 \<Rightarrow> error + OperatorRegisteredEvent list"
  rpcFilterDeregistered :: "nat \<Rightarrow> u32 \<Rightarrow> u64 \<Rightarrow> error + OperatorDeregisteredEvent list"

section \<open>The client of one chain\<close>

record chainClient =
  cl_chain :: u32
  cl_epochManager :: bool
  cl_registry :: bool

record client_Config =
  cfg_ChainID :: u32
  cfg_EpochManagerAddress :: address
  cfg_RegistryAddress :: address
  cfg_StateManagerAddress :: address
  cfg_RPCEndpoint :: string

definition NewChainClient :: "rpc \<Rightarrow> client_Config \<Rightarrow> chainClient res" where
  "NewChainClient r cfg =
     (case rpcDial r (cfg_RPCEndpoint cfg) of
        Some e \<Rightarrow> Fail (Wrap ''[ChainClient] failed to connect to Ethereum node'' e)
      | None \<Rightarrow>
          (case rpcBindStateManager r (cfg_StateManagerAddress cfg) of
             Some e \<Rightarrow> Fail (Wrap ''[ChainClient] failed to create state manager binding'' e)
           | None \<Rightarrow>
               if cfg_ChainID cfg = MainnetChainID then
                 (case rpcBindEpochManager r (cfg_EpochManagerAddress cfg) of
                    Some e \<Rightarrow> Fail (Wrap ''[ChainClient] failed to create epoch manager binding'' e)
                  | None \<Rightarrow>
                      (case rpcBindRegistry r (cfg_RegistryAddress cfg) of
                         Some e \<Rightarrow> Fail (Wrap ''[ChainClient] failed to create registry binding'' e)
                       | None \<Rightarrow> Ret \<lparr>cl_chain = cfg_ChainID cfg, cl_epochManager = True,
                                        cl_registry = True\<rparr>))
               else Ret \<lparr>cl_chain = cfg_ChainID cfg, cl_epochManager = False,
                          cl_registry = False\<rparr>))"

text \<open>One call to the node: it is answered by its number.\<close>

definition rpc_call ::
  "(nat \<Rightarrow> error + 'a) \<Rightarrow> ('z) DB_scheme \<Rightarrow> 'a res \<times> ('z) DB_scheme" where
  "rpc_call f w = (of_sum (f (calls w)), tick w)"

definition BlockNumber ::
  "rpc \<Rightarrow> chainClient \<Rightarrow> ('z) DB_scheme \<Rightarrow> u64 res \<times> ('z) DB_scheme" where
  "BlockNumber r c = rpc_call (\<lambda>n. rpcBlockNumber r n (cl_chain c))"

definition GetLatestState ::
  "rpc \<Rightarrow> chainClient \<Rightarrow> address \<Rightarrow> int option \<Rightarrow> ('z) DB_scheme \<Rightarrow> int res \<times> ('z) DB_scheme" where
  "GetLatestState r c target key w =
     call ''[ChainClient] failed to get latest state''
       (rpc_call (\<lambda>n. rpcGetCurrentValue r n (cl_chain c) target key) w) (\<lambda>v w. (Ret v, w))"

definition GetStateAtBlock ::
  "rpc \<Rightarrow> chainClient \<Rightarrow> address \<Rightarrow> int option \<Rightarrow> u64 \<Rightarrow> ('z) DB_scheme \<Rightarrow>
     int res \<times> ('z) DB_scheme" where
  "GetStateAtBlock r c target key blockNumber w =
     call ''[ChainClient] failed to get state at block''
       (rpc_call (\<lambda>n. rpcGetHistoryAtBlock r n (cl_chain c) target key (sint blockNumber)) w)
       (\<lambda>v w. (Ret v, w))"

definition GetStateAtTimestamp ::
  "rpc \<Rightarrow> chainClient \<Rightarrow> address \<Rightarrow> int option \<Rightarrow> u64 \<Rightarrow> ('z) DB_scheme \<Rightarrow>
     int res \<times> ('z) DB_scheme" where
  "GetStateAtTimestamp r c target key timestamp w =
     call ''[ChainClient] failed to get state at timestamp''
       (rpc_call (\<lambda>n. rpcGetHistoryAfterTimestamp r n (cl_chain c) target key (sint timestamp)) w)
       (\<lambda>history w.
          case history of
            [] \<Rightarrow> (Fail (Err ''[ChainClient] no state found after timestamp''), w)
          | v # _ \<Rightarrow> (Ret v, w))"

text \<open>Calls through the epoch manager and the registry, which may be nil.\<close>

definition GetCurrentEpoch ::
  "rpc \<Rightarrow> chainClient \<Rightarrow> ('z) DB_scheme \<Rightarrow> u32 res \<times> ('z) DB_scheme" where
  "GetCurrentEpoch r c w =
     (if \<not> cl_epochManager c then (Panic, w)
      else call ''[ChainClient] failed to get current epoch''
        (rpc_call (\<lambda>n. rpcGetCurrentEpoch r n (cl_chain c)) w) (\<lambda>e w. (Ret e, w)))"

definition GetEffectiveEpochForBlock ::
  "rpc \<Rightarrow> chainClient \<Rightarrow> u64 \<Rightarrow> ('z) DB_scheme \<Rightarrow> u32 res \<times> ('z) DB_scheme" where
  "GetEffectiveEpochForBlock r c blockNumber w =
     (if \<not> cl_epochManager c then (Panic, w)
      else call ''[ChainClient] failed to get effective epoch for block''
        (rpc_call (\<lambda>n. rpcGetEffectiveEpochForBlock r n (cl_chain c) blockNumber) w)
        (\<lambda>e w. (Ret e, w)))"

definition registry_call ::
  "string \<Rightarrow> chainClient \<Rightarrow> (nat \<Rightarrow> error + 'a) \<Rightarrow> ('z) DB_scheme \<Rightarrow> 'a res \<times> ('z) DB_scheme" where
  "registry_call msg c f w =
     (if \<not> cl_registry c then (Panic, w) else call msg (rpc_call f w) (\<lambda>v w. (Ret v, w)))"

definition GetOperatorWeight ::
  "rpc \<Rightarrow> chainClient \<Rightarrow> address \<Rightarrow> ('z) DB_scheme \<Rightarrow> int res \<times> ('z) DB_scheme" where
  "GetOperatorWeight r c operator w =
     call' (GetCurrentEpoch r c w)
       (\<lambda>epoch. registry_call ''[ChainClient] failed to get operator weight'' c
          (\<lambda>n. rpcGetOperatorWeightAtEpoch r n (cl_chain c) operator epoch))"

definition GetTotalWeight ::
  "rpc \<Rightarrow> chainClient \<Rightarrow> ('z) DB_scheme \<Rightarrow> int res \<times> ('z) DB_scheme" where
  "GetTotalWeight r c w =
     call' (GetCurrentEpoch r c w)
       (\<lambda>epoch. registry_call ''[ChainClient] failed to get total weight'' c
          (\<lambda>n. rpcGetTotalWeightAtEpoch r n (cl_chain c) epoch))"

definition GetMinimumWeight ::
  "rpc \<Rightarrow> chainClient \<Rightarrow> ('z) DB_scheme \<Rightarrow> int res \<times> ('z) DB_scheme" where
  "GetMinimumWeight r c =
     registry_call ''[ChainClient] failed to get minimum stake'' c
       (\<lambda>n. rpcMinimumWeight r n (cl_chain c))"

definition GetThresholdWeight ::
  "rpc \<Rightarrow> chainClient \<Rightarrow> ('z) DB_scheme \<Rightarrow> int res \<times> ('z) DB_scheme" where
  "GetThresholdWeight r c w =
     call' (GetCurrentEpoch r c w)
       (\<lambda>epoch. registry_call ''[ChainClient] failed to get threshold weight'' c
          (\<lambda>n. rpcGetThresholdWeightAtEpoch r n (cl_chain c) epoch))"

definition IsOperatorRegistered ::
  "rpc \<Rightarrow> chainClient \<Rightarrow> address \<Rightarrow> ('z) DB_scheme \<Rightarrow> bool res \<times> ('z) DB_scheme" where
  "IsOperatorRegistered r c operator =
     registry_call ''[ChainClient] failed to check if operator is registered'' c
       (\<lambda>n. rpcOperatorRegistered r n (cl_chain c) operator)"

definition GetOperatorSigningKey ::
  "rpc \<Rightarrow> chainClient \<Rightarrow> address \<Rightarrow> u32 \<Rightarrow> ('z) DB_scheme \<Rightarrow> address res \<times> ('z) DB_scheme" where
  "GetOperatorSigningKey r c operator epoch =
     registry_call ''[ChainClient] failed to get operator signing key at epoch'' c
       (\<lambda>n. rpcGetOperatorSigningKeyAtEpoch r n (cl_chain c) operator epoch)"

definition GetOperatorP2PKey ::
  "rpc \<Rightarrow> chainClient \<Rightarrow> address \<Rightarrow> u32 \<Rightarrow> ('z) DB_scheme \<Rightarrow> address res \<times> ('z) DB_scheme" where
  "GetOperatorP2PKey r c operator epoch =
     registry_call ''[ChainClient] failed to get operator P2P key at epoch'' c
       (\<lambda>n. rpcGetOperatorP2pKeyAtEpoch r n (cl_chain c) operator epoch)"

section \<open>Polling of events\<close>

text \<open>
  Where a watch starts, and one tick of its loop: the events from the block after the last one are
  sent to the sink in order, and the last block moves to the highest block of an event.
\<close>

definition watchStart :: "u64 \<Rightarrow> u64" where
  "watchStart start = (if 0 < start then start - 1 else 0)"

definition advance :: "('e \<Rightarrow> int) \<Rightarrow> u64 \<Rightarrow> 'e list \<Rightarrow> u64" where
  "advance block lastBlock events =
     foldl (\<lambda>l e. if l < word_of_int (block e) then word_of_int (block e) else l)
       lastBlock events"

definition pollEvents ::
  "('e \<Rightarrow> int) \<Rightarrow> (u64 \<Rightarrow> error + 'e list) \<Rightarrow> u64 \<Rightarrow> 'e list \<times> u64" where
  "pollEvents block filterLogs lastBlock =
     (case filterLogs (lastBlock + 1) of
        Inl _ \<Rightarrow> ([], lastBlock)
      | Inr events \<Rightarrow> (events, advance block lastBlock events))"

text \<open>The two watches, after any number of ticks; the answers to the ticks are given in order.\<close>

fun watch ::
  "('e \<Rightarrow> int) \<Rightarrow> (u64 \<Rightarrow> error + 'e list) list \<Rightarrow> u64 \<Rightarrow> 'e list \<times> u64" where
  "watch block [] lastBlock = ([], lastBlock)"
| "watch block (f # fs) lastBlock =
     (case pollEvents block f lastBlock of
        (es, next) \<Rightarrow> (case watch block fs next of (es', next') \<Rightarrow> (es @ es', next')))"

definition WatchOperatorRegistered ::
  "rpc \<Rightarrow> chainClient \<Rightarrow> u64 \<Rightarrow> nat list \<Rightarrow> OperatorRegisteredEvent list" where
  "WatchOperatorRegistered r c start ticks =
     fst (watch reg_BlockNumber (map (\<lambda>n. rpcFilterRegistered r n (cl_chain c)) ticks)
       (watchStart start))"

definition WatchOperatorDeregistered ::
  "rpc \<Rightarrow> chainClient \<Rightarrow> u64 \<Rightarrow> nat list \<Rightarrow> OperatorDeregisteredEvent list" where
  "WatchOperatorDeregistered r c start ticks =
     fst (watch dereg_BlockNumber (map (\<lambda>n. rpcFilterDeregistered r n (cl_chain c)) ticks)
       (watchStart start))"

section \<open>The manager\<close>

type_synonym chainManager = "(u32, chainClient) gomap"

definition managerConfig :: "crypto \<Rightarrow> u32 \<Rightarrow> ChainConfig \<Rightarrow> client_Config" where
  "managerConfig cr chainID chainCfg =
     \<lparr>cfg_ChainID = chainID,
      cfg_EpochManagerAddress = HexToAddress cr (EpochManager (Contracts chainCfg)),
      cfg_RegistryAddress = HexToAddress cr (Registry (Contracts chainCfg)),
      cfg_StateManagerAddress = HexToAddress cr (StateManager (Contracts chainCfg)),
      cfg_RPCEndpoint = RPC chainCfg\<rparr>"

fun addChains ::
  "rpc \<Rightarrow> crypto \<Rightarrow> (u32, ChainConfig option) gomap \<Rightarrow> chainManager \<Rightarrow> chainManager res" where
  "addChains r cr [] m = Ret m"
| "addChains r cr ((chainID, entry) # rest) m =
     (case entry of
        None \<Rightarrow> Panic
      | Some chainCfg \<Rightarrow>
          (case NewChainClient r (managerConfig cr chainID chainCfg) of
             Ret chain \<Rightarrow> addChains r cr rest (AList.update chainID chain m)
           | Fail e \<Rightarrow> Fail (Wrap ''failed to initialize chain'' e)
           | Panic \<Rightarrow> Panic))"

definition NewManager :: "rpc \<Rightarrow> crypto \<Rightarrow> ('z) Config_scheme \<Rightarrow> chainManager res" where
  "NewManager r cr cfg = addChains r cr (Chains cfg) []"

definition GetClientByChainId :: "chainManager \<Rightarrow> u32 \<Rightarrow> chainClient res" where
  "GetClientByChainId m chainID =
     (case map_of m chainID of
        None \<Rightarrow> Fail (Err ''chain not found'')
      | Some chain \<Rightarrow> Ret chain)"

definition GetMainnetClient :: "chainManager \<Rightarrow> chainClient res" where
  "GetMainnetClient m = GetClientByChainId m MainnetChainID"

definition AddChain :: "rpc \<Rightarrow> client_Config \<Rightarrow> chainManager \<Rightarrow> unit res \<times> chainManager" where
  "AddChain r config m =
     (case map_of m (cfg_ChainID config) of
        Some _ \<Rightarrow> (Fail (Err ''chain already exists''), m)
      | None \<Rightarrow>
          (case NewChainClient r config of
             Ret chain \<Rightarrow> (Ret (), AList.update (cfg_ChainID config) chain m)
           | Fail e \<Rightarrow> (Fail (Wrap ''failed to create chain'' e), m)
           | Panic \<Rightarrow> (Panic, m)))"

text \<open>Closing a client never fails.\<close>

definition RemoveChain :: "u32 \<Rightarrow> chainManager \<Rightarrow> unit res \<times> chainManager" where
  "RemoveChain chainID m =
     (case map_of m chainID of
        None \<Rightarrow> (Fail (Err ''chain not found''), m)
      | Some _ \<Rightarrow> (Ret (), AList.delete chainID m))"

definition ListChains :: "chainManager \<Rightarrow> u32 list" where
  "ListChains m = gokeys m"

section \<open>Calls\<close>

lemma rpc_call_state [simp]: "snd (rpc_call f w) = tick w"
  by (simp add: rpc_call_def)

lemma call_Ret_state [simp]: "snd (call msg r (\<lambda>v w. (Ret v, w))) = snd r"
  by (cases r; cases "fst r") auto

lemma only_calls_call:
  assumes "only_calls w (snd r)" and "\<And>x w'. only_calls w w' \<Longrightarrow> only_calls w (snd (k x w'))"
  shows "only_calls w (snd (call msg r k))" "only_calls w (snd (call' r k))"
  using assms by (cases r; cases "fst r"; auto)+

lemma only_calls_rpc: "only_calls w w' \<Longrightarrow> only_calls w (snd (rpc_call f w'))"
  by (simp add: only_calls_trans [OF _ only_calls_tick])

lemma only_calls_registry: "only_calls w w' \<Longrightarrow> only_calls w (snd (registry_call msg c f w'))"
  by (simp add: registry_call_def only_calls_trans [OF _ only_calls_tick])

lemma only_calls_epoch: "only_calls w w' \<Longrightarrow> only_calls w (snd (GetCurrentEpoch r c w'))"
  by (simp add: GetCurrentEpoch_def only_calls_trans [OF _ only_calls_tick])

text \<open>Asking a chain changes nothing but the count of calls.\<close>

lemma client_only_calls:
  "only_calls w (snd (BlockNumber r c w))"
  "only_calls w (snd (GetStateAtBlock r c a k b w))"
  "only_calls w (snd (GetOperatorWeight r c a w))"
  "only_calls w (snd (GetTotalWeight r c w))"
  "only_calls w (snd (GetMinimumWeight r c w))"
  "only_calls w (snd (GetThresholdWeight r c w))"
  "only_calls w (snd (GetOperatorSigningKey r c a e w))"
  "only_calls w (snd (GetOperatorP2PKey r c a e w))"
  "only_calls w (snd (GetCurrentEpoch r c w))"
  by (simp_all add: BlockNumber_def GetStateAtBlock_def GetOperatorWeight_def GetTotalWeight_def
      GetMinimumWeight_def GetThresholdWeight_def GetOperatorSigningKey_def GetOperatorP2PKey_def
      only_calls_call only_calls_registry only_calls_epoch)

section \<open>The manager's clients\<close>

text \<open>A client carries the number it is stored under, and has the registry just on the main chain.\<close>

definition manager_ok :: "chainManager \<Rightarrow> bool" where
  "manager_ok m \<longleftrightarrow> distinct (gokeys m) \<and>
     (\<forall>(i, c) \<in> set m. cl_chain c = i \<and> cl_registry c = (i = MainnetChainID) \<and>
        cl_epochManager c = (i = MainnetChainID))"

lemma NewChainClient_Ret:
  assumes "NewChainClient r cfg = Ret c"
  shows "cl_chain c = cfg_ChainID cfg \<and> cl_registry c = (cfg_ChainID cfg = MainnetChainID) \<and>
    cl_epochManager c = (cfg_ChainID cfg = MainnetChainID)"
  using assms by (auto simp: NewChainClient_def split: option.splits if_splits)

lemma manager_ok_update:
  assumes "manager_ok m" and "NewChainClient r cfg = Ret c"
  shows "manager_ok (AList.update (cfg_ChainID cfg) c m)"
proof -
  have "distinct (map fst m)" using assms(1) by (simp add: manager_ok_def gokeys_def)
  then have "set (AList.update (cfg_ChainID cfg) c m) \<subseteq> insert (cfg_ChainID cfg, c) (set m)"
    by (induction m) auto
  with assms(1) NewChainClient_Ret [OF assms(2)] show ?thesis
    by (auto simp: manager_ok_def)
qed

lemma addChains_ok:
  "addChains r cr cs m = Ret m' \<Longrightarrow> manager_ok m \<Longrightarrow>
    manager_ok m' \<and> dom (map_of m') = dom (map_of m) \<union> fst ` set cs"
proof (induction r cr cs m rule: addChains.induct)
  case (2 r cr chainID entry rest m)
  then obtain cc c where *: "entry = Some cc" "NewChainClient r (managerConfig cr chainID cc) = Ret c"
    "addChains r cr rest (AList.update chainID c m) = Ret m'"
    by (auto split: option.splits res.splits)
  moreover from *(2) "2.prems"(2) have "manager_ok (AList.update chainID c m)"
    using manager_ok_update [of m r "managerConfig cr chainID cc" c] by (simp add: managerConfig_def)
  ultimately show ?case using "2.IH" by auto
qed simp

lemma manager_ok_client:
  assumes "manager_ok m" and "GetClientByChainId m i = Ret c"
  shows "cl_chain c = i \<and> cl_registry c = (i = MainnetChainID) \<and>
    cl_epochManager c = (i = MainnetChainID)"
  using assms by (auto simp: manager_ok_def GetClientByChainId_def dest!: map_of_SomeD
      split: option.splits)

text \<open>
  A manager that is built has exactly the configured chains. Its main-chain client can be asked
  for weights and keys without a panic, adding and removing chains keeps it so, and no other client
  ever gets a registry.
\<close>

theorem NewManager_clients:
  assumes "NewManager r cr cfg = Ret m"
  shows "manager_ok m \<and> set (ListChains m) = fst ` set (Chains cfg) \<and>
    manager_ok (snd (AddChain r config m)) \<and> manager_ok (snd (RemoveChain i m)) \<and>
    (\<forall>c. GetMainnetClient m = Ret c \<longrightarrow> fst (GetOperatorWeight r c a w) \<noteq> Panic)"
proof -
  have m: "manager_ok m" "dom (map_of m) = fst ` set (Chains cfg)"
    using addChains_ok [OF assms [unfolded NewManager_def]] by (simp_all add: manager_ok_def)
  have "manager_ok (AList.delete i m)"
    using m(1) by (auto simp: manager_ok_def AList.delete_eq gokeys_def distinct_map inj_on_def)
  then have "manager_ok (snd (RemoveChain i m))"
    using m(1) by (simp add: RemoveChain_def split: option.split)
  moreover have "manager_ok (snd (AddChain r config m))"
    using m(1) manager_ok_update [of m r config]
    by (auto simp: AddChain_def split: option.split res.split)
  moreover have "fst (GetOperatorWeight r c a w) \<noteq> Panic" if "GetMainnetClient m = Ret c" for c
    using manager_ok_client [OF m(1), of MainnetChainID c] that
    by (auto simp: GetMainnetClient_def GetOperatorWeight_def GetCurrentEpoch_def registry_call_def
        rpc_call_def of_sum_def call_def call'_def split: sum.splits)
  ultimately show ?thesis using m by (simp add: ListChains_def)
qed

text \<open>A node that answers every call, for the witnesses.\<close>

definition toy_rpc :: rpc where
  "toy_rpc =
     \<lparr>rpcDial = (\<lambda>_. None), rpcBindStateManager = (\<lambda>_. None), rpcBindEpochManager = (\<lambda>_. None),
      rpcBindRegistry = (\<lambda>_. None), rpcBlockNumber = (\<lambda>n c. Inr 7698600),
      rpcBlockTime = (\<lambda>n c b. Inr b), rpcGetCurrentValue = (\<lambda>n c a k. Inr 42),
      rpcGetHistoryAtBlock = (\<lambda>n c a k b. Inr 42),
      rpcGetHistoryAfterTimestamp = (\<lambda>n c a k t. Inr [42]),
      rpcGetCurrentEpoch = (\<lambda>n c. Inr 8), rpcGetEffectiveEpochForBlock = (\<lambda>n c b. Inr 8),
      rpcGetOperatorWeightAtEpoch = (\<lambda>n c a e. Inr 10),
      rpcGetTotalWeightAtEpoch = (\<lambda>n c e. Inr 30), rpcMinimumWeight = (\<lambda>n c. Inr 1),
      rpcGetThresholdWeightAtEpoch = (\<lambda>n c e. Inr 10),
      rpcOperatorRegistered = (\<lambda>n c a. Inr True),
      rpcGetOperatorSigningKeyAtEpoch = (\<lambda>n c a e. Inr a),
      rpcGetOperatorP2pKeyAtEpoch = (\<lambda>n c a e. Inr a),
      rpcFilterRegistered = (\<lambda>n c s. Inr []), rpcFilterDeregistered = (\<lambda>n c s. Inr [])\<rparr>"

theorem NewManager_clients_witness:
  "\<exists>m. NewManager toy_rpc toy_crypto \<lparr>Chains = [(11155111, Some \<lparr>RPC = ''r'', Contracts =
       \<lparr>Registry = ''a'', EpochManager = ''b'', StateManager = ''c''\<rparr>, RequiredConfirmations = 1,
       AverageBlockTime = NaN\<rparr>)],
       P2P = \<lparr>p2p_Port = 1, BootstrapPeers = [], Rendezvous = ''x''\<rparr>\<rparr> = Ret m \<and>
     manager_ok m \<and> set (ListChains m) = {11155111}"
proof -
  define cfg where "cfg = \<lparr>Chains = [(11155111, Some \<lparr>RPC = ''r'', Contracts =
       \<lparr>Registry = ''a'', EpochManager = ''b'', StateManager = ''c''\<rparr>, RequiredConfirmations = 1,
       AverageBlockTime = NaN\<rparr>)],
       P2P = \<lparr>p2p_Port = 1, BootstrapPeers = [], Rendezvous = ''x''\<rparr>\<rparr>"
  obtain m where m: "NewManager toy_rpc toy_crypto cfg = Ret m"
    by (simp add: NewManager_def cfg_def NewChainClient_def toy_rpc_def managerConfig_def
        MainnetChainID_def)
  have "manager_ok m \<and> set (ListChains m) = fst ` set (Chains cfg)"
    using NewManager_clients [OF m] by blast
  then have "manager_ok m \<and> set (ListChains m) = {11155111}" by (simp add: cfg_def)
  with m show ?thesis unfolding cfg_def by blast
qed

section \<open>Every event is delivered exactly once\<close>

lemma uint_advance:
  assumes "\<forall>e \<in> set es. 0 \<le> block e \<and> block e < 2 ^ 64"
  shows "x \<le> uint (advance block L es) \<longleftrightarrow> x \<le> uint L \<or> (\<exists>e \<in> set es. x \<le> block e)"
  using assms
proof (induction es arbitrary: L)
  case (Cons e es)
  have e: "uint (word_of_int (block e) :: u64) = block e"
    using Cons.prems by (simp add: uint_word_of_int)
  have "advance block L (e # es) =
      advance block (if L < word_of_int (block e) then word_of_int (block e) else L) es"
    by (simp add: advance_def)
  with Cons e show ?case by (auto simp: word_less_def)
qed (simp add: advance_def)

text \<open>
  A node with an event log answers a filter from block \<open>start\<close> on with the events up to its head;
  \<open>None\<close> stands for a call that fails.
\<close>

definition log_answer :: "('e \<Rightarrow> int) \<Rightarrow> 'e list \<Rightarrow> int option \<Rightarrow> u64 \<Rightarrow> error + 'e list" where
  "log_answer block log head start =
     (case head of
        None \<Rightarrow> Inl (Err ''rpc'')
      | Some h \<Rightarrow> Inr (filter (\<lambda>e. uint start \<le> block e \<and> block e \<le> h) log))"

definition log_ok :: "('e \<Rightarrow> int) \<Rightarrow> 'e list \<Rightarrow> bool" where
  "log_ok block log \<longleftrightarrow> sorted (map block log) \<and>
     (\<forall>e \<in> set log. 0 \<le> block e \<and> block e < 2 ^ 64 - 1)"

text \<open>The last head that was answered with, starting from a given one.\<close>

fun last_head :: "int \<Rightarrow> int option list \<Rightarrow> int" where
  "last_head h [] = h"
| "last_head h (None # hs) = last_head h hs"
| "last_head h (Some h' # hs) = last_head h' hs"

fun heads_grow :: "int \<Rightarrow> int option list \<Rightarrow> bool" where
  "heads_grow h [] = True"
| "heads_grow h (None # hs) = heads_grow h hs"
| "heads_grow h (Some h' # hs) = (h \<le> h' \<and> heads_grow h' hs)"

lemma last_head_ge: "heads_grow h hs \<Longrightarrow> h \<le> last_head h hs"
  by (induction h hs rule: heads_grow.induct) auto

lemma filter_split:
  assumes "sorted (map block log)" and "a \<le> b" and "b \<le> c"
  shows "filter (\<lambda>e. a < block e \<and> block e \<le> b) log @ filter (\<lambda>e. b < block e \<and> block e \<le> c) log =
    filter (\<lambda>e. a < block e \<and> block e \<le> c) log"
  using assms(1)
proof (induction log)
  case (Cons e log)
  show ?case
  proof (cases "block e \<le> b")
    case True
    then show ?thesis using Cons assms by auto
  next
    case False
    with Cons.prems have "filter (\<lambda>e. a < block e \<and> block e \<le> b) (e # log) = []"
      by (auto simp: filter_empty_conv)
    moreover have "filter (\<lambda>e. b < block e \<and> block e \<le> c) (e # log) =
        filter (\<lambda>e. a < block e \<and> block e \<le> c) (e # log)"
      using False Cons.prems assms(2) by (intro filter_cong) auto
    ultimately show ?thesis by simp
  qed
qed simp

lemma watch_delivers:
  assumes "log_ok block log" and "heads_grow h hs" and "uint L < 2 ^ 64 - 1" and "uint L \<le> h"
    and "\<forall>e \<in> set log. block e \<le> h \<longrightarrow> block e \<le> uint L"
  shows "fst (watch block (map (log_answer block log) hs) L) =
    filter (\<lambda>e. uint L < block e \<and> block e \<le> last_head h hs) log"
  using assms(2-)
proof (induction hs arbitrary: h L)
  case Nil
  then have "filter (\<lambda>e. uint L < block e \<and> block e \<le> h) log = []"
    by (auto simp: filter_empty_conv)
  then show ?case by simp
next
  case (Cons x hs)
  show ?case
  proof (cases x)
    case None
    with Cons show ?thesis
      by (simp add: pollEvents_def log_answer_def case_prod_beta)
  next
    case (Some h')
    define es where "es = filter (\<lambda>e. uint L < block e \<and> block e \<le> h') log"
    define L' where "L' = advance block L es"
    have "uint (L + 1) = uint L + 1"
      using Cons.prems(2) by (simp add: uint_word_ariths)
    then have "log_answer block log x (L + 1) = Inr es"
      by (simp add: Some log_answer_def es_def add1_zle_eq)
    then have p: "pollEvents block (log_answer block log x) L = (es, L')"
      by (simp add: pollEvents_def L'_def)
    have es: "\<forall>e \<in> set es. 0 \<le> block e \<and> block e < 2 ^ 64"
      using assms(1) by (auto simp: es_def log_ok_def)
    have up: "y \<le> uint L' \<longleftrightarrow> y \<le> uint L \<or> (\<exists>e \<in> set es. y \<le> block e)" for y
      unfolding L'_def using es by (rule uint_advance)
    have "uint L' \<le> uint L \<or> (\<exists>e \<in> set es. uint L' \<le> block e)" using up by blast
    then have L': "uint L' < 2 ^ 64 - 1" "uint L' \<le> h'"
      using Cons.prems Some assms(1) by (auto simp: es_def log_ok_def)
    have old: "\<forall>e \<in> set log. block e \<le> h' \<longrightarrow> block e \<le> uint L'"
      using Cons.prems up by (auto simp: es_def not_le)
    have "fst (watch block (map (log_answer block log) hs) L') =
        filter (\<lambda>e. uint L' < block e \<and> block e \<le> last_head h' hs) log"
      using Cons.IH [of h' L'] Cons.prems L' old Some by simp
    also have "\<dots> = filter (\<lambda>e. h' < block e \<and> block e \<le> last_head h' hs) log"
      using old L' by (intro filter_cong) (auto simp: not_le [symmetric])
    finally have "fst (watch block (map (log_answer block log) (x # hs)) L) =
        es @ filter (\<lambda>e. h' < block e \<and> block e \<le> last_head h' hs) log"
      using p by (simp add: case_prod_beta)
    moreover have "h' \<le> last_head h' hs" using last_head_ge Cons.prems Some by simp
    ultimately show ?thesis
      using filter_split [of block log "uint L" h' "last_head h' hs"] assms(1) Cons.prems Some
      by (simp add: es_def log_ok_def)
  qed
qed

text \<open>
  C23. No event is lost and none is delivered twice. Whatever calls to the node fail and however its
  head grows, the watch of registrations that starts at block \<open>start\<close> has sent, after any number of
  ticks, exactly the logged events from \<open>start\<close> up to the head it saw last, in the order of the log.
\<close>

theorem WatchOperatorRegistered_exactly_once:
  assumes "log_ok reg_BlockNumber log" and "heads_grow (uint start - 1) (map head ticks)"
    and "0 < start"
    and "\<And>n s. rpcFilterRegistered r n (cl_chain c) s = log_answer reg_BlockNumber log (head n) s"
  shows "WatchOperatorRegistered r c start ticks =
    filter (\<lambda>e. uint start \<le> reg_BlockNumber e \<and>
                reg_BlockNumber e \<le> last_head (uint start - 1) (map head ticks)) log"
proof -
  have s: "uint (watchStart start) = uint start - 1"
    using assms(3) by (simp add: watchStart_def word_less_def uint_minus_simple_alt word_le_def
        uint_sub_lem [THEN iffD1])
  have "(\<lambda>n. rpcFilterRegistered r n (cl_chain c)) = (\<lambda>n. log_answer reg_BlockNumber log (head n))"
    using assms(4) by blast
  then have "WatchOperatorRegistered r c start ticks =
      fst (watch reg_BlockNumber (map (log_answer reg_BlockNumber log) (map head ticks))
        (watchStart start))"
    by (simp add: WatchOperatorRegistered_def comp_def)
  also have "\<dots> = filter (\<lambda>e. uint (watchStart start) < reg_BlockNumber e \<and>
      reg_BlockNumber e \<le> last_head (uint start - 1) (map head ticks)) log"
    using assms(1,2) s uint_u64_less [of start] by (intro watch_delivers) auto
  moreover have "uint start - 1 < x \<longleftrightarrow> uint start \<le> x" for x by linarith
  ultimately show ?thesis unfolding s by simp
qed

theorem WatchOperatorRegistered_exactly_once_witness:
  "\<exists>r c log. WatchOperatorRegistered r c 10 [0, 1, 2] =
     filter (\<lambda>e. uint (10 :: u64) \<le> reg_BlockNumber e \<and> reg_BlockNumber e \<le> 14) log \<and>
     map reg_BlockNumber log = [7, 10, 12, 12, 20]"
proof -
  define ev where "ev = (\<lambda>b. \<lparr>reg_Operator = [], reg_BlockNumber = b, reg_SigningKey = [],
    reg_P2PKey = [], reg_AVS = []\<rparr>)"
  define log where "log = map ev [7, 10, 12, 12, 20]"
  define head :: "nat \<Rightarrow> int option" where
    "head = (\<lambda>n. if n = 0 then Some 12 else if n = 1 then None else Some 14)"
  define r where "r = toy_rpc\<lparr>rpcFilterRegistered :=
    (\<lambda>n c. log_answer reg_BlockNumber log (head n))\<rparr>"
  have b: "map reg_BlockNumber log = [7, 10, 12, 12, 20]" by (simp add: log_def ev_def)
  have "log_ok reg_BlockNumber log" by (simp add: log_ok_def log_def ev_def)
  moreover have "heads_grow (uint (10 :: u64) - 1) (map head [0, 1, 2])" by (simp add: head_def)
  moreover have "rpcFilterRegistered r n (cl_chain \<lparr>cl_chain = 1, cl_epochManager = True,
      cl_registry = True\<rparr>) s = log_answer reg_BlockNumber log (head n) s" for n s
    by (simp add: r_def)
  ultimately have "WatchOperatorRegistered r \<lparr>cl_chain = 1, cl_epochManager = True,
      cl_registry = True\<rparr> 10 [0, 1, 2] =
    filter (\<lambda>e. uint (10 :: u64) \<le> reg_BlockNumber e \<and>
                reg_BlockNumber e \<le> last_head (uint (10 :: u64) - 1) (map head [0, 1, 2])) log"
    by (intro WatchOperatorRegistered_exactly_once) simp_all
  moreover have "last_head (uint (10 :: u64) - 1) (map head [0, 1, 2]) = 14" by (simp add: head_def)
  ultimately have "WatchOperatorRegistered r \<lparr>cl_chain = 1, cl_epochManager = True,
      cl_registry = True\<rparr> 10 [0, 1, 2] =
    filter (\<lambda>e. uint (10 :: u64) \<le> reg_BlockNumber e \<and> reg_BlockNumber e \<le> 14) log"
    by (simp only:)
  then show ?thesis
    by (intro exI conjI) (assumption, rule b)
qed

end
