(* ===== verification/World.thy ===== *)
theory World
  imports TasksRepo OperatorsRepo ConsensusRepo BlacklistRepo Eth
begin

text \<open>
  The state of one operator process, shared by its services: the database, the epoch state of the
  epoch updator, the response tracker of the task processor, the chain manager, and what was
  published to the response topic. The environment of the process holds the parameters of the
  components and the operator's signing key, the codec of the protocol buffers and the topic.
\<close>

text \<open>\<open>EpochState\<close> of \<open>pkg/operator/epoch/updator.go\<close>; its weights are nil before the first update.\<close>

record EpochState =
  EpochNumber :: u32
  MinimumWeight :: "int option"
  TotalWeight :: "int option"
  ThresholdWeight :: "int option"

text \<open>\<open>taskResponse\<close> and \<open>TaskResponseTrack\<close> of \<open>pkg/operator/task/processor.go\<close>.\<close>

record taskResponse =
  r_taskID :: string
  r_signature :: bytes
  r_epoch :: u32
  r_chainID :: u32
  r_targetAddress :: string
  r_key :: string
  r_value :: string
  r_blockNumber :: u64

record TaskResponseTrack =
  responses :: "(string, (string, taskResponse) gomap) gomap"
  weights :: "(string, (string, int option) gomap) gomap"

text \<open>The message of \<open>proto/task.pb.go\<close>.\<close>

record TaskResponseMessage =
  pb_TaskId :: string
  pb_Signature :: bytes
  pb_Epoch :: u32
  pb_ChainId :: u32
  pb_TargetAddress :: string
  pb_Key :: string
  pb_Value :: string
  pb_BlockNumber :: u64

record World = DB +
  currentEpochState :: EpochState
  lastProcessedEpoch :: u32
  taskResponseTrack :: TaskResponseTrack
  manager :: chainManager
  published :: "bytes list"

record env =
  pgp :: pg
  crp :: crypto
  rpcp :: rpc
  signKey :: privkey
  marshal :: "TaskResponseMessage \<Rightarrow> error + bytes"
  unmarshal :: "bytes \<Rightarrow> error + TaskResponseMessage"
  publishAt :: "nat \<Rightarrow> error option"

definition initialEpochState :: EpochState where
  "initialEpochState =
     \<lparr>EpochNumber = 0, MinimumWeight = None, TotalWeight = None, ThresholdWeight = None\<rparr>"

section \<open>The epoch state querier\<close>

definition GetEpochState :: "World \<Rightarrow> EpochState" where
  "GetEpochState w = currentEpochState w"

definition querier_GetThresholdWeight :: "World \<Rightarrow> int option" where
  "querier_GetThresholdWeight w = ThresholdWeight (currentEpochState w)"

definition GetCurrentEpochNumber :: "World \<Rightarrow> u32" where
  "GetCurrentEpochNumber w = EpochNumber (currentEpochState w)"

text \<open>The address of the operator's own signing key, as text.\<close>

definition self :: "env \<Rightarrow> string" where
  "self env = addressHex (crp env) (GetSigningAddress (crp env) (signKey env))"

section \<open>Frames\<close>

text \<open>
  Asking the database or a chain changes only the count of calls; these rules carry the parts of the
  world that a component does not touch.
\<close>

lemma only_calls_World:
  fixes w w' :: World
  assumes "only_calls w w'"
  shows "tasks_rows w' = tasks_rows w" "operators_rows w' = operators_rows w"
    "consensus_rows w' = consensus_rows w" "blacklist_rows w' = blacklist_rows w"
    "invalidated w' = invalidated w" "post_exec w' = post_exec w"
    "currentEpochState w' = currentEpochState w" "lastProcessedEpoch w' = lastProcessedEpoch w"
    "taskResponseTrack w' = taskResponseTrack w" "manager w' = manager w"
    "published w' = published w" "db_ok w' = db_ok w"
proof -
  obtain n where "w' = w\<lparr>calls := n\<rparr>" using assms by (auto simp: only_calls_def)
  then show "tasks_rows w' = tasks_rows w" "operators_rows w' = operators_rows w"
    "consensus_rows w' = consensus_rows w" "blacklist_rows w' = blacklist_rows w"
    "invalidated w' = invalidated w" "post_exec w' = post_exec w"
    "currentEpochState w' = currentEpochState w" "lastProcessedEpoch w' = lastProcessedEpoch w"
    "taskResponseTrack w' = taskResponseTrack w" "manager w' = manager w"
    "published w' = published w" "db_ok w' = db_ok w"
    by (simp_all add: db_ok_def)
qed

text \<open>Writes to one table leave the rest of the process alone.\<close>

definition same_process :: "World \<Rightarrow> World \<Rightarrow> bool" where
  "same_process w w' \<longleftrightarrow> DB.more w' = DB.more w"

lemma same_process_eqs:
  assumes "same_process w w'"
  shows "currentEpochState w' = currentEpochState w" "lastProcessedEpoch w' = lastProcessedEpoch w"
    "taskResponseTrack w' = taskResponseTrack w" "manager w' = manager w"
    "published w' = published w"
  using assms by (cases w; cases w'; simp add: same_process_def)+

lemma only_calls_same_process: "only_calls w w' \<Longrightarrow> same_process w w'"
  unfolding only_calls_def same_process_def by (metis DB.select_convs(8) DB.surjective DB.update_convs(1))

lemma same_process_refl [simp]: "same_process w w"
  by (simp add: same_process_def)

lemma same_process_trans: "same_process u v \<Longrightarrow> same_process v w \<Longrightarrow> same_process u w"
  by (simp add: same_process_def)

lemma same_process_tick [simp]: "same_process w (tick w)"
  by (rule only_calls_same_process) simp

lemma call_same_process:
  assumes "same_process w (snd r)" and "\<And>x w'. r = (Ret x, w') \<Longrightarrow> same_process w' (snd (k x w'))"
  shows "same_process w (snd (call msg r k))" "same_process w (snd (call' r k))"
  using assms by (cases r; cases "fst r"; auto intro: same_process_trans)+

end
