(* ===== verification/Tracker.thy ===== *)
theory Tracker
  imports World "HOL-Library.Multiset"
begin

text \<open>
  The response tracker of the task processor: the two nested maps of \<open>TaskResponseTrack\<close>
  (\<open>pkg/operator/task/processor.go\<close>), the operations on them (\<open>response.go\<close>, \<open>consensus.go\<close>,
  \<open>check.go\<close>) and the weighted count of a task. Each operation holds the tracker's mutex for its whole
  duration, so it is one step. Writing into a nil inner map, and adding a nil weight, is a \<open>Panic\<close>.
\<close>

definition newTrack :: TaskResponseTrack where
  "newTrack = \<lparr>responses = [], weights = []\<rparr>"

text \<open>Reading \<open>m[t][k]\<close>: a missing inner map is nil, and a lookup in a nil map finds nothing.\<close>

definition lookup2 :: "(string, (string, 'v) gomap) gomap \<Rightarrow> string \<Rightarrow> string \<Rightarrow> 'v option" where
  "lookup2 m t k = (case map_of m t of None \<Rightarrow> None | Some mm \<Rightarrow> map_of mm k)"

definition alreadyProcessed :: "TaskResponseTrack \<Rightarrow> string \<Rightarrow> string \<Rightarrow> bool" where
  "alreadyProcessed tr taskId signingKey \<longleftrightarrow> lookup2 (responses tr) taskId signingKey \<noteq> None"

definition storeResponseAndWeight ::
  "taskResponse \<Rightarrow> string \<Rightarrow> int option \<Rightarrow> TaskResponseTrack \<Rightarrow> unit res \<times> TaskResponseTrack" where
  "storeResponseAndWeight response signingKey weight tr =
     (let t = r_taskID response;
          tr = (if map_of (responses tr) t = None
                then tr\<lparr>responses := AList.update t [] (responses tr),
                        weights := AList.update t [] (weights tr)\<rparr>
                else tr)
      in case map_of (responses tr) t of
           None \<Rightarrow> (Panic, tr)
         | Some rs \<Rightarrow>
             (let tr = tr\<lparr>responses := AList.update t (AList.update signingKey response rs)
                                         (responses tr)\<rparr>
              in case map_of (weights tr) t of
                   None \<Rightarrow> (Panic, tr)
                 | Some ws \<Rightarrow>
                     (Ret (), tr\<lparr>weights := AList.update t (AList.update signingKey weight ws)
                                               (weights tr)\<rparr>)))"

definition cleanupTask :: "string \<Rightarrow> TaskResponseTrack \<Rightarrow> TaskResponseTrack" where
  "cleanupTask taskID tr =
     tr\<lparr>responses := AList.delete taskID (responses tr),
        weights := AList.delete taskID (weights tr)\<rparr>"

definition cleanupAllTasks :: "TaskResponseTrack \<Rightarrow> TaskResponseTrack" where
  "cleanupAllTasks tr = \<lparr>responses = [], weights = []\<rparr>"

text \<open>\<open>totalWeight.Add(totalWeight, weight)\<close> over the map.\<close>

fun addWeights :: "(string, int option) gomap \<Rightarrow> int \<Rightarrow> int res" where
  "addWeights [] acc = Ret acc"
| "addWeights ((_, weight) # rest) acc =
     (case weight of None \<Rightarrow> Panic | Some x \<Rightarrow> addWeights rest (acc + x))"

definition calculateTotalWeight :: "(string, int option) gomap \<Rightarrow> int res" where
  "calculateTotalWeight ws = addWeights ws 0"

section \<open>The invariant\<close>

text \<open>
  The two maps have the same tasks, and for each task the same signing keys: no weight counts
  without a response, and no response is without a weight.
\<close>

definition track_ok :: "TaskResponseTrack \<Rightarrow> bool" where
  "track_ok tr \<longleftrightarrow>
     distinct (gokeys (responses tr)) \<and> distinct (gokeys (weights tr)) \<and>
     dom (map_of (responses tr)) = dom (map_of (weights tr)) \<and>
     (\<forall>t rs ws. map_of (responses tr) t = Some rs \<longrightarrow> map_of (weights tr) t = Some ws \<longrightarrow>
        distinct (gokeys rs) \<and> distinct (gokeys ws) \<and> dom (map_of rs) = dom (map_of ws))"

lemma track_ok_new [simp]: "track_ok newTrack"
  by (simp add: track_ok_def newTrack_def)

lemma track_ok_dom:
  "track_ok tr \<Longrightarrow> map_of (responses tr) t = None \<longleftrightarrow> map_of (weights tr) t = None"
  unfolding track_ok_def by (metis domIff)

lemma track_ok_store:
  assumes "track_ok tr"
  shows "\<exists>tr'. storeResponseAndWeight response k x tr = (Ret (), tr') \<and> track_ok tr' \<and>
    (\<forall>t j. lookup2 (responses tr') t j =
      (if t = r_taskID response \<and> j = k then Some response else lookup2 (responses tr) t j)) \<and>
    (\<forall>t j. lookup2 (weights tr') t j =
      (if t = r_taskID response \<and> j = k then Some x else lookup2 (weights tr) t j))"
proof -
  define u where "u = r_taskID response"
  show ?thesis
  proof (cases "map_of (responses tr) u")
    case None
    then have "map_of (weights tr) u = None" using track_ok_dom [OF assms] by simp
    with None show ?thesis
      using assms
      by (auto simp: storeResponseAndWeight_def Let_def u_def [symmetric] track_ok_def lookup2_def
          gokeys_def distinct_update split: option.splits if_splits)
  next
    case (Some rs)
    then obtain ws where "map_of (weights tr) u = Some ws"
      using track_ok_dom [OF assms, of u] by auto
    with Some show ?thesis
      using assms
      by (auto simp: storeResponseAndWeight_def Let_def u_def [symmetric] track_ok_def lookup2_def
          gokeys_def distinct_update split: option.splits if_splits)
  qed
qed

lemma track_ok_cleanup:
  assumes "track_ok tr"
  shows "track_ok (cleanupTask t tr)"
    "lookup2 (responses (cleanupTask t tr)) u k = (if u = t then None else lookup2 (responses tr) u k)"
    "lookup2 (weights (cleanupTask t tr)) u k = (if u = t then None else lookup2 (weights tr) u k)"
  using assms by (auto simp: cleanupTask_def track_ok_def lookup2_def split: if_splits)

lemma track_ok_cleanupAll [simp]: "track_ok (cleanupAllTasks tr)"
  by (simp add: cleanupAllTasks_def track_ok_def)

section \<open>Interface: a tracker of responses\<close>

text \<open>
  What the task processor relies on: storing always succeeds on a tracker in order and is seen by
  exactly the lookups of its task and key, and forgetting a task forgets nothing else.
\<close>

locale response_tracker =
  fixes ok :: "'s \<Rightarrow> bool"
    and look :: "'s \<Rightarrow> string \<Rightarrow> string \<Rightarrow> 'r option"
    and weigh :: "'s \<Rightarrow> string \<Rightarrow> string \<Rightarrow> 'x option"
    and store :: "'r \<Rightarrow> string \<Rightarrow> 'x \<Rightarrow> 's \<Rightarrow> unit res \<times> 's"
    and task :: "'r \<Rightarrow> string"
    and forget :: "string \<Rightarrow> 's \<Rightarrow> 's"
  assumes store_ok: "ok s \<Longrightarrow> fst (store r k x s) = Ret () \<and> ok (snd (store r k x s))"
    and look_store: "ok s \<Longrightarrow> look (snd (store r k x s)) t j =
      (if t = task r \<and> j = k then Some r else look s t j)"
    and weigh_store: "ok s \<Longrightarrow> weigh (snd (store r k x s)) t j =
      (if t = task r \<and> j = k then Some x else weigh s t j)"
    and forget_ok: "ok s \<Longrightarrow> ok (forget t s)"
    and look_forget: "ok s \<Longrightarrow> look (forget t s) u j = (if u = t then None else look s u j)"
    and weigh_forget: "ok s \<Longrightarrow> weigh (forget t s) u j = (if u = t then None else weigh s u j)"
begin

text \<open>Responses and weights stay together through any sequence of stores.\<close>

definition stores :: "('r \<times> string \<times> 'x) list \<Rightarrow> 's \<Rightarrow> 's" where
  "stores xs s = foldl (\<lambda>s (r, k, x). snd (store r k x s)) s xs"

lemma stores_ok: "ok s \<Longrightarrow> ok (stores xs s)"
  by (induction xs arbitrary: s) (auto simp: stores_def store_ok)

lemma stores_together:
  assumes "ok s" and "\<And>t j. look s t j = None \<longleftrightarrow> weigh s t j = None"
  shows "look (stores xs s) t j = None \<longleftrightarrow> weigh (stores xs s) t j = None"
  using assms
proof (induction xs arbitrary: s)
  case (Cons y xs)
  obtain r k x where y: "y = (r, k, x)" by (cases y)
  have "look (snd (store r k x s)) t j = None \<longleftrightarrow> weigh (snd (store r k x s)) t j = None" for t j
    using Cons.prems by (simp add: look_store weigh_store)
  moreover have "ok (snd (store r k x s))" using Cons.prems store_ok by blast
  ultimately show ?case using Cons.IH by (simp add: y stores_def)
qed (simp add: stores_def)

lemma look_stores_key:
  assumes "ok s" and "look (stores xs s) t j = Some r"
  shows "look s t j = Some r \<or> (\<exists>x. (r, j, x) \<in> set xs \<and> task r = t)"
  using assms
proof (induction xs arbitrary: s)
  case (Cons y xs)
  obtain r' k x where y: "y = (r', k, x)" by (cases y)
  have "ok (snd (store r' k x s))" using Cons.prems store_ok by blast
  then have "look (snd (store r' k x s)) t j = Some r \<or> (\<exists>x. (r, j, x) \<in> set xs \<and> task r = t)"
    using Cons by (simp add: y stores_def)
  then show ?case using Cons.prems by (auto simp: y look_store split: if_splits)
qed (simp add: stores_def)

end

interpretation tracker:
  response_tracker track_ok "\<lambda>tr. lookup2 (responses tr)" "\<lambda>tr. lookup2 (weights tr)"
    storeResponseAndWeight r_taskID cleanupTask
proof
  fix s r k x t j
  assume "track_ok s"
  from track_ok_store [OF this, of r k x] obtain s' where
    "storeResponseAndWeight r k x s = (Ret (), s')" "track_ok s'"
    "lookup2 (responses s') t j =
      (if t = r_taskID r \<and> j = k then Some r else lookup2 (responses s) t j)"
    "lookup2 (weights s') t j =
      (if t = r_taskID r \<and> j = k then Some x else lookup2 (weights s) t j)"
    by blast
  then show "fst (storeResponseAndWeight r k x s) = Ret () \<and>
      track_ok (snd (storeResponseAndWeight r k x s))"
    "lookup2 (responses (snd (storeResponseAndWeight r k x s))) t j =
      (if t = r_taskID r \<and> j = k then Some r else lookup2 (responses s) t j)"
    "lookup2 (weights (snd (storeResponseAndWeight r k x s))) t j =
      (if t = r_taskID r \<and> j = k then Some x else lookup2 (weights s) t j)"
    by simp_all
qed (simp_all add: track_ok_cleanup)

section \<open>Weights\<close>

lemma addWeights_Ret:
  "addWeights ws acc = Ret x \<longleftrightarrow>
     (\<forall>(k, y) \<in> set ws. y \<noteq> None) \<and> x = acc + (\<Sum>(k, y) \<leftarrow> ws. the y)"
  by (induction ws acc rule: addWeights.induct) (auto split: option.split)

text \<open>
  C36. The total weight does not depend on the order in which Go visits the map: it is the sum of the
  weights, one for each signing key, and it exists exactly when none of them is nil.
\<close>

theorem calculateTotalWeight_sum:
  assumes "distinct (gokeys ws)"
  shows "(calculateTotalWeight ws = Ret x \<longleftrightarrow>
      (\<forall>k \<in> dom (map_of ws). map_of ws k \<noteq> Some None) \<and>
      x = (\<Sum>k \<in> dom (map_of ws). the (the (map_of ws k)))) \<and>
    (mset ws' = mset ws \<longrightarrow> calculateTotalWeight ws' = calculateTotalWeight ws)"
proof -
  have set_eq: "(\<forall>(k, y) \<in> set ws. y \<noteq> None) \<longleftrightarrow> (\<forall>k \<in> dom (map_of ws). map_of ws k \<noteq> Some None)"
    using assms
    by (auto simp: gokeys_def dom_map_of_conv_image_fst) (metis fst_conv not_None_eq)
  have d: "distinct (map fst ws)" using assms by (simp add: gokeys_def)
  then have "(\<Sum>(k, y) \<leftarrow> ws. the y) = (\<Sum>k \<leftarrow> map fst ws. the (the (map_of ws k)))"
    by (auto simp: comp_def intro!: arg_cong [where f = sum_list])
  also have "\<dots> = (\<Sum>k \<in> dom (map_of ws). the (the (map_of ws k)))"
    using sum_list_distinct_conv_sum_set [OF d, of "\<lambda>k. the (the (map_of ws k))"]
    by (simp only: dom_map_of_conv_image_fst set_map)
  finally have s: "(\<Sum>(k, y) \<leftarrow> ws. the y) = (\<Sum>k \<in> dom (map_of ws). the (the (map_of ws k)))" .
  have perm: "calculateTotalWeight ws' = calculateTotalWeight ws" if "mset ws' = mset ws"
  proof -
    have "sum_mset (image_mset (\<lambda>(k, y). the y) (mset ws')) =
        sum_mset (image_mset (\<lambda>(k, y). the y) (mset ws))"
      using that by simp
    then have "(\<Sum>(k, y) \<leftarrow> ws'. the y) = (\<Sum>(k, y) \<leftarrow> ws. the y)"
      by (simp add: sum_mset_sum_list flip: mset_map)
    moreover have "set ws' = set ws" using that by (rule mset_eq_setD)
    ultimately have "calculateTotalWeight ws' = Ret x \<longleftrightarrow> calculateTotalWeight ws = Ret x" for x
      by (simp add: calculateTotalWeight_def addWeights_Ret)
    moreover have "addWeights xs acc \<noteq> Fail e" for xs acc e
      by (induction xs acc rule: addWeights.induct) (auto split: option.split)
    ultimately show ?thesis
      unfolding calculateTotalWeight_def
      by (cases "addWeights ws 0"; cases "addWeights ws' 0") auto
  qed
  have "calculateTotalWeight ws = Ret x \<longleftrightarrow>
      (\<forall>k \<in> dom (map_of ws). map_of ws k \<noteq> Some None) \<and>
      x = (\<Sum>k \<in> dom (map_of ws). the (the (map_of ws k)))"
    unfolding calculateTotalWeight_def addWeights_Ret set_eq s by simp
  with perm show ?thesis by blast
qed

theorem calculateTotalWeight_sum_witness:
  "calculateTotalWeight [(''b'', Some 3), (''a'', Some 4)] = Ret 7 \<and>
   calculateTotalWeight [(''a'', Some 4), (''b'', Some 3)] =
   calculateTotalWeight [(''b'', Some 3), (''a'', Some 4)]"
  using calculateTotalWeight_sum [of "[(''b'', Some 3), (''a'', Some 4)]" 7
      "[(''a'', Some 4), (''b'', Some 3)]"]
  by (simp add: calculateTotalWeight_def gokeys_def add_mset_commute)

end
