(* ===== verification/TaskProc.thy ===== *)
theory TaskProc
  imports Tracker
begin

text \<open>
  The task processor, \<open>pkg/operator/task\<close>: processing of the operator's own tasks, processing of the
  responses of other operators, the check for consensus, and the two periodic checks. Each handler is
  the whole Go function, in the order of its calls and with every early return; log output and sleeps
  are left out. A dereference of nil is a \<open>Panic\<close>. The handlers run on separate goroutines in the
  program; here each runs to its end before the next one starts, and \<open>Goroutines\<close> has them as programs
  whose steps interleave.
\<close>

definition maxRetryCount :: u16 where
  "maxRetryCount = 3"

definition on_track ::
  "(TaskResponseTrack \<Rightarrow> unit res \<times> TaskResponseTrack) \<Rightarrow> World \<Rightarrow> unit res \<times> World" where
  "on_track f w =
     (case f (taskResponseTrack w) of (r, tr) \<Rightarrow> (r, w\<lparr>taskResponseTrack := tr\<rparr>))"

text \<open>A call whose error is logged and then ignored; a panic still ends the caller.\<close>

definition ignoring :: "'a res \<times> World \<Rightarrow> (World \<Rightarrow> unit res \<times> World) \<Rightarrow> unit res \<times> World" where
  "ignoring r k = (case r of (Panic, w) \<Rightarrow> (Panic, w) | (_, w) \<Rightarrow> k w)"

section \<open>Consensus\<close>

fun collectLoop ::
  "env \<Rightarrow> (string, taskResponse) gomap \<Rightarrow> string list \<Rightarrow> bytes list \<Rightarrow> string list \<Rightarrow> World \<Rightarrow>
     (bytes list \<times> string list) res \<times> World" where
  "collectLoop env rs [] signatures addresses w = (Ret (signatures, addresses), w)"
| "collectLoop env rs (key # keys) signatures addresses w =
     call ''failed to get operator for signing key'' (GetOperatorBySigningKey (pgp env) key w)
       (\<lambda>operator w.
          case operator of
            None \<Rightarrow> (Fail (Err ''operator not found for signing key''), w)
          | Some op \<Rightarrow>
              collectLoop env rs keys
                (signatures @ [case map_of rs key of None \<Rightarrow> [] | Some r \<Rightarrow> r_signature r])
                (addresses @ [o_Address op]) w)"

definition collectSignaturesAndAddresses ::
  "env \<Rightarrow> (string, taskResponse) gomap \<Rightarrow> World \<Rightarrow> (bytes list \<times> string list) res \<times> World" where
  "collectSignaturesAndAddresses env rs = collectLoop env rs (sort (gokeys rs)) [] []"

definition markTaskAsCompleted :: "env \<Rightarrow> string \<Rightarrow> World \<Rightarrow> unit res \<times> World" where
  "markTaskAsCompleted env taskID w =
     call ''failed to get task'' (GetTaskByID (pgp env) taskID w)
       (\<lambda>_ w. call ''failed to update task status'' (UpdateTaskToCompleted (pgp env) taskID w)
          (\<lambda>_ w. (Ret (), w)))"

definition checkConsensus :: "env \<Rightarrow> taskResponse \<Rightarrow> World \<Rightarrow> unit res \<times> World" where
  "checkConsensus env response w =
     (let taskID = r_taskID response;
          rs = (case map_of (responses (taskResponseTrack w)) taskID of None \<Rightarrow> [] | Some m \<Rightarrow> m);
          ws = (case map_of (weights (taskResponseTrack w)) taskID of None \<Rightarrow> [] | Some m \<Rightarrow> m)
      in if length rs = 0 then (Ret (), w)
         else
           call' (calculateTotalWeight ws, w)
             (\<lambda>totalWeight w.
                case querier_GetThresholdWeight w of
                  None \<Rightarrow> (Panic, w)
                | Some threshold \<Rightarrow>
                    if totalWeight < threshold then (Ret (), w)
                    else
                      call ''failed to collect signatures and addresses''
                        (collectSignaturesAndAddresses env rs w)
                        (\<lambda>(signatures, addresses) w.
                           call ''failed to create consensus response''
                             (CreateConsensusResponse (pgp env)
                                \<lparr>cc_TaskID = taskID, cc_Epoch = r_epoch response,
                                 cc_Value = StringToNumeric (r_value response),
                                 cc_Key = StringToNumeric (r_key response),
                                 cc_ChainID = r_chainID response,
                                 cc_BlockNumber = r_blockNumber response,
                                 cc_TargetAddress = r_targetAddress response,
                                 cc_AggregatedSignatures = signatures,
                                 cc_OperatorAddresses = addresses\<rparr> w)
                             (\<lambda>_ w.
                                call ''failed to mark task as completed''
                                  (markTaskAsCompleted env taskID w) (\<lambda>_ w. (Ret (), w))))))"

section \<open>Processing a task\<close>

text \<open>The loop of \<open>getStateWithRetries\<close>, with the number of attempts left.\<close>

fun stateAttempts ::
  "env \<Rightarrow> chainClient \<Rightarrow> address \<Rightarrow> int option \<Rightarrow> u64 \<Rightarrow> nat \<Rightarrow> World \<Rightarrow> int res \<times> World" where
  "stateAttempts env c target key blockNumber 0 w =
     (Fail (Err ''failed to get state after retries''), w)"
| "stateAttempts env c target key blockNumber (Suc n) w =
     (case BlockNumber (rpcp env) c w of
        (Panic, w) \<Rightarrow> (Panic, w)
      | (Fail _, w) \<Rightarrow> stateAttempts env c target key blockNumber n w
      | (Ret latestBlock, w) \<Rightarrow>
          if latestBlock < blockNumber then (Fail (Err ''block number is in the future''), w)
          else
            (case GetStateAtBlock (rpcp env) c target key blockNumber w of
               (Panic, w) \<Rightarrow> (Panic, w)
             | (Fail e, w) \<Rightarrow>
                 if contains (error_text e) ''0x7c44ec9a'' then
                   (Fail (Err ''block not found in state history''), w)
                 else if contains (error_text e) ''StateManager__KeyNotFound'' then
                   (Fail (Err ''key not found for address''), w)
                 else if contains (error_text e) ''StateManager__NoHistoryFound'' then
                   (Fail (Err ''no state history found for block and key''), w)
                 else stateAttempts env c target key blockNumber n w
             | (Ret state, w) \<Rightarrow> (Ret state, w)))"

definition getStateWithRetries ::
  "env \<Rightarrow> chainClient \<Rightarrow> address \<Rightarrow> int option \<Rightarrow> u64 \<Rightarrow> World \<Rightarrow> int res \<times> World" where
  "getStateWithRetries env c target key blockNumber =
     stateAttempts env c target key blockNumber 3"

definition broadcastResponse :: "env \<Rightarrow> taskResponse \<Rightarrow> World \<Rightarrow> unit res \<times> World" where
  "broadcastResponse env response w =
     (case marshal env
        \<lparr>pb_TaskId = r_taskID response, pb_Signature = r_signature response,
         pb_Epoch = r_epoch response, pb_ChainId = r_chainID response,
         pb_TargetAddress = r_targetAddress response, pb_Key = r_key response,
         pb_Value = r_value response, pb_BlockNumber = r_blockNumber response\<rparr> of
        Inl e \<Rightarrow> (Fail (Wrap ''failed to marshal response'' e), w)
      | Inr data \<Rightarrow>
          (case publishAt env (calls w) of
             Some e \<Rightarrow> (Fail e, tick w)
           | None \<Rightarrow> (Ret (), tick w\<lparr>published := data # published w\<rparr>)))"

text \<open>
  The first part of \<open>ProcessTask\<close>, up to the signed response: reading the chain and comparing. It
  changes nothing but the count of calls.
\<close>

definition signedResponse :: "env \<Rightarrow> Tasks \<Rightarrow> World \<Rightarrow> taskResponse res \<times> World" where
  "signedResponse env task w =
     (if t_BlockNumber task = 0 then (Fail (Err ''task block number is nil''), w)
      else
        call ''failed to get state client'' (GetClientByChainId (manager w) (t_ChainID task), w)
          (\<lambda>chainClient w.
        call ''failed to convert key to big.Int'' (NumericToBigInt (t_Key task), w)
          (\<lambda>KeyBig w.
        call ''failed to get state''
          (getStateWithRetries env chainClient (HexToAddress (crp env) (t_TargetAddress task))
             KeyBig (t_BlockNumber task) w)
          (\<lambda>value w.
        call ''failed to convert task value to big.Int'' (NumericToBigInt (t_Value task), w)
          (\<lambda>taskValueBig w.
        case taskValueBig of
          None \<Rightarrow> (Panic, w)
        | Some taskValue \<Rightarrow>
            if value \<noteq> taskValue then (Fail (Err ''state value mismatch''), w)
            else
              call ''failed to sign response''
                (SignTaskResponse (crp env) (signKey env)
                   \<lparr>sp_User = HexToAddress (crp env) (t_TargetAddress task),
                    sp_ChainID = t_ChainID task, sp_BlockNumber = t_BlockNumber task,
                    sp_Key = KeyBig, sp_Value = Some value\<rparr>, w)
                (\<lambda>signature w.
                   (Ret \<lparr>r_taskID = t_TaskID task, r_signature = signature,
                         r_epoch = t_Epoch task, r_chainID = t_ChainID task,
                         r_targetAddress = t_TargetAddress task,
                         r_key = NumericToString (t_Key task), r_value = big_String value,
                         r_blockNumber = t_BlockNumber task\<rparr>, w)))))))"

text \<open>The operator's own weight.\<close>

definition ownWeight :: "env \<Rightarrow> World \<Rightarrow> int option res \<times> World" where
  "ownWeight env w =
     call ''failed to get operator'' (GetOperatorBySigningKey (pgp env) (self env) w)
       (\<lambda>operator w.
          case operator of
            None \<Rightarrow> (Panic, w)
          | Some op \<Rightarrow>
              call ''failed to convert operator weight to big int''
                (NumericToBigInt (o_Weight op), w) (\<lambda>weight w. (Ret weight, w)))"

definition ProcessTask :: "env \<Rightarrow> Tasks option \<Rightarrow> World \<Rightarrow> unit res \<times> World" where
  "ProcessTask env taskPtr w =
     (case taskPtr of
        None \<Rightarrow> (Fail (Err ''task is nil''), w)
      | Some task \<Rightarrow>
          if alreadyProcessed (taskResponseTrack w) (t_TaskID task) (self env) then (Ret (), w)
          else
            call' (signedResponse env task w) (\<lambda>response w.
            call' (ownWeight env w) (\<lambda>weight w.
            call' (on_track (storeResponseAndWeight response (self env) weight) w) (\<lambda>_ w.
            call ''failed to broadcast response'' (broadcastResponse env response w) (\<lambda>_ w.
            ignoring (checkConsensus env response w) (\<lambda>w. (Ret (), w)))))))"

section \<open>Processing a response\<close>

definition convertProtoToResponse :: "TaskResponseMessage \<Rightarrow> taskResponse" where
  "convertProtoToResponse pb =
     \<lparr>r_taskID = pb_TaskId pb, r_signature = pb_Signature pb, r_epoch = pb_Epoch pb,
      r_chainID = pb_ChainId pb, r_targetAddress = pb_TargetAddress pb, r_key = pb_Key pb,
      r_value = pb_Value pb, r_blockNumber = pb_BlockNumber pb\<rparr>"

text \<open>Recording a violation returns an error in every case.\<close>

definition incrementPeerViolation :: "env \<Rightarrow> peerID \<Rightarrow> error \<Rightarrow> World \<Rightarrow> unit res \<times> World" where
  "incrementPeerViolation env peer originalErr w =
     (let peerIDStr = peerIDString (crp env) peer in
      case IncrementViolationCount (pgp env) Pool
             \<lparr>iv_PeerID = peerIDStr, iv_ViolationCount = 1, iv_ExpiresAt = None\<rparr>
             (Some peerIDStr) w of
        (Panic, w) \<Rightarrow> (Panic, w)
      | (Fail err, w) \<Rightarrow> (Fail (Wrap (error_text originalErr) err), w)
      | (Ret _, w) \<Rightarrow> (Fail (Wrap (error_text originalErr) (Err ''%!w(<nil>)'')), w))"

definition verifyResponse :: "env \<Rightarrow> taskResponse \<Rightarrow> string \<Rightarrow> unit res" where
  "verifyResponse env response signerKey =
     VerifyTaskResponse (crp env)
       \<lparr>sp_User = HexToAddress (crp env) (r_targetAddress response),
        sp_ChainID = r_chainID response, sp_BlockNumber = r_blockNumber response,
        sp_Key = StringToBigInt (r_key response), sp_Value = StringToBigInt (r_value response)\<rparr>
       (r_signature response) signerKey"

text \<open>The task that an operator makes out of a response it did not process itself.\<close>

definition taskOfResponse :: "taskResponse \<Rightarrow> Tasks" where
  "taskOfResponse response =
     \<lparr>t_TaskID = r_taskID response, t_ChainID = r_chainID response,
      t_TargetAddress = r_targetAddress response, t_Key = StringToNumeric (r_key response),
      t_BlockNumber = r_blockNumber response, t_Value = StringToNumeric (r_value response),
      t_Epoch = r_epoch response, t_Status = [], t_RequiredConfirmations = 0, t_RetryCount = 0,
      t_CreatedAt = 0, t_UpdatedAt = 0\<rparr>"

text \<open>The second part of \<open>processResponse\<close>, for the response of an active operator.\<close>

definition processActive ::
  "env \<Rightarrow> peerID \<Rightarrow> taskResponse \<Rightarrow> Operators \<Rightarrow> World \<Rightarrow> unit res \<times> World" where
  "processActive env peer response operator w =
     (let signerKey = o_SigningKey operator in
      if alreadyProcessed (taskResponseTrack w) (r_taskID response) signerKey then (Ret (), w)
      else
        (case GetConsensusResponseByTaskId (pgp env) (r_taskID response) w of
           (Panic, w) \<Rightarrow> (Panic, w)
         | (Ret (Some _), w) \<Rightarrow> (Ret (), w)
         | (_, w) \<Rightarrow>
             (case verifyResponse env response signerKey of
                Panic \<Rightarrow> (Panic, w)
              | Fail e \<Rightarrow>
                  incrementPeerViolation env peer (Wrap ''failed to verify response'' e) w
              | Ret _ \<Rightarrow>
                  call ''failed to convert operator weight to big int''
                    (NumericToBigInt (o_Weight operator), w) (\<lambda>weight w.
                  call' (on_track (storeResponseAndWeight response signerKey weight) w) (\<lambda>_ w.
                  ignoring (checkConsensus env response w) (\<lambda>w.
                  if alreadyProcessed (taskResponseTrack w) (r_taskID response) (self env)
                  then (Ret (), w)
                  else
                    call ''failed to process task''
                      (ProcessTask env (Some (taskOfResponse response)) w)
                      (\<lambda>_ w. (Ret (), w))))))))"

definition processResponse :: "env \<Rightarrow> bytes \<Rightarrow> peerID \<Rightarrow> World \<Rightarrow> unit res \<times> World" where
  "processResponse env data peer w =
     (case unmarshal env data of
        Inl e \<Rightarrow> (Fail (Wrap ''failed to unmarshal message'' e), w)
      | Inr pb \<Rightarrow>
          (let response = convertProtoToResponse pb in
           if r_epoch response \<noteq> GetCurrentEpochNumber w then (Ret (), w)
           else
             (case PeerIDToP2PKey (crp env) peer of
                Panic \<Rightarrow> (Panic, w)
              | Fail e \<Rightarrow>
                  incrementPeerViolation env peer
                    (Wrap ''failed to convert peer ID to P2P key'' e) w
              | Ret p2pKey \<Rightarrow>
                  (case GetOperatorByP2PKey (pgp env) p2pKey w of
                     (Panic, w) \<Rightarrow> (Panic, w)
                   | (Fail e, w) \<Rightarrow>
                       incrementPeerViolation env peer
                         (Wrap ''failed to get operator state'' e) w
                   | (Ret None, w) \<Rightarrow>
                       incrementPeerViolation env peer
                         (Err ''operator not exist or not active'') w
                   | (Ret (Some operator), w) \<Rightarrow>
                       if \<not> o_IsActive operator then
                         incrementPeerViolation env peer
                           (Err ''operator not exist or not active'') w
                       else processActive env peer response operator w))))"

text \<open>
  One message in \<open>handleResponses\<close>: errors are logged and a panic is recovered, so the goroutine of
  the message ends in every case and the loop goes on.
\<close>

definition handleResponse :: "env \<Rightarrow> bytes \<Rightarrow> peerID \<Rightarrow> World \<Rightarrow> World" where
  "handleResponse env data peer w = snd (processResponse env data peer w)"

section \<open>Periodic checks\<close>

text \<open>A loop over tasks that a panic ends.\<close>

fun for_each :: "('a \<Rightarrow> World \<Rightarrow> unit res \<times> World) \<Rightarrow> 'a list \<Rightarrow> World \<Rightarrow> unit res \<times> World" where
  "for_each body [] w = (Ret (), w)"
| "for_each body (x # xs) w = ignoring (body x w) (for_each body xs)"

definition timeoutTask :: "env \<Rightarrow> Tasks \<Rightarrow> World \<Rightarrow> unit res \<times> World" where
  "timeoutTask env task w =
     (case IncrementRetryCount (pgp env) (t_TaskID task) w of
        (Panic, w) \<Rightarrow> (Panic, w)
      | (Fail _, w) \<Rightarrow> (Ret (), w)
      | (Ret None, w) \<Rightarrow> (Panic, w)
      | (Ret (Some new), w) \<Rightarrow>
          if maxRetryCount \<le> t_RetryCount new then
            ignoring (DeleteTaskByID (pgp env) (t_TaskID task) w)
              (on_track (\<lambda>tr. (Ret (), cleanupTask (t_TaskID task) tr)))
          else ProcessTask env (Some task) w)"

definition checkTimeouts :: "env \<Rightarrow> World \<Rightarrow> unit res \<times> World" where
  "checkTimeouts env w =
     (case ListPendingTasks (pgp env) w of
        (Panic, w) \<Rightarrow> (Panic, w)
      | (Fail _, w) \<Rightarrow> (Ret (), w)
      | (Ret ts, w) \<Rightarrow> for_each (timeoutTask env) ts w)"

definition confirmTask :: "env \<Rightarrow> Tasks \<Rightarrow> World \<Rightarrow> unit res \<times> World" where
  "confirmTask env task w =
     (case GetClientByChainId (manager w) (t_ChainID task) of
        Panic \<Rightarrow> (Panic, w)
      | Fail _ \<Rightarrow> (Ret (), w)
      | Ret chainClient \<Rightarrow>
          (case BlockNumber (rpcp env) chainClient w of
             (Panic, w) \<Rightarrow> (Panic, w)
           | (Fail _, w) \<Rightarrow> (Ret (), w)
           | (Ret latestBlock, w) \<Rightarrow>
               if t_BlockNumber task = 0 then (Ret (), w)
               else
                 (let targetBlock = t_BlockNumber task + ucast (t_RequiredConfirmations task) in
                  if targetBlock \<le> latestBlock then
                    (case UpdateTaskToPending (pgp env) (t_TaskID task) w of
                       (Panic, w) \<Rightarrow> (Panic, w)
                     | (Fail _, w) \<Rightarrow> (Ret (), w)
                     | (Ret _, w) \<Rightarrow>
                         ignoring (ProcessTask env (Some task) w) (\<lambda>w. (Ret (), w)))
                  else (Ret (), w))))"

definition checkConfirmations :: "env \<Rightarrow> World \<Rightarrow> unit res \<times> World" where
  "checkConfirmations env w =
     (case ListConfirmingTasks (pgp env) w of
        (Panic, w) \<Rightarrow> (Panic, w)
      | (Fail _, w) \<Rightarrow> (Ret (), w)
      | (Ret ts, w) \<Rightarrow> for_each (confirmTask env) ts w)"

definition periodicCleanup :: "World \<Rightarrow> World" where
  "periodicCleanup w = w\<lparr>taskResponseTrack := cleanupAllTasks (taskResponseTrack w)\<rparr>"

text \<open>The dependencies that \<open>NewTaskProcessor\<close> checks; \<open>False\<close> is a nil one.\<close>

record task_Config =
  has_Signer :: bool
  has_EpochStateQuerier :: bool
  has_TaskRepo :: bool
  has_OperatorRepo :: bool
  has_ConsensusResponseRepo :: bool
  has_BlacklistRepo :: bool
  has_ChainManager :: bool
  has_ResponseTopic :: bool

definition NewTaskProcessor :: "task_Config option \<Rightarrow> TaskResponseTrack res" where
  "NewTaskProcessor cfg =
     (case cfg of
        None \<Rightarrow> Fail (Err ''[TaskProcessor] config is nil'')
      | Some c \<Rightarrow>
          if \<not> has_Signer c then Fail (Err ''[TaskProcessor] signer is nil'')
          else if \<not> has_EpochStateQuerier c then
            Fail (Err ''[TaskProcessor] epoch state querier is nil'')
          else if \<not> has_TaskRepo c then Fail (Err ''[TaskProcessor] task repo is nil'')
          else if \<not> has_OperatorRepo c then Fail (Err ''[TaskProcessor] operator repo is nil'')
          else if \<not> has_ConsensusResponseRepo c then
            Fail (Err ''[TaskProcessor] consensus response repo is nil'')
          else if \<not> has_ChainManager c then Fail (Err ''[TaskProcessor] chain manager is nil'')
          else if \<not> has_ResponseTopic c then Fail (Err ''[TaskProcessor] response topic is nil'')
          else Ret newTrack)"

definition task_Stop :: "World \<Rightarrow> World" where
  "task_Stop w = w\<lparr>taskResponseTrack := newTrack\<rparr>"

end
