(* ===== verification/TaskInv.thy ===== *)
theory TaskInv
  imports TaskProc
begin

text \<open>
  Invariants of the task processor. The locales are the contracts of an invariant: each primitive
  effect of the handlers (a call, a response stored, a message published, a statement run; a task
  forgotten or deleted) keeps it. \<open>response_handlers\<close> shows once, for all such invariants, that
  the handlers of responses and of the operator's own tasks keep what the check for consensus keeps;
  \<open>periodic_handlers\<close> adds the periodic checks. \<open>response_invariant\<close> and
  \<open>handler_invariant\<close> ask for the statements of the check instead of the check. They are
  interpreted on the invariant of the tracker and the tables with the validity of all stored
  signatures, on what responses never undo, and on the consensus rows of a running node.
\<close>

section \<open>What the handlers change\<close>

lemma stateAttempts_only_calls:
  "only_calls w (snd (stateAttempts env c a k b n w))"
proof (induction n arbitrary: w)
  case (Suc n)
  obtain r1 w1 where b: "BlockNumber (rpcp env) c w = (r1, w1)" by fastforce
  obtain r2 w2 where g: "GetStateAtBlock (rpcp env) c a k b w1 = (r2, w2)" by fastforce
  have 1: "only_calls w w1" using client_only_calls(1) [of w "rpcp env" c] b by simp
  have 2: "only_calls w w2"
    using only_calls_trans [OF 1] client_only_calls(2) [of w1 "rpcp env" c a k b] g by simp
  note IH = only_calls_trans [OF 1 Suc [of w1]] only_calls_trans [OF 2 Suc [of w2]]
  show ?case using 1 2 IH by (simp add: b g split: res.split)
qed simp

lemma call_only_calls:
  assumes "only_calls w (snd r)" and "\<And>x w'. r = (Ret x, w') \<Longrightarrow> only_calls w' (snd (k x w'))"
  shows "only_calls w (snd (call msg r k))" "only_calls w (snd (call' r k))"
  using assms by (cases r; cases "fst r"; auto intro: only_calls_trans)+

lemma signedResponse_only_calls: "only_calls w (snd (signedResponse env task w))"
  unfolding signedResponse_def getStateWithRetries_def
  by (auto intro!: call_only_calls stateAttempts_only_calls split: option.split)

lemma signedResponse_taskID: "signedResponse env task w = (Ret r, w') \<Longrightarrow> r_taskID r = t_TaskID task"
  by (auto simp: signedResponse_def call_Ret_iff split: if_splits option.splits)

lemma ownWeight_only_calls: "only_calls w (snd (ownWeight env w))"
  unfolding ownWeight_def
  by (auto intro!: call_only_calls operator_reads_only_calls split: option.split)

lemma collectLoop_only_calls: "only_calls w (snd (collectLoop env rs ks ss as w))"
proof (induction ks arbitrary: ss as w)
  case (Cons key ks)
  show ?case
    by (auto intro!: call_only_calls operator_reads_only_calls Cons split: option.split)
qed simp

section \<open>The contract of an invariant\<close>

text \<open>The driver reads a valid number back as a valid one.\<close>

definition scan_valid :: "env \<Rightarrow> bool" where
  "scan_valid env \<longleftrightarrow> (\<forall>n. num_Valid n \<longrightarrow> num_Valid (scan_numeric (pgp env) n))"

definition task_valid :: "env \<Rightarrow> Tasks \<Rightarrow> bool" where
  "task_valid env task \<longleftrightarrow> (scan_valid env \<longrightarrow> num_Valid (t_Key task))"

text \<open>
  What a response, or a task of the operator's own, can do, apart from the check for consensus. A
  response is stored only for a task and a key that have none yet.
\<close>

locale response_effects =
  fixes env :: env
    and Q :: "World \<Rightarrow> bool"
    and okr :: "taskResponse \<Rightarrow> string \<Rightarrow> bool"
  assumes Q_calls: "only_calls w w' \<Longrightarrow> Q w \<Longrightarrow> Q w'"
    and Q_store: "Q w \<Longrightarrow> okr r k \<Longrightarrow> \<not> alreadyProcessed (taskResponseTrack w) (r_taskID r) k \<Longrightarrow>
      Q (snd (on_track (storeResponseAndWeight r k x) w))"
    and Q_publish: "Q w \<Longrightarrow> Q (w\<lparr>published := d # published w\<rparr>)"
    and Q_violation: "Q w \<Longrightarrow> Q (snd (IncrementViolationCount (pgp env) Pool v key w))"
    and own: "signedResponse env task w = (Ret r, w') \<Longrightarrow> task_valid env task \<Longrightarrow> okr r (self env)"
    and foreign: "verifyResponse env r k = Ret () \<Longrightarrow> okr r k"
begin

lemma Q_call:
  assumes "Q (snd r)" and "\<And>x w'. r = (Ret x, w') \<Longrightarrow> Q w' \<Longrightarrow> Q (snd (k x w'))"
  shows "Q (snd (call msg r k))" "Q (snd (call' r k))"
  using assms by (cases r; cases "fst r"; auto)+

lemma Q_ignoring:
  assumes "Q (snd r)" and "\<And>w'. Q w' \<Longrightarrow> Q (snd (k w'))"
  shows "Q (snd (ignoring r k))"
  using assms by (cases r; cases "fst r") (auto simp: ignoring_def)

lemma Q_broadcast: "Q w \<Longrightarrow> Q (snd (broadcastResponse env response w))"
  using Q_calls [OF only_calls_tick, of w] Q_publish [of "tick w"]
  by (simp add: broadcastResponse_def tick_def split: sum.split option.split)

end

text \<open>The handlers of responses, for an invariant that the check for consensus keeps.\<close>

locale response_handlers = response_effects +
  assumes Q_checkConsensus: "Q w \<Longrightarrow> Q (snd (checkConsensus env response w))"
begin

lemma Q_ProcessTask:
  assumes "Q w" and "\<And>task. t = Some task \<Longrightarrow> task_valid env task"
  shows "Q (snd (ProcessTask env t w))"
proof (cases t)
  case (Some task)
  have sign: "Q (snd (signedResponse env task w))"
    using assms(1) by (rule Q_calls [OF signedResponse_only_calls])
  have weigh: "Q u \<Longrightarrow> Q (snd (ownWeight env u))" for u by (rule Q_calls [OF ownWeight_only_calls])
  have store: "Q (snd (on_track (storeResponseAndWeight r (self env) x) w2))"
    if "\<not> alreadyProcessed (taskResponseTrack w) (t_TaskID task) (self env)"
      and "signedResponse env task w = (Ret r, w1)" and "ownWeight env w1 = (Ret x, w2)" and "Q w2"
    for r x w1 w2
  proof (rule Q_store [OF that(4)])
    show "okr r (self env)" using own [OF that(2)] assms(2) Some by simp
    have "only_calls w w2"
      using signedResponse_only_calls [of w env task] ownWeight_only_calls [of w1 env] that(2,3)
        only_calls_trans by force
    then show "\<not> alreadyProcessed (taskResponseTrack w2) (r_taskID r) (self env)"
      using that(1) only_calls_World(9) signedResponse_taskID [OF that(2)] by simp
  qed
  with assms(1) sign weigh show ?thesis
    by (auto simp: ProcessTask_def Some
        intro!: Q_call Q_ignoring store Q_broadcast Q_checkConsensus)
qed (simp add: ProcessTask_def assms(1))

lemma Q_ProcessTask_Some: "Q w \<Longrightarrow> task_valid env task \<Longrightarrow> Q (snd (ProcessTask env (Some task) w))"
  by (rule Q_ProcessTask) auto

lemma Q_incrementPeerViolation: "Q w \<Longrightarrow> Q (snd (incrementPeerViolation env peer e w))"
  using Q_violation [of w]
  by (auto simp: incrementPeerViolation_def Let_def split: prod.split res.split) (metis snd_conv)+

lemma taskOfResponse_valid: "task_valid env (taskOfResponse response)"
  by (simp add: task_valid_def taskOfResponse_def StringToNumeric_def BigIntToNumeric_def)

lemma Q_processActive: "Q w \<Longrightarrow> Q (snd (processActive env peer response op w))"
proof -
  assume w: "Q w"
  obtain r u where g: "GetConsensusResponseByTaskId (pgp env) (r_taskID response) w = (r, u)"
    by fastforce
  have u: "Q u"
    using Q_calls [OF only_calls_tick w] consensus_reads(2) [of "pgp env" "r_taskID response" w] g
    by simp
  have same: "taskResponseTrack u = taskResponseTrack w"
    using consensus_reads(2) [of "pgp env" "r_taskID response" w] g by (simp add: tick_def)
  have task: "Q (snd (ProcessTask env (Some (taskOfResponse response)) v))" if "Q v" for v
    using that taskOfResponse_valid by (rule Q_ProcessTask_Some)
  have tail: "Q (snd (if alreadyProcessed (taskResponseTrack v) (r_taskID response) (self env)
      then (Ret (), v)
      else call ''failed to process task'' (ProcessTask env (Some (taskOfResponse response)) v)
             (\<lambda>_ w. (Ret (), w))))" if "Q v" for v
  proof -
    have "Q (snd (call ''failed to process task''
        (ProcessTask env (Some (taskOfResponse response)) v) (\<lambda>_ w. (Ret (), w))))"
      by (rule Q_call(1) [OF task [OF that]]) simp
    with that show ?thesis by simp
  qed
  have okr: "okr response (o_SigningKey op)"
    if "verifyResponse env response (o_SigningKey op) = Ret x" for x
    using foreign that by simp
  have rest: "Q (snd (call ''failed to convert operator weight to big int''
      (NumericToBigInt (o_Weight op), u) (\<lambda>weight w.
      call' (on_track (storeResponseAndWeight response (o_SigningKey op) weight) w) (\<lambda>_ w.
      ignoring (checkConsensus env response w) (\<lambda>w.
      if alreadyProcessed (taskResponseTrack w) (r_taskID response) (self env)
      then (Ret (), w)
      else call ''failed to process task'' (ProcessTask env (Some (taskOfResponse response)) w)
             (\<lambda>_ w. (Ret (), w)))))))"
    if "okr response (o_SigningKey op)"
      and "\<not> alreadyProcessed (taskResponseTrack w) (r_taskID response) (o_SigningKey op)"
    by (intro Q_call Q_ignoring Q_store Q_checkConsensus tail; use that u same in simp)
  show ?thesis
  proof (cases "verifyResponse env response (o_SigningKey op)")
    case (Ret x)
    then show ?thesis
      using w u rest [OF okr [OF Ret]]
      by (simp add: processActive_def Let_def g split: res.split option.split)
  qed (use w u in \<open>simp_all add: processActive_def Let_def g Q_incrementPeerViolation
        split: res.split option.split\<close>)
qed

lemma Q_processResponse: "Q w \<Longrightarrow> Q (snd (processResponse env data peer w))"
proof -
  assume w: "Q w"
  have u: "Q u" if "GetOperatorByP2PKey (pgp env) k w = (r, u)" for k r u
    using Q_calls [OF operator_reads_only_calls(2) w, of "pgp env" k] that by simp
  show ?thesis
    using w u
    by (simp add: processResponse_def Let_def Q_incrementPeerViolation Q_processActive
        split: sum.split prod.split res.split option.split)
qed

end

text \<open>The check keeps what its two statements keep.\<close>

locale response_invariant = response_effects +
  assumes Q_create: "Q w \<Longrightarrow> Q (snd (CreateConsensusResponse (pgp env) arg w))"
    and Q_complete: "Q w \<Longrightarrow> Q (snd (UpdateTaskToCompleted (pgp env) t w))"
begin

lemma Q_check: "Q w \<Longrightarrow> Q (snd (checkConsensus env response w))"
proof -
  assume w: "Q w"
  have mark: "Q (snd (markTaskAsCompleted env t u))" if "Q u" for t u
    unfolding markTaskAsCompleted_def
    using Q_calls [OF only_calls_tick that] by (auto intro!: Q_call Q_complete)
  have col: "Q (snd (collectSignaturesAndAddresses env rs u))" if "Q u" for rs u
    unfolding collectSignaturesAndAddresses_def using that
    by (rule Q_calls [OF collectLoop_only_calls])
  show ?thesis
    unfolding checkConsensus_def Let_def using w
    by (auto intro!: Q_call Q_create mark col split: option.split)
qed

end

sublocale response_invariant \<subseteq> response_handlers
  by unfold_locales (rule Q_check)

text \<open>What the periodic checks can do besides.\<close>

locale periodic_effects = response_effects +
  assumes Q_db: "Q w \<Longrightarrow> db_ok w"
    and Q_forget: "Q w \<Longrightarrow> Q (w\<lparr>taskResponseTrack := cleanupTask t (taskResponseTrack w)\<rparr>)"
    and Q_clear: "Q w \<Longrightarrow> Q (w\<lparr>taskResponseTrack := newTrack\<rparr>)"
    and Q_pending: "Q w \<Longrightarrow> Q (snd (UpdateTaskToPending (pgp env) t w))"
    and Q_retry: "Q w \<Longrightarrow> Q (snd (IncrementRetryCount (pgp env) t w))"
    and Q_delete: "Q w \<Longrightarrow> Q (snd (DeleteTaskByID (pgp env) t w))"
begin

end

locale periodic_handlers = response_handlers + periodic_effects
begin

lemma Q_for_each:
  assumes "Q w" and "\<And>x u. x \<in> set xs \<Longrightarrow> Q u \<Longrightarrow> Q (snd (body x u))"
  shows "Q (snd (for_each body xs w))"
  using assms by (induction xs arbitrary: w) (auto intro!: Q_ignoring)

lemma Q_timeoutTask:
  assumes "Q w" and "task_valid env task"
  shows "Q (snd (timeoutTask env task w))"
proof -
  have u: "Q u" if "IncrementRetryCount (pgp env) t w = (r, u)" for t r u
    using Q_retry [OF assms(1), of t] that by simp
  show ?thesis
    using u assms(2)
    by (simp add: timeoutTask_def on_track_def Q_ignoring Q_delete Q_ProcessTask_Some Q_forget
        split: prod.split res.split option.split)
qed

lemma Q_confirmTask:
  assumes "Q w" and "task_valid env task"
  shows "Q (snd (confirmTask env task w))"
proof -
  have u: "Q u" if "BlockNumber (rpcp env) c w = (r, u)" for c r u
    using Q_calls [OF client_only_calls(1) assms(1), of "rpcp env" c] that by simp
  have v: "Q v" if "UpdateTaskToPending (pgp env) t u = (r, v)" and "Q u" for t r u v
    using Q_pending [OF that(2), of t] that(1) by simp
  show ?thesis
    using u v assms
    by (simp add: confirmTask_def Let_def Q_ignoring Q_ProcessTask_Some split: prod.split res.split)
qed

text \<open>The tasks that a list query returns have valid keys, because their rows do.\<close>

lemma listed_valid:
  assumes "Q w"
    and "ListPendingTasks (pgp env) w = (Ret ts, u) \<or> ListConfirmingTasks (pgp env) w = (Ret ts, u)"
    and "task \<in> set ts"
  shows "task_valid env task"
proof -
  have "\<exists>row \<in> set (tasks_rows w). task = scan_task (pgp env) row"
    using assms(2,3)
    by (auto simp: ListPendingTasks_def ListConfirmingTasks_def scanned_Ret_iff on_tasks_def
        listPendingTasks_def listConfirmingTasks_def select_many_def run_stmt_def
        split: fault.splits)
  then obtain row where "row \<in> set (tasks_rows w)" and t: "task = scan_task (pgp env) row" by blast
  moreover have "tasks_ok (tasks_rows w)" using Q_db [OF assms(1)] by (simp add: db_ok_def)
  ultimately have "num_Valid (t_Key row)"
    by (auto simp: tasks_ok_def keyed_def list_all_iff tasks_check_def not_null_def)
  then show ?thesis by (simp add: t task_valid_def scan_valid_def scan_task_def)
qed

lemma Q_checkTimeouts: "Q w \<Longrightarrow> Q (snd (checkTimeouts env w))"
proof -
  assume w: "Q w"
  have u: "Q u" if "ListPendingTasks (pgp env) w = (r, u)" for r u
    using Q_calls [OF only_calls_tick w] task_reads(4) [of "pgp env" w] that by simp
  show ?thesis
    unfolding checkTimeouts_def using u
    by (auto intro!: Q_for_each Q_timeoutTask listed_valid [OF w] split: prod.split res.split)
qed

lemma Q_checkConfirmations: "Q w \<Longrightarrow> Q (snd (checkConfirmations env w))"
proof -
  assume w: "Q w"
  have u: "Q u" if "ListConfirmingTasks (pgp env) w = (r, u)" for r u
    using Q_calls [OF only_calls_tick w] task_reads(3) [of "pgp env" w] that by simp
  show ?thesis
    unfolding checkConfirmations_def using u
    by (auto intro!: Q_for_each Q_confirmTask listed_valid [OF w] split: prod.split res.split)
qed

lemma Q_periodicCleanup: "Q w \<Longrightarrow> Q (periodicCleanup w)" "Q w \<Longrightarrow> Q (task_Stop w)"
  using Q_clear by (simp_all add: periodicCleanup_def cleanupAllTasks_def newTrack_def task_Stop_def)

end

locale handler_invariant = response_invariant + periodic_effects
begin

end

sublocale handler_invariant \<subseteq> periodic_handlers
  by unfold_locales

end
