(* ===== verification/TaskSafety.thy ===== *)
theory TaskSafety
  imports TaskInv
begin

text \<open>
  The properties of the task processor: the interpretation of the invariant contract, what a stored
  consensus is made of, which responses are taken, and how often a task is tried.
\<close>

section \<open>Writes leave the process state alone\<close>

lemma on_table_more [simp]:
  "DB.more (snd (on_tasks p s w)) = DB.more w" "DB.more (snd (on_operators p t w)) = DB.more w"
  "DB.more (snd (on_consensus p u w)) = DB.more w" "DB.more (snd (on_blacklist p v w)) = DB.more w"
  by (simp_all add: on_tasks_def on_operators_def on_consensus_def on_blacklist_def case_prod_beta)

lemma after_update_more:
  assumes "\<And>w. DB.more (inval w) = DB.more w"
  shows "DB.more (snd (after_update inval r)) = DB.more (snd r)"
  using assms by (cases r; cases "fst r") (auto simp: after_update_def split: option.split)

lemma write_same_process:
  "same_process w (snd (CreateConsensusResponse p carg w))"
  "same_process w (snd (UpdateTaskToCompleted p t w))"
  "same_process w (snd (UpdateTaskToPending p t w))"
  "same_process w (snd (IncrementRetryCount p t w))"
  "same_process w (snd (DeleteTaskByID p t w))"
  "same_process w (snd (CreateTask p targ w))"
  "same_process w (snd (IncrementViolationCount p c v key w))"
  by (simp_all add: same_process_def CreateConsensusResponse_def UpdateTaskToCompleted_def
      UpdateTaskToPending_def IncrementRetryCount_def DeleteTaskByID_def CreateTask_def
      IncrementViolationCount_def after_update_more)

section \<open>The invariant\<close>

text \<open>Every stored response belongs to its task and carries a signature of its signing key.\<close>

definition stored_signed :: "env \<Rightarrow> TaskResponseTrack \<Rightarrow> bool" where
  "stored_signed env tr \<longleftrightarrow>
     (\<forall>t k r. lookup2 (responses tr) t k = Some r \<longrightarrow>
        r_taskID r = t \<and> verifyResponse env r k = Ret ())"

definition proc_inv :: "env \<Rightarrow> World \<Rightarrow> bool" where
  "proc_inv env w \<longleftrightarrow> db_ok w \<and> track_ok (taskResponseTrack w) \<and>
     (scan_valid env \<and> recovers (crp env) \<longrightarrow> stored_signed env (taskResponseTrack w))"

lemma stored_signed_new [simp]: "stored_signed env newTrack"
  by (simp add: stored_signed_def newTrack_def lookup2_def)

text \<open>What an operator signs itself, it would accept from a peer.\<close>

lemma signed_verifies:
  assumes "SignTaskResponse (crp env) (signKey env)
      \<lparr>sp_User = HexToAddress (crp env) (t_TargetAddress task), sp_ChainID = t_ChainID task,
       sp_BlockNumber = t_BlockNumber task, sp_Key = KeyBig, sp_Value = Some v\<rparr> = Ret (r_signature r)"
    and "NumericToBigInt (t_Key task) = Ret KeyBig" and "num_Valid (t_Key task)"
    and "recovers (crp env)"
    and "r_targetAddress r = t_TargetAddress task" "r_chainID r = t_ChainID task"
      "r_blockNumber r = t_BlockNumber task" "r_key r = NumericToString (t_Key task)"
      "r_value r = big_String v"
  shows "verifyResponse env r (self env) = Ret ()"
proof -
  from assms(1) obtain x where x: "KeyBig = Some x"
    by (cases KeyBig) (auto simp: SignTaskResponse_def pack_def)
  have "StringToBigInt (r_key r) = KeyBig"
    using NumericToString_eq [of "t_Key task" x] assms(2,3,8) x by simp
  with assms(1,5-9) sign_verify [OF assms(4,1), of "self env"] show ?thesis
    by (simp add: verifyResponse_def self_def)
qed

lemma signedResponse_verifies:
  assumes "signedResponse env task w = (Ret r, w')" and "num_Valid (t_Key task)"
    and "recovers (crp env)"
  shows "verifyResponse env r (self env) = Ret ()"
proof -
  obtain KeyBig v where "NumericToBigInt (t_Key task) = Ret KeyBig"
    "SignTaskResponse (crp env) (signKey env)
        \<lparr>sp_User = HexToAddress (crp env) (t_TargetAddress task), sp_ChainID = t_ChainID task,
         sp_BlockNumber = t_BlockNumber task, sp_Key = KeyBig, sp_Value = Some v\<rparr> =
       Ret (r_signature r)"
    "r_targetAddress r = t_TargetAddress task" "r_chainID r = t_ChainID task"
    "r_blockNumber r = t_BlockNumber task" "r_key r = NumericToString (t_Key task)"
    "r_value r = big_String v"
    using assms(1)
    by (auto simp: signedResponse_def call_Ret_iff split: if_splits option.splits)
  from signed_verifies [OF this(2,1) assms(2,3) this(3-7)] show ?thesis .
qed

lemma proc_inv_same_process:
  assumes "proc_inv env w" and "same_process w w'" and "db_ok w'"
  shows "proc_inv env w'"
  using assms by (simp add: proc_inv_def same_process_eqs)

lemma proc_inv_writes:
  assumes "proc_inv env w"
  shows "proc_inv env (snd (CreateConsensusResponse p carg w))"
    "proc_inv env (snd (UpdateTaskToCompleted p t w))"
    "proc_inv env (snd (UpdateTaskToPending p t w))"
    "proc_inv env (snd (IncrementRetryCount p t w))"
    "proc_inv env (snd (DeleteTaskByID p t w))"
    "proc_inv env (snd (CreateTask p targ w))"
    "proc_inv env (snd (IncrementViolationCount p c v key w))"
proof -
  have db: "db_ok w" using assms by (simp add: proc_inv_def)
  note keep = proc_inv_same_process [OF assms]
  show "proc_inv env (snd (CreateConsensusResponse p carg w))"
    by (rule keep [OF write_same_process(1) consensus_writes_ok [OF db]])
  show "proc_inv env (snd (UpdateTaskToCompleted p t w))"
    by (rule keep [OF write_same_process(2) task_writes_ok(4) [OF db]])
  show "proc_inv env (snd (UpdateTaskToPending p t w))"
    by (rule keep [OF write_same_process(3) task_writes_ok(5) [OF db]])
  show "proc_inv env (snd (IncrementRetryCount p t w))"
    by (rule keep [OF write_same_process(4) task_writes_ok(3) [OF db]])
  show "proc_inv env (snd (DeleteTaskByID p t w))"
    by (rule keep [OF write_same_process(5) task_writes_ok(2) [OF db]])
  show "proc_inv env (snd (CreateTask p targ w))"
    by (rule keep [OF write_same_process(6) task_writes_ok(1) [OF db]])
  show "proc_inv env (snd (IncrementViolationCount p c v key w))"
    by (rule keep [OF write_same_process(7) blacklist_writes_ok(2) [OF db]])
qed

lemma proc_inv_store:
  assumes "proc_inv env w"
    and "scan_valid env \<and> recovers (crp env) \<longrightarrow> verifyResponse env r k = Ret ()"
  shows "proc_inv env (snd (on_track (storeResponseAndWeight r k x) w))"
proof -
  have ok: "track_ok (taskResponseTrack w)" using assms(1) by (simp add: proc_inv_def)
  define tr' where "tr' = snd (storeResponseAndWeight r k x (taskResponseTrack w))"
  have tr': "track_ok tr'" unfolding tr'_def using tracker.store_ok [OF ok] by blast
  have "stored_signed env tr'" if "scan_valid env \<and> recovers (crp env)"
    using assms that unfolding tr'_def
    by (auto simp: proc_inv_def stored_signed_def tracker.look_store [OF ok] split: if_splits)
  with tr' assms(1) show ?thesis
    by (simp add: on_track_def case_prod_beta proc_inv_def tr'_def db_ok_def)
qed

interpretation proc: handler_invariant env "proc_inv env"
  "\<lambda>r k. scan_valid env \<and> recovers (crp env) \<longrightarrow> verifyResponse env r k = Ret ()" for env
proof
  fix w w' :: World and r :: taskResponse and k t d x arg v key task
  show "proc_inv env w \<Longrightarrow> db_ok w" by (simp add: proc_inv_def)
  show "only_calls w w' \<Longrightarrow> proc_inv env w \<Longrightarrow> proc_inv env w'"
    by (simp add: proc_inv_def only_calls_World)
  show "proc_inv env w \<Longrightarrow>
      scan_valid env \<and> recovers (crp env) \<longrightarrow> verifyResponse env r k = Ret () \<Longrightarrow>
      \<not> alreadyProcessed (taskResponseTrack w) (r_taskID r) k \<Longrightarrow>
      proc_inv env (snd (on_track (storeResponseAndWeight r k x) w))"
    by (rule proc_inv_store)
  show "proc_inv env (w\<lparr>taskResponseTrack := cleanupTask t (taskResponseTrack w)\<rparr>)"
    if "proc_inv env w"
    using that by (auto simp: proc_inv_def db_ok_def track_ok_cleanup stored_signed_def)
  show "proc_inv env (w\<lparr>taskResponseTrack := newTrack\<rparr>)" if "proc_inv env w"
    using that by (simp add: proc_inv_def db_ok_def)
  show "proc_inv env (w\<lparr>published := d # published w\<rparr>)" if "proc_inv env w"
    using that by (simp add: proc_inv_def db_ok_def)
  show "scan_valid env \<and> recovers (crp env) \<longrightarrow> verifyResponse env r (self env) = Ret ()"
    if "signedResponse env task w = (Ret r, w')" and "task_valid env task"
    using signedResponse_verifies [OF that(1)] that(2) by (simp add: task_valid_def)
qed (auto intro: proc_inv_writes)

section \<open>A concrete process, for the witnesses\<close>

text \<open>
  A server without faults, without a cache and with its clock at 0; a library whose addresses are
  texts of bytes; a node that answers every call.
\<close>

definition toy_pg :: pg where
  "toy_pg = \<lparr>fault_at = (\<lambda>_. NoFault), now_at = (\<lambda>_. 0), scan_numeric = (\<lambda>n. n), cache_at = None,
     sha256 = (\<lambda>_. [])\<rparr>"

definition toy_env :: env where
  "toy_env = \<lparr>pgp = toy_pg, crp = toy_crypto, rpcp = toy_rpc, signKey = [1],
     marshal = (\<lambda>m. Inr (pb_Signature m)), unmarshal = (\<lambda>d. Inl (Err ''unmarshal'')),
     publishAt = (\<lambda>_. None)\<rparr>"

definition toy_operator :: "string \<Rightarrow> string \<Rightarrow> int \<Rightarrow> Operators" where
  "toy_operator address key weight =
     \<lparr>o_Address = address, o_SigningKey = key, o_P2pKey = key, o_RegisteredAtBlockNumber = 7698500,
      o_ActiveEpoch = 1, o_ExitEpoch = 4294967295, o_IsActive = True,
      o_Weight = BigIntToNumeric (Some weight), o_CreatedAt = 0, o_UpdatedAt = 0\<rparr>"

definition toy_response :: "string \<Rightarrow> string \<Rightarrow> taskResponse" where
  "toy_response t v =
     \<lparr>r_taskID = t, r_signature = [7], r_epoch = 8, r_chainID = 1, r_targetAddress = ''0x1'',
      r_key = ''5'', r_value = v, r_blockNumber = 7698590\<rparr>"

definition toy_world :: World where
  "toy_world =
     \<lparr>calls = 0, tasks_rows = [],
      operators_rows = [toy_operator ''A'' ''01'' 6, toy_operator ''B'' ''02'' 5],
      consensus_rows = [], blacklist_rows = [], invalidated = [], post_exec = [],
      currentEpochState = \<lparr>EpochNumber = 8, MinimumWeight = Some 1, TotalWeight = Some 11,
        ThresholdWeight = Some 10\<rparr>,
      lastProcessedEpoch = 8, taskResponseTrack = newTrack,
      manager = [(1, \<lparr>cl_chain = 1, cl_epochManager = False, cl_registry = False\<rparr>)],
      published = []\<rparr>"

lemmas toy_defs = toy_pg_def toy_env_def toy_operator_def toy_response_def toy_world_def

lemma toy_env_simps [simp]:
  "pgp toy_env = toy_pg" "crp toy_env = toy_crypto" "rpcp toy_env = toy_rpc"
  "signKey toy_env = [1]" "fault_at toy_pg n = NoFault" "now_at toy_pg n = 0"
  "scan_numeric toy_pg x = x" "cache_at toy_pg = None"
  by (simp_all add: toy_defs)

lemma toy_env_ok: "scan_valid toy_env" "recovers (crp toy_env)"
  using toy_crypto_ok by (simp_all add: scan_valid_def)

lemma toy_self: "self toy_env = ''01''"
  by (simp add: self_def toy_crypto_def GetSigningAddress_def hex_encode_def digit_char_def
      char_of_def bit_0)

lemma proc_inv_toy: "proc_inv env toy_world"
  by (simp add: proc_inv_def toy_world_def db_ok_def tasks_ok_def operators_ok_def consensus_ok_def
      blacklist_ok_def keyed_def operators_check_def toy_operator_def fits_varchar_def fits_int8_def
      fits_numeric_def not_null_def BigIntToNumeric_def)

section \<open>Consensus\<close>

lemma call_unit_state [simp]: "snd (call msg r (\<lambda>_ w. (Ret (), w))) = snd r"
  by (cases r; cases "fst r") auto

text \<open>What the loop over the signing keys collects.\<close>

lemma GetOperatorBySigningKey_row:
  assumes "GetOperatorBySigningKey p k w = (Ret (Some op), w')" and "cache_at p = None"
  shows "\<exists>row \<in> set (operators_rows w). o_SigningKey row = k \<and> op = scan_operator p row"
proof -
  from assms obtain row where "find (\<lambda>r. o_SigningKey r = k) (operators_rows w) = Some row"
    and op: "op = scan_operator p row"
    by (cases "find (\<lambda>r. o_SigningKey r = k) (operators_rows w)")
      (auto simp: GetOperatorBySigningKey_def GetWithTtl_def scanned_Ret_iff on_operators_def
        run_stmt_def getOperatorBySigningKey_def select_one_def split: fault.splits prod.splits)
  then have "row \<in> set (operators_rows w)" and "o_SigningKey row = k"
    by (auto simp: find_Some_iff)
  with op show ?thesis by blast
qed

definition signature_of :: "(string, taskResponse) gomap \<Rightarrow> string \<Rightarrow> bytes" where
  "signature_of rs k = (case map_of rs k of None \<Rightarrow> [] | Some r \<Rightarrow> r_signature r)"

lemma collectLoop_Ret:
  assumes "collectLoop env rs ks ss as w = (Ret (ss', as'), w')"
  shows "ss' = ss @ map (signature_of rs) ks \<and>
    (\<exists>bs. as' = as @ bs \<and> length bs = length ks \<and>
       (cache_at (pgp env) = None \<longrightarrow>
          list_all2 (\<lambda>k a. \<exists>op \<in> set (operators_rows w). o_SigningKey op = k \<and> o_Address op = a)
            ks bs))"
  using assms
proof (induction ks arbitrary: ss as w)
  case (Cons k ks)
  then obtain op w1 where g: "GetOperatorBySigningKey (pgp env) k w = (Ret (Some op), w1)"
    and rec: "collectLoop env rs ks (ss @ [signature_of rs k]) (as @ [o_Address op]) w1 =
      (Ret (ss', as'), w')"
    by (auto simp: call_Ret_iff signature_of_def split: option.splits)
  have rows: "operators_rows w1 = operators_rows w"
    using operator_reads_only_calls(3) [of w "pgp env" k] only_calls_World(2) g by simp
  from Cons.IH [OF rec] obtain bs where bs: "ss' = (ss @ [signature_of rs k]) @ map (signature_of rs) ks"
    "as' = (as @ [o_Address op]) @ bs" "length bs = length ks"
    "cache_at (pgp env) = None \<Longrightarrow>
      list_all2 (\<lambda>k a. \<exists>op \<in> set (operators_rows w). o_SigningKey op = k \<and> o_Address op = a) ks bs"
    using rows by auto
  moreover have "\<exists>q \<in> set (operators_rows w). o_SigningKey q = k \<and> o_Address q = o_Address op"
    if "cache_at (pgp env) = None"
    using GetOperatorBySigningKey_row [OF g that] by (auto simp: scan_operator_def)
  ultimately show ?case by (intro conjI exI [of _ "o_Address op # bs"]) auto
qed simp

lemma CreateConsensus_rows:
  "consensus_rows (snd (CreateConsensusResponse p arg w)) = consensus_rows w \<or>
   (\<exists>row. consensus_rows (snd (CreateConsensusResponse p arg w)) = consensus_rows w @ [row] \<and>
      cc_TaskID arg \<notin> set (map c_TaskID (consensus_rows w)) \<and> c_TaskID row = cc_TaskID arg \<and>
      c_Epoch row = cc_Epoch arg \<and>
      c_AggregatedSignatures row = cc_AggregatedSignatures arg \<and>
      c_OperatorAddresses row = cc_OperatorAddresses arg)"
  using createConsensusResponse_Inr [of arg "now_at p (calls w)" "consensus_rows w"]
  by (auto simp: CreateConsensusResponse_def on_consensus_def run_stmt_def case_prod_beta
      split: fault.split sum.split)

lemma markTask_consensus: "consensus_rows (snd (markTaskAsCompleted env t w)) = consensus_rows w"
proof -
  have "consensus_rows (snd (UpdateTaskToCompleted p t u)) = consensus_rows u"
    for p and u :: World
    by (simp add: UpdateTaskToCompleted_def on_tasks_def case_prod_beta)
  moreover have "snd (GetTaskByID (pgp env) t w) = tick w" by simp
  ultimately show ?thesis
    unfolding markTaskAsCompleted_def
    by (cases "GetTaskByID (pgp env) t w"; cases "fst (GetTaskByID (pgp env) t w)")
      (auto simp: call_unit_state)
qed

text \<open>The two maps of a task, empty when there is none, as \<open>checkConsensus\<close> reads them.\<close>

definition responses_of :: "World \<Rightarrow> string \<Rightarrow> (string, taskResponse) gomap" where
  "responses_of w t = (case map_of (responses (taskResponseTrack w)) t of None \<Rightarrow> [] | Some m \<Rightarrow> m)"

definition weights_of :: "World \<Rightarrow> string \<Rightarrow> (string, int option) gomap" where
  "weights_of w t = (case map_of (weights (taskResponseTrack w)) t of None \<Rightarrow> [] | Some m \<Rightarrow> m)"

lemma checkConsensus_row:
  assumes "consensus_rows (snd (checkConsensus env response w)) \<noteq> consensus_rows w"
  shows "\<exists>sum threshold row.
    calculateTotalWeight (weights_of w (r_taskID response)) = Ret sum \<and>
    ThresholdWeight (currentEpochState w) = Some threshold \<and> threshold \<le> sum \<and>
    consensus_rows (snd (checkConsensus env response w)) = consensus_rows w @ [row] \<and>
    r_taskID response \<notin> set (map c_TaskID (consensus_rows w)) \<and>
    c_TaskID row = r_taskID response \<and> c_Epoch row = r_epoch response \<and>
    c_AggregatedSignatures row =
      map (signature_of (responses_of w (r_taskID response)))
        (sort (gokeys (responses_of w (r_taskID response)))) \<and>
    length (c_OperatorAddresses row) = length (responses_of w (r_taskID response)) \<and>
    (cache_at (pgp env) = None \<longrightarrow>
      list_all2 (\<lambda>k a. \<exists>op \<in> set (operators_rows w). o_SigningKey op = k \<and> o_Address op = a)
        (sort (gokeys (responses_of w (r_taskID response)))) (c_OperatorAddresses row))"
proof -
  define t where "t = r_taskID response"
  define rs where "rs = responses_of w t"
  define ws where "ws = weights_of w t"
  have ne: "rs \<noteq> []"
    using assms by (auto simp: checkConsensus_def rs_def responses_of_def t_def)
  then obtain sum where sum: "calculateTotalWeight ws = Ret sum"
    using assms
    by (cases "calculateTotalWeight ws")
      (auto simp: checkConsensus_def rs_def ws_def responses_of_def weights_of_def t_def Let_def)
  then obtain threshold where th: "ThresholdWeight (currentEpochState w) = Some threshold"
    "threshold \<le> sum"
    using assms ne
    by (auto simp: checkConsensus_def rs_def ws_def responses_of_def weights_of_def t_def Let_def
        querier_GetThresholdWeight_def not_less split: option.splits if_splits)
  obtain c w1 where c: "collectLoop env rs (sort (gokeys rs)) [] [] w = (c, w1)" by fastforce
  have w1: "consensus_rows w1 = consensus_rows w" "operators_rows w1 = operators_rows w"
    using collectLoop_only_calls [of w env rs "sort (gokeys rs)" "[]" "[]"] c only_calls_World(2,3)
    by simp_all
  have unfolded: "snd (checkConsensus env response w) =
      snd (call ''failed to collect signatures and addresses'' (c, w1) (\<lambda>(signatures, addresses) w.
        call ''failed to create consensus response''
          (CreateConsensusResponse (pgp env)
             \<lparr>cc_TaskID = t, cc_Epoch = r_epoch response,
              cc_Value = StringToNumeric (r_value response),
              cc_Key = StringToNumeric (r_key response), cc_ChainID = r_chainID response,
              cc_BlockNumber = r_blockNumber response,
              cc_TargetAddress = r_targetAddress response,
              cc_AggregatedSignatures = signatures, cc_OperatorAddresses = addresses\<rparr> w)
          (\<lambda>_ w. call ''failed to mark task as completed'' (markTaskAsCompleted env t w)
             (\<lambda>_ w. (Ret (), w)))))"
    using ne sum th c
    by (simp add: checkConsensus_def Let_def rs_def ws_def responses_of_def weights_of_def t_def
        querier_GetThresholdWeight_def collectSignaturesAndAddresses_def not_less)
  obtain ss bs where cs: "c = Ret (ss, bs)"
    using assms w1 unfolding unfolded by (cases c) auto
  define arg where "arg = \<lparr>cc_TaskID = t, cc_Epoch = r_epoch response,
      cc_Value = StringToNumeric (r_value response),
      cc_Key = StringToNumeric (r_key response), cc_ChainID = r_chainID response,
      cc_BlockNumber = r_blockNumber response, cc_TargetAddress = r_targetAddress response,
      cc_AggregatedSignatures = ss, cc_OperatorAddresses = bs\<rparr>"
  have rows: "consensus_rows (snd (checkConsensus env response w)) =
      consensus_rows (snd (CreateConsensusResponse (pgp env) arg w1))"
    unfolding unfolded cs arg_def [symmetric]
    by (cases "CreateConsensusResponse (pgp env) arg w1";
        cases "fst (CreateConsensusResponse (pgp env) arg w1)")
      (auto simp: arg_def markTask_consensus)
  have col: "ss = map (signature_of rs) (sort (gokeys rs))" "length bs = length (sort (gokeys rs))"
    "cache_at (pgp env) = None \<longrightarrow>
      list_all2 (\<lambda>k a. \<exists>op \<in> set (operators_rows w). o_SigningKey op = k \<and> o_Address op = a)
        (sort (gokeys rs)) bs"
    using collectLoop_Ret [OF c [unfolded cs]] by auto
  from CreateConsensus_rows [of "pgp env" arg w1] assms obtain row where
    row: "consensus_rows (snd (CreateConsensusResponse (pgp env) arg w1)) = consensus_rows w1 @ [row]"
      "cc_TaskID arg \<notin> set (map c_TaskID (consensus_rows w1))" "c_TaskID row = cc_TaskID arg"
      "c_Epoch row = cc_Epoch arg" "c_AggregatedSignatures row = cc_AggregatedSignatures arg"
      "c_OperatorAddresses row = cc_OperatorAddresses arg"
    unfolding rows w1 by blast
  have len: "length (gokeys rs) = length rs" by (simp add: gokeys_def)
  show ?thesis
    using sum th row rows col w1 len unfolding rs_def ws_def t_def
    by (intro exI [of _ sum] exI [of _ threshold] exI [of _ row]) (simp add: arg_def t_def rs_def)
qed

text \<open>
  C3. Quorum. Whatever faults occur, the check for consensus adds at most one row to the table of
  consensus responses, and only if the weights that are tracked for the task add up to the threshold
  of the current epoch, and the task has no consensus yet. The row holds the signatures of all tracked
  responses in the order of their signing keys, and one operator address for each of them; without a
  cache these are the addresses of the operators registered with those keys.
\<close>

theorem checkConsensus_quorum:
  assumes "consensus_rows (snd (checkConsensus env response w)) \<noteq> consensus_rows w"
  shows "\<exists>sum threshold row.
    calculateTotalWeight (weights_of w (r_taskID response)) = Ret sum \<and>
    ThresholdWeight (currentEpochState w) = Some threshold \<and> threshold \<le> sum \<and>
    consensus_rows (snd (checkConsensus env response w)) = consensus_rows w @ [row] \<and>
    r_taskID response \<notin> set (map c_TaskID (consensus_rows w)) \<and>
    c_TaskID row = r_taskID response \<and> c_Epoch row = r_epoch response \<and>
    c_AggregatedSignatures row =
      map (signature_of (responses_of w (r_taskID response)))
        (sort (gokeys (responses_of w (r_taskID response)))) \<and>
    length (c_OperatorAddresses row) = length (responses_of w (r_taskID response)) \<and>
    (cache_at (pgp env) = None \<longrightarrow>
      list_all2 (\<lambda>k a. \<exists>op \<in> set (operators_rows w). o_SigningKey op = k \<and> o_Address op = a)
        (sort (gokeys (responses_of w (r_taskID response)))) (c_OperatorAddresses row))"
  using assms by (rule checkConsensus_row)

text \<open>Evaluation of the repository calls on a concrete world.\<close>

lemmas repo_eval = GetOperatorBySigningKey_def GetWithTtl_def on_operators_def run_stmt_def
  getOperatorBySigningKey_def select_one_def scanned_def tick_def scan_operator_def
  CreateConsensusResponse_def createConsensusResponse_def insert_row_def on_consensus_def
  markTaskAsCompleted_def GetTaskByID_def UpdateTaskToCompleted_def on_tasks_def getTaskByID_def
  updateTaskToCompleted_def exec_stmt_def update_row_def scan_consensus_def

lemmas check_eval = consensus_check_def fits_varchar_def fits_int4_def fits_int8_def
  fits_numeric_def not_null_def StringToNumeric_def BigIntToNumeric_def StringToBigInt_def
  big_SetString10_def parse_nat_def digit_val_def

lemmas consensus_eval = checkConsensus_def Let_def calculateTotalWeight_def
  querier_GetThresholdWeight_def collectSignaturesAndAddresses_def gokeys_def repo_eval check_eval

text \<open>A world with two responses of different values for the same task.\<close>

definition toy_split :: World where
  "toy_split = toy_world\<lparr>taskResponseTrack :=
     \<lparr>responses = [(''T'', [(''02'', toy_response ''T'' ''2''), (''01'', toy_response ''T'' ''1'')])],
      weights = [(''T'', [(''02'', Some 5), (''01'', Some 6)])]\<rparr>\<rparr>"

lemma toy_split_consensus:
  "consensus_rows (snd (checkConsensus toy_env (toy_response ''T'' ''2'') toy_split)) =
    [\<lparr>c_TaskID = ''T'', c_Epoch = 8, c_ChainID = 1, c_TargetAddress = ''0x1'',
      c_BlockNumber = 7698590, c_Key = BigIntToNumeric (Some 5),
      c_Value = BigIntToNumeric (Some 2), c_AggregatedSignatures = [[7], [7]],
      c_OperatorAddresses = [''A'', ''B''], c_CreatedAt = 0, c_UpdatedAt = 0\<rparr>]"
  by (simp add: toy_split_def toy_world_def toy_response_def toy_operator_def consensus_eval)

theorem checkConsensus_quorum_witness:
  "\<exists>sum threshold row.
    calculateTotalWeight (weights_of toy_split ''T'') = Ret sum \<and>
    ThresholdWeight (currentEpochState toy_split) = Some threshold \<and> threshold \<le> sum \<and>
    consensus_rows (snd (checkConsensus toy_env (toy_response ''T'' ''2'') toy_split)) = [row]"
proof -
  have id: "r_taskID (toy_response ''T'' ''2'') = ''T''" and rows: "consensus_rows toy_split = []"
    by (simp_all add: toy_response_def toy_split_def toy_world_def)
  have "consensus_rows (snd (checkConsensus toy_env (toy_response ''T'' ''2'') toy_split)) \<noteq>
      consensus_rows toy_split"
    by (simp add: toy_split_consensus rows)
  from checkConsensus_quorum [OF this] show ?thesis
    unfolding id rows by auto
qed

lemma checkConsensus_signed:
  assumes "proc_inv env w" and "scan_valid env" and "recovers (crp env)"
    and "consensus_rows (snd (checkConsensus env response w)) = consensus_rows w @ [row]"
  shows "list_all2
    (\<lambda>k sig. \<exists>r. verifyResponse env r k = Ret () \<and> r_taskID r = c_TaskID row \<and> r_signature r = sig)
    (sort (gokeys (responses_of w (c_TaskID row)))) (c_AggregatedSignatures row)"
proof -
  have "consensus_rows (snd (checkConsensus env response w)) \<noteq> consensus_rows w"
    using assms(4) by simp
  from checkConsensus_row [OF this] assms(4) have row: "c_TaskID row = r_taskID response"
    "c_AggregatedSignatures row = map (signature_of (responses_of w (c_TaskID row)))
        (sort (gokeys (responses_of w (c_TaskID row))))"
    by auto
  have signed: "stored_signed env (taskResponseTrack w)"
    using assms(1,2,3) by (simp add: proc_inv_def)
  have "\<exists>r. verifyResponse env r k = Ret () \<and> r_taskID r = c_TaskID row \<and>
      r_signature r = signature_of (responses_of w (c_TaskID row)) k"
    if "k \<in> set (gokeys (responses_of w (c_TaskID row)))" for k
  proof -
    from that obtain r where "map_of (responses_of w (c_TaskID row)) k = Some r" by auto
    then have "lookup2 (responses (taskResponseTrack w)) (c_TaskID row) k = Some r"
      and s: "signature_of (responses_of w (c_TaskID row)) k = r_signature r"
      by (cases "map_of (responses (taskResponseTrack w)) (c_TaskID row)";
          simp add: responses_of_def lookup2_def signature_of_def)+
    then have "r_taskID r = c_TaskID row \<and> verifyResponse env r k = Ret ()"
      using signed by (simp add: stored_signed_def)
    with s show ?thesis by auto
  qed
  then show ?thesis
    unfolding row(2) by (simp add: list_all2_map2 list_all2_same del: set_gokeys)
qed

lemma checkConsensus_nonempty:
  assumes "consensus_rows (snd (checkConsensus env response w)) \<noteq> consensus_rows w"
  shows "responses_of w (r_taskID response) \<noteq> []"
  using assms by (auto simp: checkConsensus_def responses_of_def)

text \<open>
  Only genuine signatures. When the library recovers the signing key of a signature and the
  driver keeps numbers valid, every signature of a consensus row that the processor stores verifies,
  for the task of the row, under the signing key at its position.
\<close>

theorem checkConsensus_signatures:
  assumes "proc_inv env w" and "scan_valid env" and "recovers (crp env)"
    and "consensus_rows (snd (checkConsensus env response w)) = consensus_rows w @ [row]"
  shows "list_all2
    (\<lambda>k sig. \<exists>r. verifyResponse env r k = Ret () \<and> r_taskID r = c_TaskID row \<and> r_signature r = sig)
    (sort (gokeys (responses_of w (c_TaskID row)))) (c_AggregatedSignatures row)"
  by (rule checkConsensus_signed [OF assms])

text \<open>A library that recovers the same key from every signature.\<close>

definition one_key_env :: env where
  "one_key_env = toy_env\<lparr>crp := toy_crypto\<lparr>SigToPub := (\<lambda>h s. Inr [1]), publicKey := (\<lambda>k. [1])\<rparr>\<rparr>"

definition one_key_world :: World where
  "one_key_world = toy_world\<lparr>currentEpochState := (currentEpochState toy_world)\<lparr>ThresholdWeight := Some 5\<rparr>,
     taskResponseTrack :=
       \<lparr>responses = [(''T'', [(''01'', toy_response ''T'' ''1'')])],
        weights = [(''T'', [(''01'', Some 6)])]\<rparr>\<rparr>"

lemma one_key_verifies: "verifyResponse one_key_env (toy_response ''T'' ''1'') ''01'' = Ret ()"
  by (simp add: verifyResponse_def one_key_env_def toy_env_def toy_crypto_def toy_response_def
      VerifyTaskResponse_def pack_def StringToBigInt_def big_SetString10_def parse_nat_def
      digit_val_def hex_encode_def digit_char_def char_of_def bit_0)

lemma one_key_inv: "proc_inv one_key_env one_key_world"
proof -
  have "db_ok one_key_world"
    using proc_inv_toy [of one_key_env] by (simp add: proc_inv_def one_key_world_def db_ok_def)
  moreover have "track_ok (taskResponseTrack one_key_world)"
    by (simp add: one_key_world_def track_ok_def gokeys_def)
  moreover have "stored_signed one_key_env (taskResponseTrack one_key_world)"
    using one_key_verifies
    by (auto simp: stored_signed_def one_key_world_def lookup2_def toy_response_def
        split: if_splits option.splits)
  ultimately show ?thesis by (simp add: proc_inv_def)
qed

theorem checkConsensus_signatures_witness:
  "\<exists>row :: ConsensusResponse. list_all2
    (\<lambda>k sig. \<exists>r. verifyResponse one_key_env r k = Ret () \<and> r_taskID r = ''T'' \<and> r_signature r = sig)
    (sort (gokeys (responses_of one_key_world ''T''))) (c_AggregatedSignatures row) \<and>
    c_AggregatedSignatures row = [[7]]"
proof -
  obtain row where row: "consensus_rows (snd (checkConsensus one_key_env
      (toy_response ''T'' ''1'') one_key_world)) = consensus_rows one_key_world @ [row]"
    and "c_TaskID row = ''T''" "c_AggregatedSignatures row = [[7]]"
    by (simp add: one_key_env_def one_key_world_def toy_world_def toy_env_def toy_pg_def
        toy_response_def toy_operator_def consensus_eval)
  moreover have "scan_valid one_key_env" "recovers (crp one_key_env)"
    by (simp_all add: scan_valid_def recovers_def one_key_env_def toy_env_def toy_pg_def
        toy_crypto_def)
  ultimately show ?thesis
    using checkConsensus_signatures [OF one_key_inv _ _ row]
    by (intro exI [of _ row]) simp
qed


text \<open>
  Before the first epoch update the threshold is nil: the check of a task that has a response
  with its weight panics, and no row is stored.
\<close>

theorem checkConsensus_before_first_epoch:
  assumes "currentEpochState w = initialEpochState" and "responses_of w (r_taskID response) \<noteq> []"
  shows "fst (checkConsensus env response w) = Panic \<and>
    snd (checkConsensus env response w) = w"
proof -
  have "addWeights ws acc \<noteq> Fail e" for ws acc e
    by (induction ws acc rule: addWeights.induct) (auto split: option.split)
  with assms show ?thesis
    by (cases "calculateTotalWeight (weights_of w (r_taskID response))")
      (auto simp: checkConsensus_def Let_def responses_of_def weights_of_def initialEpochState_def
        querier_GetThresholdWeight_def calculateTotalWeight_def)
qed

theorem checkConsensus_before_first_epoch_witness:
  "fst (checkConsensus toy_env (toy_response ''T'' ''2'')
     (toy_split\<lparr>currentEpochState := initialEpochState\<rparr>)) = Panic"
  using checkConsensus_before_first_epoch
    [of "toy_split\<lparr>currentEpochState := initialEpochState\<rparr>" "toy_response ''T'' ''2''" toy_env]
  by (simp add: responses_of_def toy_split_def toy_world_def toy_response_def)

end
