(* ===== verification/TaskFlow.thy ===== *)
theory TaskFlow
  imports TaskSafety
begin

text \<open>
  What the handlers of the task processor do on their branches: where a signed value comes from, how
  often a chain is asked, whose responses are refused and what that costs the peer, what a repeated
  response does, how a task ends after three tries, and the inputs on which a handler panics.
\<close>

section \<open>Frames\<close>

lemma markTask_same_process: "same_process w (snd (markTaskAsCompleted env t w))"
  unfolding markTaskAsCompleted_def
  by (auto intro!: call_same_process write_same_process)

lemma collect_same_process: "same_process w (snd (collectSignaturesAndAddresses env rs w))"
  unfolding collectSignaturesAndAddresses_def
  by (rule only_calls_same_process [OF collectLoop_only_calls])

lemma checkConsensus_same_process: "same_process w (snd (checkConsensus env response w))"
  unfolding checkConsensus_def Let_def
  by (auto intro!: call_same_process write_same_process markTask_same_process collect_same_process
      split: option.split)

lemma checkConsensus_track [simp]:
  "taskResponseTrack (snd (checkConsensus env response w)) = taskResponseTrack w"
  "published (snd (checkConsensus env response w)) = published w"
  using same_process_eqs [OF checkConsensus_same_process [of w env response]] by simp_all

lemma broadcast_track [simp]:
  "taskResponseTrack (snd (broadcastResponse env response w)) = taskResponseTrack w"
  by (simp add: broadcastResponse_def tick_def split: sum.split option.split)

section \<open>Reading the chain\<close>

lemma stateAttempts_Ret:
  assumes "stateAttempts env c a k b n w = (Ret v, w')"
  shows "\<exists>i latest. rpcBlockNumber (rpcp env) i (cl_chain c) = Inr latest \<and> b \<le> latest \<and>
    rpcGetHistoryAtBlock (rpcp env) (Suc i) (cl_chain c) a k (sint b) = Inr v"
  using assms
proof (induction n arbitrary: w)
  case (Suc n)
  then show ?case
    by (auto simp: BlockNumber_def GetStateAtBlock_def rpc_call_def of_sum_def call_def not_less
        split: sum.splits if_splits)
qed simp

lemma stateAttempts_calls:
  "fst (stateAttempts env c a k b n w) \<noteq> Panic \<and>
   calls (snd (stateAttempts env c a k b n w)) \<le> calls w + 2 * n"
proof (induction n arbitrary: w)
  case (Suc n)
  have "fst (stateAttempts env c a k b n (tick w)) \<noteq> Panic \<and>
      calls (snd (stateAttempts env c a k b n (tick w))) \<le> calls w + 2 * Suc n"
    using Suc [of "tick w"] by simp
  moreover have "fst (stateAttempts env c a k b n (tick (tick w))) \<noteq> Panic \<and>
      calls (snd (stateAttempts env c a k b n (tick (tick w)))) \<le> calls w + 2 * Suc n"
    using Suc [of "tick (tick w)"] by simp
  ultimately show ?case
    by (auto simp: BlockNumber_def GetStateAtBlock_def rpc_call_def of_sum_def call_def
        split: sum.split)
qed simp



lemma signedResponse_value:
  assumes "signedResponse env task w = (Ret r, w')"
  shows "r_taskID r = t_TaskID task \<and>
    (\<exists>c key i v. GetClientByChainId (manager w) (t_ChainID task) = Ret c \<and>
       NumericToBigInt (t_Key task) = Ret key \<and>
       rpcGetHistoryAtBlock (rpcp env) i (cl_chain c) (HexToAddress (crp env) (t_TargetAddress task))
         key (sint (t_BlockNumber task)) = Inr v \<and>
       NumericToBigInt (t_Value task) = Ret (Some v) \<and> r_value r = big_String v)"
  using assms
  by (auto simp: signedResponse_def call_Ret_iff getStateWithRetries_def
      split: if_splits option.splits dest!: stateAttempts_Ret intro!: exI)

text \<open>What \<open>ProcessTask\<close> leaves in the tracker: its own response, or nothing new.\<close>

lemma ProcessTask_stores:
  assumes "track_ok (taskResponseTrack w)"
    and "\<not> alreadyProcessed (taskResponseTrack w) (t_TaskID task) (self env)"
    and "signedResponse env task w = (Ret r, w1)" and "ownWeight env w1 = (Ret x, w2)"
  shows "taskResponseTrack (snd (ProcessTask env (Some task) w)) =
    snd (storeResponseAndWeight r (self env) x (taskResponseTrack w))"
proof -
  have "only_calls w w1" using signedResponse_only_calls [of w env task] assms(3) by simp
  moreover have "only_calls w1 w2" using ownWeight_only_calls [of w1 env] assms(4) by simp
  ultimately have t2: "taskResponseTrack w2 = taskResponseTrack w"
    using only_calls_World(9) by simp
  define w3 where "w3 = w2\<lparr>taskResponseTrack :=
      snd (storeResponseAndWeight r (self env) x (taskResponseTrack w))\<rparr>"
  have "on_track (storeResponseAndWeight r (self env) x) w2 = (Ret (), w3)"
    using tracker.store_ok [OF assms(1), of r "self env" x] t2
    by (auto simp: on_track_def case_prod_beta w3_def)
  then have "snd (ProcessTask env (Some task) w) =
      snd (call ''failed to broadcast response'' (broadcastResponse env r w3)
        (\<lambda>_ w. ignoring (checkConsensus env r w) (\<lambda>w. (Ret (), w))))"
    using assms(2-4) by (simp add: ProcessTask_def)
  also have "taskResponseTrack \<dots> = taskResponseTrack w3"
    using broadcast_track [of env r w3]
    by (cases "broadcastResponse env r w3"; cases "fst (broadcastResponse env r w3)")
      (auto simp: ignoring_def case_prod_beta split: res.split)
  finally show ?thesis by (simp add: w3_def)
qed

lemma ProcessTask_track:
  assumes "track_ok (taskResponseTrack w)"
  shows "taskResponseTrack (snd (ProcessTask env (Some task) w)) = taskResponseTrack w \<or>
    (\<exists>r w1 x. signedResponse env task w = (Ret r, w1) \<and>
       \<not> alreadyProcessed (taskResponseTrack w) (t_TaskID task) (self env) \<and>
       taskResponseTrack (snd (ProcessTask env (Some task) w)) =
         snd (storeResponseAndWeight r (self env) x (taskResponseTrack w)))"
proof (cases "alreadyProcessed (taskResponseTrack w) (t_TaskID task) (self env)")
  case False
  obtain sr w1 where s: "signedResponse env task w = (sr, w1)" by fastforce
  obtain wr w2 where o: "ownWeight env w1 = (wr, w2)" by fastforce
  have "only_calls w w1" using signedResponse_only_calls [of w env task] s by simp
  moreover have "only_calls w1 w2" using ownWeight_only_calls [of w1 env] o by simp
  ultimately have t: "taskResponseTrack w1 = taskResponseTrack w" "taskResponseTrack w2 = taskResponseTrack w"
    using only_calls_World(9) by simp_all
  show ?thesis
  proof (cases "\<exists>r x. sr = Ret r \<and> wr = Ret x")
    case True
    then obtain r x where "sr = Ret r" "wr = Ret x" by blast
    with ProcessTask_stores [OF assms False] s o False show ?thesis by blast
  next
    case fails: False
    then show ?thesis
      using False s o t by (cases sr; cases wr) (auto simp: ProcessTask_def)
  qed
qed (simp add: ProcessTask_def)

text \<open>
  C9. An operator attests only what the chain answered. If processing a task changes what is tracked,
  then the new entry is its own, for that task, it was not there before, and its value is the one the
  chain answered for the address, key and block of the task, which is also the value of the task.
\<close>

theorem ProcessTask_attests_chain_value:
  assumes "track_ok (taskResponseTrack w)"
    and "lookup2 (responses (taskResponseTrack (snd (ProcessTask env (Some task) w)))) t k \<noteq>
         lookup2 (responses (taskResponseTrack w)) t k"
  shows "t = t_TaskID task \<and> k = self env \<and> lookup2 (responses (taskResponseTrack w)) t k = None \<and>
    (\<exists>r c key i v.
       lookup2 (responses (taskResponseTrack (snd (ProcessTask env (Some task) w)))) t k = Some r \<and>
       GetClientByChainId (manager w) (t_ChainID task) = Ret c \<and>
       NumericToBigInt (t_Key task) = Ret key \<and>
       rpcGetHistoryAtBlock (rpcp env) i (cl_chain c) (HexToAddress (crp env) (t_TargetAddress task))
         key (sint (t_BlockNumber task)) = Inr v \<and>
       NumericToBigInt (t_Value task) = Ret (Some v) \<and> r_value r = big_String v)"
proof -
  from ProcessTask_track [OF assms(1), of env task] assms(2) obtain r w1 x where
    s: "signedResponse env task w = (Ret r, w1)"
    and new: "\<not> alreadyProcessed (taskResponseTrack w) (t_TaskID task) (self env)"
    and tr: "taskResponseTrack (snd (ProcessTask env (Some task) w)) =
      snd (storeResponseAndWeight r (self env) x (taskResponseTrack w))"
    by auto
  note val = signedResponse_value [OF s]
  have look: "lookup2 (responses (taskResponseTrack (snd (ProcessTask env (Some task) w)))) t k =
      (if t = t_TaskID task \<and> k = self env then Some r
       else lookup2 (responses (taskResponseTrack w)) t k)"
    unfolding tr using tracker.look_store [OF assms(1)] val by simp
  with assms(2) have tk: "t = t_TaskID task" "k = self env" by (auto split: if_splits)
  with new look val show ?thesis by (simp add: alreadyProcessed_def)
qed

section \<open>What responses never undo\<close>

text \<open>A response that is tracked stays as it is.\<close>

definition keeps_responses :: "TaskResponseTrack \<Rightarrow> TaskResponseTrack \<Rightarrow> bool" where
  "keeps_responses tr tr' \<longleftrightarrow> track_ok tr' \<and>
     (\<forall>t k r. lookup2 (responses tr) t k = Some r \<longrightarrow> lookup2 (responses tr') t k = Some r)"

lemma keeps_store:
  assumes "keeps_responses tr tr'" and "\<not> alreadyProcessed tr' (r_taskID r) k"
  shows "keeps_responses tr (snd (storeResponseAndWeight r k x tr'))"
  using assms
  by (auto simp: keeps_responses_def alreadyProcessed_def tracker.store_ok tracker.look_store)

interpretation first_wins:
  response_invariant env "\<lambda>w. keeps_responses tr (taskResponseTrack w)" "\<lambda>_ _. True" for env tr
proof
  fix w w' :: World
  show "keeps_responses tr (taskResponseTrack w)"
    if "only_calls w' w" and "keeps_responses tr (taskResponseTrack w')"
    using that only_calls_World(9) by simp
qed (simp_all add: on_track_def case_prod_beta keeps_store
      same_process_eqs(3) [OF write_same_process(1)] same_process_eqs(3) [OF write_same_process(2)]
      same_process_eqs(3) [OF write_same_process(7)])


text \<open>A process that reads every message as the same response.\<close>

definition toy_message :: "string \<Rightarrow> string \<Rightarrow> TaskResponseMessage" where
  "toy_message t v =
     \<lparr>pb_TaskId = t, pb_Signature = [9], pb_Epoch = 8, pb_ChainId = 1, pb_TargetAddress = ''0x1'',
      pb_Key = ''5'', pb_Value = v, pb_BlockNumber = 7698590\<rparr>"

definition toy_reader :: "string \<Rightarrow> string \<Rightarrow> env" where
  "toy_reader t v = toy_env\<lparr>unmarshal := (\<lambda>_. Inr (toy_message t v))\<rparr>"


text \<open>The state of a task only moves forward, and the task stays.\<close>

definition tasks_advance :: "Tasks list \<Rightarrow> Tasks list \<Rightarrow> bool" where
  "tasks_advance t t' \<longleftrightarrow>
     (\<forall>k s. status_of k t = Some s \<longrightarrow> (\<exists>s'. status_of k t' = Some s' \<and> s \<le> s'))"

lemma tasks_advance_refl [simp]: "tasks_advance t t"
  by (auto simp: tasks_advance_def)

lemma tasks_advance_trans: "tasks_advance t u \<Longrightarrow> tasks_advance u v \<Longrightarrow> tasks_advance t v"
  unfolding tasks_advance_def by (meson order_trans)

lemma le_Completed: "s \<le> Completed"
  by (cases s) (simp_all add: less_eq_lifecycle_def)

lemma task_of_update:
  assumes "update_row t_TaskID tasks_check k f t = Inr (x, t')" and "\<And>r. t_TaskID (f r) = t_TaskID r"
  shows "task_of j t' = map_option (\<lambda>r. if j = k then f r else r) (task_of j t)"
  unfolding task_of_def using assms by (rule look_update_row)

lemma complete_advances:
  assumes "updateTaskToCompleted k now t = Inr (u, t')"
  shows "tasks_advance t t'"
proof -
  obtain x where "update_row t_TaskID tasks_check k
      (\<lambda>r. r\<lparr>t_Status := TaskStatusCompleted, t_UpdatedAt := now\<rparr>) t = Inr (x, t')"
    using assms by (auto simp: updateTaskToCompleted_def exec_stmt_Inr)
  from task_of_update [OF this] show ?thesis
    by (auto simp: tasks_advance_def status_of_def le_Completed TaskStatusCompleted_def
        TaskStatusConfirming_def TaskStatusPending_def split: option.splits)
qed

lemma on_tasks_advances:
  assumes "\<And>n t x t'. s n t = Inr (x, t') \<Longrightarrow> tasks_advance t t'"
  shows "tasks_advance (tasks_rows w) (tasks_rows (snd (on_tasks p s w)))"
  using assms
  by (auto simp: on_tasks_def run_stmt_def case_prod_beta split: fault.split sum.split prod.split)

lemma UpdateTaskToCompleted_advances:
  "tasks_advance (tasks_rows w) (tasks_rows (snd (UpdateTaskToCompleted p k w)))"
  unfolding UpdateTaskToCompleted_def using complete_advances by (rule on_tasks_advances)

lemma tasks_rows_other_tables [simp]:
  "tasks_rows (snd (CreateConsensusResponse p arg w)) = tasks_rows w"
  "tasks_rows (snd (IncrementViolationCount p c v key w)) = tasks_rows w"
proof -
  have "tasks_rows (snd (on_blacklist p s w)) = tasks_rows w" for s :: "time \<Rightarrow> (Blacklist, 'x) stmt"
    by (simp add: on_blacklist_def case_prod_beta)
  then show "tasks_rows (snd (IncrementViolationCount p c v key w)) = tasks_rows w"
    unfolding IncrementViolationCount_def after_update_def
    by (intro call'_state [where Q = "\<lambda>u. tasks_rows u = tasks_rows w"])
      (auto split: option.split)
  show "tasks_rows (snd (CreateConsensusResponse p arg w)) = tasks_rows w"
    by (simp add: CreateConsensusResponse_def on_consensus_def case_prod_beta)
qed

interpretation forward:
  response_invariant env "\<lambda>w. tasks_advance ts (tasks_rows w)" "\<lambda>_ _. True" for env ts
proof
  fix w w' :: World and t
  show "tasks_advance ts (tasks_rows w)"
    if "only_calls w' w" and "tasks_advance ts (tasks_rows w')"
    using that only_calls_World(1) by simp
  show "tasks_advance ts (tasks_rows (snd (UpdateTaskToCompleted (pgp env) t w)))"
    if "tasks_advance ts (tasks_rows w)"
    using that UpdateTaskToCompleted_advances by (rule tasks_advance_trans)
qed (simp_all add: on_track_def case_prod_beta)

text \<open>
  C19. Responses only move tasks forward. Whatever a peer sends and whatever faults occur, every task
  keeps its row, and its state stays or goes on in the order confirming, pending, completed.
\<close>

theorem handleResponse_advances:
  assumes "status_of k (tasks_rows w) = Some s"
  shows "\<exists>s'. status_of k (tasks_rows (handleResponse env data peer w)) = Some s' \<and> s \<le> s'"
  using forward.Q_processResponse [of "tasks_rows w" w env data peer] assms
  by (auto simp: handleResponse_def tasks_advance_def)

definition toy_task :: "string \<Rightarrow> u16 \<Rightarrow> Tasks" where
  "toy_task status retries =
     \<lparr>t_TaskID = ''T'', t_ChainID = 1, t_TargetAddress = ''0x1'', t_Key = BigIntToNumeric (Some 5),
      t_BlockNumber = 7698590, t_Value = BigIntToNumeric (Some 42), t_Epoch = 8, t_Status = status,
      t_RequiredConfirmations = 1, t_RetryCount = retries, t_CreatedAt = 0, t_UpdatedAt = 0\<rparr>"

theorem handleResponse_advances_witness:
  "\<exists>s'. status_of ''T'' (tasks_rows (handleResponse (toy_reader ''T'' ''3'') [] ''P''
     (toy_split\<lparr>tasks_rows := [toy_task ''pending'' 0]\<rparr>))) = Some s' \<and> Pending \<le> s'"
  by (rule handleResponse_advances)
    (simp add: status_of_def task_of_def toy_task_def TaskStatusConfirming_def TaskStatusPending_def)

section \<open>Refused responses\<close>

text \<open>A row of the blacklist that does not expire.\<close>

definition permanent :: "string \<Rightarrow> Blacklist list \<Rightarrow> bool" where
  "permanent k t \<longleftrightarrow> (\<exists>r. blacklist_of k t = Some r \<and> b_ExpiresAt r = None)"

lemma IncrementViolation_effect:
  assumes "db_ok w" and "fault_at p (calls w) = NoFault" and "length k \<le> 128"
    and "violations k (blacklist_rows w) < 2 ^ 31 - 1"
  shows "\<exists>row. fst (IncrementViolationCount p c
      \<lparr>iv_PeerID = k, iv_ViolationCount = 1, iv_ExpiresAt = None\<rparr> key w) = Ret row \<and>
    (\<forall>j. violations j (blacklist_rows (snd (IncrementViolationCount p c
      \<lparr>iv_PeerID = k, iv_ViolationCount = 1, iv_ExpiresAt = None\<rparr> key w))) =
      violations j (blacklist_rows w) + (if j = k then 1 else 0)) \<and>
    permanent k (blacklist_rows (snd (IncrementViolationCount p c
      \<lparr>iv_PeerID = k, iv_ViolationCount = 1, iv_ExpiresAt = None\<rparr> key w)))"
proof -
  define arg where "arg = \<lparr>iv_PeerID = k, iv_ViolationCount = 1 :: i32, iv_ExpiresAt = None\<rparr>"
  have ok: "blacklist_ok (blacklist_rows w)" using assms(1) by (simp add: db_ok_def)
  have next_count: "0 \<le> sint (b_ViolationCount q + 1)"
    if "blacklist_of k (blacklist_rows w) = Some q" for q
  proof -
    have "0 \<le> sint (b_ViolationCount q)" and "sint (b_ViolationCount q) < 2 ^ 31 - 1"
      using blacklist_of_check [OF ok that] assms(4) that
      by (simp_all add: blacklist_check_def violations_def)
    then show ?thesis by (simp add: sint_word_ariths signed_take_bit_int_eq_self)
  qed
  have "\<exists>x t'. incrementViolationCount arg (now_at p (calls w)) (blacklist_rows w) = Inr (Some x, t')"
  proof (cases "blacklist_of k (blacklist_rows w)")
    case None
    then have "k \<notin> set (map b_PeerID (blacklist_rows w))"
      using find_key_None [of b_PeerID k "blacklist_rows w"] by (simp add: blacklist_of_def)
    then show ?thesis
      using assms(3)
      by (simp add: incrementViolationCount_def upsert_row_def blacklist_check_def
          fits_varchar_def arg_def)
  next
    case (Some q)
    then have "k \<in> set (map b_PeerID (blacklist_rows w))"
      using find_key_None [of b_PeerID k "blacklist_rows w"] by (auto simp: blacklist_of_def)
    then show ?thesis
      using assms(3) Some next_count [OF Some] blacklist_of_check [OF ok Some]
      by (simp add: incrementViolationCount_def upsert_row_def update_row_def blacklist_check_def
          fits_varchar_def arg_def blacklist_of_def)
  qed
  then obtain x t' where
    run: "incrementViolationCount arg (now_at p (calls w)) (blacklist_rows w) = Inr (Some x, t')"
    by blast
  have "fst (IncrementViolationCount p c arg key w) = Ret (Some x)"
    "blacklist_rows (snd (IncrementViolationCount p c arg key w)) = t'"
    using run assms(2)
    by (simp_all add: IncrementViolationCount_def on_blacklist_def run_stmt_def after_update_def)
  moreover have "permanent k t'"
    using blacklist_store.look_put [OF run, of k] incrementViolationCount_row [OF run]
    by (auto simp: permanent_def arg_def)
  ultimately show ?thesis
    using incrementViolationCount_sum [OF ok run] by (simp add: arg_def)
qed

lemma IncrementViolation_frame [simp]:
  "operators_rows (snd (IncrementViolationCount p c v key w)) = operators_rows w"
  "consensus_rows (snd (IncrementViolationCount p c v key w)) = consensus_rows w"
  unfolding IncrementViolationCount_def after_update_def
  by (rule call'_state [where Q = "\<lambda>u. operators_rows u = operators_rows w"];
      auto simp: on_blacklist_def case_prod_beta split: option.split)
    (rule call'_state [where Q = "\<lambda>u. consensus_rows u = consensus_rows w"];
      auto simp: on_blacklist_def case_prod_beta split: option.split)

lemma incrementPeerViolation_snd:
  "snd (incrementPeerViolation env peer e w) =
   snd (IncrementViolationCount (pgp env) Pool
     \<lparr>iv_PeerID = peerIDString (crp env) peer, iv_ViolationCount = 1, iv_ExpiresAt = None\<rparr>
     (Some (peerIDString (crp env) peer)) w)"
  by (simp add: incrementPeerViolation_def Let_def split: prod.split res.split)

lemma outsider_effect:
  assumes "unmarshal env data = Inr pb" and "pb_Epoch pb = GetCurrentEpochNumber w"
    and "PeerIDToP2PKey (crp env) peer = Ret key"
    and "GetOperatorByP2PKey (pgp env) key w = (Ret op, u)"
    and "\<And>q. op = Some q \<Longrightarrow> \<not> o_IsActive q"
    and "db_ok w" and "fault_at (pgp env) (calls u) = NoFault"
    and "length (peerIDString (crp env) peer) \<le> 128"
    and "violations (peerIDString (crp env) peer) (blacklist_rows w) < 2 ^ 31 - 1"
  shows "(\<exists>e. fst (processResponse env data peer w) = Fail e) \<and>
    tasks_rows (handleResponse env data peer w) = tasks_rows w \<and>
    consensus_rows (handleResponse env data peer w) = consensus_rows w \<and>
    operators_rows (handleResponse env data peer w) = operators_rows w \<and>
    taskResponseTrack (handleResponse env data peer w) = taskResponseTrack w \<and>
    published (handleResponse env data peer w) = published w \<and>
    violations j (blacklist_rows (handleResponse env data peer w)) =
      violations j (blacklist_rows w) + (if j = peerIDString (crp env) peer then 1 else 0) \<and>
    permanent (peerIDString (crp env) peer) (blacklist_rows (handleResponse env data peer w)) \<and>
    GetCurrentEpochNumber (handleResponse env data peer w) = GetCurrentEpochNumber w"
proof -
  define arg where "arg = \<lparr>iv_PeerID = peerIDString (crp env) peer, iv_ViolationCount = 1 :: i32,
    iv_ExpiresAt = None\<rparr>"
  have run: "processResponse env data peer w =
      incrementPeerViolation env peer (Err ''operator not exist or not active'') u"
    using assms(1-5)
    by (auto simp: processResponse_def convertProtoToResponse_def Let_def split: option.split)
  have u: "only_calls w u" using operator_reads_only_calls(2) [of w "pgp env" key] assms(4) by simp
  note same = only_calls_World [OF u]
  have ok: "db_ok u" using assms(6) same by simp
  from IncrementViolation_effect [OF ok assms(7,8), of Pool] assms(9) same(4) obtain row where
    ret: "fst (IncrementViolationCount (pgp env) Pool arg (Some (peerIDString (crp env) peer)) u) = Ret row"
    and v: "violations j (blacklist_rows (snd (IncrementViolationCount (pgp env) Pool arg
        (Some (peerIDString (crp env) peer)) u))) =
      violations j (blacklist_rows w) + (if j = peerIDString (crp env) peer then 1 else 0)"
    and perm: "permanent (peerIDString (crp env) peer) (blacklist_rows (snd (IncrementViolationCount
        (pgp env) Pool arg (Some (peerIDString (crp env) peer)) u)))"
    unfolding arg_def by fastforce
  obtain v' where "IncrementViolationCount (pgp env) Pool arg (Some (peerIDString (crp env) peer)) u =
      (Ret row, v')" using ret by (cases "IncrementViolationCount (pgp env) Pool arg
        (Some (peerIDString (crp env) peer)) u") simp
  then have err: "\<exists>e. fst (processResponse env data peer w) = Fail e"
    unfolding run incrementPeerViolation_def Let_def arg_def by simp
  have state: "handleResponse env data peer w =
      snd (IncrementViolationCount (pgp env) Pool arg (Some (peerIDString (crp env) peer)) u)"
    by (simp add: handleResponse_def run incrementPeerViolation_snd arg_def)
  have proc: "same_process u (handleResponse env data peer w)"
    unfolding state by (rule write_same_process(7))
  show ?thesis
    using err v perm same same_process_eqs [OF proc]
    by (simp add: state GetCurrentEpochNumber_def)
qed



section \<open>The end of a task\<close>

lemma retry_row:
  assumes "tasks_ok t" and "task_of k t = Some row" and "unat (t_RetryCount row) < 2 ^ 15 - 1"
  shows "\<exists>t'. incrementRetryCount k now t =
      Inr (Some (row\<lparr>t_RetryCount := t_RetryCount row + 1, t_UpdatedAt := now\<rparr>), t') \<and>
    (\<forall>j. j \<noteq> k \<longrightarrow> task_of j t' = task_of j t)"
proof -
  have row: "tasks_check row" and id: "t_TaskID row = k"
    using assms(1,2)
    by (auto simp: tasks_ok_def keyed_def task_of_def find_Some_iff list_all_iff)
  have "t_RetryCount row \<noteq> - 1" using assms(3) by (rule small_u16_not_max)
  then have "unat (t_RetryCount row + 1) = Suc (unat (t_RetryCount row))"
    by (rule unat_plus_one_word)
  with row assms(3) have "tasks_check (row\<lparr>t_RetryCount := t_RetryCount row + 1, t_UpdatedAt := now\<rparr>)"
    by (simp add: tasks_check_def fits_int2_def)
  then obtain t' where t': "incrementRetryCount k now t =
      Inr (Some (row\<lparr>t_RetryCount := t_RetryCount row + 1, t_UpdatedAt := now\<rparr>), t')"
    using assms(2) by (simp add: incrementRetryCount_def update_row_def task_of_def)
  from task_of_update [OF this [unfolded incrementRetryCount_def]] t' show ?thesis
    by (auto simp: option.map_ident)
qed

text \<open>
  C29. Three tries. When a pending task is tried for the third time or later and the two statements are
  executed, its row is deleted and every response tracked for it is forgotten; the chain is not asked
  and nothing is published. The rows of other tasks and what is tracked for them stay.
\<close>

theorem timeoutTask_gives_up:
  assumes "db_ok w" and "track_ok (taskResponseTrack w)"
    and "task_of (t_TaskID task) (tasks_rows w) = Some row"
    and "2 \<le> unat (t_RetryCount row)" and "unat (t_RetryCount row) < 2 ^ 15 - 1"
    and "fault_at (pgp env) (calls w) = NoFault" and "fault_at (pgp env) (Suc (calls w)) = NoFault"
  shows "fst (timeoutTask env task w) = Ret () \<and> calls (snd (timeoutTask env task w)) = calls w + 2 \<and>
    published (snd (timeoutTask env task w)) = published w \<and>
    task_of j (tasks_rows (snd (timeoutTask env task w))) =
      (if j = t_TaskID task then None else task_of j (tasks_rows w)) \<and>
    lookup2 (responses (taskResponseTrack (snd (timeoutTask env task w)))) j k =
      (if j = t_TaskID task then None else lookup2 (responses (taskResponseTrack w)) j k)"
proof -
  define id now where "id = t_TaskID task" and "now = now_at (pgp env) (calls w)"
  define new where "new = row\<lparr>t_RetryCount := t_RetryCount row + 1, t_UpdatedAt := now\<rparr>"
  have "tasks_ok (tasks_rows w)" using assms(1) by (simp add: db_ok_def)
  from retry_row [OF this assms(3,5), of now] obtain t' where
    t': "incrementRetryCount id now (tasks_rows w) = Inr (Some new, t')"
    and other: "\<And>j. j \<noteq> id \<Longrightarrow> task_of j t' = task_of j (tasks_rows w)"
    unfolding new_def id_def by blast
  have "t_RetryCount row \<noteq> - 1" using assms(5) by (rule small_u16_not_max)
  then have "maxRetryCount \<le> t_RetryCount row + 1"
    using assms(4) by (simp add: word_le_nat_alt unat_plus_one_word maxRetryCount_def)
  then have full: "maxRetryCount \<le> t_RetryCount (scan_task (pgp env) new)"
    by (simp add: new_def scan_task_def)
  have run: "timeoutTask env task w =
      (Ret (), (tick (tick w))\<lparr>tasks_rows := filter (\<lambda>r. t_TaskID r \<noteq> id) t',
        taskResponseTrack := cleanupTask id (taskResponseTrack w)\<rparr>)"
    using t' assms(6,7) full
    by (simp add: timeoutTask_def IncrementRetryCount_def DeleteTaskByID_def deleteTaskByID_def
        delete_rows_def on_tasks_def run_stmt_def now_def id_def [symmetric] ignoring_def
        on_track_def tick_def)
  show ?thesis
    unfolding run
    by (auto simp: id_def [symmetric] task_of_def find_filter_neq tick_def track_ok_cleanup [OF assms(2)]
        other [unfolded task_of_def])
qed

theorem timeoutTask_gives_up_witness:
  "task_of ''T'' (tasks_rows (snd (timeoutTask toy_env (toy_task ''pending'' 2)
     (toy_split\<lparr>tasks_rows := [toy_task ''pending'' 2]\<rparr>)))) = None \<and>
   lookup2 (responses (taskResponseTrack (snd (timeoutTask toy_env (toy_task ''pending'' 2)
     (toy_split\<lparr>tasks_rows := [toy_task ''pending'' 2]\<rparr>))))) ''T'' ''02'' = None"
proof -
  define w where "w = toy_split\<lparr>tasks_rows := [toy_task ''pending'' 2]\<rparr>"
  have "db_ok w"
    using proc_inv_toy [of toy_env]
    by (simp add: w_def toy_split_def proc_inv_def db_ok_def tasks_ok_def keyed_def tasks_check_def
        toy_task_def fits_varchar_def fits_int4_def fits_int8_def fits_int2_def fits_numeric_def
        not_null_def BigIntToNumeric_def TaskStatusPending_def)
  moreover have "track_ok (taskResponseTrack w)"
    by (simp add: w_def toy_split_def track_ok_def gokeys_def)
  moreover have "task_of (t_TaskID (toy_task ''pending'' 2)) (tasks_rows w) = Some (toy_task ''pending'' 2)"
    by (simp add: w_def task_of_def)
  ultimately show ?thesis
    using timeoutTask_gives_up [of w "toy_task ''pending'' 2" "toy_task ''pending'' 2" toy_env "''T''" "''02''"]
    unfolding w_def [symmetric] by (simp add: toy_task_def)
qed

section \<open>Panics and races\<close>

text \<open>
  An operator that is not in its own table crashes. If the operator's signing key has no row, then
  processing a task whose value the chain confirms panics, after the chain was read and the response
  signed, and it stores and publishes nothing.
\<close>

theorem ProcessTask_unregistered_panics:
  assumes "\<not> alreadyProcessed (taskResponseTrack w) (t_TaskID task) (self env)"
    and "signedResponse env task w = (Ret r, w1)"
    and "fst (GetOperatorBySigningKey (pgp env) (self env) w1) = Ret None"
  shows "fst (ProcessTask env (Some task) w) = Panic \<and> only_calls w (snd (ProcessTask env (Some task) w))"
proof -
  obtain w2 where g: "GetOperatorBySigningKey (pgp env) (self env) w1 = (Ret None, w2)"
    using assms(3) by (cases "GetOperatorBySigningKey (pgp env) (self env) w1") simp
  have "only_calls w1 w2" using operator_reads_only_calls(3) [of w1 "pgp env" "self env"] g by simp
  moreover have "only_calls w w1" using signedResponse_only_calls [of w env task] assms(2) by simp
  ultimately have "only_calls w w2" by (rule only_calls_trans [rotated])
  with assms(1,2) g show ?thesis by (simp add: ProcessTask_def ownWeight_def)
qed

lemma toy_signed:
  assumes "manager w = manager toy_world"
  shows "\<exists>r. signedResponse toy_env (toy_task ''pending'' 0) w = (Ret r, tick (tick w)) \<and>
    r_taskID r = ''T''"
  using assms
  by (simp add: signedResponse_def toy_task_def GetClientByChainId_def getStateWithRetries_def
      numeral_3_eq_3 NumericToBigInt_def BigIntToNumeric_def toy_world_def SignTaskResponse_def
      pack_def BlockNumber_def GetStateAtBlock_def rpc_call_def of_sum_def toy_rpc_def toy_crypto_def)

theorem ProcessTask_unregistered_panics_witness:
  "fst (ProcessTask toy_env (Some (toy_task ''pending'' 0)) (toy_world\<lparr>operators_rows := []\<rparr>)) = Panic"
proof -
  define w where "w = toy_world\<lparr>operators_rows := []\<rparr>"
  obtain r where r: "signedResponse toy_env (toy_task ''pending'' 0) w = (Ret r, tick (tick w))"
    using toy_signed [of w] by (auto simp: w_def)
  have "fst (GetOperatorBySigningKey (pgp toy_env) (self toy_env) (tick (tick w))) = Ret None"
    by (simp add: w_def repo_eval)
  from ProcessTask_unregistered_panics [OF _ r this] show ?thesis
    by (simp add: w_def toy_world_def alreadyProcessed_def lookup2_def newTrack_def)
qed

theorem ProcessTask_attests_chain_value_witness:
  "\<exists>r i. lookup2 (responses (taskResponseTrack (snd (ProcessTask toy_env
       (Some (toy_task ''pending'' 0)) toy_world)))) ''T'' ''01'' = Some r \<and>
     rpcGetHistoryAtBlock toy_rpc i 1 (HexToAddress toy_crypto ''0x1'') (Some 5)
       (sint (7698590 :: u64)) = Inr 42 \<and> r_value r = big_String 42"
proof -
  define w where "w = toy_world"
  define task where "task = toy_task ''pending'' 0"
  have ok: "track_ok (taskResponseTrack w)" by (simp add: w_def toy_world_def)
  obtain r where r: "signedResponse toy_env task w = (Ret r, tick (tick w))" "r_taskID r = ''T''"
    using toy_signed [of w] by (auto simp: w_def task_def)
  have o: "\<exists>u. ownWeight toy_env (tick (tick w)) = (Ret (Some 6), u)"
    by (simp add: ownWeight_def w_def repo_eval toy_self toy_world_def toy_operator_def
        NumericToBigInt_def BigIntToNumeric_def)
  have new: "\<not> alreadyProcessed (taskResponseTrack w) (t_TaskID task) (self toy_env)"
    by (simp add: w_def toy_world_def alreadyProcessed_def lookup2_def newTrack_def)
  from o obtain u where "ownWeight toy_env (tick (tick w)) = (Ret (Some 6), u)" by blast
  then have "lookup2 (responses (taskResponseTrack (snd (ProcessTask toy_env (Some task) w)))) ''T'' ''01'' =
      Some r"
    using ProcessTask_stores [OF ok new r(1)] tracker.look_store [OF ok] r(2) by (simp add: toy_self)
  moreover have "lookup2 (responses (taskResponseTrack w)) ''T'' ''01'' = None"
    by (simp add: w_def toy_world_def lookup2_def newTrack_def)
  ultimately show ?thesis
    using ProcessTask_attests_chain_value [OF ok, of toy_env task "''T''" "''01''"]
    unfolding w_def [symmetric] task_def [symmetric]
    by (auto simp: toy_rpc_def task_def toy_task_def NumericToBigInt_def BigIntToNumeric_def)
qed

text \<open>
  A completed task can be reopened. The update that follows enough confirmations does not look at
  the state of the task: once the block is reached, a listed task whose own response is tracked is
  pending afterwards, in whatever state it was, also if a consensus completed it after it was listed.
\<close>

theorem confirmTask_reopens:
  assumes "db_ok w" and "task_of (t_TaskID task) (tasks_rows w) = Some row"
    and "GetClientByChainId (manager w) (t_ChainID task) = Ret c"
    and "rpcBlockNumber (rpcp env) (calls w) (cl_chain c) = Inr latest"
    and "t_BlockNumber task \<noteq> 0"
    and "t_BlockNumber task + ucast (t_RequiredConfirmations task) \<le> latest"
    and "fault_at (pgp env) (Suc (calls w)) = NoFault"
    and "alreadyProcessed (taskResponseTrack w) (t_TaskID task) (self env)"
  shows "status_of (t_TaskID task) (tasks_rows (snd (confirmTask env task w))) = Some Pending"
proof -
  define id now where "id = t_TaskID task" and "now = now_at (pgp env) (Suc (calls w))"
  have "tasks_check row"
    using assms(1,2)
    by (auto simp: db_ok_def tasks_ok_def keyed_def task_of_def find_Some_iff list_all_iff)
  then have "tasks_check (row\<lparr>t_Status := TaskStatusPending, t_UpdatedAt := now\<rparr>)"
    by (simp add: tasks_check_def TaskStatusPending_def fits_varchar_def)
  then obtain x t' where up: "update_row t_TaskID tasks_check id
      (\<lambda>r. r\<lparr>t_Status := TaskStatusPending, t_UpdatedAt := now\<rparr>) (tasks_rows w) = Inr (x, t')"
    using assms(2) by (simp add: update_row_def task_of_def id_def)
  then have "snd (confirmTask env task w) = (tick (tick w))\<lparr>tasks_rows := t'\<rparr>"
    using assms(3-8)
    by (simp add: confirmTask_def BlockNumber_def rpc_call_def of_sum_def Let_def
        UpdateTaskToPending_def updateTaskToPending_def exec_stmt_def on_tasks_def run_stmt_def
        ProcessTask_def ignoring_def id_def now_def tick_def)
  then show ?thesis
    using task_of_update [OF up, of id] assms(2)
    by (simp add: status_of_def id_def TaskStatusPending_def TaskStatusConfirming_def)
qed

theorem confirmTask_reopens_witness:
  "status_of ''T'' [toy_task ''completed'' 0] = Some Completed \<and>
   status_of ''T'' (tasks_rows (snd (confirmTask toy_env (toy_task ''confirming'' 0)
     (toy_split\<lparr>tasks_rows := [toy_task ''completed'' 0]\<rparr>)))) = Some Pending"
proof -
  define w where "w = toy_split\<lparr>tasks_rows := [toy_task ''completed'' 0]\<rparr>"
  have "db_ok w"
    using proc_inv_toy [of toy_env]
    by (simp add: w_def toy_split_def proc_inv_def db_ok_def tasks_ok_def keyed_def tasks_check_def
        toy_task_def fits_varchar_def fits_int4_def fits_int8_def fits_int2_def fits_numeric_def
        not_null_def BigIntToNumeric_def TaskStatusCompleted_def)
  then have "status_of (t_TaskID (toy_task ''confirming'' 0))
      (tasks_rows (snd (confirmTask toy_env (toy_task ''confirming'' 0) w))) = Some Pending"
    by (rule confirmTask_reopens [where latest = 7698600])
      (simp_all add: w_def task_of_def toy_split_def toy_world_def toy_task_def toy_rpc_def
        GetClientByChainId_def alreadyProcessed_def lookup2_def toy_self)
  moreover have "status_of ''T'' [toy_task ''completed'' 0] = Some Completed"
    by (simp add: status_of_def task_of_def toy_task_def TaskStatusCompleted_def
        TaskStatusConfirming_def TaskStatusPending_def)
  ultimately show ?thesis by (simp add: w_def toy_task_def)
qed

end
