(* ===== verification/EpochUpd.thy ===== *)
theory EpochUpd
  imports TaskSafety
begin

text \<open>
  The epoch updator, \<open>pkg/operator/epoch/updator.go\<close>: on each tick it asks the main chain for its
  block, and in a new epoch it reads the weights of the epoch into the epoch state and brings every
  operator up to date in one transaction. The transaction is that of the \<open>wpgx\<close> package: it begins,
  runs the function, commits if the function returns without an error, and otherwise rolls the tables
  back; the functions registered with \<open>PostExec\<close> run after the commit. Variables of the process are
  not part of the transaction.
\<close>

section \<open>Transactions\<close>

definition rollback :: "World \<Rightarrow> World \<Rightarrow> World" where
  "rollback w0 w =
     w\<lparr>tasks_rows := tasks_rows w0, operators_rows := operators_rows w0,
       consensus_rows := consensus_rows w0, blacklist_rows := blacklist_rows w0, post_exec := []\<rparr>"

text \<open>A commit whose reply is lost has happened, but its \<open>PostExec\<close> functions do not run.\<close>

definition commit :: "pg \<Rightarrow> World \<Rightarrow> 'a \<Rightarrow> World \<Rightarrow> 'a res \<times> World" where
  "commit p w0 x w =
     (case fault_at p (calls w) of
        NoFault \<Rightarrow> (Ret x, (tick w)\<lparr>invalidated := post_exec w @ invalidated w, post_exec := []\<rparr>)
      | Lost e \<Rightarrow> (Fail e, tick (rollback w0 w))
      | Late e \<Rightarrow> (Fail e, (tick w)\<lparr>post_exec := []\<rparr>))"

definition Transact :: "pg \<Rightarrow> (World \<Rightarrow> 'a res \<times> World) \<Rightarrow> World \<Rightarrow> 'a res \<times> World" where
  "Transact p f w =
     (case fault_at p (calls w) of
        NoFault \<Rightarrow>
          (case f (tick w) of
             (Ret x, w') \<Rightarrow> commit p w x w'
           | (Fail e, w') \<Rightarrow> (Fail e, tick (rollback w w'))
           | (Panic, w') \<Rightarrow> (Panic, tick (rollback w w')))
      | Lost e \<Rightarrow> (Fail e, tick w)
      | Late e \<Rightarrow> (Fail e, tick w))"

section \<open>The updator\<close>

definition updateEpochState :: "env \<Rightarrow> chainClient \<Rightarrow> u32 \<Rightarrow> World \<Rightarrow> unit res \<times> World" where
  "updateEpochState env c currentEpoch w =
     call ''failed to get minimum stake'' (GetMinimumWeight (rpcp env) c w) (\<lambda>minimumStake w.
     call ''failed to get total stake'' (GetTotalWeight (rpcp env) c w) (\<lambda>totalWeight w.
     call ''failed to get threshold weight'' (GetThresholdWeight (rpcp env) c w) (\<lambda>thresholdWeight w.
       (Ret (), w\<lparr>currentEpochState :=
          \<lparr>EpochNumber = currentEpoch, MinimumWeight = Some minimumStake,
           TotalWeight = Some totalWeight, ThresholdWeight = Some thresholdWeight\<rparr>\<rparr>))))"

text \<open>The body of the loop over the operators, in the transaction.\<close>

definition refreshOperator ::
  "env \<Rightarrow> chainClient \<Rightarrow> u64 \<Rightarrow> u32 \<Rightarrow> Operators \<Rightarrow> World \<Rightarrow> unit res \<times> World" where
  "refreshOperator env c currentBlock currentEpoch operator w =
     (let isActive = IsOperatorActive currentBlock (o_ActiveEpoch operator) (o_ExitEpoch operator);
          address = HexToAddress (crp env) (o_Address operator)
      in call ''failed to get weight for operator'' (GetOperatorWeight (rpcp env) c address w)
           (\<lambda>currentWeight w.
         call ''failed to get signing key for operator''
           (GetOperatorSigningKey (rpcp env) c address currentEpoch w) (\<lambda>currentSigningKey w.
         call ''failed to get P2P key for operator''
           (GetOperatorP2PKey (rpcp env) c address currentEpoch w) (\<lambda>currentP2PKey w.
         call ''failed to update operator state''
           (UpdateOperatorState (pgp env) Tx
              \<lparr>us_Address = o_Address operator, us_IsActive = isActive,
               us_Weight = BigIntToNumeric (Some currentWeight),
               us_SigningKey = addressHex (crp env) currentSigningKey,
               us_P2pKey = addressHex (crp env) currentP2PKey\<rparr>
              (Some (o_Address operator)) (Some (o_SigningKey operator)) (Some (o_P2pKey operator))
              (Some (o_P2pKey operator)) w) (\<lambda>_ w. (Ret (), w))))))"

fun refreshOperators ::
  "env \<Rightarrow> chainClient \<Rightarrow> u64 \<Rightarrow> u32 \<Rightarrow> Operators list \<Rightarrow> World \<Rightarrow> unit res \<times> World" where
  "refreshOperators env c currentBlock currentEpoch [] w = (Ret (), w)"
| "refreshOperators env c currentBlock currentEpoch (operator # rest) w =
     call' (refreshOperator env c currentBlock currentEpoch operator w)
       (\<lambda>_. refreshOperators env c currentBlock currentEpoch rest)"

text \<open>The function that runs in the transaction.\<close>

definition epochBody :: "env \<Rightarrow> chainClient \<Rightarrow> u64 \<Rightarrow> u32 \<Rightarrow> World \<Rightarrow> unit res \<times> World" where
  "epochBody env c currentBlock currentEpoch w =
     call ''failed to update epoch state'' (updateEpochState env c currentEpoch w) (\<lambda>_ w.
     call ''failed to get all operators'' (ListAllOperators (pgp env) w)
       (\<lambda>allOperators. refreshOperators env c currentBlock currentEpoch allOperators))"

definition handleEpochUpdate :: "env \<Rightarrow> chainClient \<Rightarrow> u32 \<Rightarrow> World \<Rightarrow> unit res \<times> World" where
  "handleEpochUpdate env c currentEpoch w =
     call ''failed to get current block number'' (BlockNumber (rpcp env) c w) (\<lambda>currentBlock w.
     call ''transaction failed''
       (Transact (pgp env) (epochBody env c currentBlock currentEpoch) w) (\<lambda>_ w. (Ret (), w)))"

text \<open>
  One tick of \<open>start\<close>. Errors are logged; a panic ends the goroutine and is recovered there, so the
  first component says whether the updator goes on.
\<close>

definition epochTick :: "env \<Rightarrow> chainClient \<Rightarrow> World \<Rightarrow> bool \<times> World" where
  "epochTick env c w =
     (case BlockNumber (rpcp env) c w of
        (Panic, w) \<Rightarrow> (False, w)
      | (Fail _, w) \<Rightarrow> (True, w)
      | (Ret blockNumber, w) \<Rightarrow>
          (let currentEpoch = CalculateCurrentEpochNumber blockNumber in
           if lastProcessedEpoch w < currentEpoch then
             (case handleEpochUpdate env c currentEpoch w of
                (Panic, w) \<Rightarrow> (False, w)
              | (Fail _, w) \<Rightarrow> (True, w)
              | (Ret _, w) \<Rightarrow> (True, w\<lparr>lastProcessedEpoch := currentEpoch\<rparr>))
           else (True, w)))"

text \<open>The dependencies that \<open>NewEpochUpdator\<close> checks; \<open>False\<close> is a nil one.\<close>

record epoch_Config =
  has_epoch_OperatorRepo :: bool
  has_epoch_MainnetClient :: bool
  has_TxManager :: bool

definition NewEpochUpdator :: "epoch_Config option \<Rightarrow> (EpochState \<times> u32) res" where
  "NewEpochUpdator cfg =
     (case cfg of
        None \<Rightarrow> Fail (Err ''config is nil'')
      | Some c \<Rightarrow>
          if \<not> has_epoch_OperatorRepo c then Fail (Err ''operatorRepo is nil'')
          else if \<not> has_epoch_MainnetClient c then Fail (Err ''mainnetClient is nil'')
          else if \<not> has_TxManager c then Fail (Err ''txManager is nil'')
          else Ret (initialEpochState, 0))"

section \<open>What a transaction keeps\<close>

lemma rollback_simps [simp]:
  "tasks_rows (rollback w0 w) = tasks_rows w0" "operators_rows (rollback w0 w) = operators_rows w0"
  "consensus_rows (rollback w0 w) = consensus_rows w0"
  "blacklist_rows (rollback w0 w) = blacklist_rows w0" "db_ok (rollback w0 w) = db_ok w0"
  "same_process w (rollback w0 w)" "post_exec (rollback w0 w) = []"
  "currentEpochState (rollback w0 w) = currentEpochState w"
  "lastProcessedEpoch (rollback w0 w) = lastProcessedEpoch w" "calls (rollback w0 w) = calls w"
  by (simp_all add: rollback_def db_ok_def same_process_def)

lemma Transact_Ret:
  assumes "Transact p f w = (Ret x, w')"
  shows "\<exists>w1. f (tick w) = (Ret x, w1) \<and>
    w' = (tick w1)\<lparr>invalidated := post_exec w1 @ invalidated w1, post_exec := []\<rparr>"
  using assms
  by (auto simp: Transact_def commit_def split: fault.splits prod.splits res.splits)

lemma Transact_not_Ret:
  assumes "\<not> is_Ret (fst (f (tick w)))"
  shows "operators_rows (snd (Transact p f w)) = operators_rows w \<and>
    \<not> is_Ret (fst (Transact p f w))"
  using assms
  by (auto simp: Transact_def commit_def is_Ret_def split: fault.splits prod.splits res.splits)

section \<open>What an update writes\<close>

text \<open>What the main chain says of an operator: the answers it gave, at whatever calls.\<close>

definition chain_state ::
  "env \<Rightarrow> chainClient \<Rightarrow> u64 \<Rightarrow> u32 \<Rightarrow> Operators \<Rightarrow> UpdateOperatorStateParams \<Rightarrow> bool" where
  "chain_state env c b e op arg \<longleftrightarrow>
     us_Address arg = o_Address op \<and>
     us_IsActive arg = IsOperatorActive b (o_ActiveEpoch op) (o_ExitEpoch op) \<and>
     (\<exists>i ep v. rpcGetOperatorWeightAtEpoch (rpcp env) i (cl_chain c)
          (HexToAddress (crp env) (o_Address op)) ep = Inr v \<and>
        us_Weight arg = BigIntToNumeric (Some v)) \<and>
     (\<exists>i k. rpcGetOperatorSigningKeyAtEpoch (rpcp env) i (cl_chain c)
          (HexToAddress (crp env) (o_Address op)) e = Inr k \<and>
        us_SigningKey arg = addressHex (crp env) k) \<and>
     (\<exists>i k. rpcGetOperatorP2pKeyAtEpoch (rpcp env) i (cl_chain c)
          (HexToAddress (crp env) (o_Address op)) e = Inr k \<and>
        us_P2pKey arg = addressHex (crp env) k)"

definition refreshed :: "env \<Rightarrow> chainClient \<Rightarrow> u64 \<Rightarrow> u32 \<Rightarrow> Operators \<Rightarrow> Operators \<Rightarrow> bool" where
  "refreshed env c b e row row' \<longleftrightarrow>
     (\<exists>arg now. chain_state env c b e row arg \<and>
        row' = row\<lparr>o_IsActive := us_IsActive arg, o_Weight := us_Weight arg,
                   o_SigningKey := us_SigningKey arg, o_P2pKey := us_P2pKey arg,
                   o_UpdatedAt := now\<rparr>)"

text \<open>Every operator is refreshed at a block that the chain reported, and none comes or goes.\<close>

definition up_to_date :: "env \<Rightarrow> chainClient \<Rightarrow> u32 \<Rightarrow> Operators list \<Rightarrow> Operators list \<Rightarrow> bool" where
  "up_to_date env c e t t' \<longleftrightarrow>
     (\<exists>i b. rpcBlockNumber (rpcp env) i (cl_chain c) = Inr b \<and>
        (\<forall>a. rel_option (refreshed env c b e) (operator_of a t) (operator_of a t')))"

lemma chain_state_cong:
  assumes "o_Address q = o_Address op" and "o_ActiveEpoch q = o_ActiveEpoch op"
    and "o_ExitEpoch q = o_ExitEpoch op"
  shows "chain_state env c b e q arg = chain_state env c b e op arg"
  using assms by (simp add: chain_state_def)

lemma UpdateOperatorState_Ret:
  assumes "UpdateOperatorState p cn arg k1 k2 k3 k4 w = (Ret x, w')"
  shows "\<exists>y now. updateOperatorState arg now (operators_rows w) = Inr (y, operators_rows w')"
  using assms
  by (auto simp: UpdateOperatorState_def after_update_def call'_Ret_iff scanned_Ret_iff
      on_operators_def run_stmt_def invalidateOperator_def
      split: fault.splits sum.splits prod.splits option.splits intro!: exI)

lemma refreshOperator_Ret:
  assumes "refreshOperator env c b e op w = (Ret u, w')"
  shows "\<exists>arg x now. chain_state env c b e op arg \<and>
    updateOperatorState arg now (operators_rows w) = Inr (x, operators_rows w')"
proof -
  define a where "a = HexToAddress (crp env) (o_Address op)"
  from assms obtain v sk pk w1 w2 w3 x where
    v: "GetOperatorWeight (rpcp env) c a w = (Ret v, w1)"
    and sk: "GetOperatorSigningKey (rpcp env) c a e w1 = (Ret sk, w2)"
    and pk: "GetOperatorP2PKey (rpcp env) c a e w2 = (Ret pk, w3)"
    and up: "UpdateOperatorState (pgp env) Tx
      \<lparr>us_Address = o_Address op, us_IsActive = IsOperatorActive b (o_ActiveEpoch op) (o_ExitEpoch op),
       us_Weight = BigIntToNumeric (Some v), us_SigningKey = addressHex (crp env) sk,
       us_P2pKey = addressHex (crp env) pk\<rparr>
      (Some (o_Address op)) (Some (o_SigningKey op)) (Some (o_P2pKey op)) (Some (o_P2pKey op)) w3 =
      (Ret x, w')"
    by (auto simp: refreshOperator_def Let_def call_Ret_iff a_def)
  have "only_calls w w1" "only_calls w1 w2" "only_calls w2 w3"
    using client_only_calls(3) [of w "rpcp env" c a] client_only_calls(7) [of w1 "rpcp env" c a e]
      client_only_calls(8) [of w2 "rpcp env" c a e] v sk pk
    by simp_all
  then have rows: "operators_rows w3 = operators_rows w" using only_calls_World(2) by simp
  have "\<exists>i ep. rpcGetOperatorWeightAtEpoch (rpcp env) i (cl_chain c) a ep = Inr v"
    using v
    by (auto simp: GetOperatorWeight_def registry_call_def rpc_call_def of_sum_def call_Ret_iff
        call'_Ret_iff split: if_splits sum.splits)
  moreover have "\<exists>i. rpcGetOperatorSigningKeyAtEpoch (rpcp env) i (cl_chain c) a e = Inr sk"
    using sk
    by (auto simp: GetOperatorSigningKey_def registry_call_def rpc_call_def of_sum_def call_Ret_iff
        split: if_splits sum.splits)
  moreover have "\<exists>i. rpcGetOperatorP2pKeyAtEpoch (rpcp env) i (cl_chain c) a e = Inr pk"
    using pk
    by (auto simp: GetOperatorP2PKey_def registry_call_def rpc_call_def of_sum_def call_Ret_iff
        split: if_splits sum.splits)
  ultimately have "chain_state env c b e op
      \<lparr>us_Address = o_Address op, us_IsActive = IsOperatorActive b (o_ActiveEpoch op) (o_ExitEpoch op),
       us_Weight = BigIntToNumeric (Some v), us_SigningKey = addressHex (crp env) sk,
       us_P2pKey = addressHex (crp env) pk\<rparr>"
    unfolding chain_state_def a_def by auto
  with UpdateOperatorState_Ret [OF up] show ?thesis unfolding rows by blast
qed

lemma operator_of_update:
  assumes "update_row o_Address operators_check k f t = Inr (x, t')"
    and "\<And>r. o_Address (f r) = o_Address r"
  shows "operator_of j t' = map_option (\<lambda>r. if j = k then f r else r) (operator_of j t)"
  unfolding operator_of_def using assms by (rule look_update_row)

lemma refreshOperators_rows:
  assumes "refreshOperators env c b e ops w = (Ret u, w')" and "distinct (map o_Address ops)"
    and "\<And>op row. op \<in> set ops \<Longrightarrow> operator_of (o_Address op) (operators_rows w) = Some row \<Longrightarrow>
      o_Address row = o_Address op \<and> o_ActiveEpoch row = o_ActiveEpoch op \<and>
      o_ExitEpoch row = o_ExitEpoch op"
  shows "rel_option (if a \<in> set (map o_Address ops) then refreshed env c b e else (=))
    (operator_of a (operators_rows w)) (operator_of a (operators_rows w'))"
  using assms
proof (induction ops arbitrary: w)
  case Nil
  then show ?case by (simp add: option.rel_eq)
next
  case (Cons op ops)
  from Cons.prems(1) obtain u' w1 where one: "refreshOperator env c b e op w = (Ret u', w1)"
    and rest: "refreshOperators env c b e ops w1 = (Ret u, w')"
    by (auto simp: call'_Ret_iff)
  from refreshOperator_Ret [OF one] obtain arg x now where arg: "chain_state env c b e op arg"
    and up: "updateOperatorState arg now (operators_rows w) = Inr (x, operators_rows w1)" by blast
  have id: "us_Address arg = o_Address op" using arg by (simp add: chain_state_def)
  have look: "operator_of j (operators_rows w1) = map_option (\<lambda>r. if j = o_Address op
      then r\<lparr>o_IsActive := us_IsActive arg, o_Weight := us_Weight arg,
             o_SigningKey := us_SigningKey arg, o_P2pKey := us_P2pKey arg, o_UpdatedAt := now\<rparr>
      else r) (operator_of j (operators_rows w))" for j
    using operator_of_update [OF up [unfolded updateOperatorState_def id], of j] by simp
  have new: "o_Address op \<notin> set (map o_Address ops)" using Cons.prems(2) by simp
  have IH: "rel_option (if a \<in> set (map o_Address ops) then refreshed env c b e else (=))
      (operator_of a (operators_rows w1)) (operator_of a (operators_rows w'))"
  proof (rule Cons.IH [OF rest])
    show "distinct (map o_Address ops)" using Cons.prems(2) by simp
    fix q row
    assume q: "q \<in> set ops" "operator_of (o_Address q) (operators_rows w1) = Some row"
    then have mem: "o_Address q \<in> set (map o_Address ops)" by simp
    have "o_Address q \<noteq> o_Address op"
    proof
      assume "o_Address q = o_Address op"
      with mem new show False by simp
    qed
    then have row: "operator_of (o_Address q) (operators_rows w) = Some row"
      using q(2) look [of "o_Address q"] by (simp add: option.map_ident)
    show "o_Address row = o_Address q \<and> o_ActiveEpoch row = o_ActiveEpoch q \<and>
        o_ExitEpoch row = o_ExitEpoch q"
      by (rule Cons.prems(3) [OF _ row]) (simp add: q(1))
  qed
  show ?case
  proof (cases "a = o_Address op")
    case True
    then have eq: "operator_of a (operators_rows w') = operator_of a (operators_rows w1)"
      using IH new by (simp add: option.rel_eq)
    have "refreshed env c b e row (row\<lparr>o_IsActive := us_IsActive arg, o_Weight := us_Weight arg,
        o_SigningKey := us_SigningKey arg, o_P2pKey := us_P2pKey arg, o_UpdatedAt := now\<rparr>)"
      if "operator_of a (operators_rows w) = Some row" for row
    proof -
      have "o_Address row = o_Address op" "o_ActiveEpoch row = o_ActiveEpoch op"
        "o_ExitEpoch row = o_ExitEpoch op"
        using Cons.prems(3) [of op row] that True by simp_all
      from chain_state_cong [OF this] arg show ?thesis unfolding refreshed_def by blast
    qed
    with True eq look show ?thesis by (cases "operator_of a (operators_rows w)") simp_all
  next
    case False
    with IH look show ?thesis by (simp add: option.map_ident)
  qed
qed

text \<open>The rows that the listing returns are those of the table, but for the form of their weights.\<close>

lemma ListAllOperators_Ret:
  assumes "ListAllOperators p w = (Ret ops, w')"
  shows "ops = map (scan_operator p) (operators_rows w)"
  using assms
  by (auto simp: ListAllOperators_def scanned_Ret_iff on_operators_def run_stmt_def
      listAllOperators_def select_many_def split: fault.splits)

lemma operator_of_scanned:
  assumes "operators_ok t" and "op \<in> set (map (scan_operator p) t)"
    and "operator_of (o_Address op) t = Some row"
  shows "o_Address row = o_Address op \<and> o_ActiveEpoch row = o_ActiveEpoch op \<and>
    o_ExitEpoch row = o_ExitEpoch op"
proof -
  from assms(2) obtain q where q: "q \<in> set t" "op = scan_operator p q" by auto
  have "q = row"
  proof (rule find_key_eq)
    show "distinct (map o_Address t)" using assms(1) by (simp add: operators_ok_def keyed_def)
    show "find (\<lambda>r. o_Address r = o_Address op) t = Some row" using assms(3) by (simp add: operator_of_def)
    show "q \<in> set t" by (rule q(1))
    show "o_Address q = o_Address op" using q(2) by (simp add: scan_operator_def)
  qed
  with q show ?thesis by (simp add: scan_operator_def)
qed

lemma updateEpochState_only:
  assumes "updateEpochState env c e w = (r, w')"
  shows "operators_rows w' = operators_rows w \<and> lastProcessedEpoch w' = lastProcessedEpoch w \<and>
    taskResponseTrack w' = taskResponseTrack w \<and> published w' = published w \<and> db_ok w' = db_ok w \<and>
    (r = Ret () \<longrightarrow> EpochNumber (currentEpochState w') = e \<and>
       ThresholdWeight (currentEpochState w') \<noteq> None)"
proof -
  obtain r1 w1 where 1: "GetMinimumWeight (rpcp env) c w = (r1, w1)" by fastforce
  obtain r2 w2 where 2: "GetTotalWeight (rpcp env) c w1 = (r2, w2)" by fastforce
  obtain r3 w3 where 3: "GetThresholdWeight (rpcp env) c w2 = (r3, w3)" by fastforce
  have oc1: "only_calls w w1" using client_only_calls(5) [of w "rpcp env" c] 1 by simp
  have oc2: "only_calls w w2"
    using only_calls_trans [OF oc1] client_only_calls(4) [of w1 "rpcp env" c] 2 by simp
  have oc3: "only_calls w w3"
    using only_calls_trans [OF oc2] client_only_calls(6) [of w2 "rpcp env" c] 3 by simp
  note same = only_calls_World [OF oc1] only_calls_World [OF oc2] only_calls_World [OF oc3]
  show ?thesis
    using assms 1 2 3 same
    by (cases r1; cases r2; cases r3) (auto simp: updateEpochState_def db_ok_def)
qed

section \<open>Properties\<close>

lemma epochBody_refreshes:
  assumes "epochBody env c b e w = (Ret u, w')" and "operators_ok (operators_rows w)"
  shows "rel_option (refreshed env c b e) (operator_of a (operators_rows w))
      (operator_of a (operators_rows w'))"
proof -
  from assms(1) obtain u' w1 ops w2 where es: "updateEpochState env c e w = (Ret u', w1)"
    and list: "ListAllOperators (pgp env) w1 = (Ret ops, w2)"
    and loop: "refreshOperators env c b e ops w2 = (Ret u, w')"
    by (auto simp: epochBody_def call_Ret_iff)
  have "only_calls w1 w2" using operator_reads_only_calls(6) [of w1 "pgp env"] list by simp
  then have rows: "operators_rows w2 = operators_rows w" "operators_rows w1 = operators_rows w"
    using updateEpochState_only [OF es] only_calls_World(2) by simp_all
  have ops: "ops = map (scan_operator (pgp env)) (operators_rows w)"
    using ListAllOperators_Ret [OF list] rows by simp
  have addr: "map o_Address ops = map o_Address (operators_rows w)"
    by (simp add: ops scan_operator_def)
  have d: "distinct (map o_Address ops)"
    using assms(2) unfolding addr by (simp add: operators_ok_def keyed_def)
  have "rel_option (if a \<in> set (map o_Address ops) then refreshed env c b e else (=))
      (operator_of a (operators_rows w2)) (operator_of a (operators_rows w'))"
  proof (rule refreshOperators_rows [OF loop d])
    fix op row
    assume "op \<in> set ops" and "operator_of (o_Address op) (operators_rows w2) = Some row"
    then show "o_Address row = o_Address op \<and> o_ActiveEpoch row = o_ActiveEpoch op \<and>
        o_ExitEpoch row = o_ExitEpoch op"
      unfolding rows ops by (intro operator_of_scanned [OF assms(2)])
  qed
  moreover have "a \<in> set (map o_Address ops) \<or> operator_of a (operators_rows w) = None"
    unfolding addr operator_of_def find_key_None by blast
  ultimately show ?thesis unfolding rows by (auto split: if_splits)
qed

text \<open>The process state that an update leaves alone.\<close>

definition keeps_updator :: "World \<Rightarrow> World \<Rightarrow> bool" where
  "keeps_updator w w' \<longleftrightarrow> lastProcessedEpoch w' = lastProcessedEpoch w \<and>
     taskResponseTrack w' = taskResponseTrack w \<and> published w' = published w"

lemma keeps_updator_same: "same_process w w' \<Longrightarrow> keeps_updator w w'"
  by (simp add: keeps_updator_def same_process_eqs)

lemma keeps_updator_trans: "keeps_updator u v \<Longrightarrow> keeps_updator v w \<Longrightarrow> keeps_updator u w"
  by (simp add: keeps_updator_def)

lemma call_keeps:
  assumes "keeps_updator w (snd r)" and "\<And>x w'. r = (Ret x, w') \<Longrightarrow> keeps_updator w' (snd (k x w'))"
  shows "keeps_updator w (snd (call msg r k))" "keeps_updator w (snd (call' r k))"
  using assms by (cases r; cases "fst r"; auto intro: keeps_updator_trans)+

lemma operator_write_same_process:
  "same_process w (snd (UpdateOperatorState p cn sarg k1 k2 k3 k4 w))"
  "same_process w (snd (UpdateOperatorExitEpoch p cn xarg k1 k2 k3 k4 w))"
  "same_process w (snd (UpsertOperator p cn uarg k1 k2 k3 k4 w))"
  by (simp_all add: same_process_def UpdateOperatorState_def UpdateOperatorExitEpoch_def
      UpsertOperator_def after_update_more invalidateOperator_def)

lemma refreshOperator_same_process: "keeps_updator w (snd (refreshOperator env c b e op w))"
  unfolding refreshOperator_def Let_def
  by (intro call_keeps keeps_updator_same only_calls_same_process client_only_calls
      operator_write_same_process) (simp add: only_calls_same_process)

lemma refreshOperators_keeps: "keeps_updator w (snd (refreshOperators env c b e ops w))"
proof (induction ops arbitrary: w)
  case Nil
  show ?case by (simp add: keeps_updator_def)
next
  case (Cons op ops)
  show ?case by (auto intro!: call_keeps refreshOperator_same_process Cons)
qed

lemma epochBody_keeps: "keeps_updator w (snd (epochBody env c b e w))"
proof -
  have "keeps_updator w (snd (updateEpochState env c e w))" for w
    using updateEpochState_only [of env c e w] by (simp add: keeps_updator_def prod_eq_iff)
  then show ?thesis
    unfolding epochBody_def
    by (rule call_keeps(1))
      (rule call_keeps(1) [OF keeps_updator_same [OF only_calls_same_process
          [OF operator_reads_only_calls(6)]] refreshOperators_keeps])
qed

lemma Transact_keeps:
  assumes "\<And>w. keeps_updator w (snd (f w))"
  shows "keeps_updator w (snd (Transact p f w))"
  using assms [of "tick w"]
  by (auto simp: Transact_def commit_def keeps_updator_def tick_def rollback_def
      split: fault.split prod.split res.split)

lemma refreshOperators_epoch:
  "same_process w (snd (refreshOperators env c b e ops w))"
proof (induction ops arbitrary: w)
  case (Cons op ops)
  have one: "same_process w (snd (refreshOperator env c b e op w))"
    unfolding refreshOperator_def Let_def
    by (intro call_same_process only_calls_same_process client_only_calls
        operator_write_same_process) simp
  show ?case by (auto intro!: call_same_process one Cons)
qed simp

lemma epochBody_epoch:
  assumes "epochBody env c b e w = (Ret u, w')"
  shows "EpochNumber (currentEpochState w') = e"
proof -
  from assms obtain u' w1 ops w2 where es: "updateEpochState env c e w = (Ret u', w1)"
    and list: "ListAllOperators (pgp env) w1 = (Ret ops, w2)"
    and loop: "refreshOperators env c b e ops w2 = (Ret u, w')"
    by (auto simp: epochBody_def call_Ret_iff)
  have "same_process w1 w2"
    using only_calls_same_process [OF operator_reads_only_calls(6) [of w1 "pgp env"]] list by simp
  moreover have "same_process w2 w'" using refreshOperators_epoch [of w2 env c b e ops] loop by simp
  ultimately show ?thesis using updateEpochState_only [OF es] same_process_eqs(1) by simp
qed

lemma handleEpochUpdate_state:
  assumes "db_ok w"
  shows "keeps_updator w (snd (handleEpochUpdate env c e w)) \<and>
    (operators_rows (snd (handleEpochUpdate env c e w)) = operators_rows w \<or>
     up_to_date env c e (operators_rows w)
       (operators_rows (snd (handleEpochUpdate env c e w)))) \<and>
    (fst (handleEpochUpdate env c e w) = Ret () \<longrightarrow>
       EpochNumber (currentEpochState (snd (handleEpochUpdate env c e w))) = e \<and>
       up_to_date env c e (operators_rows w)
       (operators_rows (snd (handleEpochUpdate env c e w))))"
proof (cases "rpcBlockNumber (rpcp env) (calls w) (cl_chain c)")
  case (Inl err)
  then show ?thesis
    by (simp add: handleEpochUpdate_def BlockNumber_def rpc_call_def of_sum_def keeps_updator_def
        tick_def)
next
  case (Inr b)
  define f where "f = epochBody env c b e"
  define w1 where "w1 = tick w"
  have ok: "operators_ok (operators_rows (tick w1))" using assms by (simp add: w1_def db_ok_def)
  have rows: "operators_rows (tick w1) = operators_rows w" "operators_rows w1 = operators_rows w"
    by (simp_all add: w1_def)
  have run: "snd (handleEpochUpdate env c e w) = snd (Transact (pgp env) f w1)"
    "fst (handleEpochUpdate env c e w) = Ret () \<longleftrightarrow> fst (Transact (pgp env) f w1) = Ret ()"
    using Inr
    by (cases "Transact (pgp env) f w1"; cases "fst (Transact (pgp env) f w1)";
        simp add: handleEpochUpdate_def BlockNumber_def rpc_call_def of_sum_def f_def w1_def)+
  have keeps: "keeps_updator w (snd (Transact (pgp env) f w1))"
    using Transact_keeps [of f w1 "pgp env"] epochBody_keeps
    by (simp add: f_def w1_def keeps_updator_def tick_def)
  obtain r w2 where body: "f (tick w1) = (r, w2)" by fastforce
  show ?thesis
  proof (cases r)
    case (Ret u)
    have "rel_option (refreshed env c b e) (operator_of a (operators_rows w))
        (operator_of a (operators_rows w2))" for a
      using epochBody_refreshes [OF _ ok, of env c b e u w2 a] body Ret rows by (simp add: f_def)
    with Inr have new: "up_to_date env c e (operators_rows w) (operators_rows w2)"
      by (auto simp: up_to_date_def)
    have e: "EpochNumber (currentEpochState w2) = e"
      using epochBody_epoch [of env c b e "tick w1" u w2] body Ret by (simp add: f_def)
    have "operators_rows (snd (Transact (pgp env) f w1)) \<in> {operators_rows w, operators_rows w2} \<and>
        (fst (Transact (pgp env) f w1) = Ret () \<longrightarrow>
          operators_rows (snd (Transact (pgp env) f w1)) = operators_rows w2 \<and>
          currentEpochState (snd (Transact (pgp env) f w1)) = currentEpochState w2)"
      using body Ret rows
      by (simp add: Transact_def commit_def tick_def split: fault.split)
    with keeps new e run show ?thesis by auto
  next
    case (Fail err)
    then have "\<not> is_Ret (fst (f (tick w1)))" using body by simp
    from Transact_not_Ret [of f w1 "pgp env", OF this] keeps run rows show ?thesis
      by (simp add: is_Ret_iff)
  next
    case Panic
    then have "\<not> is_Ret (fst (f (tick w1)))" using body by simp
    from Transact_not_Ret [of f w1 "pgp env", OF this] keeps run rows show ?thesis
      by (simp add: is_Ret_iff)
  qed
qed

text \<open>
  C13. The update of an epoch is all or nothing. Whatever faults occur, afterwards either no operator's
  row has changed, or every operator has the state that the main chain gave: it is active exactly when
  a block that the chain reported is in its active window, its weight and keys are the chain's answers
  for it, and its registration is as before. No operator comes or goes. If the update returns without
  an error, it is the latter, and the epoch state is that of the epoch.
\<close>

theorem handleEpochUpdate_atomic:
  assumes "db_ok w"
  shows "(operators_rows (snd (handleEpochUpdate env c e w)) = operators_rows w \<or>
     up_to_date env c e (operators_rows w)
       (operators_rows (snd (handleEpochUpdate env c e w)))) \<and>
    (fst (handleEpochUpdate env c e w) = Ret () \<longrightarrow>
       EpochNumber (currentEpochState (snd (handleEpochUpdate env c e w))) = e \<and>
       up_to_date env c e (operators_rows w)
       (operators_rows (snd (handleEpochUpdate env c e w))))"
  using handleEpochUpdate_state [OF assms] by blast

text \<open>
  C14. Epochs are processed once, in order. A tick never lowers the last processed epoch. It raises it
  only to the epoch of a block that the main chain reported, and only if the epoch state is then that
  epoch's and every operator was brought up to date for it; what is tracked and published stays.
\<close>

theorem epochTick_progress:
  assumes "db_ok w"
  shows "lastProcessedEpoch w \<le> lastProcessedEpoch (snd (epochTick env c w)) \<and>
    taskResponseTrack (snd (epochTick env c w)) = taskResponseTrack w \<and>
    published (snd (epochTick env c w)) = published w \<and>
    (lastProcessedEpoch (snd (epochTick env c w)) = lastProcessedEpoch w \<or>
     EpochNumber (currentEpochState (snd (epochTick env c w))) =
       lastProcessedEpoch (snd (epochTick env c w)) \<and>
     (\<exists>i b. rpcBlockNumber (rpcp env) i (cl_chain c) = Inr b \<and>
        lastProcessedEpoch (snd (epochTick env c w)) = CalculateCurrentEpochNumber b) \<and>
     up_to_date env c (lastProcessedEpoch (snd (epochTick env c w))) (operators_rows w)
       (operators_rows (snd (epochTick env c w))))"
proof (cases "rpcBlockNumber (rpcp env) (calls w) (cl_chain c)")
  case (Inl err)
  then show ?thesis
    by (simp add: epochTick_def BlockNumber_def rpc_call_def of_sum_def tick_def)
next
  case (Inr b)
  define e where "e = CalculateCurrentEpochNumber b"
  obtain r w1 where h: "handleEpochUpdate env c e (tick w) = (r, w1)" by fastforce
  have "db_ok (tick w)" using assms by simp
  from handleEpochUpdate_state [OF this, of env c e] h
  have keeps: "keeps_updator (tick w) w1"
    and ret: "r = Ret () \<longrightarrow> EpochNumber (currentEpochState w1) = e \<and>
       up_to_date env c e (operators_rows w) (operators_rows w1)"
    by simp_all
  have same: "lastProcessedEpoch w1 = lastProcessedEpoch w"
    "taskResponseTrack w1 = taskResponseTrack w" "published w1 = published w"
    using keeps by (simp_all add: keeps_updator_def tick_def)
  show ?thesis
  proof (cases "lastProcessedEpoch w < e \<and> r = Ret ()")
    case True
    then have "snd (epochTick env c w) = w1\<lparr>lastProcessedEpoch := e\<rparr>"
      using Inr h
      by (simp add: epochTick_def BlockNumber_def rpc_call_def of_sum_def e_def tick_def)
    with True ret Inr same e_def show ?thesis by auto
  next
    case False
    then have "snd (epochTick env c w) \<in> {tick w, w1}"
      using Inr h
      by (cases r) (auto simp: epochTick_def BlockNumber_def rpc_call_def of_sum_def
          e_def [symmetric] tick_def)
    with same show ?thesis by (auto simp: tick_def)
  qed
qed

text \<open>A client of the main chain, and a process in epoch 8 whose chain is at block 7698600.\<close>

definition toy_mainnet :: chainClient where
  "toy_mainnet = \<lparr>cl_chain = 11155111, cl_epochManager = True, cl_registry = True\<rparr>"

definition toy_before :: World where
  "toy_before = toy_world\<lparr>lastProcessedEpoch := 7,
     currentEpochState := \<lparr>EpochNumber = 7, MinimumWeight = Some 1, TotalWeight = Some 11,
       ThresholdWeight = Some 9\<rparr>\<rparr>"

lemma toy_before_ok: "db_ok toy_before"
  using proc_inv_toy [of toy_env] by (simp add: proc_inv_def toy_before_def db_ok_def)

lemmas chain_eval = BlockNumber_def GetOperatorWeight_def GetOperatorSigningKey_def
  GetOperatorP2PKey_def GetMinimumWeight_def GetTotalWeight_def GetThresholdWeight_def
  GetCurrentEpoch_def registry_call_def rpc_call_def of_sum_def toy_rpc_def toy_mainnet_def

lemmas update_eval = handleEpochUpdate_def Transact_def commit_def rollback_def epochBody_def
  updateEpochState_def refreshOperator_def Let_def ListAllOperators_def listAllOperators_def
  select_many_def UpdateOperatorState_def after_update_def updateOperatorState_def update_row_def
  on_operators_def run_stmt_def scanned_def scan_operator_def invalidateOperator_def Invalidate_def
  tick_def chain_eval operators_check_def fits_varchar_def fits_int8_def fits_numeric_def
  not_null_def BigIntToNumeric_def toy_operator_def toy_world_def toy_before_def

lemma toy_hex: "length (addressHex toy_crypto (HexToAddress toy_crypto s)) = 2 * length s"
  by (simp add: toy_crypto_def hex_encode_def length_concat comp_def sum_list_triv)

lemma toy_update: "fst (handleEpochUpdate toy_env toy_mainnet 8 toy_before) = Ret ()"
  by (simp add: update_eval toy_hex)

theorem handleEpochUpdate_atomic_witness:
  "EpochNumber (currentEpochState (snd (handleEpochUpdate toy_env toy_mainnet 8 toy_before))) = 8 \<and>
   up_to_date toy_env toy_mainnet 8 (operators_rows toy_before)
     (operators_rows (snd (handleEpochUpdate toy_env toy_mainnet 8 toy_before)))"
  using handleEpochUpdate_atomic [OF toy_before_ok, of toy_env toy_mainnet 8] toy_update by blast

theorem epochTick_progress_witness:
  "lastProcessedEpoch (snd (epochTick toy_env toy_mainnet toy_before)) = 8 \<and>
   EpochNumber (currentEpochState (snd (epochTick toy_env toy_mainnet toy_before))) = 8"
proof -
  have "lastProcessedEpoch (snd (epochTick toy_env toy_mainnet toy_before)) = 8"
    by (simp add: epochTick_def CalculateCurrentEpochNumber_def GenesisBlock_def EpochPeriod_def
        update_eval toy_hex)
  with epochTick_progress [OF toy_before_ok, of toy_env toy_mainnet] show ?thesis
    by (auto simp: toy_before_def)
qed

text \<open>A main chain that does not give weights of operators.\<close>

definition toy_failing :: env where
  "toy_failing =
     toy_env\<lparr>rpcp := toy_rpc\<lparr>rpcGetOperatorWeightAtEpoch := (\<lambda>n c a e. Inl (Err ''rpc''))\<rparr>\<rparr>"

text \<open>
  The epoch state is not part of the transaction. When reading an operator's weight fails, the
  transaction is rolled back and the epoch counts as not processed, but the number and the threshold
  of the new epoch are already in force, next to the weights and keys of the old one.
\<close>

theorem epochTick_failed_update_keeps_epoch_state:
  "operators_rows (snd (epochTick toy_failing toy_mainnet toy_before)) = operators_rows toy_before \<and>
   lastProcessedEpoch (snd (epochTick toy_failing toy_mainnet toy_before)) = 7 \<and>
   EpochNumber (currentEpochState (snd (epochTick toy_failing toy_mainnet toy_before))) = 8 \<and>
   querier_GetThresholdWeight toy_before = Some 9 \<and>
   querier_GetThresholdWeight (snd (epochTick toy_failing toy_mainnet toy_before)) = Some 10"
  by (simp add: epochTick_def CalculateCurrentEpochNumber_def GenesisBlock_def EpochPeriod_def
      update_eval querier_GetThresholdWeight_def toy_failing_def)

end
