(* ===== verification/Listener.thy ===== *)
theory Listener
  imports EpochUpd
begin

text \<open>
  The event listener, \<open>pkg/operator/event/listener.go\<close>: the subscription with its retries, the two
  handlers of registry events, and the loop that takes events from two channels. The channels are not
  ordered with respect to each other, so a run is any interleaving of the two streams.
\<close>

section \<open>Handlers\<close>

definition handleOperatorRegistered ::
  "env \<Rightarrow> OperatorRegisteredEvent \<Rightarrow> World \<Rightarrow> unit res \<times> World" where
  "handleOperatorRegistered env event w =
     (let blockNumber = word_of_int (reg_BlockNumber event);
          activeEpoch = GetEffectiveEpochByBlockNumber blockNumber;
          params =
            \<lparr>up_Address = addressHex (crp env) (reg_Operator event),
             up_SigningKey = addressHex (crp env) (reg_SigningKey event),
             up_P2pKey = addressHex (crp env) (reg_P2PKey event),
             up_RegisteredAtBlockNumber = blockNumber, up_ActiveEpoch = activeEpoch,
             up_ExitEpoch = 4294967295, up_IsActive = False,
             up_Weight = \<lparr>num_Int = Some 0, num_Exp = 0, num_Valid = True\<rparr>\<rparr>
      in call ''failed to upsert operator''
           (UpsertOperator (pgp env) Pool params (Some (up_Address params))
              (Some (up_SigningKey params)) (Some (up_P2pKey params)) (Some (up_P2pKey params)) w)
           (\<lambda>_ w. (Ret (), w)))"

definition handleOperatorDeregistered ::
  "env \<Rightarrow> OperatorDeregisteredEvent \<Rightarrow> World \<Rightarrow> unit res \<times> World" where
  "handleOperatorDeregistered env event w =
     (let blockNumber = word_of_int (dereg_BlockNumber event);
          exitEpoch = GetEffectiveEpochByBlockNumber blockNumber;
          operatorAddress = addressHex (crp env) (dereg_Operator event)
      in call ''failed to get operator'' (GetOperatorByAddress (pgp env) operatorAddress w)
           (\<lambda>operator w.
              case operator of
                None \<Rightarrow> (Panic, w)
              | Some op \<Rightarrow>
                  call ''failed to update operator exit epoch''
                    (UpdateOperatorExitEpoch (pgp env) Pool
                       \<lparr>ux_Address = operatorAddress, ux_ExitEpoch = exitEpoch\<rparr>
                       (Some operatorAddress) (Some (o_SigningKey op)) (Some (o_P2pKey op))
                       (Some (o_P2pKey op)) w)
                    (\<lambda>_ w. (Ret (), w))))"

section \<open>The loop\<close>

text \<open>What the loop of \<open>start\<close> receives from its channels.\<close>

datatype listener_input =
    Cancelled
  | RegistrationError error
  | DeregistrationError error
  | Registered OperatorRegisteredEvent
  | Deregistered OperatorDeregisteredEvent

text \<open>
  The loop on a sequence of inputs. It returns what is left of the sequence when it ends, and how it
  ended; errors of the handlers are logged, a panic ends the goroutine.
\<close>

fun listen ::
  "env \<Rightarrow> listener_input list \<Rightarrow> World \<Rightarrow> (unit res \<times> listener_input list) option \<times> World" where
  "listen env [] w = (None, w)"
| "listen env (Cancelled # rest) w = (Some (Ret (), rest), w)"
| "listen env (RegistrationError e # rest) w =
     (Some (Fail (Wrap ''registration subscription error'' e), rest), w)"
| "listen env (DeregistrationError e # rest) w =
     (Some (Fail (Wrap ''deregistration subscription error'' e), rest), w)"
| "listen env (Registered event # rest) w =
     (case handleOperatorRegistered env event w of
        (Panic, w) \<Rightarrow> (Some (Panic, rest), w)
      | (_, w) \<Rightarrow> listen env rest w)"
| "listen env (Deregistered event # rest) w =
     (case handleOperatorDeregistered env event w of
        (Panic, w) \<Rightarrow> (Some (Panic, rest), w)
      | (_, w) \<Rightarrow> listen env rest w)"

text \<open>
  \<open>subscribeToEvents\<close>, with the attempts left and the last error. The two watch functions are
  those of the interface \<open>ChainClient\<close>; \<open>cancelled\<close> is whether the context is done when the
  attempt has failed. The result is the number of registration subscriptions that were undone.
\<close>

fun subscribeAttempts ::
  "(nat \<Rightarrow> error option) \<Rightarrow> (nat \<Rightarrow> error option) \<Rightarrow> (nat \<Rightarrow> error option) \<Rightarrow> nat \<Rightarrow> nat \<Rightarrow> error \<Rightarrow>
     nat \<Rightarrow> nat res" where
  "subscribeAttempts watchReg watchDereg cancelled i 0 err undone =
     Fail (Wrap ''failed to subscribe after retries'' err)"
| "subscribeAttempts watchReg watchDereg cancelled i (Suc n) err undone =
     (case watchReg i of
        Some e \<Rightarrow>
          (case cancelled i of
             Some c \<Rightarrow> Fail c
           | None \<Rightarrow> subscribeAttempts watchReg watchDereg cancelled (Suc i) n e undone)
      | None \<Rightarrow>
          (case watchDereg i of
             None \<Rightarrow> Ret undone
           | Some e \<Rightarrow>
               (case cancelled i of
                  Some c \<Rightarrow> Fail c
                | None \<Rightarrow>
                    subscribeAttempts watchReg watchDereg cancelled (Suc i) n e (Suc undone))))"

definition subscribeToEvents ::
  "(nat \<Rightarrow> error option) \<Rightarrow> (nat \<Rightarrow> error option) \<Rightarrow> (nat \<Rightarrow> error option) \<Rightarrow> nat res" where
  "subscribeToEvents watchReg watchDereg cancelled =
     subscribeAttempts watchReg watchDereg cancelled 0 3 (Err '''') 0"

text \<open>The dependencies that \<open>NewEventListener\<close> checks; \<open>False\<close> is a nil one.\<close>

definition NewEventListener :: "(bool \<times> bool) option \<Rightarrow> unit res" where
  "NewEventListener cfg =
     (case cfg of
        None \<Rightarrow> Fail (Err ''config is nil'')
      | Some (mainnetClient, operatorRepo) \<Rightarrow>
          if \<not> mainnetClient then Fail (Err ''mainnet client not initialized'')
          else if \<not> operatorRepo then Fail (Err ''operator repo not initialized'')
          else Ret ())"

section \<open>What the handlers write\<close>

lemma UpsertOperator_Ret:
  assumes "UpsertOperator p cn arg k1 k2 k3 k4 w = (Ret x, w')"
  shows "\<exists>y now. upsertOperator arg now (operators_rows w) = Inr (y, operators_rows w')"
  using assms
  by (auto simp: UpsertOperator_def after_update_def call'_Ret_iff scanned_Ret_iff
      on_operators_def run_stmt_def invalidateOperator_def
      split: fault.splits sum.splits prod.splits option.splits intro!: exI)

lemma UpdateOperatorExitEpoch_Ret:
  assumes "UpdateOperatorExitEpoch p cn arg k1 k2 k3 k4 w = (Ret x, w')"
  shows "\<exists>y now. updateOperatorExitEpoch arg now (operators_rows w) = Inr (y, operators_rows w')"
  using assms
  by (auto simp: UpdateOperatorExitEpoch_def after_update_def call'_Ret_iff scanned_Ret_iff
      on_operators_def run_stmt_def invalidateOperator_def
      split: fault.splits sum.splits prod.splits option.splits intro!: exI)

lemma upsertOperator_row:
  assumes "upsertOperator arg now t = Inr (x, t')"
  shows "\<exists>row. operator_of (up_Address arg) t' = Some row \<and> o_SigningKey row = up_SigningKey arg \<and>
    o_P2pKey row = up_P2pKey arg \<and> o_ActiveEpoch row = up_ActiveEpoch arg \<and>
    o_ExitEpoch row = up_ExitEpoch arg \<and> o_IsActive row = up_IsActive arg \<and>
    o_Weight row = up_Weight arg"
proof -
  have look: "operator_of (up_Address arg) t' = x" and ex: "x \<noteq> None"
    using operator_store.look_put [OF assms, of "up_Address arg"] by simp_all
  from ex obtain row where row: "x = Some row" by blast
  have "o_SigningKey row = up_SigningKey arg \<and> o_P2pKey row = up_P2pKey arg \<and>
      o_ActiveEpoch row = up_ActiveEpoch arg \<and> o_ExitEpoch row = up_ExitEpoch arg \<and>
      o_IsActive row = up_IsActive arg \<and> o_Weight row = up_Weight arg"
    using assms row
    by (auto simp: upsertOperator_def upsert_row_def update_row_def split: if_splits option.splits)
  with look row show ?thesis by blast
qed

text \<open>What a registration leaves in the table.\<close>

definition newly_registered :: "env \<Rightarrow> OperatorRegisteredEvent \<Rightarrow> Operators \<Rightarrow> bool" where
  "newly_registered env event row \<longleftrightarrow>
     o_SigningKey row = addressHex (crp env) (reg_SigningKey event) \<and>
     o_P2pKey row = addressHex (crp env) (reg_P2PKey event) \<and>
     o_ActiveEpoch row = GetEffectiveEpochByBlockNumber (word_of_int (reg_BlockNumber event)) \<and>
     o_ExitEpoch row = 4294967295 \<and> \<not> o_IsActive row \<and> o_Weight row = BigIntToNumeric (Some 0)"

lemma handleOperatorRegistered_row:
  assumes "handleOperatorRegistered env event w = (Ret u, w')"
  shows "\<exists>row. operator_of (addressHex (crp env) (reg_Operator event)) (operators_rows w') = Some row \<and>
      newly_registered env event row"
    and "j \<noteq> addressHex (crp env) (reg_Operator event) \<Longrightarrow>
      operator_of j (operators_rows w') = operator_of j (operators_rows w)"
proof -
  define params where "params =
    \<lparr>up_Address = addressHex (crp env) (reg_Operator event),
     up_SigningKey = addressHex (crp env) (reg_SigningKey event),
     up_P2pKey = addressHex (crp env) (reg_P2PKey event),
     up_RegisteredAtBlockNumber = word_of_int (reg_BlockNumber event),
     up_ActiveEpoch = GetEffectiveEpochByBlockNumber (word_of_int (reg_BlockNumber event)),
     up_ExitEpoch = 4294967295, up_IsActive = False,
     up_Weight = \<lparr>num_Int = Some 0, num_Exp = 0, num_Valid = True\<rparr>\<rparr>"
  from assms obtain x where "UpsertOperator (pgp env) Pool params (Some (up_Address params))
      (Some (up_SigningKey params)) (Some (up_P2pKey params)) (Some (up_P2pKey params)) w = (Ret x, w')"
    by (auto simp: handleOperatorRegistered_def Let_def call_Ret_iff params_def)
  from UpsertOperator_Ret [OF this] obtain y now where
    up: "upsertOperator params now (operators_rows w) = Inr (y, operators_rows w')" by blast
  show "\<exists>row. operator_of (addressHex (crp env) (reg_Operator event)) (operators_rows w') = Some row \<and>
      newly_registered env event row"
    using upsertOperator_row [OF up]
    by (auto simp: params_def newly_registered_def BigIntToNumeric_def)
  show "operator_of j (operators_rows w') = operator_of j (operators_rows w)"
    if "j \<noteq> addressHex (crp env) (reg_Operator event)"
    using operator_store.look_put [OF up, of j] that by (simp add: params_def)
qed

lemma handleOperatorDeregistered_row:
  assumes "handleOperatorDeregistered env event w = (Ret u, w')"
  shows "\<exists>now. \<forall>j. operator_of j (operators_rows w') =
    map_option (\<lambda>r. if j = addressHex (crp env) (dereg_Operator event)
      then r\<lparr>o_ExitEpoch := GetEffectiveEpochByBlockNumber (word_of_int (dereg_BlockNumber event)),
             o_UpdatedAt := now\<rparr> else r) (operator_of j (operators_rows w))"
proof -
  define a where "a = addressHex (crp env) (dereg_Operator event)"
  define e where "e = GetEffectiveEpochByBlockNumber (word_of_int (dereg_BlockNumber event))"
  from assms obtain op w1 x where g: "GetOperatorByAddress (pgp env) a w = (Ret (Some op), w1)"
    and up: "UpdateOperatorExitEpoch (pgp env) Pool \<lparr>ux_Address = a, ux_ExitEpoch = e\<rparr>
      (Some a) (Some (o_SigningKey op)) (Some (o_P2pKey op)) (Some (o_P2pKey op)) w1 = (Ret x, w')"
    by (auto simp: handleOperatorDeregistered_def Let_def call_Ret_iff a_def e_def
        split: option.splits)
  have "only_calls w w1" using operator_reads_only_calls(1) [of w "pgp env" a] g by simp
  then have rows: "operators_rows w1 = operators_rows w" using only_calls_World(2) by simp
  from UpdateOperatorExitEpoch_Ret [OF up] obtain y now where
    "updateOperatorExitEpoch \<lparr>ux_Address = a, ux_ExitEpoch = e\<rparr> now (operators_rows w) =
      Inr (y, operators_rows w')"
    unfolding rows by blast
  then have "operator_of j (operators_rows w') = map_option (\<lambda>r. if j = a
      then r\<lparr>o_ExitEpoch := e, o_UpdatedAt := now\<rparr> else r) (operator_of j (operators_rows w))" for j
    using operator_of_update [where f = "\<lambda>r. r\<lparr>o_ExitEpoch := e, o_UpdatedAt := now\<rparr>"]
    by (simp add: updateOperatorExitEpoch_def)
  then show ?thesis unfolding a_def e_def by blast
qed

lemma listener_db_ok:
  assumes "db_ok w"
  shows "db_ok (snd (handleOperatorRegistered env reg w))"
    "db_ok (snd (handleOperatorDeregistered env dereg w))"
proof -
  show "db_ok (snd (handleOperatorRegistered env reg w))"
    unfolding handleOperatorRegistered_def Let_def
    using assms by (intro call_db_ok operator_writes_ok) simp_all
  have "db_ok (snd (GetOperatorByAddress (pgp env) a w))" for a
    using only_calls_World(12) [OF operator_reads_only_calls(1) [of w "pgp env" a]] assms by simp
  then show "db_ok (snd (handleOperatorDeregistered env dereg w))"
    unfolding handleOperatorDeregistered_def Let_def
    by (intro call_db_ok) (auto intro!: call_db_ok operator_writes_ok split: option.split)
qed

text \<open>
  C21. The life of an operator through three components. When an operator registers at block \<open>r\<close> and
  later deregisters at block \<open>d\<close>, and both events and then an update of an epoch are handled without
  error, the operator is recorded as active exactly if the block that the main chain reported to the
  update lies between the starts of the two effective epochs.
\<close>

theorem operator_lifetime:
  assumes "db_ok w"
    and "handleOperatorRegistered env reg w = (Ret u, w1)"
    and "handleOperatorDeregistered env dereg w1 = (Ret u', w2)"
    and "handleEpochUpdate env c e w2 = (Ret (), w3)"
    and "dereg_Operator dereg = reg_Operator reg"
    and "7698497 \<le> reg_BlockNumber reg" and "reg_BlockNumber reg \<le> dereg_BlockNumber dereg"
    and "dereg_BlockNumber dereg + 24 < 7698497 + 12 * 2 ^ 32"
    and "GetEffectiveEpochByBlockNumber (word_of_int (dereg_BlockNumber dereg)) \<noteq> 4294967295"
  shows "\<exists>row i b. operator_of (addressHex (crp env) (reg_Operator reg)) (operators_rows w3) = Some row \<and>
    rpcBlockNumber (rpcp env) i (cl_chain c) = Inr b \<and>
    (o_IsActive row \<longleftrightarrow>
       epochStart (GetEffectiveEpochByBlockNumber (word_of_int (reg_BlockNumber reg))) \<le> b \<and>
       b < epochStart (GetEffectiveEpochByBlockNumber (word_of_int (dereg_BlockNumber dereg))))"
proof -
  define a where "a = addressHex (crp env) (reg_Operator reg)"
  define r d :: u64 where "r = word_of_int (reg_BlockNumber reg)"
    and "d = word_of_int (dereg_BlockNumber dereg)"
  have r: "unat r = nat (reg_BlockNumber reg)" and d: "unat d = nat (dereg_BlockNumber dereg)"
    using assms(6-8) by (simp_all add: r_def d_def unsigned_of_int take_bit_int_eq_self nat_mono_iff)
  have "db_ok w1" using listener_db_ok(1) [OF assms(1), of env reg] assms(2) by simp
  then have ok: "db_ok w2" using listener_db_ok(2) [of w1 env dereg] assms(3) by simp
  obtain row1 where row1: "operator_of a (operators_rows w1) = Some row1"
    "newly_registered env reg row1"
    using handleOperatorRegistered_row(1) [OF assms(2)] unfolding a_def by blast
  obtain now where "operator_of a (operators_rows w2) = map_option
      (\<lambda>r. r\<lparr>o_ExitEpoch := GetEffectiveEpochByBlockNumber d, o_UpdatedAt := now\<rparr>)
      (operator_of a (operators_rows w1))"
    using handleOperatorDeregistered_row [OF assms(3)] unfolding a_def d_def assms(5) by auto
  then obtain row2 where row2: "operator_of a (operators_rows w2) = Some row2"
    "o_ActiveEpoch row2 = GetEffectiveEpochByBlockNumber r"
    "o_ExitEpoch row2 = GetEffectiveEpochByBlockNumber d"
    using row1 by (auto simp: newly_registered_def r_def)
  have "up_to_date env c e (operators_rows w2) (operators_rows w3)"
    using handleEpochUpdate_state [OF ok, of env c e] assms(4) by simp
  then obtain i b where b: "rpcBlockNumber (rpcp env) i (cl_chain c) = Inr b"
    and "rel_option (refreshed env c b e) (operator_of a (operators_rows w2))
        (operator_of a (operators_rows w3))"
    unfolding up_to_date_def by blast
  then obtain row3 where row3: "operator_of a (operators_rows w3) = Some row3"
    and "refreshed env c b e row2 row3"
    using row2(1) by (auto simp: option_rel_Some1)
  then have "o_IsActive row3 = IsOperatorActive b (GetEffectiveEpochByBlockNumber r)
      (GetEffectiveEpochByBlockNumber d)"
    using row2 by (auto simp: refreshed_def chain_state_def)
  also have "\<dots> \<longleftrightarrow> epochStart (GetEffectiveEpochByBlockNumber r) \<le> b \<and>
      b < epochStart (GetEffectiveEpochByBlockNumber d)"
  proof (rule IsOperatorActive_window)
    show "7698497 \<le> unat r" using r assms(6) by simp
    show "r \<le> d" using r d assms(6,7) by (simp add: word_le_nat_alt nat_mono)
    show "unat d + 24 < 7698497 + 12 * 2 ^ 32" using d assms(6-8) by simp
    show "GetEffectiveEpochByBlockNumber d \<noteq> 4294967295" using assms(9) by (simp add: d_def)
  qed
  finally show ?thesis using b row3 unfolding a_def r_def d_def by blast
qed

definition toy_reg :: OperatorRegisteredEvent where
  "toy_reg = \<lparr>reg_Operator = [1], reg_BlockNumber = 7698500, reg_SigningKey = [2], reg_P2PKey = [3],
     reg_AVS = []\<rparr>"

definition toy_dereg :: OperatorDeregisteredEvent where
  "toy_dereg = \<lparr>dereg_Operator = [1], dereg_BlockNumber = 7698560, dereg_AVS = []\<rparr>"

lemmas listener_eval = handleOperatorRegistered_def handleOperatorDeregistered_def Let_def
  UpsertOperator_def upsertOperator_def upsert_row_def GetOperatorByAddress_def GetWithTtl_def
  getOperatorByAddress_def select_one_def UpdateOperatorExitEpoch_def updateOperatorExitEpoch_def
  toy_reg_def toy_dereg_def

lemma toy_short [simp]:
  "length (addressHex toy_crypto bs) = 2 * length bs" "length (HexToAddress toy_crypto s) = length s"
  by (simp_all add: toy_crypto_def hex_encode_def length_concat comp_def sum_list_triv)

theorem operator_lifetime_witness:
  "\<exists>row i b. operator_of (addressHex toy_crypto [1]) (operators_rows
      (snd (handleEpochUpdate toy_env toy_mainnet 8 (snd (handleOperatorDeregistered toy_env toy_dereg
        (snd (handleOperatorRegistered toy_env toy_reg toy_before))))))) = Some row \<and>
    rpcBlockNumber toy_rpc i 11155111 = Inr b \<and>
    (o_IsActive row \<longleftrightarrow> epochStart (GetEffectiveEpochByBlockNumber 7698500) \<le> b \<and>
       b < epochStart (GetEffectiveEpochByBlockNumber 7698560))"
proof -
  define w1 where "w1 = snd (handleOperatorRegistered toy_env toy_reg toy_before)"
  define w2 where "w2 = snd (handleOperatorDeregistered toy_env toy_dereg w1)"
  define w3 where "w3 = snd (handleEpochUpdate toy_env toy_mainnet 8 w2)"
  have h: "addressHex toy_crypto [1] \<noteq> ''A''" "addressHex toy_crypto [1] \<noteq> ''B''"
    "''A'' \<noteq> addressHex toy_crypto [1]" "''B'' \<noteq> addressHex toy_crypto [1]"
    by (auto dest!: arg_cong [where f = length])
  have 1: "handleOperatorRegistered toy_env toy_reg toy_before = (Ret (), w1)"
    unfolding w1_def by (simp add: listener_eval update_eval h)
  have 2: "handleOperatorDeregistered toy_env toy_dereg w1 = (Ret (), w2)"
    unfolding w2_def w1_def by (simp add: listener_eval update_eval h)
  have 3: "handleEpochUpdate toy_env toy_mainnet 8 w2 = (Ret (), w3)"
    unfolding w3_def w2_def w1_def by (simp add: listener_eval update_eval h)
  have "GetEffectiveEpochByBlockNumber (word_of_int (dereg_BlockNumber toy_dereg)) \<noteq> 4294967295"
    by (simp add: toy_dereg_def GetEffectiveEpochByBlockNumber_def GenesisBlock_def EpochPeriod_def
        GracePeriod_def Let_def)
  from operator_lifetime [OF toy_before_ok 1 2 3 _ _ _ _ this] show ?thesis
    unfolding w1_def w2_def w3_def by (simp add: toy_reg_def toy_dereg_def toy_mainnet_def)
qed

text \<open>
  A registration resets its operator. Whatever the table holds, a registration event that is
  handled without error leaves its operator inactive, with weight zero and without an exit epoch, and
  no other operator changed. The listener starts again at the first block, so after a restart every
  operator passes through this state, and a deregistration that is handled before the registration
  that preceded it on the chain is lost.
\<close>

theorem handleOperatorRegistered_resets:
  assumes "handleOperatorRegistered env event w = (Ret u, w')"
  shows "(\<exists>row. operator_of (addressHex (crp env) (reg_Operator event)) (operators_rows w') = Some row \<and>
      newly_registered env event row) \<and>
    (j \<noteq> addressHex (crp env) (reg_Operator event) \<longrightarrow>
      operator_of j (operators_rows w') = operator_of j (operators_rows w))"
  using handleOperatorRegistered_row [OF assms] by blast

theorem handleOperatorRegistered_resets_witness:
  "\<exists>row. operator_of (addressHex toy_crypto [1]) (operators_rows
     (snd (handleOperatorRegistered toy_env toy_reg toy_before))) = Some row \<and>
     newly_registered toy_env toy_reg row"
proof -
  define w1 where "w1 = snd (handleOperatorRegistered toy_env toy_reg toy_before)"
  have h: "''A'' \<noteq> addressHex toy_crypto [1]" "''B'' \<noteq> addressHex toy_crypto [1]"
    by (auto dest!: arg_cong [where f = length])
  have "handleOperatorRegistered toy_env toy_reg toy_before = (Ret (), w1)"
    unfolding w1_def by (simp add: listener_eval update_eval h)
  from handleOperatorRegistered_resets [OF this] show ?thesis
    unfolding w1_def by (simp add: toy_reg_def)
qed

text \<open>
  A deregistration of an operator that has no row ends the listener. The handler dereferences the
  nil row and panics, the goroutine recovers and returns, and no later event of either kind is
  handled, although the subscriptions go on.
\<close>

theorem listen_stops_at_unknown_operator:
  assumes "GetOperatorByAddress (pgp env) (addressHex (crp env) (dereg_Operator event)) w = (Ret None, w1)"
  shows "listen env (Deregistered event # rest) w = (Some (Panic, rest), w1) \<and> only_calls w w1"
  using assms
    operator_reads_only_calls(1) [of w "pgp env" "addressHex (crp env) (dereg_Operator event)"]
  by (simp add: handleOperatorDeregistered_def Let_def)

theorem listen_stops_at_unknown_operator_witness:
  "listen toy_env [Deregistered toy_dereg, Registered toy_reg] toy_before =
     (Some (Panic, [Registered toy_reg]), tick toy_before)"
proof -
  have h: "''A'' \<noteq> addressHex toy_crypto [1]" "''B'' \<noteq> addressHex toy_crypto [1]"
    by (auto dest!: arg_cong [where f = length])
  have "GetOperatorByAddress toy_pg (addressHex toy_crypto (dereg_Operator toy_dereg)) toy_before =
      (Ret None, tick toy_before)"
    by (simp add: listener_eval update_eval h)
  then show ?thesis
    using listen_stops_at_unknown_operator
      [of toy_env toy_dereg toy_before "tick toy_before" "[Registered toy_reg]"]
    by simp
qed

end
