(* ===== verification/Gater.thy ===== *)
theory Gater
  imports TaskFlow
begin

text \<open>
  The connection gater, \<open>pkg/operator/gater\<close>: who may connect. A peer is refused while it is blocked,
  when it is not an active operator, and whenever one of the two questions cannot be answered. An
  incoming connection is first accepted by its address alone. Multiaddresses belong to a library: an
  address is the function that gives the value of a protocol, or an error. The parsing of IP addresses
  and of decimal numbers is that of Go's \<open>net\<close> and \<open>strconv\<close>.
\<close>

section \<open>Text of addresses\<close>

fun split_on :: "char \<Rightarrow> string \<Rightarrow> string list" where
  "split_on c [] = [[]]"
| "split_on c (x # xs) =
     (if x = c then [] # split_on c xs
      else (case split_on c xs of [] \<Rightarrow> [[x]] | f # fs \<Rightarrow> (x # f) # fs))"

definition ip4_field :: "string \<Rightarrow> bool" where
  "ip4_field f =
     (case parse_nat 10 f of
        None \<Rightarrow> False
      | Some n \<Rightarrow> n \<le> 255 \<and> (length f = 1 \<or> hd f \<noteq> CHR ''0''))"

definition parseIPv4 :: "string \<Rightarrow> bool" where
  "parseIPv4 s = (length (split_on CHR ''.'' s) = 4 \<and> list_all ip4_field (split_on CHR ''.'' s))"

definition hex_digit :: "char \<Rightarrow> bool" where
  "hex_digit c = (case digit_val c of None \<Rightarrow> False | Some d \<Rightarrow> d < 16)"

text \<open>
  The loop over the groups of an IPv6 address, with the number of groups that still fit and whether
  an ellipsis was seen. An IPv4 tail takes two groups.
\<close>

fun ip6_groups :: "nat \<Rightarrow> bool \<Rightarrow> string \<Rightarrow> bool" where
  "ip6_groups 0 ellipsis s = (s = [] \<and> \<not> ellipsis)"
| "ip6_groups (Suc n) ellipsis s =
     (let ds = takeWhile hex_digit s;
          rest = dropWhile hex_digit s
      in if 4 < length ds \<or> ds = [] then False
         else
           (case rest of
              [] \<Rightarrow> (if n = 0 then \<not> ellipsis else ellipsis)
            | c # cs \<Rightarrow>
                if c = CHR ''.'' then
                  (if \<not> ellipsis \<and> Suc n \<noteq> 2 then False
                   else if Suc n < 2 then False
                   else parseIPv4 s \<and> (if Suc n = 2 then \<not> ellipsis else ellipsis))
                else if c \<noteq> CHR '':'' then False
                else
                  (case cs of
                     [] \<Rightarrow> False
                   | d # ds' \<Rightarrow>
                       if d = CHR '':'' then
                         (if ellipsis then False
                          else if ds' = [] then n \<noteq> 0
                          else ip6_groups n True ds')
                       else ip6_groups n ellipsis cs)))"

definition parseIPv6 :: "string \<Rightarrow> bool" where
  "parseIPv6 s =
     (if take 2 s = ''::'' then drop 2 s = [] \<or> ip6_groups 8 True (drop 2 s)
      else ip6_groups 8 False s)"

text \<open>Whether \<open>net.ParseIP\<close> returns an address: which parser runs is decided by the first separator.\<close>

definition ParseIP :: "string \<Rightarrow> bool" where
  "ParseIP s =
     (if CHR ''%'' \<in> set s then False
      else
        (case dropWhile (\<lambda>c. c \<noteq> CHR ''.'' \<and> c \<noteq> CHR '':'') s of
           [] \<Rightarrow> False
         | c # _ \<Rightarrow> if c = CHR ''.'' then parseIPv4 s else parseIPv6 s))"

text \<open>\<open>strconv.Atoi\<close>.\<close>

definition Atoi :: "string \<Rightarrow> int option" where
  "Atoi s =
     (case big_SetString10 s of
        None \<Rightarrow> None
      | Some n \<Rightarrow> if - (2 ^ 63) \<le> n \<and> n < 2 ^ 63 then Some n else None)"

section \<open>The checks\<close>

datatype proto = P_IP4 | P_TCP

type_synonym multiaddr = "proto \<Rightarrow> error + string"

definition validProtocol :: "multiaddr \<Rightarrow> proto \<Rightarrow> bool" where
  "validProtocol addr p =
     (case addr p of
        Inl _ \<Rightarrow> False
      | Inr value \<Rightarrow>
          (case p of
             P_IP4 \<Rightarrow> ParseIP value
           | P_TCP \<Rightarrow>
               (case Atoi value of
                  None \<Rightarrow> False
                | Some port \<Rightarrow> \<not> (port < 1 \<or> 65535 < port))))"

definition validateBasicAddr :: "multiaddr option \<Rightarrow> bool" where
  "validateBasicAddr addrPtr =
     (case addrPtr of
        None \<Rightarrow> False
      | Some addr \<Rightarrow> list_all (validProtocol addr) [P_IP4, P_TCP])"

definition gater_isBlocked :: "env \<Rightarrow> peerID \<Rightarrow> World \<Rightarrow> bool res \<times> World" where
  "gater_isBlocked env peer w =
     call' (IsBlocked (pgp env) (peerIDString (crp env) peer) w)
       (\<lambda>blocked w. case blocked of None \<Rightarrow> (Ret False, w) | Some b \<Rightarrow> (Ret b, w))"

definition gater_isActiveOperator :: "env \<Rightarrow> peerID \<Rightarrow> World \<Rightarrow> bool res \<times> World" where
  "gater_isActiveOperator env peer w =
     call ''failed to convert peerID to p2p key'' (PeerIDToP2PKey (crp env) peer, w) (\<lambda>p2pKey w.
     call' (GetOperatorByP2PKey (pgp env) p2pKey w) (\<lambda>operator w.
       case operator of None \<Rightarrow> (Ret False, w) | Some op \<Rightarrow> (Ret (o_IsActive op), w)))"

text \<open>A panic goes to the caller, the libp2p host.\<close>

definition checkPeerPermission :: "env \<Rightarrow> peerID \<Rightarrow> World \<Rightarrow> bool res \<times> World" where
  "checkPeerPermission env peer w =
     (case gater_isBlocked env peer w of
        (Panic, w) \<Rightarrow> (Panic, w)
      | (Fail _, w) \<Rightarrow> (Ret False, w)
      | (Ret blocked, w) \<Rightarrow>
          if blocked then (Ret False, w)
          else
            (case gater_isActiveOperator env peer w of
               (Panic, w) \<Rightarrow> (Panic, w)
             | (Fail _, w) \<Rightarrow> (Ret False, w)
             | (Ret isActive, w) \<Rightarrow>
                 if \<not> isActive then (Ret False, w) else (Ret True, w)))"

section \<open>The gater\<close>

definition InterceptPeerDial :: "env \<Rightarrow> peerID \<Rightarrow> World \<Rightarrow> bool res \<times> World" where
  "InterceptPeerDial env peer = checkPeerPermission env peer"

definition InterceptAddrDial :: "env \<Rightarrow> peerID \<Rightarrow> multiaddr \<Rightarrow> World \<Rightarrow> bool res \<times> World" where
  "InterceptAddrDial env peer addr = checkPeerPermission env peer"

definition InterceptAccept :: "multiaddr option \<Rightarrow> bool" where
  "InterceptAccept remote = validateBasicAddr remote"

definition InterceptSecured :: "env \<Rightarrow> peerID \<Rightarrow> World \<Rightarrow> bool res \<times> World" where
  "InterceptSecured env peer = checkPeerPermission env peer"

definition InterceptUpgraded :: "bool \<times> nat" where
  "InterceptUpgraded = (True, 0)"

record ViolationParams =
  vp_PeerID :: peerID
  vp_ViolationCount :: i32
  vp_ExpiresAt :: "time option"

definition gater_IncrementViolationCount :: "env \<Rightarrow> ViolationParams \<Rightarrow> World \<Rightarrow> unit res \<times> World" where
  "gater_IncrementViolationCount env params w =
     call' (IncrementViolationCount (pgp env) Pool
         \<lparr>iv_PeerID = peerIDString (crp env) (vp_PeerID params),
          iv_ViolationCount = vp_ViolationCount params, iv_ExpiresAt = vp_ExpiresAt params\<rparr> None w)
       (\<lambda>_ w. (Ret (), w))"

definition gater_UnblockNode :: "env \<Rightarrow> peerID \<Rightarrow> World \<Rightarrow> unit res \<times> World" where
  "gater_UnblockNode env peer w =
     call' (UnblockNode (pgp env) Pool (peerIDString (crp env) peer) None w) (\<lambda>_ w. (Ret (), w))"

text \<open>The dependencies that \<open>NewConnectionGater\<close> checks; \<open>False\<close> is a nil one.\<close>

definition NewConnectionGater :: "(bool \<times> bool) option \<Rightarrow> unit res" where
  "NewConnectionGater cfg =
     (case cfg of
        None \<Rightarrow> Fail (Err ''[ConnectionGater] config is nil'')
      | Some (blacklistRepo, operatorRepo) \<Rightarrow>
          if \<not> blacklistRepo then Fail (Err ''[ConnectionGater] blacklist repo is nil'')
          else if \<not> operatorRepo then Fail (Err ''[ConnectionGater] operator repo is nil'')
          else Ret ())"

section \<open>Checking changes nothing\<close>

lemma gater_reads_only_calls:
  "only_calls w (snd (gater_isBlocked env peer w))"
  "only_calls w (snd (gater_isActiveOperator env peer w))"
  unfolding gater_isBlocked_def gater_isActiveOperator_def
  by (auto intro!: call_only_calls blacklist_reads_only_calls operator_reads_only_calls
      split: option.split)

lemma checkPeerPermission_only_calls: "only_calls w (snd (checkPeerPermission env peer w))"
proof -
  obtain b w1 where b: "gater_isBlocked env peer w = (b, w1)" by fastforce
  obtain a w2 where a: "gater_isActiveOperator env peer w1 = (a, w2)" by fastforce
  have 1: "only_calls w w1" using gater_reads_only_calls(1) [of w env peer] b by simp
  have 2: "only_calls w w2"
    using only_calls_trans [OF 1] gater_reads_only_calls(2) [of w1 env peer] a by simp
  show ?thesis
    using 1 2 by (simp add: checkPeerPermission_def b a split: res.split)
qed

section \<open>Who is admitted\<close>

definition blocked_at :: "time \<Rightarrow> string \<Rightarrow> Blacklist list \<Rightarrow> bool" where
  "blocked_at now peerID t =
     (case blacklist_of peerID t of
        None \<Rightarrow> False
      | Some r \<Rightarrow> 3 \<le> sint (b_ViolationCount r) \<and> unexpired now r)"

definition active_p2p :: "string \<Rightarrow> Operators list \<Rightarrow> bool" where
  "active_p2p key t =
     (case find (\<lambda>r. lower (o_P2pKey r) = lower key) t of None \<Rightarrow> False | Some r \<Rightarrow> o_IsActive r)"

lemma gater_isBlocked_exact:
  assumes "cache_at (pgp env) = None" and "fault_at (pgp env) (calls w) = NoFault"
    and "blacklist_ok (blacklist_rows w)"
  shows "gater_isBlocked env peer w = (Ret (blocked_at (now_at (pgp env) (calls w))
    (peerIDString (crp env) peer) (blacklist_rows w)), tick w)"
  using assms isBlocked_iff [OF assms(3)]
  by (simp add: gater_isBlocked_def IsBlocked_def GetWithTtl_def on_blacklist_def run_stmt_def
      blocked_at_def)

lemma gater_isActiveOperator_exact:
  assumes "cache_at (pgp env) = None" and "fault_at (pgp env) (calls w) = NoFault"
    and "PeerIDToP2PKey (crp env) peer = Ret key"
  shows "gater_isActiveOperator env peer w = (Ret (active_p2p key (operators_rows w)), tick w)"
  using assms
  by (cases "find (\<lambda>r. lower (o_P2pKey r) = lower key) (operators_rows w)")
    (simp_all add: gater_isActiveOperator_def GetOperatorByP2PKey_def GetWithTtl_def
      on_operators_def run_stmt_def getOperatorByP2PKey_def select_one_def active_p2p_def
      scan_operator_def)

lemma checkPeerPermission_answer:
  assumes "cache_at (pgp env) = None" and "blacklist_ok (blacklist_rows w)"
    and "fault_at (pgp env) (calls w) = NoFault" and "fault_at (pgp env) (Suc (calls w)) = NoFault"
    and "PeerIDToP2PKey (crp env) peer = Ret key"
  shows "fst (checkPeerPermission env peer w) = Ret
    (\<not> blocked_at (now_at (pgp env) (calls w)) (peerIDString (crp env) peer) (blacklist_rows w) \<and>
     active_p2p key (operators_rows w))"
  using gater_isBlocked_exact [OF assms(1,3,2)]
    gater_isActiveOperator_exact [OF assms(1) _ assms(5), of "tick w"] assms(4)
  by (simp add: checkPeerPermission_def)

text \<open>
  C16. The gater admits exactly the active operators that are not blocked, when the tables are read and
  no cache is in between: every dialled and every secured connection is let through if and only if the
  peer has no unexpired row with three violations and its key is that of an active operator.
\<close>

theorem gater_admits:
  assumes "cache_at (pgp env) = None" and "blacklist_ok (blacklist_rows w)"
    and "fault_at (pgp env) (calls w) = NoFault" and "fault_at (pgp env) (Suc (calls w)) = NoFault"
    and "PeerIDToP2PKey (crp env) peer = Ret key"
  shows "(fst (InterceptSecured env peer w) = Ret True \<longleftrightarrow>
      \<not> blocked_at (now_at (pgp env) (calls w)) (peerIDString (crp env) peer) (blacklist_rows w) \<and>
      active_p2p key (operators_rows w)) \<and>
    InterceptPeerDial env peer w = InterceptSecured env peer w \<and>
    InterceptAddrDial env peer addr w = InterceptSecured env peer w"
  using checkPeerPermission_answer [OF assms]
  by (simp add: InterceptSecured_def InterceptPeerDial_def InterceptAddrDial_def)

theorem gater_admits_witness:
  "fst (InterceptSecured toy_env ''P''
     (toy_world\<lparr>operators_rows := [(toy_operator ''A'' ''01'' 6)\<lparr>o_P2pKey :=
        case PeerIDToP2PKey toy_crypto ''P'' of Ret k \<Rightarrow> k | _ \<Rightarrow> []\<rparr>]\<rparr>)) = Ret True"
proof -
  obtain key where key: "PeerIDToP2PKey toy_crypto ''P'' = Ret key"
    by (simp add: PeerIDToP2PKey_def toy_crypto_def Let_def)
  define w where "w = toy_world\<lparr>operators_rows := [(toy_operator ''A'' ''01'' 6)\<lparr>o_P2pKey := key\<rparr>]\<rparr>"
  have "blacklist_ok (blacklist_rows w)"
    by (simp add: w_def toy_world_def blacklist_ok_def keyed_def)
  moreover have "\<not> blocked_at t s (blacklist_rows w)" "active_p2p key (operators_rows w)" for t s
    by (simp_all add: w_def toy_world_def blocked_at_def blacklist_of_def active_p2p_def
        toy_operator_def)
  ultimately show ?thesis
    using gater_admits [of toy_env w "''P''" key "\<lambda>_. Inr []"] key by (simp add: w_def)
qed

text \<open>
  C15. The gater fails closed. Whatever the cache and the database do, a peer is admitted only after
  both questions were answered, the first with something other than "blocked" and the second with an
  active operator, and the check leaves everything but the count of calls as it was.
\<close>

theorem gater_fails_closed:
  assumes "checkPeerPermission env peer w = (Ret True, w')"
  shows "only_calls w w' \<and>
    (\<exists>b w1 key op. IsBlocked (pgp env) (peerIDString (crp env) peer) w = (Ret b, w1) \<and> b \<noteq> Some True \<and>
       PeerIDToP2PKey (crp env) peer = Ret key \<and>
       GetOperatorByP2PKey (pgp env) key w1 = (Ret (Some op), w') \<and> o_IsActive op)"
proof -
  obtain b w1 where b: "gater_isBlocked env peer w = (b, w1)" by fastforce
  then have b': "b = Ret False"
    using assms by (cases b) (auto simp: checkPeerPermission_def split: if_splits)
  then obtain x where x: "IsBlocked (pgp env) (peerIDString (crp env) peer) w = (Ret x, w1)"
    "x \<noteq> Some True"
    using b by (auto simp: gater_isBlocked_def call'_Ret_iff split: option.splits)
  have "gater_isActiveOperator env peer w1 = (Ret True, w')"
    using assms b b'
    by (cases "gater_isActiveOperator env peer w1"; cases "fst (gater_isActiveOperator env peer w1)")
      (auto simp: checkPeerPermission_def split: if_splits)
  then obtain key op where "PeerIDToP2PKey (crp env) peer = Ret key"
    "GetOperatorByP2PKey (pgp env) key w1 = (Ret (Some op), w')" "o_IsActive op"
    by (auto simp: gater_isActiveOperator_def call_Ret_iff call'_Ret_iff split: option.splits)
  moreover have "only_calls w w'" using checkPeerPermission_only_calls [of w env peer] assms by simp
  ultimately show ?thesis using x by blast
qed

theorem gater_fails_closed_witness:
  "\<exists>w'. only_calls (toy_world\<lparr>operators_rows := [(toy_operator ''A'' ''01'' 6)\<lparr>o_P2pKey :=
      case PeerIDToP2PKey toy_crypto ''P'' of Ret k \<Rightarrow> k | _ \<Rightarrow> []\<rparr>]\<rparr>) w' \<and> calls w' = 2"
proof -
  obtain key where key: "PeerIDToP2PKey toy_crypto ''P'' = Ret key"
    by (simp add: PeerIDToP2PKey_def toy_crypto_def Let_def)
  define w where "w = toy_world\<lparr>operators_rows := [(toy_operator ''A'' ''01'' 6)\<lparr>o_P2pKey := key\<rparr>]\<rparr>"
  have "checkPeerPermission toy_env ''P'' w = (Ret True, tick (tick w))"
    using gater_isBlocked_exact [of toy_env w "''P''"]
      gater_isActiveOperator_exact [of toy_env "tick w" "''P''" key] key
    by (simp add: checkPeerPermission_def w_def toy_world_def blocked_at_def blacklist_of_def
        active_p2p_def toy_operator_def blacklist_ok_def keyed_def)
  from gater_fails_closed [OF this] show ?thesis
    using key by (intro exI [of _ "tick (tick w)"]) (simp add: w_def toy_world_def)
qed

end
