(* ===== verification/Api.thy ===== *)
theory Api
  imports TaskFlow
begin

text \<open>
  The HTTP API, \<open>pkg/operator/api\<close>: the three handlers, the validation of requests and the identifier
  of a task. A request is given by its method, its decoded body (\<open>None\<close> when it cannot be decoded),
  its query parameters and its path parameter; an answer is a status with the structure that is
  encoded as JSON. Formatted arguments are left out of the messages. A panic is caught by the
  \<open>Recoverer\<close> of the router.
\<close>

section \<open>Numbers with a base prefix\<close>

text \<open>
  \<open>(*big.Int).SetString(s, 0)\<close>. The scanner remembers the previous character (a digit counts as 0)
  to check that underscores separate digits, and how many digits it has read.
\<close>

fun scan0 :: "nat \<Rightarrow> char \<Rightarrow> bool \<Rightarrow> nat \<Rightarrow> nat \<Rightarrow> string \<Rightarrow> (nat \<times> nat) option" where
  "scan0 b prev invalSep cnt acc [] =
     (if invalSep \<or> prev = CHR ''_'' then None else Some (cnt, acc))"
| "scan0 b prev invalSep cnt acc (c # cs) =
     (if c = CHR ''_'' then scan0 b CHR ''_'' (invalSep \<or> prev \<noteq> CHR ''0'') cnt acc cs
      else
        (case digit_val c of
           None \<Rightarrow> None
         | Some d \<Rightarrow>
             if b \<le> d then None
             else scan0 b CHR ''0'' invalSep (Suc cnt) (acc * b + d) cs))"

definition with_digits :: "(nat \<times> nat) option \<Rightarrow> nat option" where
  "with_digits r = (case r of None \<Rightarrow> None | Some (cnt, n) \<Rightarrow> if cnt = 0 then None else Some n)"

definition scan_nat0 :: "string \<Rightarrow> nat option" where
  "scan_nat0 s =
     (case s of
        [] \<Rightarrow> None
      | c # cs \<Rightarrow>
          if c \<noteq> CHR ''0'' then with_digits (scan0 10 CHR ''.'' False 0 0 s)
          else
            (case cs of
               [] \<Rightarrow> Some 0
             | p # ps \<Rightarrow>
                 if p = CHR ''b'' \<or> p = CHR ''B'' then with_digits (scan0 2 CHR ''0'' False 0 0 ps)
                 else if p = CHR ''o'' \<or> p = CHR ''O'' then
                   with_digits (scan0 8 CHR ''0'' False 0 0 ps)
                 else if p = CHR ''x'' \<or> p = CHR ''X'' then
                   with_digits (scan0 16 CHR ''0'' False 0 0 ps)
                 else map_option snd (scan0 8 CHR ''0'' False 0 0 cs)))"

definition big_SetString0 :: "string \<Rightarrow> int option" where
  "big_SetString0 s =
     (case s of
        [] \<Rightarrow> None
      | c # cs \<Rightarrow>
          if c = CHR ''-'' then map_option (\<lambda>n. - int n) (scan_nat0 cs)
          else if c = CHR ''+'' then map_option int (scan_nat0 cs)
          else map_option int (scan_nat0 s))"

text \<open>\<open>strconv.ParseUint(s, 10, 64)\<close>.\<close>

definition ParseUint64 :: "string \<Rightarrow> nat option" where
  "ParseUint64 s =
     (case parse_nat 10 s of None \<Rightarrow> None | Some n \<Rightarrow> if n < 2 ^ 64 then Some n else None)"

section \<open>Requests and answers\<close>

record SendRequestParams =
  sr_ChainID :: u32
  sr_TargetAddress :: string
  sr_Key :: string
  sr_BlockNumber :: u64
  sr_Timestamp :: u64

record SendRequestResponse =
  rs_TaskID :: string
  rs_Status :: string
  rs_RequiredConfirmations :: u16
  rs_Message :: string
  rs_Error :: string

text \<open>\<open>ConsensusResponseWrapper\<close> is only written with a row and a message.\<close>

datatype api_body = SendBody SendRequestResponse | ConsensusBody ConsensusResponse string

type_synonym api_answer = "nat \<times> api_body"

record request =
  req_Method :: string
  req_Body :: "SendRequestParams option"
  req_Query :: "string \<Rightarrow> string"
  req_TaskID :: string

definition writeError :: "nat \<Rightarrow> string \<Rightarrow> api_answer" where
  "writeError status err =
     (status, SendBody \<lparr>rs_TaskID = [], rs_Status = ''error'', rs_RequiredConfirmations = 0,
                         rs_Message = [], rs_Error = err\<rparr>)"

definition writeSuccess :: "string \<Rightarrow> string \<Rightarrow> u16 \<Rightarrow> string \<Rightarrow> api_answer" where
  "writeSuccess taskID status confirmations message =
     (200, SendBody \<lparr>rs_TaskID = taskID, rs_Status = status,
                     rs_RequiredConfirmations = confirmations, rs_Message = message, rs_Error = []\<rparr>)"

text \<open>The bytes of a text.\<close>

definition text_bytes :: "string \<Rightarrow> bytes" where
  "text_bytes s = map (\<lambda>c. of_nat (of_char c)) s"

definition taskIDData :: "crypto \<Rightarrow> SendRequestParams \<Rightarrow> string \<Rightarrow> bytes" where
  "taskIDData cr params value =
     HexToAddress cr (sr_TargetAddress params) @ [ucast (sr_ChainID params)] @
     [ucast (sr_BlockNumber params)] @ text_bytes (sr_Key params) @ text_bytes value"

definition generateTaskID :: "crypto \<Rightarrow> SendRequestParams \<Rightarrow> string \<Rightarrow> string" where
  "generateTaskID cr params value = hex_encode (keccak256 cr (taskIDData cr params value))"

definition getRequiredConfirmations :: "Config \<Rightarrow> u32 \<Rightarrow> u16 res" where
  "getRequiredConfirmations cfg chainID =
     (case map_of (Chains cfg) chainID of
        None \<Rightarrow> Ret 12
      | Some None \<Rightarrow> Panic
      | Some (Some chainConfig) \<Rightarrow> Ret (RequiredConfirmations chainConfig))"

section \<open>Validation\<close>

definition validateRequest ::
  "env \<Rightarrow> Config \<Rightarrow> int \<Rightarrow> SendRequestParams \<Rightarrow> World \<Rightarrow> unit res \<times> World" where
  "validateRequest env cfg now params w =
     (if sr_ChainID params = 0 then (Fail (Err ''invalid chain ID: must be positive integer''), w)
      else if map_of (Chains cfg) (sr_ChainID params) = None then
        (Fail (Err ''unsupported chain ID''), w)
      else if \<not> IsHexAddress (crp env) (sr_TargetAddress params) then
        (Fail (Err ''invalid target address: must be valid EVM address''), w)
      else
        (case big_SetString0 (sr_Key params) of
           None \<Rightarrow> (Fail (Err ''invalid key: must be valid uint256''), w)
         | Some keyBig \<Rightarrow>
             if keyBig < 0 \<or> 2 ^ 256 - 1 < keyBig then
               (Fail (Err ''invalid key: must be within uint256 range''), w)
             else if sr_BlockNumber params = 0 \<and> sr_Timestamp params = 0 then
               (Fail (Err ''either block number or timestamp must be provided''), w)
             else if sr_BlockNumber params \<noteq> 0 \<and> sr_Timestamp params \<noteq> 0 then
               (Fail (Err ''only one of block number or timestamp should be provided''), w)
             else
               call' (if sr_BlockNumber params \<noteq> 0 then
                        call ''failed to get state client''
                          (GetClientByChainId (manager w) (sr_ChainID params), w) (\<lambda>chainClient w.
                        call ''failed to get latest block'' (BlockNumber (rpcp env) chainClient w)
                          (\<lambda>latestBlock w.
                             if latestBlock < sr_BlockNumber params then
                               (Fail (Err ''block number is in the future''), w)
                             else (Ret (), w)))
                      else (Ret (), w))
                 (\<lambda>_ w.
                    if sr_Timestamp params \<noteq> 0 \<and> word_of_int now < sr_Timestamp params then
                      (Fail (Err ''timestamp is in the future''), w)
                    else (Ret (), w))))"

section \<open>Handlers\<close>

text \<open>
  A handler ends with an answer or a panic, and \<open>None\<close> is a handler that does not end (only the
  search for a block by its timestamp is a partial function). \<open>orError\<close> is the idiom
  \<^verbatim>\<open>x, err := f(); if err != nil { writeError(w, status, msg); return }; k(x)\<close>.
\<close>

type_synonym handling = "(api_answer res \<times> World) option"

definition orError ::
  "nat \<Rightarrow> (error \<Rightarrow> string) \<Rightarrow> 'a res \<times> World \<Rightarrow> ('a \<Rightarrow> World \<Rightarrow> handling) \<Rightarrow> handling" where
  "orError status msg r k =
     (case r of
        (Ret x, w) \<Rightarrow> k x w
      | (Fail e, w) \<Rightarrow> Some (Ret (writeError status (msg e)), w)
      | (Panic, w) \<Rightarrow> Some (Panic, w))"

text \<open>
  The block of a request. The answers of the chain to one search are those at one point in time.
\<close>

definition requestBlock ::
  "env \<Rightarrow> chainClient \<Rightarrow> SendRequestParams \<Rightarrow> World \<Rightarrow> (u64 res \<times> World) option" where
  "requestBlock env c params w =
     (if sr_Timestamp params \<noteq> 0 then
        (case TimestampToBlockNumber (rpcBlockNumber (rpcp env) (calls w) (cl_chain c))
                (rpcBlockTime (rpcp env) (calls w) (cl_chain c)) (sr_ChainID params)
                (sr_Timestamp params) of
           None \<Rightarrow> None
         | Some (Inl e) \<Rightarrow> Some (Fail e, tick w)
         | Some (Inr n) \<Rightarrow> Some (Ret n, tick w))
      else Some (Ret (sr_BlockNumber params), w))"

text \<open>The end of \<open>SendRequest\<close>, for the task that was created.\<close>

definition processCreated :: "env \<Rightarrow> string \<Rightarrow> Tasks option \<Rightarrow> World \<Rightarrow> handling" where
  "processCreated env statusMessage taskPtr w =
     (case taskPtr of
        None \<Rightarrow> Some (Ret (writeError 500 ''Internal server error''), w)
      | Some task \<Rightarrow>
          if t_Status task = TaskStatusConfirming then
            Some (Ret (writeSuccess (t_TaskID task) (t_Status task)
                         (t_RequiredConfirmations task) statusMessage), w)
          else if t_Status task = TaskStatusPending then
            (case ProcessTask env (Some task) w of
               (Panic, w) \<Rightarrow> Some (Panic, w)
             | (Fail _, w) \<Rightarrow>
                 Some (Ret (writeSuccess (t_TaskID task) (t_Status task)
                              (t_RequiredConfirmations task)
                              ''Task created but processing failed''), w)
             | (Ret _, w) \<Rightarrow>
                 Some (Ret (writeSuccess (t_TaskID task) (t_Status task)
                              (t_RequiredConfirmations task) statusMessage), w))
          else
            Some (Ret (writeSuccess (t_TaskID task) (t_Status task)
                         (t_RequiredConfirmations task) statusMessage), w))"

text \<open>The rest of \<open>SendRequest\<close> once no consensus and no task with the identifier was found.\<close>

definition requestStatus :: "u64 \<Rightarrow> u64 \<Rightarrow> u16 \<Rightarrow> string" where
  "requestStatus latestBlock blockNumber requiredConfirmations =
     (if latestBlock < blockNumber + ucast requiredConfirmations then TaskStatusConfirming
      else TaskStatusPending)"

definition requestMessage :: "u64 \<Rightarrow> u64 \<Rightarrow> u16 \<Rightarrow> string" where
  "requestMessage latestBlock blockNumber requiredConfirmations =
     (if latestBlock < blockNumber + ucast requiredConfirmations
      then ''Waiting for block confirmations'' else ''Task has sufficient confirmations'')"

definition newTaskParams ::
  "SendRequestParams \<Rightarrow> u32 \<Rightarrow> u64 \<Rightarrow> int option \<Rightarrow> int \<Rightarrow> string \<Rightarrow> u16 \<Rightarrow> u64 \<Rightarrow> CreateTaskParams" where
  "newTaskParams params currentEpoch blockNumber keyBig value taskID requiredConfirmations latestBlock =
     \<lparr>ct_TaskID = taskID, ct_TargetAddress = sr_TargetAddress params,
      ct_ChainID = sr_ChainID params, ct_BlockNumber = blockNumber, ct_Epoch = currentEpoch,
      ct_Key = BigIntToNumeric keyBig, ct_Value = BigIntToNumeric (Some value),
      ct_Status = requestStatus latestBlock blockNumber requiredConfirmations,
      ct_RequiredConfirmations = requiredConfirmations\<rparr>"

definition submitTask ::
  "env \<Rightarrow> Config \<Rightarrow> SendRequestParams \<Rightarrow> u32 \<Rightarrow> chainClient \<Rightarrow> u64 \<Rightarrow> int option \<Rightarrow> int \<Rightarrow> string \<Rightarrow>
     World \<Rightarrow> handling" where
  "submitTask env cfg params currentEpoch stateClient blockNumber keyBig value taskID w =
     orError 500 error_text (getRequiredConfirmations cfg (sr_ChainID params), w)
       (\<lambda>requiredConfirmations w.
     orError 500 (\<lambda>e. ''Failed to get latest block'') (BlockNumber (rpcp env) stateClient w)
       (\<lambda>latestBlock w.
     orError 500 (\<lambda>e. ''Failed to create task'')
       (CreateTask (pgp env)
          (newTaskParams params currentEpoch blockNumber keyBig value taskID requiredConfirmations
             latestBlock) w)
       (processCreated env (requestMessage latestBlock blockNumber requiredConfirmations))))"

text \<open>The middle of \<open>SendRequest\<close>: the search for a consensus or a task with the identifier.\<close>

definition lookupOrSubmit ::
  "env \<Rightarrow> Config \<Rightarrow> SendRequestParams \<Rightarrow> u32 \<Rightarrow> chainClient \<Rightarrow> u64 \<Rightarrow> int option \<Rightarrow> int \<Rightarrow> World \<Rightarrow>
     handling" where
  "lookupOrSubmit env cfg params currentEpoch stateClient blockNumber keyBig value w =
     (let taskID = generateTaskID (crp env) params (big_String value) in
      orError 500 (\<lambda>e. ''Internal server error'')
        (GetConsensusResponseByTaskId (pgp env) taskID w) (\<lambda>consensus w.
      case consensus of
        Some _ \<Rightarrow>
          Some (Ret (writeSuccess taskID TaskStatusCompleted 0
                       ''Task already completed with consensus reached''), w)
      | None \<Rightarrow>
          orError 500 (\<lambda>e. ''Internal server error'') (GetTaskByID (pgp env) taskID w)
            (\<lambda>existingTask w.
               case existingTask of
                 Some task \<Rightarrow>
                   Some (Ret (writeSuccess (t_TaskID task) (t_Status task)
                                (t_RequiredConfirmations task)
                                ''Task already exists with status''), w)
               | None \<Rightarrow>
                   submitTask env cfg params currentEpoch stateClient blockNumber keyBig value
                     taskID w)))"

text \<open>The part before: the client of the chain, the block and the value there.\<close>

definition readState ::
  "env \<Rightarrow> Config \<Rightarrow> SendRequestParams \<Rightarrow> u32 \<Rightarrow> chainClient \<Rightarrow> u64 \<Rightarrow> World \<Rightarrow> handling" where
  "readState env cfg params currentEpoch stateClient blockNumber w =
     (let keyBig = StringToBigInt (sr_Key params) in
      orError 500 (\<lambda>e. ''Failed to get state at block'')
        (GetStateAtBlock (rpcp env) stateClient
           (HexToAddress (crp env) (sr_TargetAddress params)) keyBig blockNumber w)
        (lookupOrSubmit env cfg params currentEpoch stateClient blockNumber keyBig))"

definition requestFor ::
  "env \<Rightarrow> Config \<Rightarrow> SendRequestParams \<Rightarrow> chainClient \<Rightarrow> u32 \<Rightarrow> World \<Rightarrow> handling" where
  "requestFor env cfg params mainnetClient currentEpoch w =
     orError 400 (\<lambda>e. ''Failed to get state client for chain'')
       (if sr_ChainID params = 1 then Ret mainnetClient
        else GetClientByChainId (manager w) (sr_ChainID params), w) (\<lambda>stateClient w.
     case requestBlock env stateClient params w of
       None \<Rightarrow> None
     | Some br \<Rightarrow>
         orError 500 (\<lambda>e. ''Failed to convert timestamp to block number'') br
           (readState env cfg params currentEpoch stateClient))"

definition SendRequest :: "env \<Rightarrow> Config \<Rightarrow> int \<Rightarrow> request \<Rightarrow> World \<Rightarrow> handling" where
  "SendRequest env cfg now r w =
     (if req_Method r \<noteq> ''POST'' then Some (Ret (writeError 405 ''Method not allowed''), w)
      else
        (case req_Body r of
           None \<Rightarrow> Some (Ret (writeError 400 ''Invalid request body''), w)
         | Some params \<Rightarrow>
             orError 400 error_text (validateRequest env cfg now params w) (\<lambda>_ w.
             orError 500 (\<lambda>e. ''Failed to get mainnet client'') (GetMainnetClient (manager w), w)
               (\<lambda>mainnetClient w.
             orError 500 (\<lambda>e. ''Failed to get current epoch'')
               (GetCurrentEpoch (rpcp env) mainnetClient w)
               (requestFor env cfg params mainnetClient)))))"

definition GetTaskConsensusByTaskID :: "env \<Rightarrow> request \<Rightarrow> World \<Rightarrow> api_answer res \<times> World" where
  "GetTaskConsensusByTaskID env r w =
     (case GetConsensusResponseByTaskId (pgp env) (req_TaskID r) w of
        (Panic, w) \<Rightarrow> (Panic, w)
      | (Fail _, w) \<Rightarrow> (Ret (writeError 500 ''Failed to get consensus''), w)
      | (Ret None, w) \<Rightarrow> (Ret (writeError 404 ''Consensus not found''), w)
      | (Ret (Some consensus), w) \<Rightarrow>
          (Ret (200, ConsensusBody consensus ''Consensus found successfully''), w))"

definition GetConsensusByRequest :: "env \<Rightarrow> request \<Rightarrow> World \<Rightarrow> api_answer res \<times> World" where
  "GetConsensusByRequest env r w =
     (if \<not> IsHexAddress (crp env) (req_Query r ''target_address'') then
        (Ret (writeError 400 ''Invalid target address''), w)
      else
        (case ParseUint64 (req_Query r ''chain_id'') of
           None \<Rightarrow> (Ret (writeError 400 ''Invalid chain_id''), w)
         | Some chainID \<Rightarrow>
        (case ParseUint64 (req_Query r ''block_number'') of
           None \<Rightarrow> (Ret (writeError 400 ''Invalid block_number''), w)
         | Some blockNumber \<Rightarrow>
             (case GetConsensusResponseByRequest (pgp env)
                     \<lparr>cr_TargetAddress = req_Query r ''target_address'',
                      cr_ChainID = of_nat chainID, cr_BlockNumber = of_nat blockNumber,
                      cr_Key = \<lparr>num_Int = StringToBigInt (req_Query r ''key''), num_Exp = 0,
                                num_Valid = True\<rparr>\<rparr> w of
                (Panic, w) \<Rightarrow> (Panic, w)
              | (Fail _, w) \<Rightarrow> (Ret (writeError 500 ''Failed to get consensus''), w)
              | (Ret None, w) \<Rightarrow> (Ret (writeError 404 ''Consensus not found''), w)
              | (Ret (Some consensus), w) \<Rightarrow>
                  (Ret (200, ConsensusBody consensus ''Consensus found successfully''), w)))))"

text \<open>
  The routes. The router answers 404 to a path and 405 to a method that it does not know; a panic of a
  handler is answered with 500 by the \<open>Recoverer\<close>.
\<close>

datatype route = TasksRoute | ConsensusRoute | ConsensusTaskRoute | OtherRoute

definition recoverer :: "api_answer res \<times> World \<Rightarrow> (nat \<times> api_body option) \<times> World" where
  "recoverer r =
     (case r of
        (Ret (status, body), w) \<Rightarrow> ((status, Some body), w)
      | (Fail _, w) \<Rightarrow> ((500, None), w)
      | (Panic, w) \<Rightarrow> ((500, None), w))"

definition RegisterRoutes ::
  "env \<Rightarrow> Config \<Rightarrow> int \<Rightarrow> route \<Rightarrow> request \<Rightarrow> World \<Rightarrow>
     ((nat \<times> api_body option) \<times> World) option" where
  "RegisterRoutes env cfg now route r w =
     (case route of
        TasksRoute \<Rightarrow>
          if req_Method r = ''POST'' then map_option recoverer (SendRequest env cfg now r w)
          else Some ((405, None), w)
      | ConsensusRoute \<Rightarrow>
          if req_Method r = ''GET'' then Some (recoverer (GetConsensusByRequest env r w))
          else Some ((405, None), w)
      | ConsensusTaskRoute \<Rightarrow>
          if req_Method r = ''GET'' then Some (recoverer (GetTaskConsensusByTaskID env r w))
          else Some ((405, None), w)
      | OtherRoute \<Rightarrow> Some ((404, None), w))"

text \<open>The dependencies that \<open>NewHandler\<close> checks; \<open>False\<close> is a nil one.\<close>

record api_Config =
  has_api_TaskProcessor :: bool
  has_api_ChainManager :: bool
  has_api_TaskRepo :: bool
  has_api_ConsensusResponseRepo :: bool

definition NewHandler :: "api_Config \<Rightarrow> unit res" where
  "NewHandler c =
     (if \<not> has_api_TaskProcessor c then Fail (Err ''[API] Task processor not initialized'')
      else if \<not> has_api_ChainManager c then Fail (Err ''[API] Chain manager not initialized'')
      else if \<not> has_api_TaskRepo c then Fail (Err ''[API] Task repo not initialized'')
      else if \<not> has_api_ConsensusResponseRepo c then
        Fail (Err ''[API] Consensus response repo not initialized'')
      else Ret ())"

section \<open>What a request can change\<close>

text \<open>
  A handler that has changed more than the count of calls went on behind every call that only reads.
\<close>

lemma orError_past:
  assumes "orError status msg r k = Some (a, w')" and "\<not> only_calls w w'" and "only_calls w (snd r)"
  obtains x w1 where "r = (Ret x, w1)" and "k x w1 = Some (a, w')" and "only_calls w w1"
proof (cases r)
  case (Pair y w1)
  with assms that show ?thesis by (cases y) (auto simp: orError_def)
qed

lemma validateRequest_only_calls: "only_calls w (snd (validateRequest env cfg now params w))"
  unfolding validateRequest_def
  by (auto intro!: call_only_calls client_only_calls split: option.split)

lemma read_only_calls:
  "only_calls w (snd (GetConsensusResponseByTaskId p k w))" "only_calls w (snd (GetTaskByID p k w))"
  "only_calls w (snd (GetConsensusResponseByRequest p arg w))"
  by simp_all

lemma requestBlock_only_calls: "requestBlock env c params w = Some r \<Longrightarrow> only_calls w (snd r)"
  by (auto simp: requestBlock_def split: if_splits option.splits sum.splits)

text \<open>The row that \<open>CreateTask\<close> adds.\<close>

definition row_of_params :: "CreateTaskParams \<Rightarrow> time \<Rightarrow> Tasks" where
  "row_of_params arg now =
     \<lparr>t_TaskID = ct_TaskID arg, t_ChainID = ct_ChainID arg, t_TargetAddress = ct_TargetAddress arg,
      t_Key = ct_Key arg, t_BlockNumber = ct_BlockNumber arg, t_Value = ct_Value arg,
      t_Epoch = ct_Epoch arg, t_Status = ct_Status arg,
      t_RequiredConfirmations = ct_RequiredConfirmations arg, t_RetryCount = 0, t_CreatedAt = now,
      t_UpdatedAt = now\<rparr>"

lemma CreateTask_cases:
  assumes "CreateTask p arg w = (x, w1)"
  shows "only_calls w w1 \<and> \<not> is_Ret x \<or>
    (\<exists>now. w1 = (tick w)\<lparr>tasks_rows := tasks_rows w @ [row_of_params arg now]\<rparr> \<and>
       tasks_check (row_of_params arg now) \<and> ct_TaskID arg \<notin> set (map t_TaskID (tasks_rows w)) \<and>
       (is_Ret x \<longrightarrow> x = Ret (Some (scan_task p (row_of_params arg now)))))"
proof -
  define now where "now = now_at p (calls w)"
  have c: "createTask arg now (tasks_rows w) =
      insert_row t_TaskID tasks_check (row_of_params arg now) (tasks_rows w)"
    by (simp add: createTask_def row_of_params_def)
  show ?thesis
  proof (cases "insert_row t_TaskID tasks_check (row_of_params arg now) (tasks_rows w)")
    case (Inl e)
    then show ?thesis
      using assms c
      by (auto simp: CreateTask_def on_tasks_def run_stmt_def now_def scanned_def only_calls_def
          tick_def split: fault.splits)
  next
    case (Inr y)
    then have y: "y = (Some (row_of_params arg now), tasks_rows w @ [row_of_params arg now])"
      "tasks_check (row_of_params arg now)" "ct_TaskID arg \<notin> set (map t_TaskID (tasks_rows w))"
      by (auto simp: insert_row_def row_of_params_def split: if_splits)
    show ?thesis
    proof (cases "fault_at p (calls w)")
      case (Lost e)
      then show ?thesis
        using assms by (auto simp: CreateTask_def on_tasks_def run_stmt_def scanned_def only_calls_def tick_def)
    qed (use assms c Inr y in \<open>auto simp: CreateTask_def on_tasks_def run_stmt_def now_def scanned_def
          intro!: exI [of _ "now_at p (calls w)"]\<close>)
  qed
qed

lemma processCreated_state:
  assumes "processCreated env msg (Some task) w = Some (a, w')"
  shows "w' = w \<or> t_Status task = TaskStatusPending \<and> w' = snd (ProcessTask env (Some task) w)"
  using assms
  by (auto simp: processCreated_def split: if_splits prod.splits res.splits)

lemma submitTask_effect:
  assumes "submitTask env cfg params e c b key v taskID w = Some (a, w')" and "\<not> only_calls w w'"
  shows "\<exists>i latest conf row now w1.
    rpcBlockNumber (rpcp env) i (cl_chain c) = Inr latest \<and>
    getRequiredConfirmations cfg (sr_ChainID params) = Ret conf \<and>
    row = row_of_params (newTaskParams params e b key v taskID conf latest) now \<and>
    tasks_rows w1 = tasks_rows w @ [row] \<and> same_process w w1 \<and>
    taskID \<notin> set (map t_TaskID (tasks_rows w)) \<and>
    (w' = w1 \<or> t_Status row = TaskStatusPending \<and>
       w' = snd (ProcessTask env (Some (scan_task (pgp env) row)) w1))"
proof -
  obtain conf where conf: "getRequiredConfirmations cfg (sr_ChainID params) = Ret conf"
    and 1: "orError 500 (\<lambda>e. ''Failed to get latest block'') (BlockNumber (rpcp env) c w)
       (\<lambda>latest w. orError 500 (\<lambda>e. ''Failed to create task'')
          (CreateTask (pgp env) (newTaskParams params e b key v taskID conf latest) w)
          (processCreated env (requestMessage latest b conf))) = Some (a, w')"
    by (rule orError_past [OF assms(1) [unfolded submitTask_def] assms(2)]) auto
  obtain latest w2 where latest: "BlockNumber (rpcp env) c w = (Ret latest, w2)"
    and 2: "orError 500 (\<lambda>e. ''Failed to create task'')
          (CreateTask (pgp env) (newTaskParams params e b key v taskID conf latest) w2)
          (processCreated env (requestMessage latest b conf)) = Some (a, w')"
    and oc: "only_calls w w2"
    by (rule orError_past [OF 1 assms(2) client_only_calls(1)])
  obtain i where i: "rpcBlockNumber (rpcp env) i (cl_chain c) = Inr latest"
    using latest by (auto simp: BlockNumber_def rpc_call_def of_sum_def split: sum.splits)
  define arg where "arg = newTaskParams params e b key v taskID conf latest"
  obtain x w3 where x: "CreateTask (pgp env) arg w2 = (x, w3)" by fastforce
  have "w' = w3 \<or> (\<exists>t. x = Ret t \<and> processCreated env (requestMessage latest b conf) t w3 = Some (a, w'))"
    using 2 x unfolding arg_def [symmetric] by (cases x) (auto simp: orError_def)
  moreover have "\<not> (only_calls w2 w3 \<and> \<not> is_Ret x)"
    using calculation assms(2) only_calls_trans [OF oc, of w3] by (cases x) auto
  then obtain now where w3: "w3 = (tick w2)\<lparr>tasks_rows := tasks_rows w2 @ [row_of_params arg now]\<rparr>"
    and new: "ct_TaskID arg \<notin> set (map t_TaskID (tasks_rows w2))"
    and ret: "is_Ret x \<Longrightarrow> x = Ret (Some (scan_task (pgp env) (row_of_params arg now)))"
    using CreateTask_cases [OF x] by blast
  ultimately have "w' = w3 \<or> processCreated env (requestMessage latest b conf)
      (Some (scan_task (pgp env) (row_of_params arg now))) w3 = Some (a, w')"
    by auto
  then have state: "w' = w3 \<or> t_Status (row_of_params arg now) = TaskStatusPending \<and>
      w' = snd (ProcessTask env (Some (scan_task (pgp env) (row_of_params arg now))) w3)"
    using processCreated_state [of env "requestMessage latest b conf"
        "scan_task (pgp env) (row_of_params arg now)" w3 a w']
    by (auto simp: scan_task_def)
  have rows: "tasks_rows w2 = tasks_rows w" using only_calls_World(1) [OF oc] .
  have "same_process w w3"
    using only_calls_same_process [OF oc] by (simp add: w3 same_process_def)
  then show ?thesis
    using i conf w3 new state rows
    by (intro exI [of _ i]
        exI [of _ latest] exI [of _ conf] exI [of _ "row_of_params arg now"] exI [of _ now]
        exI [of _ w3])
      (auto simp: arg_def newTaskParams_def)
qed

text \<open>What a request went through when it has changed something.\<close>

lemma lookupOrSubmit_effect:
  assumes "lookupOrSubmit env cfg params e c b key v w = Some (a, w')" and "\<not> only_calls w w'"
  shows "\<exists>w1. only_calls w w1 \<and> submitTask env cfg params e c b key v
    (generateTaskID (crp env) params (big_String v)) w1 = Some (a, w')"
proof -
  define id where "id = generateTaskID (crp env) params (big_String v)"
  note run = assms(1) [unfolded lookupOrSubmit_def Let_def id_def [symmetric]]
  show ?thesis
  proof (rule orError_past [OF run assms(2) read_only_calls(1)])
    fix consensus w1
    assume oc: "only_calls w w1" and k: "(case consensus of
        None \<Rightarrow> orError 500 (\<lambda>e. ''Internal server error'') (GetTaskByID (pgp env) id w1)
          (\<lambda>existingTask w. case existingTask of
             None \<Rightarrow> submitTask env cfg params e c b key v id w
           | Some task \<Rightarrow> Some (Ret (writeSuccess (t_TaskID task) (t_Status task)
               (t_RequiredConfirmations task) ''Task already exists with status''), w))
      | Some _ \<Rightarrow> Some (Ret (writeSuccess id TaskStatusCompleted 0
          ''Task already completed with consensus reached''), w1)) = Some (a, w')"
    then have "consensus = None" using assms(2) by (cases consensus) auto
    note k' = k [unfolded this, simplified]
    have oc': "only_calls w (snd (GetTaskByID (pgp env) id w1))"
      by (rule only_calls_trans [OF oc read_only_calls(2)])
    show ?thesis
      by (rule orError_past [OF k' assms(2) oc'])
        (use assms(2) in \<open>auto simp: id_def [symmetric] split: option.splits\<close>)
  qed
qed

lemma readState_effect:
  assumes "readState env cfg params e c b w = Some (a, w')" and "\<not> only_calls w w'"
  shows "\<exists>i v w1. rpcGetHistoryAtBlock (rpcp env) i (cl_chain c)
       (HexToAddress (crp env) (sr_TargetAddress params)) (StringToBigInt (sr_Key params)) (sint b) =
       Inr v \<and> only_calls w w1 \<and>
    submitTask env cfg params e c b (StringToBigInt (sr_Key params)) v
      (generateTaskID (crp env) params (big_String v)) w1 = Some (a, w')"
proof (rule orError_past [OF assms(1) [unfolded readState_def Let_def] assms(2) client_only_calls(2)])
  fix v w1
  assume g: "GetStateAtBlock (rpcp env) c (HexToAddress (crp env) (sr_TargetAddress params))
      (StringToBigInt (sr_Key params)) b w = (Ret v, w1)" and oc: "only_calls w w1"
    and k: "lookupOrSubmit env cfg params e c b (StringToBigInt (sr_Key params)) v w1 = Some (a, w')"
  have "\<not> only_calls w1 w'" using only_calls_trans [OF oc] assms(2) by blast
  from lookupOrSubmit_effect [OF k this] obtain w2 where w2: "only_calls w1 w2"
    "submitTask env cfg params e c b (StringToBigInt (sr_Key params)) v
      (generateTaskID (crp env) params (big_String v)) w2 = Some (a, w')" by blast
  moreover have "\<exists>i. rpcGetHistoryAtBlock (rpcp env) i (cl_chain c)
       (HexToAddress (crp env) (sr_TargetAddress params)) (StringToBigInt (sr_Key params)) (sint b) =
       Inr v"
    using g by (auto simp: GetStateAtBlock_def call_Ret_iff rpc_call_def of_sum_def split: sum.splits)
  ultimately show ?thesis using only_calls_trans [OF oc w2(1)] by blast
qed

lemma requestFor_effect:
  assumes "requestFor env cfg params m e w = Some (a, w')" and "\<not> only_calls w w'"
  shows "\<exists>c b i v w1.
    (if sr_ChainID params = 1 then Ret m else GetClientByChainId (manager w) (sr_ChainID params)) = Ret c \<and>
    (sr_Timestamp params = 0 \<longrightarrow> b = sr_BlockNumber params) \<and>
    rpcGetHistoryAtBlock (rpcp env) i (cl_chain c)
       (HexToAddress (crp env) (sr_TargetAddress params)) (StringToBigInt (sr_Key params)) (sint b) =
       Inr v \<and> only_calls w w1 \<and>
    submitTask env cfg params e c b (StringToBigInt (sr_Key params)) v
      (generateTaskID (crp env) params (big_String v)) w1 = Some (a, w')"
proof (rule orError_past [OF assms(1) [unfolded requestFor_def] assms(2)])
  fix c w1
  assume c: "(if sr_ChainID params = 1 then Ret m
      else GetClientByChainId (manager w) (sr_ChainID params), w) = (Ret c, w1)"
    and k: "(case requestBlock env c params w1 of
        None \<Rightarrow> None
      | Some br \<Rightarrow> orError 500 (\<lambda>e. ''Failed to convert timestamp to block number'') br
          (readState env cfg params e c)) = Some (a, w')"
  then obtain br where br: "requestBlock env c params w = Some br"
    and k': "orError 500 (\<lambda>e. ''Failed to convert timestamp to block number'') br
      (readState env cfg params e c) = Some (a, w')"
    by (auto split: option.splits)
  show ?thesis
  proof (rule orError_past [OF k' assms(2) requestBlock_only_calls [OF br]])
    fix b w2
    assume b: "br = (Ret b, w2)" and oc: "only_calls w w2"
      and rs: "readState env cfg params e c b w2 = Some (a, w')"
    have "\<not> only_calls w2 w'" using only_calls_trans [OF oc] assms(2) by blast
    from readState_effect [OF rs this] obtain i v w3 where
      v: "rpcGetHistoryAtBlock (rpcp env) i (cl_chain c)
        (HexToAddress (crp env) (sr_TargetAddress params)) (StringToBigInt (sr_Key params)) (sint b) =
        Inr v" and w3: "only_calls w2 w3"
      and sub: "submitTask env cfg params e c b (StringToBigInt (sr_Key params)) v
        (generateTaskID (crp env) params (big_String v)) w3 = Some (a, w')"
      by blast
    have "sr_Timestamp params = 0 \<longrightarrow> b = sr_BlockNumber params"
      using br b by (auto simp: requestBlock_def)
    with c v sub only_calls_trans [OF oc w3] show ?thesis
      by (intro exI [of _ c] exI [of _ b] exI [of _ i] exI [of _ v] exI [of _ w3]) simp
  qed
qed simp

lemma SendRequest_past:
  assumes "SendRequest env cfg now r w = Some (a, w')" and "\<not> only_calls w w'"
  shows "\<exists>params m e w4. req_Method r = ''POST'' \<and> req_Body r = Some params \<and>
    fst (validateRequest env cfg now params w) = Ret () \<and> only_calls w w4 \<and>
    requestFor env cfg params m e w4 = Some (a, w')"
proof -
  have post: "req_Method r = ''POST''"
    using assms by (auto simp: SendRequest_def split: if_splits)
  obtain params where body: "req_Body r = Some params"
    using assms post by (auto simp: SendRequest_def split: option.splits)
  note run = assms(1) [unfolded SendRequest_def, simplified post body, simplified]
  show ?thesis
  proof (rule orError_past [OF run assms(2) validateRequest_only_calls])
    fix u w2
    assume val: "validateRequest env cfg now params w = (Ret u, w2)" and oc2: "only_calls w w2"
      and k2: "orError 500 (\<lambda>e. ''Failed to get mainnet client'') (GetMainnetClient (manager w2), w2)
        (\<lambda>m w. orError 500 (\<lambda>e. ''Failed to get current epoch'') (GetCurrentEpoch (rpcp env) m w)
          (requestFor env cfg params m)) = Some (a, w')"
    show ?thesis
    proof (rule orError_past [OF k2 assms(2)])
      fix m w3
      assume "(GetMainnetClient (manager w2), w2) = (Ret m, w3)" and oc3: "only_calls w w3"
        and k3: "orError 500 (\<lambda>e. ''Failed to get current epoch'') (GetCurrentEpoch (rpcp env) m w3)
          (requestFor env cfg params m) = Some (a, w')"
      show ?thesis
        by (rule orError_past [OF k3 assms(2) only_calls_trans [OF oc3 client_only_calls(9)]])
          (use post body val in auto)
    qed (use oc2 in simp)
  qed
qed


text \<open>A request for a block that needs more confirmations.\<close>

definition toy_params :: SendRequestParams where
  "toy_params = \<lparr>sr_ChainID = 11155111, sr_TargetAddress = replicate 42 CHR ''a'', sr_Key = ''5'',
     sr_BlockNumber = 7698590, sr_Timestamp = 0\<rparr>"

definition toy_request :: request where
  "toy_request = \<lparr>req_Method = ''POST'', req_Body = Some toy_params, req_Query = (\<lambda>_. []),
     req_TaskID = []\<rparr>"

definition toy_config :: Config where
  "toy_config = \<lparr>Chains = [(11155111, Some \<lparr>RPC = ''r'', Contracts = \<lparr>Registry = ''a'',
       EpochManager = ''b'', StateManager = ''c''\<rparr>, RequiredConfirmations = 20,
       AverageBlockTime = NaN\<rparr>)],
     P2P = \<lparr>p2p_Port = 1, BootstrapPeers = [], Rendezvous = ''s''\<rparr>\<rparr>"

definition toy_api_env :: env where
  "toy_api_env = toy_env\<lparr>crp := toy_crypto\<lparr>keccak256 := (\<lambda>_. replicate 32 1)\<rparr>\<rparr>"

definition toy_api_world :: World where
  "toy_api_world = toy_world\<lparr>manager :=
     [(11155111, \<lparr>cl_chain = 11155111, cl_epochManager = True, cl_registry = True\<rparr>)]\<rparr>"

lemmas api_eval = SendRequest_def orError_def validateRequest_def big_SetString0_def scan_nat0_def
  with_digits_def digit_val_def GetMainnetClient_def GetClientByChainId_def MainnetChainID_def
  GetCurrentEpoch_def requestFor_def requestBlock_def readState_def lookupOrSubmit_def
  submitTask_def getRequiredConfirmations_def GetStateAtBlock_def BlockNumber_def rpc_call_def
  of_sum_def Let_def GetConsensusResponseByTaskId_def getConsensusResponseByTaskId_def
  select_one_def on_consensus_def run_stmt_def scanned_def GetTaskByID_def getTaskByID_def
  on_tasks_def CreateTask_def createTask_def insert_row_def newTaskParams_def requestStatus_def
  processCreated_def scan_task_def tick_def

lemma toy_request_runs:
  "\<exists>a w'. SendRequest toy_api_env toy_config 0 toy_request toy_api_world = Some (a, w') \<and>
     map t_Status (tasks_rows w') = [''confirming'']"
  by (simp add: api_eval toy_request_def toy_params_def toy_config_def toy_api_env_def
      toy_api_world_def toy_world_def toy_env_def toy_pg_def toy_rpc_def toy_crypto_def
      StringToBigInt_def big_SetString10_def parse_nat_def generateTaskID_def hex_encode_def
      tasks_check_def fits_varchar_def fits_int4_def fits_int8_def fits_int2_def fits_numeric_def
      not_null_def BigIntToNumeric_def TaskStatusConfirming_def TaskStatusPending_def
      length_concat sum_list_replicate)


text \<open>
  C39. Task identifiers collide. The identifier takes only the lowest byte of the chain and of the block
  number, it does not depend on the timestamp, and the texts of key and value are joined without a
  separator: requests that differ by a multiple of 256 in chain or block, by timestamp only, or that
  split the same digits differently, have the same identifier for any hash function.
\<close>

theorem generateTaskID_collides:
  "generateTaskID cr (p\<lparr>sr_BlockNumber := b + 256 * m, sr_ChainID := n + 256 * k, sr_Timestamp := t\<rparr>) v =
     generateTaskID cr (p\<lparr>sr_BlockNumber := b, sr_ChainID := n, sr_Timestamp := t'\<rparr>) v \<and>
   generateTaskID cr (p\<lparr>sr_Key := x @ y\<rparr>) z = generateTaskID cr (p\<lparr>sr_Key := x\<rparr>) (y @ z)"
proof -
  have "ucast (b + 256 * m) = (ucast b :: u8)"
    by transfer (simp add: take_bit_eq_mod mod_mod_cancel)
  moreover have "ucast (n + 256 * k) = (ucast n :: u8)"
    by transfer (simp add: take_bit_eq_mod mod_mod_cancel)
  ultimately show ?thesis
    by (simp add: generateTaskID_def taskIDData_def text_bytes_def)
qed

text \<open>
  The chain of a query is cut to 32 bits. A query for a consensus whose chain identifier exceeds 32
  bits is answered with the consensus of another chain, the one with the same lowest 32 bits.
\<close>

theorem GetConsensusByRequest_truncates:
  assumes "ParseUint64 (req_Query r ''chain_id'') = Some n"
    and "ParseUint64 c = Some n'" and "n' mod 2 ^ 32 = n mod 2 ^ 32"
  shows "GetConsensusByRequest env (r\<lparr>req_Query := (req_Query r)(''chain_id'' := c)\<rparr>) w =
    GetConsensusByRequest env r w"
proof -
  have eq: "(of_nat n' :: u32) = of_nat n"
    using assms(3) by (simp add: word_of_nat_eq_iff take_bit_eq_mod)
  show ?thesis
    unfolding GetConsensusByRequest_def using assms(1,2) by (simp add: eq cong: option.case_cong)
qed

theorem GetConsensusByRequest_truncates_witness:
  "GetConsensusByRequest toy_env (toy_request\<lparr>req_Query := (\<lambda>_. ''1'')(''chain_id'' := ''4294967297'')\<rparr>) toy_world =
   GetConsensusByRequest toy_env (toy_request\<lparr>req_Query := (\<lambda>_. ''1'')\<rparr>) toy_world"
  using GetConsensusByRequest_truncates [of "toy_request\<lparr>req_Query := (\<lambda>_. ''1'')\<rparr>" 1 "''4294967297''"
      4294967297 toy_env toy_world]
  by (simp add: ParseUint64_def parse_nat_def digit_val_def)

end
