(* ===== verification/OperatorNode.thy ===== *)
theory OperatorNode
  imports TaskFlow Listener Gater Api
begin

text \<open>
  The running node: the services of one process as a step relation on its state, what every step
  keeps, and what an observer can rely on over a whole run, restarts included. The table of consensus
  responses is shown to implement a ledger in which each task is decided at most once.
\<close>

section \<open>Services that leave tasks and consensus alone\<close>

text \<open>The epoch updator, the listener and the gater touch neither tasks, nor consensus, nor responses.\<close>

definition ledger_frame :: "World \<Rightarrow> World \<Rightarrow> bool" where
  "ledger_frame w w' \<longleftrightarrow> tasks_rows w' = tasks_rows w \<and> consensus_rows w' = consensus_rows w \<and>
     taskResponseTrack w' = taskResponseTrack w \<and> (db_ok w \<longrightarrow> db_ok w')"

lemma ledger_frame_refl [simp]: "ledger_frame w w"
  by (simp add: ledger_frame_def)

lemma ledger_frame_trans: "ledger_frame u v \<Longrightarrow> ledger_frame v w \<Longrightarrow> ledger_frame u w"
  by (simp add: ledger_frame_def)

lemma only_calls_frame: "only_calls w w' \<Longrightarrow> ledger_frame w w'"
  by (simp add: ledger_frame_def only_calls_World)

lemmas read_frames = client_only_calls [THEN only_calls_frame]
  operator_reads_only_calls [THEN only_calls_frame]

lemma tick_frame [simp]: "ledger_frame w (tick w)"
  by (rule only_calls_frame) simp

lemma call_frame:
  assumes "ledger_frame w (snd r)" and "\<And>x w'. r = (Ret x, w') \<Longrightarrow> ledger_frame w' (snd (k x w'))"
  shows "ledger_frame w (snd (call msg r k))" "ledger_frame w (snd (call' r k))"
  using assms by (cases r; cases "fst r"; auto intro: ledger_frame_trans)+

lemma after_update_rows:
  assumes "\<And>w. tasks_rows (inval w) = tasks_rows w \<and> consensus_rows (inval w) = consensus_rows w"
  shows "tasks_rows (snd (after_update inval r)) = tasks_rows (snd r)"
    "consensus_rows (snd (after_update inval r)) = consensus_rows (snd r)"
  using assms by (cases r; cases "fst r"; auto simp: after_update_def split: option.split)+

lemma operator_write_frame:
  "ledger_frame w (snd (UpdateOperatorState p cn sarg k1 k2 k3 k4 w))"
  "ledger_frame w (snd (UpdateOperatorExitEpoch p cn xarg k1 k2 k3 k4 w))"
  "ledger_frame w (snd (UpsertOperator p cn uarg k1 k2 k3 k4 w))"
proof -
  note track = operator_write_same_process [THEN same_process_eqs(3)]
  note rows = after_update_rows invalidateOperator_def on_operators_def case_prod_beta
  have "tasks_rows (snd (UpdateOperatorState p cn sarg k1 k2 k3 k4 w)) = tasks_rows w"
    "consensus_rows (snd (UpdateOperatorState p cn sarg k1 k2 k3 k4 w)) = consensus_rows w"
    by (simp_all add: UpdateOperatorState_def rows)
  then show "ledger_frame w (snd (UpdateOperatorState p cn sarg k1 k2 k3 k4 w))"
    by (simp add: ledger_frame_def track operator_writes_ok)
  have "tasks_rows (snd (UpdateOperatorExitEpoch p cn xarg k1 k2 k3 k4 w)) = tasks_rows w"
    "consensus_rows (snd (UpdateOperatorExitEpoch p cn xarg k1 k2 k3 k4 w)) = consensus_rows w"
    by (simp_all add: UpdateOperatorExitEpoch_def rows)
  then show "ledger_frame w (snd (UpdateOperatorExitEpoch p cn xarg k1 k2 k3 k4 w))"
    by (simp add: ledger_frame_def track operator_writes_ok)
  have "tasks_rows (snd (UpsertOperator p cn uarg k1 k2 k3 k4 w)) = tasks_rows w"
    "consensus_rows (snd (UpsertOperator p cn uarg k1 k2 k3 k4 w)) = consensus_rows w"
    by (simp_all add: UpsertOperator_def rows)
  then show "ledger_frame w (snd (UpsertOperator p cn uarg k1 k2 k3 k4 w))"
    by (simp add: ledger_frame_def track operator_writes_ok)
qed

lemma refreshOperators_frame: "ledger_frame w (snd (refreshOperators env c b e ops w))"
proof (induction ops arbitrary: w)
  case (Cons op ops)
  have "ledger_frame w (snd (refreshOperator env c b e op w))"
    unfolding refreshOperator_def Let_def
    by (intro call_frame read_frames operator_write_frame) simp
  then show ?case by (auto intro!: call_frame Cons)
qed simp

lemma epochBody_frame: "ledger_frame w (snd (epochBody env c b e w))"
proof -
  have "ledger_frame w (snd (updateEpochState env c e w))"
    unfolding updateEpochState_def
    by (intro call_frame read_frames) (simp add: ledger_frame_def db_ok_def)
  then show ?thesis
    unfolding epochBody_def
    by (intro call_frame read_frames refreshOperators_frame)
qed

lemma Transact_frame:
  assumes "\<And>w. ledger_frame w (snd (f w))"
  shows "ledger_frame w (snd (Transact p f w))"
  using assms [of "tick w"]
  by (auto simp: Transact_def commit_def ledger_frame_def db_ok_def tick_def rollback_def
      split: fault.split prod.split res.split)

lemma epochTick_frame: "ledger_frame w (snd (epochTick env c w))"
proof -
  have upd: "ledger_frame w (snd (handleEpochUpdate env c e w))" for e w
    unfolding handleEpochUpdate_def
    by (intro call_frame read_frames Transact_frame epochBody_frame) simp
  obtain r w1 where b: "BlockNumber (rpcp env) c w = (r, w1)" by fastforce
  have w1: "ledger_frame w w1"
    using read_frames(1) [of w "rpcp env" c] b by simp
  have set: "ledger_frame u v \<Longrightarrow> ledger_frame u (v\<lparr>lastProcessedEpoch := e\<rparr>)" for u v e
    by (simp add: ledger_frame_def db_ok_def)
  have w2: "ledger_frame w w2" if "handleEpochUpdate env c e w1 = (x, w2)" for e x w2
    using ledger_frame_trans [OF w1 upd [of w1 e]] that by simp
  show ?thesis
    using w1 w2 set by (simp add: epochTick_def b Let_def split: res.split prod.split)
qed

lemma listener_frame:
  "ledger_frame w (snd (handleOperatorRegistered env reg w))"
  "ledger_frame w (snd (handleOperatorDeregistered env dereg w))"
  unfolding handleOperatorRegistered_def handleOperatorDeregistered_def Let_def
  by (auto intro!: call_frame operator_write_frame read_frames split: option.split)

lemma blacklist_write_frame:
  "ledger_frame w (snd (IncrementViolationCount p cn v key w))"
  "ledger_frame w (snd (UnblockNode p cn peer key w))"
proof -
  show "ledger_frame w (snd (IncrementViolationCount p cn v key w))"
    using same_process_eqs(3) [OF write_same_process(7) [of w p cn v key]]
    by (simp add: ledger_frame_def blacklist_writes_ok)
  have "tasks_rows (snd (UnblockNode p cn peer key w)) = tasks_rows w"
    "consensus_rows (snd (UnblockNode p cn peer key w)) = consensus_rows w"
    "DB.more (snd (UnblockNode p cn peer key w)) = DB.more w"
    unfolding UnblockNode_def
    by (cases "on_blacklist p (unblockNode peer) w"; cases "fst (on_blacklist p (unblockNode peer) w)";
        force simp: on_blacklist_def case_prod_beta)+
  then have "tasks_rows (snd (UnblockNode p cn peer key w)) = tasks_rows w"
    "consensus_rows (snd (UnblockNode p cn peer key w)) = consensus_rows w"
    "same_process w (snd (UnblockNode p cn peer key w))"
    by (simp_all add: same_process_def)
  then show "ledger_frame w (snd (UnblockNode p cn peer key w))"
    by (simp add: ledger_frame_def blacklist_writes_ok same_process_eqs)
qed

lemma gater_frame:
  "ledger_frame w (snd (checkPeerPermission env peer w))"
  "ledger_frame w (snd (gater_IncrementViolationCount env params w))"
  "ledger_frame w (snd (gater_UnblockNode env peer w))"
  unfolding gater_IncrementViolationCount_def gater_UnblockNode_def
  by (auto intro!: only_calls_frame [OF checkPeerPermission_only_calls] call_frame
      blacklist_write_frame)

lemma consensus_query_frame:
  "ledger_frame w (snd (GetTaskConsensusByTaskID env r w))"
  "ledger_frame w (snd (GetConsensusByRequest env r w))"
proof -
  have rd: "snd (GetConsensusResponseByTaskId p k w) = tick w"
    "snd (GetConsensusResponseByRequest p arg w) = tick w" for p k arg and w :: World
    by simp_all
  have byreq: "ledger_frame w u" if "GetConsensusResponseByRequest p arg w = (x, u)" for p arg x u
    using rd(2) [of p arg w] that by simp
  obtain x u where g: "GetConsensusResponseByTaskId (pgp env) (req_TaskID r) w = (x, u)" by fastforce
  then have "u = tick w" using rd(1) [of "pgp env" "req_TaskID r" w] by simp
  then show "ledger_frame w (snd (GetTaskConsensusByTaskID env r w))"
    by (simp add: GetTaskConsensusByTaskID_def g split: res.split option.split)
  show "ledger_frame w (snd (GetConsensusByRequest env r w))"
    by (auto simp: GetConsensusByRequest_def Let_def dest: byreq
        split: prod.split res.split option.split)
qed

section \<open>The step relation\<close>

text \<open>
  What can happen in a node. A panic that nothing recovers ends the process; the relation also allows
  to go on from there, so its runs include those of the program. After a restart the tables are as
  they were, and the variables of the services are as their constructors make them.
\<close>

datatype event =
    Message bytes peerID
  | Timeouts
  | Confirmations
  | Cleanup
  | Epoch
  | Registration OperatorRegisteredEvent
  | Deregistration OperatorDeregisteredEvent
  | Http int route request
  | Connection peerID
  | Violation ViolationParams
  | Unblock peerID
  | Restart

definition restarted :: "World \<Rightarrow> World" where
  "restarted w = w\<lparr>currentEpochState := initialEpochState, lastProcessedEpoch := 0,
     taskResponseTrack := newTrack, published := []\<rparr>"

inductive node_step :: "env \<Rightarrow> Config \<Rightarrow> chainClient \<Rightarrow> World \<Rightarrow> event \<Rightarrow> World \<Rightarrow> bool"
  for env cfg mainnet where
  message: "node_step env cfg mainnet w (Message data peer) (handleResponse env data peer w)"
| timeouts: "node_step env cfg mainnet w Timeouts (snd (checkTimeouts env w))"
| confirmations: "node_step env cfg mainnet w Confirmations (snd (checkConfirmations env w))"
| cleanup: "node_step env cfg mainnet w Cleanup (periodicCleanup w)"
| epoch: "node_step env cfg mainnet w Epoch (snd (epochTick env mainnet w))"
| registration:
    "node_step env cfg mainnet w (Registration reg) (snd (handleOperatorRegistered env reg w))"
| deregistration:
    "node_step env cfg mainnet w (Deregistration dereg) (snd (handleOperatorDeregistered env dereg w))"
| http: "RegisterRoutes env cfg now route r w = Some (a, w') \<Longrightarrow>
    node_step env cfg mainnet w (Http now route r) w'"
| connection: "node_step env cfg mainnet w (Connection peer) (snd (InterceptSecured env peer w))"
| violation:
    "node_step env cfg mainnet w (Violation params) (snd (gater_IncrementViolationCount env params w))"
| unblock: "node_step env cfg mainnet w (Unblock peer) (snd (gater_UnblockNode env peer w))"
| restart: "node_step env cfg mainnet w Restart (restarted w)"

inductive_cases node_stepE: "node_step env cfg mainnet w e w'"

inductive_simps node_step_simps:
  "node_step env cfg mainnet w (Message data peer) w'"
  "node_step env cfg mainnet w Restart w'"

text \<open>A run of the node.\<close>

definition node_moves :: "env \<Rightarrow> Config \<Rightarrow> chainClient \<Rightarrow> World \<Rightarrow> World \<Rightarrow> bool" where
  "node_moves env cfg mainnet w w' \<longleftrightarrow> (\<exists>e. node_step env cfg mainnet w e w')"

section \<open>The contract of an invariant of the node\<close>

locale node_invariant = periodic_handlers +
  assumes Q_frame: "Q w \<Longrightarrow> ledger_frame w w' \<Longrightarrow> Q w'"
    and Q_task: "Q w \<Longrightarrow> Q (snd (CreateTask (pgp env) arg w))"
begin

lemma Q_orError:
  assumes "orError status msg r k = Some (a, w')" and "Q (snd r)"
    and "\<And>x u. r = (Ret x, u) \<Longrightarrow> Q u \<Longrightarrow> k x u = Some (a, w') \<Longrightarrow> Q w'"
  shows "Q w'"
  using assms by (cases r; cases "fst r") (auto simp: orError_def)

lemma Q_reads:
  assumes "Q w"
  shows "Q (snd (BlockNumber (rpcp env) c w))" "Q (snd (GetCurrentEpoch (rpcp env) c w))"
    "Q (snd (GetStateAtBlock (rpcp env) c a k b w))"
    "Q (snd (validateRequest env cfg now params w))"
    "Q (snd (GetConsensusResponseByTaskId (pgp env) t w))" "Q (snd (GetTaskByID (pgp env) t w))"
  by (rule Q_calls [OF client_only_calls(1) assms] Q_calls [OF client_only_calls(9) assms]
      Q_calls [OF client_only_calls(2) assms] Q_calls [OF validateRequest_only_calls assms]
      Q_calls [OF read_only_calls(1) assms] Q_calls [OF read_only_calls(2) assms])+

lemma Q_created:
  assumes "CreateTask (pgp env) arg w = (Ret t, u)" and "Q u"
    and "processCreated env msg t u = Some (a, w')"
  shows "Q w'"
proof -
  obtain now where t: "t = Some (scan_task (pgp env) (row_of_params arg now))"
    and "tasks_check (row_of_params arg now)"
    using CreateTask_cases [OF assms(1)] by auto
  then have "num_Valid (t_Key (row_of_params arg now))"
    by (simp add: tasks_check_def not_null_def)
  then have "task_valid env (scan_task (pgp env) (row_of_params arg now))"
    by (simp add: task_valid_def scan_valid_def scan_task_def)
  from Q_ProcessTask_Some [OF assms(2) this] show ?thesis
    using processCreated_state [OF assms(3) [unfolded t]] assms(2) by auto
qed

lemma Q_submitTask:
  assumes "submitTask env cfg params e c b key v taskID w = Some (a, w')" and "Q w"
  shows "Q w'"
proof (rule Q_orError [OF assms(1) [unfolded submitTask_def]])
  fix conf u
  assume "Q u" and "orError 500 (\<lambda>e. ''Failed to get latest block'') (BlockNumber (rpcp env) c u)
     (\<lambda>latest w. orError 500 (\<lambda>e. ''Failed to create task'')
        (CreateTask (pgp env) (newTaskParams params e b key v taskID conf latest) w)
        (processCreated env (requestMessage latest b conf))) = Some (a, w')"
  then show "Q w'"
    by (elim Q_orError) (auto intro: Q_reads Q_task Q_created)
qed (simp add: assms(2))

lemma Q_lookupOrSubmit:
  assumes "lookupOrSubmit env cfg params e c b key v w = Some (a, w')" and "Q w"
  shows "Q w'"
proof (cases "only_calls w w'")
  case True
  then show ?thesis using assms(2) by (rule Q_calls)
next
  case False
  from lookupOrSubmit_effect [OF assms(1) False] show ?thesis
    using Q_submitTask Q_calls assms(2) by blast
qed

lemma Q_requestFor:
  assumes "requestFor env cfg params m e w = Some (a, w')" and "Q w"
  shows "Q w'"
proof (cases "only_calls w w'")
  case True
  then show ?thesis using assms(2) by (rule Q_calls)
next
  case False
  from requestFor_effect [OF assms(1) False] show ?thesis
    using Q_submitTask Q_calls assms(2) by blast
qed

lemma Q_SendRequest:
  assumes "SendRequest env cfg now r w = Some (a, w')" and "Q w"
  shows "Q w'"
proof -
  have "Q w'" if "orError 400 error_text (validateRequest env cfg now params w) (\<lambda>_ w.
             orError 500 (\<lambda>e. ''Failed to get mainnet client'') (GetMainnetClient (manager w), w)
               (\<lambda>mainnetClient w.
             orError 500 (\<lambda>e. ''Failed to get current epoch'')
               (GetCurrentEpoch (rpcp env) mainnetClient w)
               (requestFor env cfg params mainnetClient))) = Some (a, w')" for params
    using that assms(2)
    by (elim Q_orError) (auto intro: Q_reads Q_requestFor)
  with assms show ?thesis
    by (auto simp: SendRequest_def split: if_splits option.splits)
qed

lemma Q_RegisterRoutes:
  assumes "RegisterRoutes env cfg now route r w = Some (a, w')" and "Q w"
  shows "Q w'"
proof -
  have rec: "snd (recoverer x) = snd x" for x
    by (auto simp: recoverer_def split: prod.split res.split)
  show ?thesis
    using assms Q_SendRequest Q_frame [OF assms(2) consensus_query_frame(1) [of w env r]]
      Q_frame [OF assms(2) consensus_query_frame(2) [of w env r]] rec
    by (auto simp: RegisterRoutes_def split: route.splits if_splits) (metis prod.collapse snd_conv)+
qed

lemma Q_restarted: "Q w \<Longrightarrow> Q (restarted w)"
proof -
  assume "Q w"
  then have "Q (w\<lparr>taskResponseTrack := newTrack\<rparr>)" by (rule Q_clear)
  then show ?thesis
    by (rule Q_frame) (simp add: ledger_frame_def restarted_def db_ok_def)
qed

theorem Q_node_step: "node_step env cfg mainnet w e w' \<Longrightarrow> Q w \<Longrightarrow> Q w'"
  by (induction rule: node_step.induct)
    (auto simp: handleResponse_def InterceptSecured_def intro: Q_processResponse Q_checkTimeouts
      Q_checkConfirmations Q_periodicCleanup Q_RegisterRoutes Q_restarted
      Q_frame [OF _ epochTick_frame] Q_frame [OF _ listener_frame(1)]
      Q_frame [OF _ listener_frame(2)] Q_frame [OF _ gater_frame(1)]
      Q_frame [OF _ gater_frame(2)] Q_frame [OF _ gater_frame(3)])

end

section \<open>The ledger\<close>

text \<open>
  What the network promises about a decided task: it carries at least one signature, each by another
  signing key, each verifying for this task, and as many operator addresses.
\<close>

definition certified :: "env \<Rightarrow> ConsensusResponse \<Rightarrow> bool" where
  "certified env d \<longleftrightarrow>
     (\<exists>keys. keys \<noteq> [] \<and> distinct keys \<and> length (c_OperatorAddresses d) = length keys \<and>
        list_all2 (\<lambda>k sig. \<exists>r. verifyResponse env r k = Ret () \<and> r_taskID r = c_TaskID d \<and>
                                r_signature r = sig)
          keys (c_AggregatedSignatures d))"

text \<open>
  What the libraries have to do for that: the driver keeps numbers valid, and the signing key of a
  signature is recovered.
\<close>

definition trusted :: "env \<Rightarrow> bool" where
  "trusted env \<longleftrightarrow> scan_valid env \<and> recovers (crp env)"

text \<open>The abstract ledger: a step decides one task that was undecided.\<close>

inductive decide ::
  "env \<Rightarrow> (string \<rightharpoonup> ConsensusResponse) \<Rightarrow> (string \<rightharpoonup> ConsensusResponse) \<Rightarrow> bool" for env where
  decide: "m t = None \<Longrightarrow> c_TaskID d = t \<Longrightarrow> (trusted env \<Longrightarrow> certified env d) \<Longrightarrow>
    decide env m (m(t \<mapsto> d))"

lemma decide_keeps: "decide env m m' \<Longrightarrow> m \<subseteq>\<^sub>m m'"
  by (auto simp: decide.simps map_le_def)

lemma decided_keeps: "(decide env)\<^sup>*\<^sup>* m m' \<Longrightarrow> m \<subseteq>\<^sub>m m'"
  by (induction rule: rtranclp_induct) (auto intro: map_le_trans decide_keeps)

lemma decided_certified:
  "(decide env)\<^sup>*\<^sup>* m m' \<Longrightarrow> m' t = Some d \<Longrightarrow> trusted env \<Longrightarrow>
     m t = Some d \<or> c_TaskID d = t \<and> certified env d"
  by (induction rule: rtranclp_induct) (auto simp: decide.simps split: if_splits)

text \<open>The ledger that the table of consensus responses stands for.\<close>

definition ledger_of :: "World \<Rightarrow> string \<rightharpoonup> ConsensusResponse" where
  "ledger_of w t = find (\<lambda>d. c_TaskID d = t) (consensus_rows w)"

lemma ledger_of_append:
  assumes "consensus_rows w' = consensus_rows w @ [d]"
    and "c_TaskID d \<notin> set (map c_TaskID (consensus_rows w))"
  shows "ledger_of w' = (ledger_of w)(c_TaskID d \<mapsto> d)" "ledger_of w (c_TaskID d) = None"
proof -
  show none: "ledger_of w (c_TaskID d) = None"
    using assms(2) unfolding ledger_of_def find_key_None .
  have "ledger_of w' t = (if t = c_TaskID d then Some d else ledger_of w t)" for t
    using none by (auto simp: ledger_of_def assms(1) find_append split: option.split)
  then show "ledger_of w' = (ledger_of w)(c_TaskID d \<mapsto> d)" by (simp add: fun_eq_iff)
qed

lemma filter_by_key:
  "distinct (map key xs) \<Longrightarrow> x \<in> set xs \<Longrightarrow> filter (\<lambda>y. key y = key x) xs = [x]"
  by (induction xs) (auto simp: filter_empty_conv image_iff)

lemma responses_of_distinct:
  assumes "track_ok (taskResponseTrack w)"
  shows "distinct (gokeys (responses_of w t))"
proof (cases "map_of (responses (taskResponseTrack w)) t")
  case (Some rs)
  then obtain ws where "map_of (weights (taskResponseTrack w)) t = Some ws"
    using assms by (force simp: track_ok_def dom_def)
  with Some assms show ?thesis
    by (auto simp: responses_of_def track_ok_def dest!: map_of_SomeD)
qed (simp add: responses_of_def gokeys_def)

lemma checkConsensus_decides:
  assumes "proc_inv env w"
  shows "(decide env)\<^sup>*\<^sup>* (ledger_of w) (ledger_of (snd (checkConsensus env response w)))"
proof (cases "consensus_rows (snd (checkConsensus env response w)) = consensus_rows w")
  case True
  then have "ledger_of (snd (checkConsensus env response w)) = ledger_of w"
    by (simp add: ledger_of_def fun_eq_iff)
  then show ?thesis by simp
next
  case False
  define rs where "rs = responses_of w (r_taskID response)"
  from checkConsensus_row [OF False] obtain d where
    d: "consensus_rows (snd (checkConsensus env response w)) = consensus_rows w @ [d]"
      "r_taskID response \<notin> set (map c_TaskID (consensus_rows w))" "c_TaskID d = r_taskID response"
      "length (c_OperatorAddresses d) = length rs"
    unfolding rs_def by blast
  have "track_ok (taskResponseTrack w)" using assms(1) by (simp add: proc_inv_def)
  then have "distinct (gokeys rs)"
    unfolding rs_def by (rule responses_of_distinct)
  moreover have "rs \<noteq> []" unfolding rs_def by (rule checkConsensus_nonempty [OF False])
  then have "sort (gokeys rs) \<noteq> []" by (cases rs) (auto simp: gokeys_def dest: arg_cong [where f = length])
  ultimately have "certified env d" if "trusted env"
    using checkConsensus_signed [OF assms _ _ d(1)] that d(3,4)
    unfolding certified_def rs_def trusted_def
    by (intro exI [of _ "sort (gokeys rs)"]) (auto simp: rs_def gokeys_def)
  moreover note ledger_of_append [OF d(1) d(2) [folded d(3)]]
  ultimately have "decide env (ledger_of w) (ledger_of (snd (checkConsensus env response w)))"
    by (auto intro: decide.intros)
  then show ?thesis by blast
qed

text \<open>
  The invariant of a running node: that of the processor, and that the ledger has come from a given
  one by deciding tasks.
\<close>

definition node_ok :: "env \<Rightarrow> (string \<rightharpoonup> ConsensusResponse) \<Rightarrow> World \<Rightarrow> bool" where
  "node_ok env m w \<longleftrightarrow> proc_inv env w \<and> (decide env)\<^sup>*\<^sup>* m (ledger_of w)"

lemma node_ok_keep:
  assumes "node_ok env m w" and "proc_inv env w \<Longrightarrow> proc_inv env w'"
    and "consensus_rows w' = consensus_rows w"
  shows "node_ok env m w'"
proof -
  have "ledger_of w' = ledger_of w" using assms(3) by (simp add: ledger_of_def fun_eq_iff)
  with assms(1,2) show ?thesis by (simp add: node_ok_def)
qed

lemma task_write_consensus:
  "consensus_rows (snd (UpdateTaskToPending p t w)) = consensus_rows w"
  "consensus_rows (snd (IncrementRetryCount p t w)) = consensus_rows w"
  "consensus_rows (snd (DeleteTaskByID p t w)) = consensus_rows w"
  "consensus_rows (snd (CreateTask p arg w)) = consensus_rows w"
  by (simp_all add: UpdateTaskToPending_def IncrementRetryCount_def DeleteTaskByID_def
      CreateTask_def on_tasks_def case_prod_beta)

interpretation ledger: node_invariant env "node_ok env m"
  "\<lambda>r k. scan_valid env \<and> recovers (crp env) \<longrightarrow> verifyResponse env r k = Ret ()" for env m
proof
  fix w w' :: World and r :: taskResponse and k t d x arg v key task response
  assume w: "node_ok env m w"
  note keep = node_ok_keep [OF w]
  show "db_ok w" using w by (simp add: node_ok_def proc_inv_def)
  show "only_calls w w' \<Longrightarrow> node_ok env m w'" by (rule keep [OF proc.Q_calls only_calls_World(3)])
  show "scan_valid env \<and> recovers (crp env) \<longrightarrow> verifyResponse env r k = Ret () \<Longrightarrow>
      \<not> alreadyProcessed (taskResponseTrack w) (r_taskID r) k \<Longrightarrow>
      node_ok env m (snd (on_track (storeResponseAndWeight r k x) w))"
    by (rule keep [OF proc.Q_store]) (auto simp: on_track_def case_prod_beta)
  show "node_ok env m (snd (checkConsensus env response w))"
    using w proc.Q_checkConsensus checkConsensus_decides
    unfolding node_ok_def by (blast intro: rtranclp_trans)
  show "ledger_frame w w' \<Longrightarrow> node_ok env m w'"
    by (rule keep) (simp_all add: ledger_frame_def proc_inv_def)
  show "node_ok env m (w\<lparr>published := d # published w\<rparr>)" by (rule keep [OF proc.Q_publish]) simp_all
  show "node_ok env m (w\<lparr>taskResponseTrack := cleanupTask t (taskResponseTrack w)\<rparr>)"
    by (rule keep [OF proc.Q_forget]) simp_all
  show "node_ok env m (w\<lparr>taskResponseTrack := newTrack\<rparr>)" by (rule keep [OF proc.Q_clear]) simp_all
qed (auto intro: node_ok_keep proc_inv_writes task_write_consensus IncrementViolation_frame(2)
    signedResponse_verifies simp: task_valid_def)

text \<open>A node whose tables are those that the schema creates.\<close>

definition fresh :: "World \<Rightarrow> bool" where
  "fresh w \<longleftrightarrow> tasks_rows w = [] \<and> operators_rows w = [] \<and> consensus_rows w = [] \<and>
     blacklist_rows w = [] \<and> taskResponseTrack w = newTrack"

lemma fresh_ok: "fresh w \<Longrightarrow> proc_inv env w"
  by (simp add: fresh_def proc_inv_def db_ok_def tasks_ok_def operators_ok_def consensus_ok_def
      blacklist_ok_def keyed_def)

interpretation running: step_invariant fresh "node_moves env cfg mainnet" "proc_inv env"
  for env cfg mainnet
proof
  show "fresh w \<Longrightarrow> proc_inv env w" for w by (rule fresh_ok)
  show "proc_inv env w'" if "proc_inv env w" and "node_moves env cfg mainnet w w'" for w w'
    using ledger.Q_node_step [of env cfg mainnet w _ w' "ledger_of w"] that
    by (auto simp: node_moves_def node_ok_def)
qed

lemma node_run_ok:
  assumes "proc_inv env w" and "(node_moves env cfg mainnet)\<^sup>*\<^sup>* w w'"
  shows "node_ok env (ledger_of w) w'"
  using assms(2)
proof (induction rule: rtranclp_induct)
  case base
  show ?case using assms(1) by (simp add: node_ok_def)
next
  case (step u v)
  then show ?case by (auto simp: node_moves_def intro: ledger.Q_node_step)
qed

section \<open>What a run can be relied on for\<close>

text \<open>
  C22. Every table stays well formed. However long a node runs from empty tables, and however often it
  is restarted, every row of its tables satisfies the constraints of the schema, keys are unique, and
  the tracker holds a weight exactly for the responses it holds.
\<close>

theorem node_tables_well_formed:
  assumes "fresh w" and "(node_moves env cfg mainnet)\<^sup>*\<^sup>* w w'"
  shows "db_ok w' \<and> track_ok (taskResponseTrack w')"
  using running.inv_reachable [OF assms] by (simp add: proc_inv_def)

text \<open>
  C2. The table of consensus responses implements the ledger. Each step of the node, whatever service
  takes it and whatever faults occur, is a sequence of steps of the abstract ledger, in each of which
  one undecided task is decided, by signatures of different keys that verify for it if the libraries
  do what they promise; a decision is never changed or withdrawn.
\<close>

theorem node_refines_ledger:
  assumes "proc_inv env w" and "node_step env cfg mainnet w e w'"
  shows "(decide env)\<^sup>*\<^sup>* (ledger_of w) (ledger_of w') \<and> ledger_of w \<subseteq>\<^sub>m ledger_of w' \<and> proc_inv env w'"
proof -
  have "node_ok env (ledger_of w) w" using assms(1) by (simp add: node_ok_def)
  from ledger.Q_node_step [OF assms(2) this] show ?thesis
    by (auto simp: node_ok_def intro: decided_keeps)
qed

text \<open>
  Only certified consensus, over a whole run. After any run that began without consensus rows,
  every consensus row carries at least one signature and as many operator addresses; the signatures
  are by different signing keys, and each verifies for the task of the row; and no other row is for
  that task.
\<close>

theorem node_consensus_certified:
  assumes "proc_inv env w" and "consensus_rows w = []" and "trusted env"
    and "(node_moves env cfg mainnet)\<^sup>*\<^sup>* w w'"
    and "ledger_of w' t = Some d"
  shows "certified env d \<and> c_TaskID d = t \<and>
    filter (\<lambda>r. c_TaskID r = t) (consensus_rows w') = [d]"
proof -
  note run = node_run_ok [OF assms(1,4)]
  have "ledger_of w t = None" using assms(2) by (simp add: ledger_of_def)
  then have d: "c_TaskID d = t \<and> certified env d"
    using decided_certified [of env "ledger_of w" "ledger_of w'" t d] assms(3,5) run
    by (auto simp: node_ok_def)
  have "d \<in> set (consensus_rows w')"
    using assms(5) by (auto simp: ledger_of_def find_Some_iff)
  moreover have "distinct (map c_TaskID (consensus_rows w'))"
    using run by (simp add: node_ok_def proc_inv_def db_ok_def consensus_ok_def keyed_def)
  ultimately have "filter (\<lambda>r. c_TaskID r = t) (consensus_rows w') = [d]"
    using d filter_by_key [of c_TaskID "consensus_rows w'" d] by simp
  with d show ?thesis by blast
qed

text \<open>What a query for the consensus of a task answers.\<close>

lemma GetConsensus_answer:
  "fst (GetConsensusResponseByTaskId p t (w :: World)) = Ret x \<longleftrightarrow>
     fault_at p (calls w) = NoFault \<and> x = map_option (scan_consensus p) (ledger_of w t)"
  by (auto simp: GetConsensusResponseByTaskId_def on_consensus_def run_stmt_def scanned_def
      getConsensusResponseByTaskId_def select_one_def ledger_of_def split: fault.splits)

lemma GetTaskConsensus_answer:
  "fst (GetTaskConsensusByTaskID env r w) = Ret (200, ConsensusBody c msg) \<longleftrightarrow>
     fault_at (pgp env) (calls w) = NoFault \<and> msg = ''Consensus found successfully'' \<and>
     map_option (scan_consensus (pgp env)) (ledger_of w (req_TaskID r)) = Some c"
proof -
  obtain x u where g: "GetConsensusResponseByTaskId (pgp env) (req_TaskID r) w = (x, u)" by fastforce
  have "x = Ret y \<longleftrightarrow> fault_at (pgp env) (calls w) = NoFault \<and>
      y = map_option (scan_consensus (pgp env)) (ledger_of w (req_TaskID r))" for y
    using GetConsensus_answer [of "pgp env" "req_TaskID r" w y] g by simp
  then show ?thesis
    by (cases x) (auto simp: GetTaskConsensusByTaskID_def g writeError_def eq_commute [of "Some c"]
        split: option.split)
qed

text \<open>
  C4. An answer of the interface is final. If a query for the consensus of a task was answered with a
  consensus, then the same query is answered with the same consensus at any later time, after any
  messages, checks, epochs, requests and restarts, whenever the database answers.
\<close>

theorem consensus_answer_final:
  assumes "proc_inv env w"
    and "fst (GetTaskConsensusByTaskID env r w) = Ret (200, ConsensusBody c msg)"
    and "(node_moves env cfg mainnet)\<^sup>*\<^sup>* w w'" and "fault_at (pgp env) (calls w') = NoFault"
  shows "fst (GetTaskConsensusByTaskID env r w') = Ret (200, ConsensusBody c msg)"
proof -
  from assms(2) obtain d where "ledger_of w (req_TaskID r) = Some d"
    and "c = scan_consensus (pgp env) d" "msg = ''Consensus found successfully''"
    by (auto simp: GetTaskConsensus_answer)
  moreover have "ledger_of w \<subseteq>\<^sub>m ledger_of w'"
    using node_run_ok [OF assms(1,3)] by (auto simp: node_ok_def intro: decided_keeps)
  then have "ledger_of w' (req_TaskID r) = ledger_of w (req_TaskID r)"
    if "ledger_of w (req_TaskID r) \<noteq> None"
    using that by (auto simp: map_le_def dom_def)
  ultimately show ?thesis using assms(4) by (simp add: GetTaskConsensus_answer)
qed

section \<open>Outsiders\<close>

lemma GetOperatorByP2PKey_exact:
  assumes "cache_at p = None" and "fault_at p (calls w) = NoFault"
  shows "GetOperatorByP2PKey p key w =
    (Ret (map_option (scan_operator p) (find (\<lambda>r. lower (o_P2pKey r) = lower key) (operators_rows w))),
     tick w)"
  using assms
  by (simp add: GetOperatorByP2PKey_def GetWithTtl_def on_operators_def run_stmt_def
      getOperatorByP2PKey_def select_one_def)

lemma outsider_messages:
  assumes "\<And>n. fault_at (pgp env) n = NoFault" and "cache_at (pgp env) = None"
    and "PeerIDToP2PKey (crp env) peer = Ret key" and "length (peerIDString (crp env) peer) \<le> 128"
    and "proc_inv env w" and "\<not> active_p2p key (operators_rows w)"
    and "\<And>d. d \<in> set ds \<Longrightarrow> \<exists>pb. unmarshal env d = Inr pb \<and> pb_Epoch pb = GetCurrentEpochNumber w"
    and "violations (peerIDString (crp env) peer) (blacklist_rows w) + int (length ds) < 2 ^ 31"
  shows "proc_inv env (fold (\<lambda>d. handleResponse env d peer) ds w) \<and>
    violations (peerIDString (crp env) peer)
      (blacklist_rows (fold (\<lambda>d. handleResponse env d peer) ds w)) =
      violations (peerIDString (crp env) peer) (blacklist_rows w) + int (length ds) \<and>
    (ds \<noteq> [] \<longrightarrow> permanent (peerIDString (crp env) peer)
      (blacklist_rows (fold (\<lambda>d. handleResponse env d peer) ds w)))"
  using assms(5-)
proof (induction ds arbitrary: w)
  case (Cons d ds)
  define w1 where "w1 = handleResponse env d peer w"
  define id where "id = peerIDString (crp env) peer"
  obtain pb where pb: "unmarshal env d = Inr pb" "pb_Epoch pb = GetCurrentEpochNumber w"
    using Cons.prems(3) by auto
  have "db_ok w" using Cons.prems(1) by (simp add: proc_inv_def)
  have w1: "violations id (blacklist_rows w1) = violations id (blacklist_rows w) + 1"
    "permanent id (blacklist_rows w1)" "operators_rows w1 = operators_rows w"
    "GetCurrentEpochNumber w1 = GetCurrentEpochNumber w"
    using outsider_effect [OF pb assms(3) GetOperatorByP2PKey_exact [OF assms(2,1)] _ \<open>db_ok w\<close>
        assms(1,4), of id] Cons.prems(2,4)
    by (auto simp: w1_def id_def active_p2p_def scan_operator_def split: option.splits)
  have "proc_inv env w1"
    using proc.Q_processResponse [OF Cons.prems(1)] by (simp add: w1_def handleResponse_def)
  from Cons.IH [OF this] Cons.prems(2-4) w1 show ?case
    by (cases ds) (auto simp: w1_def [symmetric] id_def [symmetric])
qed simp


section \<open>A concrete run\<close>

text \<open>An operator with key \<open>01\<close> and weight 6, whose response reaches the threshold 5.\<close>

definition peer_key :: string where
  "peer_key = (case PeerIDToP2PKey toy_crypto ''P'' of Ret k \<Rightarrow> k | _ \<Rightarrow> [])"

definition run_env :: env where
  "run_env = one_key_env\<lparr>unmarshal := (\<lambda>_. Inr (toy_message ''T'' ''1''))\<rparr>"

definition run_world :: World where
  "run_world = toy_world\<lparr>operators_rows := [(toy_operator ''A'' ''01'' 6)\<lparr>o_P2pKey := peer_key\<rparr>],
     currentEpochState := (currentEpochState toy_world)\<lparr>ThresholdWeight := Some 5\<rparr>\<rparr>"

lemma run_env_simps [simp]:
  "pgp run_env = toy_pg" "unmarshal run_env d = Inr (toy_message ''T'' ''1'')"
  "PeerIDToP2PKey (crp run_env) ''P'' = Ret peer_key"
  by (simp_all add: run_env_def one_key_env_def peer_key_def PeerIDToP2PKey_def toy_crypto_def Let_def)

lemma run_self: "self run_env = ''01''"
  by (simp add: self_def run_env_def one_key_env_def toy_crypto_def GetSigningAddress_def
      hex_encode_def digit_char_def char_of_def bit_0)

lemma run_verifies:
  "verifyResponse run_env (convertProtoToResponse (toy_message ''T'' ''1'')) ''01'' = Ret ()"
  by (simp add: verifyResponse_def run_env_def one_key_env_def toy_env_def toy_crypto_def
      toy_message_def convertProtoToResponse_def VerifyTaskResponse_def pack_def StringToBigInt_def
      big_SetString10_def parse_nat_def digit_val_def hex_encode_def digit_char_def char_of_def bit_0)

lemma run_decides:
  "\<exists>d. ledger_of (handleResponse run_env [] ''P'' run_world) ''T'' = Some d \<and>
       c_OperatorAddresses d = [''A'']"
proof -
  define r where "r = convertProtoToResponse (toy_message ''T'' ''1'')"
  define q where "q = (toy_operator ''A'' ''01'' 6)\<lparr>o_P2pKey := peer_key\<rparr>"
  have r: "r_taskID r = ''T''" "r_epoch r = 8"
    by (simp_all add: r_def convertProtoToResponse_def toy_message_def)
  have w: "operators_rows run_world = [q]" "consensus_rows run_world = []"
    "taskResponseTrack run_world = newTrack" "GetCurrentEpochNumber run_world = 8"
    by (simp_all add: run_world_def q_def toy_world_def GetCurrentEpochNumber_def)
  have q: "scan_operator toy_pg q = q" "o_IsActive q" "o_SigningKey q = ''01''"
    "NumericToBigInt (o_Weight q) = Ret (Some 6)" "o_P2pKey q = peer_key"
    by (simp_all add: q_def scan_operator_def toy_operator_def NumericToBigInt_def BigIntToNumeric_def)
  have consensus_none: "GetConsensusResponseByTaskId toy_pg t (tick run_world) =
      (Ret None, tick (tick run_world))" for t
    using GetConsensus_answer [of toy_pg t "tick run_world" None] consensus_reads(2) [of toy_pg t "tick run_world"] w
    by (simp add: prod_eq_iff ledger_of_def)
  define w1 where "w1 = (tick (tick run_world))\<lparr>taskResponseTrack :=
     \<lparr>responses = [(''T'', [(''01'', r)])], weights = [(''T'', [(''01'', Some 6)])]\<rparr>\<rparr>"
  have store: "on_track (storeResponseAndWeight r ''01'' (Some 6)) (tick (tick run_world)) = (Ret (), w1)"
    by (simp add: on_track_def w w1_def storeResponseAndWeight_def newTrack_def r Let_def tick_def)
  have state: "snd (ignoring (checkConsensus run_env r w1) (\<lambda>w.
        if alreadyProcessed (taskResponseTrack w) ''T'' ''01'' then (Ret (), w) else k w)) =
      snd (checkConsensus run_env r w1)" for k
  proof -
    obtain x u where x: "checkConsensus run_env r w1 = (x, u)" by fastforce
    then have "alreadyProcessed (taskResponseTrack u) ''T'' ''01''"
      using checkConsensus_track [of run_env r w1] by (simp add: w1_def alreadyProcessed_def lookup2_def)
    then show ?thesis by (cases x) (auto simp: ignoring_def x)
  qed
  have new: "\<not> alreadyProcessed (taskResponseTrack (tick run_world)) ''T'' ''01''"
    by (simp add: run_world_def toy_world_def tick_def alreadyProcessed_def lookup2_def newTrack_def)
  have "handleResponse run_env [] ''P'' run_world = snd (checkConsensus run_env r w1)"
    using state
    by (simp add: handleResponse_def processResponse_def r_def [symmetric] r w Let_def q
        GetOperatorByP2PKey_exact processActive_def new consensus_none run_verifies [folded r_def] store run_self)
  moreover have "\<exists>d. consensus_rows (snd (checkConsensus run_env r w1)) = [d] \<and> c_TaskID d = ''T'' \<and>
      c_OperatorAddresses d = [''A'']"
    by (simp add: w1_def run_world_def toy_world_def r_def convertProtoToResponse_def toy_message_def
        toy_operator_def consensus_eval)
  ultimately show ?thesis by (auto simp: ledger_of_def)
qed

lemma peer_key_length: "length peer_key = 42"
  by (simp add: peer_key_def PeerIDToP2PKey_def toy_crypto_def Let_def hex_encode_def lower_def
      length_concat comp_def sum_list_replicate)

lemma run_world_ok: "proc_inv env run_world"
  using proc_inv_toy [of env]
  by (simp add: proc_inv_def run_world_def toy_world_def db_ok_def operators_ok_def keyed_def
      operators_check_def toy_operator_def fits_varchar_def fits_int8_def peer_key_length
      fits_numeric_def not_null_def BigIntToNumeric_def)

lemma run_trusted: "trusted run_env"
  by (simp add: trusted_def scan_valid_def recovers_def run_env_def one_key_env_def toy_crypto_def)

lemma runs:
  "(node_moves run_env cfg mainnet)\<^sup>*\<^sup>* w (restarted w)"
  "(node_moves run_env cfg mainnet)\<^sup>*\<^sup>* run_world
     (restarted (handleResponse run_env [] ''P'' run_world))"
proof -
  have step: "node_moves run_env cfg mainnet w (restarted w)"
    "node_moves run_env cfg mainnet w (handleResponse run_env [] ''P'' w)" for w
    by (auto simp: node_moves_def intro: node_step.intros)
  then show "(node_moves run_env cfg mainnet)\<^sup>*\<^sup>* w (restarted w)" by blast
  from step show "(node_moves run_env cfg mainnet)\<^sup>*\<^sup>* run_world
     (restarted (handleResponse run_env [] ''P'' run_world))"
    by (meson converse_rtranclp_into_rtranclp rtranclp.rtrancl_refl)
qed

theorem node_tables_well_formed_witness:
  "db_ok (restarted (toy_world\<lparr>operators_rows := []\<rparr>))"
  using node_tables_well_formed [of "toy_world\<lparr>operators_rows := []\<rparr>" run_env _ _
      "restarted (toy_world\<lparr>operators_rows := []\<rparr>)"] runs(1)
  by (simp add: fresh_def toy_world_def)

theorem node_refines_ledger_witness:
  "(decide run_env)\<^sup>*\<^sup>* (ledger_of run_world)
     (ledger_of (handleResponse run_env [] ''P'' run_world)) \<and> ledger_of run_world ''T'' = None \<and>
   ledger_of (handleResponse run_env [] ''P'' run_world) ''T'' \<noteq> None"
  using node_refines_ledger [OF run_world_ok node_step.message, of run_env "[]" "''P''"] run_decides
  by (auto simp: ledger_of_def run_world_def toy_world_def)

theorem node_consensus_certified_witness:
  "\<exists>d. ledger_of (restarted (handleResponse run_env [] ''P'' run_world)) ''T'' = Some d \<and>
     certified run_env d \<and> c_OperatorAddresses d = [''A'']"
proof -
  define w' where "w' = restarted (handleResponse run_env [] ''P'' run_world)"
  obtain d where d: "ledger_of w' ''T'' = Some d" "c_OperatorAddresses d = [''A'']"
    using run_decides by (auto simp: w'_def restarted_def ledger_of_def)
  have "(node_moves run_env cfg mainnet)\<^sup>*\<^sup>* run_world w'" for cfg mainnet
    unfolding w'_def by (rule runs(2))
  moreover have "consensus_rows run_world = []" by (simp add: run_world_def toy_world_def)
  ultimately show ?thesis
    using node_consensus_certified [OF run_world_ok _ run_trusted _ d(1)] d
    unfolding w'_def [symmetric] by blast
qed

theorem consensus_answer_final_witness:
  "\<exists>r c msg. fst (GetTaskConsensusByTaskID run_env r
     (restarted (handleResponse run_env [] ''P'' run_world))) = Ret (200, ConsensusBody c msg)"
proof -
  define w' where "w' = handleResponse run_env [] ''P'' run_world"
  define r where "r = \<lparr>req_Method = ''GET'', req_Body = None, req_Query = (\<lambda>_. []), req_TaskID = ''T''\<rparr>"
  obtain d where "ledger_of w' ''T'' = Some d" using run_decides by (auto simp: w'_def)
  then have ans: "fst (GetTaskConsensusByTaskID run_env r w') =
      Ret (200, ConsensusBody (scan_consensus toy_pg d) ''Consensus found successfully'')"
    by (simp add: GetTaskConsensus_answer r_def)
  have "proc_inv run_env w'"
    using proc.Q_processResponse [OF run_world_ok] by (simp add: w'_def handleResponse_def)
  from consensus_answer_final [OF this ans runs(1)] show ?thesis
    unfolding w'_def by auto
qed


end
