(* ===== verification/Peers.thy ===== *)
theory Peers
  imports Prelude
begin

text \<open>
  The peers of a node: the health checker, \<open>pkg/operator/health/health.go\<close>, the disconnection of a
  peer, \<open>pkg/operator/node/disconnect.go\<close>, and the node with its bootstrap connections and its peer
  discovery, \<open>pkg/operator/node/node.go\<close>. The libp2p host is a parameter: what it answers to the n-th
  question. What the node asks the host to do is recorded in order.
\<close>

section \<open>The host\<close>

type_synonym peer_id = string

datatype close_outcome = Closed | CloseFailed error | CloseTimedOut

datatype net_action =
    ClosePeer peer_id
  | ClearAddrs peer_id
  | RemovePeer peer_id
  | Connect peer_id

record host =
  hostID :: peer_id
  peersAt :: "nat \<Rightarrow> peer_id list"
  connectedAt :: "nat \<Rightarrow> peer_id \<Rightarrow> bool"
  connsToPeerAt :: "nat \<Rightarrow> peer_id \<Rightarrow> nat"
  closeAt :: "nat \<Rightarrow> peer_id \<Rightarrow> close_outcome"
  connectAt :: "nat \<Rightarrow> peer_id \<Rightarrow> error option"
  pingAt :: "nat \<Rightarrow> peer_id \<Rightarrow> error + int"
  ctxErrAt :: "nat \<Rightarrow> error option"

text \<open>The questions asked so far, the actions, and \<open>peerStatus\<close> of the health checker.\<close>

record Net =
  asked :: nat
  acts :: "net_action list"
  peerStatus :: "(peer_id, int) gomap"

definition ask :: "Net \<Rightarrow> Net" where
  "ask n = n\<lparr>asked := Suc (asked n)\<rparr>"

definition act :: "net_action \<Rightarrow> Net \<Rightarrow> Net" where
  "act a n = n\<lparr>acts := acts n @ [a]\<rparr>"

lemma ask_simps [simp]:
  "asked (ask n) = Suc (asked n)" "acts (ask n) = acts n" "peerStatus (ask n) = peerStatus n"
  by (simp_all add: ask_def)

section \<open>Disconnection\<close>

definition cleanupPeerResources :: "peer_id \<Rightarrow> Net \<Rightarrow> Net" where
  "cleanupPeerResources peer n = act (RemovePeer peer) (act (ClearAddrs peer) n)"

definition closeConnection :: "host \<Rightarrow> peer_id \<Rightarrow> Net \<Rightarrow> unit res \<times> Net" where
  "closeConnection h peer n =
     (if \<not> connectedAt h (asked n) peer then (Ret (), ask n)
      else
        (let n1 = act (ClosePeer peer) (ask n) in
         case closeAt h (asked n1) peer of
           CloseFailed err \<Rightarrow> (Fail err, ask n1)
         | CloseTimedOut \<Rightarrow> (Fail (Err ''timeout closing connection to peer''), ask n1)
         | Closed \<Rightarrow>
             (let n2 = cleanupPeerResources peer (ask n1) in
              if connectedAt h (asked n2) peer
              then (Fail (Err ''failed to close all connections to peer''), ask n2)
              else (Ret (), ask n2))))"

definition DisconnectPeer :: "host \<Rightarrow> peer_id \<Rightarrow> Net \<Rightarrow> unit res \<times> Net" where
  "DisconnectPeer h targetPeer n =
     (Ret (), cleanupPeerResources targetPeer (snd (closeConnection h targetPeer n)))"

section \<open>The health checker\<close>

definition GetConnectedPeers :: "host \<Rightarrow> Net \<Rightarrow> peer_id list \<times> Net" where
  "GetConnectedPeers h n = (peersAt h (asked n), ask n)"

definition pingPeer :: "host \<Rightarrow> peer_id \<Rightarrow> Net \<Rightarrow> unit res \<times> Net" where
  "pingPeer h p n =
     (case pingAt h (asked n) p of
        Inl e \<Rightarrow> (Fail e, ask n)
      | Inr rtt \<Rightarrow> (Ret (), (ask n)\<lparr>peerStatus := AList.update p rtt (peerStatus n)\<rparr>))"

fun checkEach :: "host \<Rightarrow> peer_id list \<Rightarrow> Net \<Rightarrow> Net" where
  "checkEach h [] n = n"
| "checkEach h (peerID # peers) n =
     (case pingPeer h peerID n of
        (Ret _, n) \<Rightarrow> checkEach h peers n
      | (_, n) \<Rightarrow> checkEach h peers (snd (DisconnectPeer h peerID n)))"

definition checkPeers :: "host \<Rightarrow> Net \<Rightarrow> Net" where
  "checkPeers h n = (case GetConnectedPeers h n of (peers, n) \<Rightarrow> checkEach h peers n)"

definition TriggerCheck :: "host \<Rightarrow> Net \<Rightarrow> unit res \<times> Net" where
  "TriggerCheck h n = (Ret (), checkPeers h n)"

definition GetStatus :: "Net \<Rightarrow> (peer_id, int) gomap" where
  "GetStatus n = peerStatus n"

text \<open>The loop of \<open>start\<close> on what it receives: \<open>True\<close> is a tick, \<open>False\<close> the end of the context.\<close>

fun health_start :: "host \<Rightarrow> bool list \<Rightarrow> Net \<Rightarrow> Net" where
  "health_start h [] n = n"
| "health_start h (tick # rest) n = (if tick then health_start h rest (checkPeers h n) else n)"

definition NewHealthChecker :: "bool \<Rightarrow> bool \<Rightarrow> unit res" where
  "NewHealthChecker node pingService =
     (if \<not> node then Fail (Err ''node is nil'')
      else if \<not> pingService then Fail (Err ''ping service is nil'')
      else Ret ())"

section \<open>The node\<close>

definition maxRetries :: nat where
  "maxRetries = 3"

fun awaitConnection :: "host \<Rightarrow> peer_id \<Rightarrow> nat \<Rightarrow> Net \<Rightarrow> unit res \<times> Net" where
  "awaitConnection h p 0 n = (Fail (Err ''connection not established after timeout''), n)"
| "awaitConnection h p (Suc retries) n =
     (case ctxErrAt h (asked n) of
        Some e \<Rightarrow> (Fail e, ask n)
      | None \<Rightarrow>
          if 0 < connsToPeerAt h (asked (ask n)) p then (Ret (), ask (ask n))
          else awaitConnection h p retries (ask (ask n)))"

definition connectWithTimeout :: "host \<Rightarrow> peer_id \<Rightarrow> Net \<Rightarrow> unit res \<times> Net" where
  "connectWithTimeout h p n =
     (let n1 = act (Connect p) (ask n) in
      case connectAt h (asked n) p of
        Some err \<Rightarrow>
          if contains (error_text err) ''failed to dial''
          then (Fail (Wrap ''failed to dial'' err), n1) else (Fail err, n1)
      | None \<Rightarrow> awaitConnection h p 5 n1)"

fun reconnect :: "host \<Rightarrow> peer_id \<Rightarrow> nat \<Rightarrow> Net \<Rightarrow> Net" where
  "reconnect h p 0 n = n"
| "reconnect h p (Suc retries) n =
     (case connectWithTimeout h p n of
        (Ret _, n) \<Rightarrow> n
      | (_, n) \<Rightarrow> reconnect h p retries n)"

text \<open>One tick of \<open>maintainBootstrapConnections\<close>.\<close>

fun bootstrapTick :: "host \<Rightarrow> peer_id list \<Rightarrow> Net \<Rightarrow> Net" where
  "bootstrapTick h [] n = n"
| "bootstrapTick h (peer # peers) n =
     (if 0 < connsToPeerAt h (asked n) peer then bootstrapTick h peers (ask n)
      else bootstrapTick h peers (reconnect h peer maxRetries (ask n)))"

text \<open>One tick of \<open>discoverPeers\<close>: the peers that were found, or an error.\<close>

fun connectFound :: "host \<Rightarrow> peer_id list \<Rightarrow> Net \<Rightarrow> Net" where
  "connectFound h [] n = n"
| "connectFound h (peer # peers) n =
     (if peer = hostID h then connectFound h peers n
      else connectFound h peers (act (Connect peer) (ask n)))"

definition discoverTick :: "host \<Rightarrow> error + peer_id list \<Rightarrow> Net \<Rightarrow> Net" where
  "discoverTick h found n =
     (case found of Inl e \<Rightarrow> n | Inr peers \<Rightarrow> connectFound h peers (ask n))"

text \<open>\<open>NewNode\<close>; whether the host is there, and the errors of making and starting the routing table.\<close>

record node_Config =
  has_Host :: bool
  node_BootstrapPeers :: "peer_id list"
  RendezvousString :: string

definition initDHT ::
  "(peer_id list \<Rightarrow> error option) \<Rightarrow> error option \<Rightarrow> peer_id list \<Rightarrow> unit res" where
  "initDHT dhtNew dhtBootstrap bootstrapPeers =
     (case dhtNew bootstrapPeers of
        Some e \<Rightarrow> Fail (Wrap ''failed to create DHT'' e)
      | None \<Rightarrow>
          (case dhtBootstrap of
             Some e \<Rightarrow> Fail (Wrap ''failed to bootstrap DHT'' e)
           | None \<Rightarrow> Ret ()))"

definition NewNode ::
  "(peer_id list \<Rightarrow> error option) \<Rightarrow> error option \<Rightarrow> node_Config option \<Rightarrow> unit res" where
  "NewNode dhtNew dhtBootstrap cfg =
     (case cfg of
        None \<Rightarrow> Fail (Err ''config is required'')
      | Some c \<Rightarrow>
          if \<not> has_Host c then Fail (Err ''host is required'')
          else if RendezvousString c = [] then Fail (Err ''rendezvous string is required'')
          else
            (case initDHT dhtNew dhtBootstrap (node_BootstrapPeers c) of
               Fail e \<Rightarrow> Fail (Wrap ''failed to initialize DHT'' e)
             | Panic \<Rightarrow> Panic
             | Ret _ \<Rightarrow> Ret ()))"

section \<open>Properties\<close>

text \<open>The peer that an action is about.\<close>

fun subject :: "net_action \<Rightarrow> peer_id" where
  "subject (ClosePeer p) = p"
| "subject (ClearAddrs p) = p"
| "subject (RemovePeer p) = p"
| "subject (Connect p) = p"

lemma DisconnectPeer_effect:
  "\<exists>as. acts (snd (DisconnectPeer h p n)) = acts n @ as @ [ClearAddrs p, RemovePeer p] \<and>
     subject ` set as \<subseteq> {p} \<and> (connectedAt h (asked n) p \<longrightarrow> ClosePeer p \<in> set as) \<and>
     peerStatus (snd (DisconnectPeer h p n)) = peerStatus n"
  by (auto simp: DisconnectPeer_def closeConnection_def cleanupPeerResources_def act_def ask_def
      Let_def split: close_outcome.split)

text \<open>What a check finds out about a peer, and what it does then.\<close>

definition verdict :: "host \<Rightarrow> Net \<Rightarrow> Net \<Rightarrow> peer_id \<Rightarrow> bool" where
  "verdict h n n' p \<longleftrightarrow>
     (\<exists>i as. acts n' = acts n @ as \<and>
        (case pingAt h i p of
           Inr rtt \<Rightarrow> map_of (peerStatus n') p = Some rtt \<and> p \<notin> subject ` set as
         | Inl e \<Rightarrow> map_of (peerStatus n') p = map_of (peerStatus n) p \<and>
             {ClearAddrs p, RemovePeer p} \<subseteq> set as \<and>
             (connectedAt h (Suc i) p \<longrightarrow> ClosePeer p \<in> set as)))"

lemma checkEach_others:
  "\<exists>as. acts (checkEach h ps n) = acts n @ as \<and> subject ` set as \<subseteq> set ps \<and>
     (\<forall>q. q \<notin> set ps \<longrightarrow> map_of (peerStatus (checkEach h ps n)) q = map_of (peerStatus n) q)"
proof (induction ps arbitrary: n)
  case (Cons p ps)
  show ?case
  proof (cases "pingAt h (asked n) p")
    case (Inl e)
    obtain as where "acts (snd (DisconnectPeer h p (ask n))) = acts n @ as @ [ClearAddrs p, RemovePeer p]"
      "subject ` set as \<subseteq> {p}" "peerStatus (snd (DisconnectPeer h p (ask n))) = peerStatus n"
      using DisconnectPeer_effect [of h p "ask n"] by (auto simp: ask_def)
    with Inl Cons [of "snd (DisconnectPeer h p (ask n))"] show ?thesis
      by (auto simp: pingPeer_def image_subset_iff)
  next
    case (Inr rtt)
    define n1 where "n1 = (ask n)\<lparr>peerStatus := AList.update p rtt (peerStatus n)\<rparr>"
    have "acts n1 = acts n" "q \<noteq> p \<Longrightarrow> map_of (peerStatus n1) q = map_of (peerStatus n) q" for q
      by (simp_all add: n1_def ask_def update_conv')
    with Inr Cons [of n1] show ?thesis
      by (auto simp: pingPeer_def n1_def [symmetric] image_subset_iff)
  qed
qed simp

lemma checkEach_verdict:
  assumes "distinct ps" and "p \<in> set ps"
  shows "verdict h n (checkEach h ps n) p"
  using assms
proof (induction ps arbitrary: n)
  case (Cons q ps)
  define n1 where "n1 = (case pingPeer h q n of (Ret _, n) \<Rightarrow> n | (_, n) \<Rightarrow> snd (DisconnectPeer h q n))"
  have run: "checkEach h (q # ps) n = checkEach h ps n1"
    by (auto simp: n1_def pingPeer_def split: sum.split)
  obtain bs where bs: "acts n1 = acts n @ bs" "subject ` set bs \<subseteq> {q}"
    "case pingAt h (asked n) q of
       Inr rtt \<Rightarrow> bs = [] \<and> peerStatus n1 = AList.update q rtt (peerStatus n)
     | Inl e \<Rightarrow> peerStatus n1 = peerStatus n \<and> {ClearAddrs q, RemovePeer q} \<subseteq> set bs \<and>
         (connectedAt h (Suc (asked n)) q \<longrightarrow> ClosePeer q \<in> set bs)"
    using DisconnectPeer_effect [of h q "ask n"]
    by (cases "pingAt h (asked n) q") (fastforce simp: n1_def pingPeer_def ask_def image_subset_iff)+
  obtain cs where cs: "acts (checkEach h ps n1) = acts n1 @ cs" "subject ` set cs \<subseteq> set ps"
    "\<forall>r. r \<notin> set ps \<longrightarrow> map_of (peerStatus (checkEach h ps n1)) r = map_of (peerStatus n1) r"
    using checkEach_others [of h ps n1] by blast
  show ?case
  proof (cases "p = q")
    case True
    with Cons.prems bs cs show ?thesis
      unfolding run verdict_def
      by (intro exI [of _ "asked n"] exI [of _ "bs @ cs"])
        (auto simp: update_conv' split: sum.splits)
  next
    case False
    then obtain i as where as: "acts (checkEach h ps n1) = acts n1 @ as"
      "case pingAt h i p of
         Inr rtt \<Rightarrow> map_of (peerStatus (checkEach h ps n1)) p = Some rtt \<and> p \<notin> subject ` set as
       | Inl e \<Rightarrow> map_of (peerStatus (checkEach h ps n1)) p = map_of (peerStatus n1) p \<and>
           {ClearAddrs p, RemovePeer p} \<subseteq> set as \<and>
           (connectedAt h (Suc i) p \<longrightarrow> ClosePeer p \<in> set as)"
      using Cons.IH [of n1] Cons.prems unfolding verdict_def by auto
    have same: "map_of (peerStatus n1) p = map_of (peerStatus n) p" "p \<notin> subject ` set bs"
      using False bs(2,3) by (auto simp: update_conv' split: sum.splits)
    show ?thesis
      unfolding run verdict_def
      using as bs(1) same
      by (intro exI [of _ i] exI [of _ "bs @ as"]) (auto split: sum.splits)
  qed
qed simp


text \<open>A host with two peers, one of which does not answer.\<close>

definition toy_host :: host where
  "toy_host = \<lparr>hostID = ''S'', peersAt = (\<lambda>n. [''P'', ''Q'']), connectedAt = (\<lambda>n p. n < 5),
     connsToPeerAt = (\<lambda>n p. 0), closeAt = (\<lambda>n p. Closed), connectAt = (\<lambda>n p. None),
     pingAt = (\<lambda>n p. if p = ''P'' then Inr 7 else Inl (Err ''ping'')), ctxErrAt = (\<lambda>n. None)\<rparr>"


section \<open>Reconnecting\<close>

lemma awaitConnection_acts: "acts (snd (awaitConnection h p r n)) = acts n"
  by (induction h p r n rule: awaitConnection.induct) (auto simp: ask_def split: option.split)

lemma awaitConnection_Ret:
  "awaitConnection h p r n = (Ret (), n') \<Longrightarrow> \<exists>i. 0 < connsToPeerAt h i p"
  by (induction h p r n rule: awaitConnection.induct) (auto split: option.splits if_splits)

lemma connectWithTimeout_acts: "acts (snd (connectWithTimeout h p n)) = acts n @ [Connect p]"
  by (auto simp: connectWithTimeout_def Let_def awaitConnection_acts act_def ask_def
      split: option.split)

lemma reconnect_acts:
  "\<exists>m. m \<le> r \<and> (0 < r \<longrightarrow> 0 < m) \<and> acts (reconnect h p r n) = acts n @ replicate m (Connect p)"
proof (induction r arbitrary: n)
  case (Suc r)
  obtain x n1 where c: "connectWithTimeout h p n = (x, n1)" by fastforce
  have a: "acts n1 = acts n @ [Connect p]" using connectWithTimeout_acts [of h p n] c by simp
  obtain m where "m \<le> r" "acts (reconnect h p r n1) = acts n1 @ replicate m (Connect p)"
    using Suc [of n1] by blast
  then have "\<exists>m. m \<le> Suc r \<and> 0 < m \<and>
      acts (case x of Ret _ \<Rightarrow> n1 | _ \<Rightarrow> reconnect h p r n1) = acts n @ replicate m (Connect p)"
    using a by (cases x) (auto intro: exI [of _ 1] exI [of _ "Suc m"])
  then show ?case by (cases x) (auto simp: c)
qed simp

text \<open>
  C35. Bootstrap peers are dialled a bounded number of times. A tick dials only bootstrap peers, in their
  order, each at most three times, and at least once if it had no connection when its turn came.
\<close>

theorem bootstrapTick_bounded:
  "\<exists>ms. length ms = length peers \<and> list_all (\<lambda>m. m \<le> 3) ms \<and>
     acts (bootstrapTick h peers n) =
       acts n @ concat (map (\<lambda>(p, m). replicate m (Connect p)) (zip peers ms)) \<and>
     (\<forall>j < length peers. ms ! j = 0 \<longrightarrow> (\<exists>i. 0 < connsToPeerAt h i (peers ! j)))"
proof (induction peers arbitrary: n)
  case (Cons p peers)
  show ?case
  proof (cases "0 < connsToPeerAt h (asked n) p")
    case True
    obtain ms where "length ms = length peers" "list_all (\<lambda>m. m \<le> 3) ms"
      "acts (bootstrapTick h peers (ask n)) =
         acts n @ concat (map (\<lambda>(p, m). replicate m (Connect p)) (zip peers ms))"
      "\<forall>j < length peers. ms ! j = 0 \<longrightarrow> (\<exists>i. 0 < connsToPeerAt h i (peers ! j))"
      using Cons [of "ask n"] by (auto simp: ask_def)
    with True show ?thesis
      by (intro exI [of _ "0 # ms"]) (auto simp: nth_Cons split: nat.split)
  next
    case False
    obtain m where m: "m \<le> 3" "0 < m"
      "acts (reconnect h p maxRetries (ask n)) = acts n @ replicate m (Connect p)"
      using reconnect_acts [of maxRetries h p "ask n"] by (auto simp: maxRetries_def ask_def)
    obtain ms where "length ms = length peers" "list_all (\<lambda>m. m \<le> 3) ms"
      "acts (bootstrapTick h peers (reconnect h p maxRetries (ask n))) =
         (acts n @ replicate m (Connect p)) @
           concat (map (\<lambda>(p, m). replicate m (Connect p)) (zip peers ms))"
      "\<forall>j < length peers. ms ! j = 0 \<longrightarrow> (\<exists>i. 0 < connsToPeerAt h i (peers ! j))"
      using Cons [of "reconnect h p maxRetries (ask n)"] m(3) by auto
    with False m show ?thesis
      by (intro exI [of _ "m # ms"]) (auto simp: nth_Cons split: nat.split)
  qed
qed simp

theorem bootstrapTick_bounded_witness:
  "\<exists>m. 0 < m \<and> m \<le> 3 \<and>
     acts (bootstrapTick toy_host [''P''] \<lparr>asked = 0, acts = [], peerStatus = []\<rparr>) =
       replicate m (Connect ''P'')"
proof -
  obtain ms where ms: "length ms = length [''P'']" "list_all (\<lambda>m. m \<le> 3) ms"
    "acts (bootstrapTick toy_host [''P''] \<lparr>asked = 0, acts = [], peerStatus = []\<rparr>) =
       acts \<lparr>asked = 0, acts = [], peerStatus = []\<rparr> @
       concat (map (\<lambda>(p, m). replicate m (Connect p)) (zip [''P''] ms))"
    "\<forall>j < length [''P'']. ms ! j = 0 \<longrightarrow> (\<exists>i. 0 < connsToPeerAt toy_host i ([''P''] ! j))"
    using bootstrapTick_bounded [of "[''P'']" toy_host "\<lparr>asked = 0, acts = [], peerStatus = []\<rparr>"]
    by blast
  then obtain m where "ms = [m]" by (cases ms) auto
  with ms show ?thesis by (intro exI [of _ m]) (auto simp: toy_host_def)
qed

end
