(* ===== verification/Commands.thy ===== *)
theory Commands
  imports Eth "HOL-Library.Monad_Syntax"
begin

text \<open>
  The commands \<open>init\<close> and \<open>start\<close> of \<open>cmd/operator/cmd\<close>: the configuration that \<open>init\<close> writes, how it is
  read back, the flags and the environment of \<open>start\<close>, and the connections that are opened from that
  environment, \<open>internal/database\<close> and \<open>internal/goodns\<close>. The prompts, the file system and the
  libraries are parameters.
\<close>

section \<open>The command init\<close>

record chainInfo =
  ci_rpcURL :: string
  ci_registryAddr :: string
  ci_epochMgrAddr :: string
  ci_stateMgrAddr :: string
  ci_requiredConfirmations :: u16
  ci_averageBlockTime :: float64

definition chainConfigs :: "(u32, chainInfo) gomap" where
  "chainConfigs =
     [(11155111,
       \<lparr>ci_rpcURL = ''wss://ethereum-sepolia-rpc.publicnode.com'',
        ci_registryAddr = ''0xB6dE44d8F1425752CAc1103D99e59eD329F65aCF'',
        ci_epochMgrAddr = ''0x5bFB7609a51F8577D90e8576DE6e85BC7fBf08F7'',
        ci_stateMgrAddr = ''0xcc6Db3c0389128bad36796079aB336B3AfC1cF19'',
        ci_requiredConfirmations = 2, ci_averageBlockTime = Finite 12 0\<rparr>),
      (84532,
       \<lparr>ci_rpcURL = ''https://base-sepolia-rpc.publicnode.com'', ci_registryAddr = [],
        ci_epochMgrAddr = [], ci_stateMgrAddr = ''0xe8Cbc41961125A1B0F86465Ff9a6666e39104E9e'',
        ci_requiredConfirmations = 2, ci_averageBlockTime = Finite 2 0\<rparr>),
      (421614,
       \<lparr>ci_rpcURL = ''https://arbitrum-sepolia.gateway.tenderly.co'', ci_registryAddr = [],
        ci_epochMgrAddr = [], ci_stateMgrAddr = ''0xe3Ed30610de2914b45d848718d6837eF14361C41'',
        ci_requiredConfirmations = 2, ci_averageBlockTime = Finite 2 0\<rparr>)]"

text \<open>
  \<open>collectChainConfigs\<close>: the loop over the chains, in the order of the list; a prompt is answered with
  a text (the default, when nothing is typed) or an error.
\<close>

definition chainConfigOf :: "u32 \<Rightarrow> chainInfo \<Rightarrow> string \<Rightarrow> ChainConfig" where
  "chainConfigOf chainID info rpcURL =
     \<lparr>RPC = rpcURL,
      Contracts =
        (if chainID = 11155111
         then \<lparr>Registry = ci_registryAddr info, EpochManager = ci_epochMgrAddr info,
               StateManager = ci_stateMgrAddr info\<rparr>
         else \<lparr>Registry = [], EpochManager = [], StateManager = ci_stateMgrAddr info\<rparr>),
      RequiredConfirmations = ci_requiredConfirmations info,
      AverageBlockTime = ci_averageBlockTime info\<rparr>"

fun collectChainConfigs ::
  "(u32 \<Rightarrow> string \<Rightarrow> error + string) \<Rightarrow> (u32, chainInfo) gomap \<Rightarrow> (u32, ChainConfig) gomap \<Rightarrow>
     (u32, ChainConfig) gomap res" where
  "collectChainConfigs prompt [] configs = Ret configs"
| "collectChainConfigs prompt ((chainID, info) # rest) configs =
     (case prompt chainID (ci_rpcURL info) of
        Inl e \<Rightarrow> Fail e
      | Inr rpcURL \<Rightarrow>
          collectChainConfigs prompt rest
            (AList.update chainID (chainConfigOf chainID info rpcURL) configs))"

text \<open>
  The loop that collects bootstrap peers, on the answers to its prompts. \<open>None\<close> is a loop that still
  waits for an answer; an empty peer is asked for again.
\<close>

datatype answer = PeerAnswer "error + string" | MoreAnswer "error + bool"

fun collectPeers :: "answer list \<Rightarrow> string list \<Rightarrow> string list res option" where
  "collectPeers [] peers = None"
| "collectPeers (MoreAnswer _ # rest) peers = None"
| "collectPeers (PeerAnswer (Inl e) # rest) peers =
     Some (Fail (Wrap ''failed to get bootstrap peer'' e))"
| "collectPeers (PeerAnswer (Inr peer) # rest) peers =
     (if peer = [] then collectPeers rest peers
      else
        (let peers = peers @ [peer] in
         if 5 \<le> length peers then Some (Ret peers)
         else
           (case rest of
              MoreAnswer (Inl e) # _ \<Rightarrow>
                Some (Fail (Wrap ''failed to confirm adding more peers'' e))
            | MoreAnswer (Inr addMore) # rest \<Rightarrow>
                if addMore then collectPeers rest peers else Some (Ret peers)
            | _ \<Rightarrow> None)))"

text \<open>
  What is collected, and the document that is written. A document is what the YAML library marshals;
  the order of its keys does not matter.
\<close>

record ConfigAnswers =
  DeployMode :: string
  ChainConfigs :: "(u32, ChainConfig) gomap"
  IsFirstNode :: bool
  answered_BootstrapPeers :: "string list"
  DBHost :: string
  DBPort :: int
  DBUser :: string
  DBPassword :: string
  DBName :: string
  RedisHost :: string
  RedisPort :: int
  RedisPassword :: string

datatype yaml =
    YStr string
  | YInt int
  | YBool bool
  | YStrs "string list"
  | YChains "(u32, ChainConfig) gomap"
  | YMap "(string \<times> yaml) list"

type_synonym document = "(string \<times> yaml) list"

definition generateConfig :: "ConfigAnswers \<Rightarrow> document" where
  "generateConfig answers =
     [(''chains'', YChains (ChainConfigs answers))] @
     (if DeployMode answers = ''docker-compose'' then
        [(''database'', YMap
           [(''host'', YStr ''postgres''), (''port'', YInt 5432), (''username'', YStr ''spotted''),
            (''password'', YStr ''spotted''), (''dbname'', YStr ''spotted''), (''max_conns'', YInt 100),
            (''min_conns'', YInt 0), (''max_conn_life'', YStr ''6h''), (''max_conn_idle'', YStr ''1m''),
            (''is_proxy'', YBool False), (''enable_metrics'', YBool True),
            (''enable_tracing'', YBool True), (''app_name'', YStr ''spotted'')]),
         (''redis'', YMap
           [(''host'', YStr ''redis''), (''port'', YInt 6379), (''password'', YStr []),
            (''is_failover'', YBool False), (''is_elasticache'', YBool False),
            (''is_cluster_mode'', YBool False), (''cluster_max_redirects'', YInt 3),
            (''read_timeout'', YStr ''3s''), (''pool_size'', YInt 50)])]
      else
        [(''database'', YMap
           [(''host'', YStr (DBHost answers)), (''port'', YInt (DBPort answers)),
            (''username'', YStr (DBUser answers)), (''password'', YStr (DBPassword answers)),
            (''dbname'', YStr (DBName answers))]),
         (''redis'', YMap
           [(''host'', YStr (RedisHost answers)), (''port'', YInt (RedisPort answers)),
            (''password'', YStr (RedisPassword answers))])]) @
     [(''metric'', YMap [(''port'', YInt 4014)]),
      (''http'', YMap [(''port'', YInt 8080)]),
      (''p2p'', YMap
        [(''port'', YInt 10000), (''rendezvous'', YStr ''spotted-network''),
         (''bootstrap_peers'', YStrs (answered_BootstrapPeers answers))])]"

text \<open>
  \<open>runInit\<close> up to the document. The answers to the prompts for the chains, for the first node, for the
  peers, for the mode, for the database and for Redis are parameters.
\<close>

record DBAnswers =
  ans_DBHost :: string
  ans_DBPort :: int
  ans_DBUser :: string
  ans_DBPassword :: string
  ans_DBName :: string

definition runInit ::
  "(u32 \<Rightarrow> string \<Rightarrow> error + string) \<Rightarrow> error + bool \<Rightarrow> answer list \<Rightarrow> error + string \<Rightarrow>
     error + DBAnswers \<Rightarrow> error + string \<times> int \<times> string \<Rightarrow> document res option" where
  "runInit prompt firstNode peerAnswers mode database redis =
     (case collectChainConfigs prompt chainConfigs [] of
        Fail e \<Rightarrow> Some (Fail (Wrap ''failed to collect chain configs'' e))
      | Panic \<Rightarrow> Some Panic
      | Ret collected \<Rightarrow>
     (case firstNode of
        Inl e \<Rightarrow> Some (Fail (Wrap ''failed to confirm first node status'' e))
      | Inr first \<Rightarrow>
     (case (if first then Some (Ret []) else collectPeers peerAnswers []) of
        None \<Rightarrow> None
      | Some Panic \<Rightarrow> Some Panic
      | Some (Fail e) \<Rightarrow> Some (Fail e)
      | Some (Ret peers) \<Rightarrow>
          if \<not> first \<and> length peers = 0 then
            Some (Fail (Err ''at least one bootstrap peer is required for non-first nodes''))
          else
     (case mode of
        Inl e \<Rightarrow> Some (Fail (Wrap ''failed to get deployment mode'' e))
      | Inr m \<Rightarrow>
          let answers =
            \<lparr>DeployMode = m, ChainConfigs = collected, IsFirstNode = first,
             answered_BootstrapPeers = peers, DBHost = [], DBPort = 0, DBUser = [], DBPassword = [],
             DBName = [], RedisHost = [], RedisPort = 0, RedisPassword = []\<rparr> in
          if m = ''docker'' then
            (case database of
               Inl e \<Rightarrow> Some (Fail (Wrap ''failed to get database config'' e))
             | Inr d \<Rightarrow>
                 (case redis of
                    Inl e \<Rightarrow> Some (Fail (Wrap ''failed to get redis config'' e))
                  | Inr (host, port, pw) \<Rightarrow>
                      Some (Ret (generateConfig (answers\<lparr>DBHost := ans_DBHost d,
                        DBPort := ans_DBPort d, DBUser := ans_DBUser d, DBPassword := ans_DBPassword d,
                        DBName := ans_DBName d, RedisHost := host, RedisPort := port,
                        RedisPassword := pw\<rparr>)))))
          else Some (Ret (generateConfig answers))))))"

text \<open>
  The end of \<open>runInit\<close>, which writes the document: the errors of making the directory, of encoding and
  of writing are those of the libraries; the result is what was written where. And the text that
  \<open>version\<close> prints.
\<close>

definition writeConfig ::
  "error option \<Rightarrow> (document \<Rightarrow> error + string) \<Rightarrow> (string \<Rightarrow> string \<Rightarrow> error option) \<Rightarrow> document \<Rightarrow>
     (string \<times> string) res" where
  "writeConfig mkdirAll marshal writeFile config =
     (case mkdirAll of
        Some e \<Rightarrow> Fail (Wrap ''failed to create config directory'' e)
      | None \<Rightarrow>
     (let configPath = ''config/operator.yaml'' in
      case marshal config of
        Inl e \<Rightarrow> Fail (Wrap ''failed to marshal config'' e)
      | Inr data \<Rightarrow>
          (case writeFile configPath data of
             Some e \<Rightarrow> Fail (Wrap ''failed to write config file'' e)
           | None \<Rightarrow> Ret (configPath, data))))"

definition runVersion ::
  "string \<Rightarrow> string \<Rightarrow> string \<Rightarrow> string \<Rightarrow> string \<Rightarrow> string \<Rightarrow> string list" where
  "runVersion Version BuildTime CommitSHA goVersion goos goarch =
     [''Spotted Network Operator'', ''Version:    '' @ Version, ''Build Time: '' @ BuildTime,
      ''Git Commit: '' @ CommitSHA, ''Go Version: '' @ goVersion, ''OS/Arch:    '' @ goos @ ''/'' @ goarch]"

text \<open>
  How the document is read back by \<open>LoadConfig\<close>: by the \<open>yaml\<close> tags of the structures in
  \<open>pkg/config/config.go\<close>. A tag that the document lacks leaves the zero value, and a key without a tag
  is dropped. \<open>duration\<close> reads the text of a duration.
\<close>

definition entry :: "document \<Rightarrow> string \<Rightarrow> string \<Rightarrow> yaml option" where
  "entry doc sec key = (case map_of doc sec of Some (YMap m) \<Rightarrow> map_of m key | _ \<Rightarrow> None)"

definition strOf :: "yaml option \<Rightarrow> string" where
  "strOf y = (case y of Some (YStr s) \<Rightarrow> s | _ \<Rightarrow> [])"

definition intOf :: "yaml option \<Rightarrow> int" where
  "intOf y = (case y of Some (YInt n) \<Rightarrow> n | _ \<Rightarrow> 0)"

definition boolOf :: "yaml option \<Rightarrow> bool" where
  "boolOf y = (case y of Some (YBool b) \<Rightarrow> b | _ \<Rightarrow> False)"

definition strsOf :: "yaml option \<Rightarrow> string list" where
  "strsOf y = (case y of Some (YStrs ss) \<Rightarrow> ss | _ \<Rightarrow> [])"

definition durationOf :: "(string \<Rightarrow> int) \<Rightarrow> yaml option \<Rightarrow> int" where
  "durationOf duration y = (case y of Some (YStr s) \<Rightarrow> duration s | _ \<Rightarrow> 0)"

definition decodeDatabase :: "(string \<Rightarrow> int) \<Rightarrow> document \<Rightarrow> DatabaseConfig" where
  "decodeDatabase duration doc =
     (let e = entry doc ''database'' in
      \<lparr>db_AppName = strOf (e ''app_name''), db_Username = strOf (e ''username''),
       db_Password = strOf (e ''password''), db_Host = strOf (e ''host''), db_Port = intOf (e ''port''),
       db_DBName = strOf (e ''dbname''), db_MaxConns = intOf (e ''max_conns''),
       db_MinConns = intOf (e ''min_conns''),
       db_MaxConnLifetime = durationOf duration (e ''max_conn_lifetime''),
       db_MaxConnIdleTime = durationOf duration (e ''max_conn_idle_time''),
       db_IsProxy = boolOf (e ''is_proxy''), db_EnablePrometheus = boolOf (e ''enable_prometheus''),
       db_EnableTracing = boolOf (e ''enable_tracing''),
       db_ReplicaPrefixes = strsOf (e ''replica_prefixes'')\<rparr>)"

definition decodeRedis :: "(string \<Rightarrow> int) \<Rightarrow> document \<Rightarrow> RedisConfig" where
  "decodeRedis duration doc =
     (let e = entry doc ''redis'' in
      \<lparr>rd_Host = strOf (e ''host''), rd_Port = intOf (e ''port''), rd_Password = strOf (e ''password''),
       rd_IsFailover = boolOf (e ''is_failover''), rd_IsElasticache = boolOf (e ''is_elasticache''),
       rd_IsClusterMode = boolOf (e ''is_cluster_mode''), rd_ClusterAddrs = strsOf (e ''cluster_addrs''),
       rd_ClusterMaxRedirects = intOf (e ''cluster_max_redirects''),
       rd_ReadTimeout = durationOf duration (e ''read_timeout''), rd_PoolSize = intOf (e ''pool_size'')\<rparr>)"

definition decodeConfig :: "(string \<Rightarrow> int) \<Rightarrow> document \<Rightarrow> FullConfig" where
  "decodeConfig duration doc =
     \<lparr>Chains = (case map_of doc ''chains'' of
        Some (YChains cs) \<Rightarrow> map (\<lambda>(i, c). (i, Some c)) cs | _ \<Rightarrow> []),
      P2P = \<lparr>p2p_Port = intOf (entry doc ''p2p'' ''port''),
        BootstrapPeers = strsOf (entry doc ''p2p'' ''bootstrap_peers''),
        Rendezvous = strOf (entry doc ''p2p'' ''rendezvous'')\<rparr>,
      Database = decodeDatabase duration doc,
      http_Port = intOf (entry doc ''http'' ''port''), http_Host = strOf (entry doc ''http'' ''host''),
      log_Level = strOf (entry doc ''logging'' ''level''),
      log_Format = strOf (entry doc ''logging'' ''format''),
      metric_Port = intOf (entry doc ''metric'' ''port''),
      Redis = decodeRedis duration doc\<rparr>"

section \<open>The command start\<close>

record start_flags =
  cfgFile :: string
  signingKeyPath :: string
  signingKeyPriv :: string
  p2pKey :: string
  password :: string

text \<open>
  \<open>initConfig\<close> of \<open>root.go\<close>, which runs before every command: the configuration file that is used, where
  \<open>None\<close> is \<open>os.Exit\<close>.
\<close>

definition defaultConfig :: string where
  "defaultConfig = ''./config/operator.yaml''"

definition chosenConfig :: "(string \<Rightarrow> bool) \<Rightarrow> string \<Rightarrow> string option" where
  "chosenConfig exists file =
     (if file \<noteq> [] then (if exists file then Some file else None)
      else if exists defaultConfig then Some defaultConfig else Some file)"

definition validateStartFlags :: "(string \<Rightarrow> bool) \<Rightarrow> start_flags \<Rightarrow> unit res" where
  "validateStartFlags exists fl =
     (if \<not> exists (cfgFile fl) then Fail (Err ''config file not found'')
      else if signingKeyPath fl = [] \<and> signingKeyPriv fl = [] then
        Fail (Err ''either --signing-key-path or --signing-key-priv must be provided'')
      else if signingKeyPath fl \<noteq> [] \<and> signingKeyPriv fl \<noteq> [] then
        Fail (Err ''cannot use both --signing-key-path and --signing-key-priv at the same time'')
      else if signingKeyPath fl \<noteq> [] \<and> password fl = [] then
        Fail (Err ''--password is required when using --signing-key-path'')
      else if signingKeyPath fl \<noteq> [] \<and> \<not> exists (signingKeyPath fl) then
        Fail (Err ''signing key file not found'')
      else if p2pKey fl = [] then Fail (Err ''p2p-key-64 is required'')
      else Ret ())"

text \<open>The environment that \<open>runStart\<close> sets; a duration is printed by \<open>showDuration\<close>.\<close>

definition showBool :: "bool \<Rightarrow> string" where
  "showBool b = (if b then ''true'' else ''false'')"

definition redisVariables :: "(int \<Rightarrow> string) \<Rightarrow> RedisConfig \<Rightarrow> (string \<times> string) list" where
  "redisVariables showDuration c =
     [(''REDIS_HOST'', rd_Host c), (''REDIS_PORT'', big_String (rd_Port c)),
      (''REDIS_PASSWORD'', rd_Password c), (''REDIS_IS_FAILOVER'', showBool (rd_IsFailover c)),
      (''REDIS_IS_ELASTICACHE'', showBool (rd_IsElasticache c)),
      (''REDIS_IS_CLUSTER_MODE'', showBool (rd_IsClusterMode c)),
      (''REDIS_CLUSTER_MAX_REDIRECTS'', big_String (rd_ClusterMaxRedirects c)),
      (''REDIS_READ_TIMEOUT'', showDuration (rd_ReadTimeout c)),
      (''REDIS_POOL_SIZE'', big_String (rd_PoolSize c))]"

definition databaseVariables :: "(int \<Rightarrow> string) \<Rightarrow> DatabaseConfig \<Rightarrow> (string \<times> string) list" where
  "databaseVariables showDuration c =
     [(''POSTGRES_APPNAME'', db_AppName c), (''POSTGRES_USERNAME'', db_Username c),
      (''POSTGRES_PASSWORD'', db_Password c), (''POSTGRES_HOST'', db_Host c),
      (''POSTGRES_PORT'', big_String (db_Port c)), (''POSTGRES_DBNAME'', db_DBName c),
      (''POSTGRES_MAXCONNS'', big_String (db_MaxConns c)),
      (''POSTGRES_MINCONNS'', big_String (db_MinConns c)),
      (''POSTGRES_MAXCONNLIFETIME'', showDuration (db_MaxConnLifetime c)),
      (''POSTGRES_MAXCONNIDLETIME'', showDuration (db_MaxConnIdleTime c)),
      (''POSTGRES_ISPROXY'', showBool (db_IsProxy c)),
      (''POSTGRES_ENABLEPROMETHEUS'', showBool (db_EnablePrometheus c)),
      (''POSTGRES_ENABLETRACING'', showBool (db_EnableTracing c))]"

type_synonym environment = "string \<rightharpoonup> string"

definition setenv :: "(string \<times> string) list \<Rightarrow> environment \<Rightarrow> environment" where
  "setenv vs e = fold (\<lambda>(k, v) e. e(k \<mapsto> v)) vs e"

definition startEnvironment :: "(int \<Rightarrow> string) \<Rightarrow> FullConfig \<Rightarrow> environment \<Rightarrow> environment" where
  "startEnvironment showDuration cfg e =
     setenv (databaseVariables showDuration (Database cfg) @ redisVariables showDuration (Redis cfg) @
       [(''METRIC_PORT'', big_String (metric_Port cfg))]) e"

section \<open>The Redis client\<close>

text \<open>
  The configuration of the client, \<open>internal/database/cache/config.go\<close>. \<open>MustProcess\<close> looks every field
  up in the environment, takes the default where nothing is set, and panics on a text that does not
  parse: the names of the variables and the readers of texts are those of the library.
\<close>

record envlib =
  envKey :: "string \<Rightarrow> string \<Rightarrow> string"
  envInt :: "string \<Rightarrow> int option"
  envBool :: "string \<Rightarrow> bool option"
  envDuration :: "string \<Rightarrow> int option"
  envStrings :: "string \<Rightarrow> string list option"

definition setting :: "envlib \<Rightarrow> environment \<Rightarrow> string \<Rightarrow> string \<Rightarrow> string \<Rightarrow> string" where
  "setting lib e pre field dflt = (case e (envKey lib pre field) of Some v \<Rightarrow> v | None \<Rightarrow> dflt)"

record redis_Config =
  c_Host :: string
  c_Port :: int
  c_Password :: string
  c_IsFailover :: bool
  c_IsElastiCache :: bool
  c_IsClusterMode :: bool
  c_ClusterAddrs :: "string list"
  c_ClusterMaxRedirects :: int
  c_ReadTimeout :: int
  c_PoolSize :: int

definition processRedis :: "envlib \<Rightarrow> environment \<Rightarrow> string \<Rightarrow> redis_Config option" where
  "processRedis lib e pre =
     do {
       port \<leftarrow> envInt lib (setting lib e pre ''Port'' ''6379'');
       failover \<leftarrow> envBool lib (setting lib e pre ''IsFailover'' ''false'');
       elastic \<leftarrow> envBool lib (setting lib e pre ''IsElastiCache'' ''false'');
       cluster \<leftarrow> envBool lib (setting lib e pre ''IsClusterMode'' ''false'');
       addrs \<leftarrow> (case e (envKey lib pre ''ClusterAddrs'') of
         None \<Rightarrow> Some [] | Some v \<Rightarrow> envStrings lib v);
       redirects \<leftarrow> envInt lib (setting lib e pre ''ClusterMaxRedirects'' ''3'');
       timeout \<leftarrow> envDuration lib (setting lib e pre ''ReadTimeout'' ''3s'');
       pool \<leftarrow> envInt lib (setting lib e pre ''PoolSize'' ''50'');
       Some \<lparr>c_Host = setting lib e pre ''Host'' ''127.0.0.1'', c_Port = port,
         c_Password = setting lib e pre ''Password'' [], c_IsFailover = failover,
         c_IsElastiCache = elastic, c_IsClusterMode = cluster, c_ClusterAddrs = addrs,
         c_ClusterMaxRedirects = redirects, c_ReadTimeout = timeout, c_PoolSize = pool\<rparr>
     }"

text \<open>The lookup of a host, \<open>internal/goodns/goodns.go\<close>; the resolver library is a parameter.\<close>

datatype dns_rr = A_record string | Other_record

record dnslib =
  ClientConfigFromFile :: "error + string list"
  ParseIP :: "string \<Rightarrow> bool"
  Fqdn :: "string \<Rightarrow> string"
  Exchange :: "string \<Rightarrow> string \<Rightarrow> string \<Rightarrow> error + dns_rr list option"

definition JoinHostPort :: "string \<Rightarrow> string \<Rightarrow> string" where
  "JoinHostPort host port =
     (if contains host '':'' then ''['' @ host @ '']:'' @ port else host @ '':'' @ port)"

definition a_records :: "dns_rr list \<Rightarrow> string list" where
  "a_records rs = concat (map (\<lambda>r. case r of A_record ip \<Rightarrow> [ip] | Other_record \<Rightarrow> []) rs)"

definition queryA :: "dnslib \<Rightarrow> string \<Rightarrow> string option \<Rightarrow> bool \<Rightarrow> string list res" where
  "queryA d domain dnsServer useTCP =
     (let exchange = (\<lambda>server.
        case Exchange d (if useTCP then ''tcp'' else []) (Fqdn d domain) server of
          Inl e \<Rightarrow> Fail e
        | Inr None \<Rightarrow> Fail (Err ''unexpected empty dns response'')
        | Inr (Some rs) \<Rightarrow> Ret (a_records rs)) in
      case dnsServer of
        Some s \<Rightarrow> exchange (JoinHostPort s ''53'')
      | None \<Rightarrow>
          (case ClientConfigFromFile d of
             Inl _ \<Rightarrow> Fail (Err ''failed to parse /etx/resolv.conf, while server is nil'')
           | Inr [] \<Rightarrow> Panic
           | Inr (server # _) \<Rightarrow>
               exchange (if ParseIP d server then JoinHostPort server ''53''
                 else Fqdn d server @ '':53'')))"

definition LookupA :: "dnslib \<Rightarrow> string \<Rightarrow> bool \<Rightarrow> string list res" where
  "LookupA d domain useTCP = queryA d domain None useTCP"

text \<open>\<open>NewRedisClient\<close>: \<open>None\<close> is the end of the process by \<open>log.Fatal\<close>, which a failed ping causes.\<close>

datatype redis_client =
    ClusterClient "string list" int int int string
  | SingleClient string int int string bool
  | FailoverClient "string list" string int int

definition redisClient :: "dnslib \<Rightarrow> redis_Config \<Rightarrow> redis_client res" where
  "redisClient d c =
     (if c_IsClusterMode c then
        Ret (ClusterClient (c_ClusterAddrs c) (c_ClusterMaxRedirects c) (c_ReadTimeout c) (c_PoolSize c)
          (c_Password c))
      else if \<not> c_IsFailover c then
        Ret (SingleClient (c_Host c @ '':'' @ big_String (c_Port c)) (c_ReadTimeout c) (c_PoolSize c)
          (c_Password c) (c_IsElastiCache c))
      else
        (case LookupA d (c_Host c) True of
           Ret ips \<Rightarrow>
             Ret (FailoverClient (map (\<lambda>ip. ip @ '':'' @ big_String (c_Port c)) ips) (c_Password c)
               (c_PoolSize c) (c_ReadTimeout c))
         | _ \<Rightarrow> Panic))"

definition NewRedisClient ::
  "envlib \<Rightarrow> dnslib \<Rightarrow> (redis_client \<Rightarrow> bool) \<Rightarrow> environment \<Rightarrow> string \<Rightarrow> redis_client res option" where
  "NewRedisClient lib d pings e pre =
     (case processRedis lib e pre of
        None \<Rightarrow> Some Panic
      | Some c \<Rightarrow>
          (case redisClient d c of
             Ret r \<Rightarrow> if pings r then Some (Ret r) else None
           | Fail err \<Rightarrow> Some (Fail err)
           | Panic \<Rightarrow> Some Panic))"

text \<open>The cache on top of it, \<open>dcache.go\<close> and \<open>init.go\<close>; the library's constructor is a parameter.\<close>

record DCacheConfig =
  dc_ReadInterval :: int
  dc_EnableStats :: bool
  dc_EnableTrace :: bool
  dc_InMemCacheSize :: int

definition processDCache :: "envlib \<Rightarrow> environment \<Rightarrow> string \<Rightarrow> DCacheConfig option" where
  "processDCache lib e pre =
     do {
       interval \<leftarrow> envDuration lib (setting lib e pre ''ReadInterval'' ''500ms'');
       stats \<leftarrow> envBool lib (setting lib e pre ''EnableStats'' ''true'');
       trace \<leftarrow> envBool lib (setting lib e pre ''EnableTrace'' ''true'');
       sz \<leftarrow> envInt lib (setting lib e pre ''InMemCacheSize'' ''52428800'');
       Some \<lparr>dc_ReadInterval = interval, dc_EnableStats = stats, dc_EnableTrace = trace,
         dc_InMemCacheSize = sz\<rparr>
     }"

definition NewDCache ::
  "envlib \<Rightarrow> (string \<Rightarrow> DCacheConfig \<Rightarrow> error option) \<Rightarrow> environment \<Rightarrow> string \<Rightarrow> string \<Rightarrow>
     DCacheConfig res" where
  "NewDCache lib newDCache e appName pre =
     (case processDCache lib e pre of
        None \<Rightarrow> Panic
      | Some c \<Rightarrow> (case newDCache appName c of Some err \<Rightarrow> Fail err | None \<Rightarrow> Ret c))"

definition InitCache ::
  "envlib \<Rightarrow> dnslib \<Rightarrow> (redis_client \<Rightarrow> bool) \<Rightarrow> (string \<Rightarrow> DCacheConfig \<Rightarrow> error option) \<Rightarrow>
     environment \<Rightarrow> string \<Rightarrow> (redis_client \<times> DCacheConfig) res option" where
  "InitCache lib d pings newDCache e appName =
     (case NewRedisClient lib d pings e ''redis'' of
        Some (Ret r) \<Rightarrow>
          (case NewDCache lib newDCache e appName ''dcache'' of
             Ret c \<Rightarrow> Some (Ret (r, c))
           | Fail err \<Rightarrow> Some (Fail (Wrap ''failed to create dcache'' err))
           | Panic \<Rightarrow> Some Panic)
      | Some (Fail err) \<Rightarrow> Some (Fail err)
      | Some Panic \<Rightarrow> Some Panic
      | None \<Rightarrow> None)"

text \<open>
  The pool of database connections, \<open>internal/database/wpgx/pool.go\<close>: the answers of the library to
  the creation of the pool and to the pings of the primary and of every replica.
\<close>

fun pingReplicas :: "error option list \<Rightarrow> unit res" where
  "pingReplicas [] = Ret ()"
| "pingReplicas (Some err # _) = Fail err"
| "pingReplicas (None # rest) = pingReplicas rest"

definition NewWPGXPool :: "error option \<Rightarrow> error option \<Rightarrow> error option list \<Rightarrow> unit res" where
  "NewWPGXPool newPool ping replicas =
     (case newPool of
        Some err \<Rightarrow> Fail err
      | None \<Rightarrow> (case ping of Some err \<Rightarrow> Fail err | None \<Rightarrow> pingReplicas replicas))"

definition InitDB :: "error option \<Rightarrow> error option \<Rightarrow> error option list \<Rightarrow> unit res" where
  "InitDB newPool ping replicas =
     (case NewWPGXPool newPool ping replicas of
        Fail err \<Rightarrow> Fail (Wrap ''failed to create db connection pool'' err)
      | r \<Rightarrow> r)"

section \<open>From init to start\<close>

lemma collectChainConfigs_three:
  assumes "collectChainConfigs prompt chainConfigs [] = Ret cs"
  shows "\<exists>a b d. cs = [(11155111, chainConfigOf 11155111 (the (map_of chainConfigs 11155111)) a),
    (84532, chainConfigOf 84532 (the (map_of chainConfigs 84532)) b),
    (421614, chainConfigOf 421614 (the (map_of chainConfigs 421614)) d)] \<and>
    (\<exists>def. prompt 11155111 def = Inr a) \<and> (\<exists>def. prompt 84532 def = Inr b) \<and>
    (\<exists>def. prompt 421614 def = Inr d)"
  using assms by (auto simp: chainConfigs_def split: sum.splits)

lemma collectPeers_bounds:
  "collectPeers answers peers = Some (Ret ps) \<Longrightarrow> length peers < 5 \<Longrightarrow> [] \<notin> set peers \<Longrightarrow>
   ps \<noteq> [] \<and> [] \<notin> set ps \<and> length ps \<le> 5"
proof (induction answers peers rule: collectPeers.induct)
  case (4 peer rest peers)
  show ?case
  proof (cases "peer = []")
    case True
    with 4 show ?thesis by auto
  next
    case False
    then show ?thesis
      using 4 by (auto simp: Let_def split: if_splits list.splits answer.splits sum.splits)
  qed
qed auto

lemma runInit_Ret:
  assumes "runInit prompt firstNode peerAnswers mode database redis = Some (Ret doc)"
  shows "\<exists>a first. firstNode = Inr first \<and> doc = generateConfig a \<and> mode = Inr (DeployMode a) \<and>
    collectChainConfigs prompt chainConfigs [] = Ret (ChainConfigs a) \<and>
    (if first then answered_BootstrapPeers a = []
     else collectPeers peerAnswers [] = Some (Ret (answered_BootstrapPeers a)))"
proof -
  from assms obtain cs first where 1: "collectChainConfigs prompt chainConfigs [] = Ret cs"
    "firstNode = Inr first"
    unfolding runInit_def by (cases "collectChainConfigs prompt chainConfigs []"; cases firstNode) auto
  with assms obtain ps where 2: "(if first then Some (Ret []) else collectPeers peerAnswers []) = Some (Ret ps)"
    unfolding runInit_def by (auto split: option.splits res.splits)
  with assms 1 obtain m where 3: "mode = Inr m"
    unfolding runInit_def by (cases mode) (auto split: if_splits)
  show ?thesis
  proof (cases "m = ''docker''")
    case True
    with assms 1 2 3 show ?thesis
      unfolding runInit_def
      by (cases database; cases redis) (auto simp: Let_def split: if_splits)
  next
    case False
    with assms 1 2 3 show ?thesis
      unfolding runInit_def by (auto simp: Let_def split: if_splits)
  qed
qed

lemma decode_generated:
  "Chains (decodeConfig duration (generateConfig a)) = map (\<lambda>(i, c). (i, Some c)) (ChainConfigs a)"
  "P2P (decodeConfig duration (generateConfig a)) = \<lparr>p2p_Port = 10000,
     BootstrapPeers = answered_BootstrapPeers a, Rendezvous = ''spotted-network''\<rparr>"
  by (simp_all add: decodeConfig_def generateConfig_def entry_def intOf_def strOf_def strsOf_def)

lemma Redis_decodeConfig: "Redis (decodeConfig duration doc) = decodeRedis duration doc"
  by (simp add: decodeConfig_def)

lemma bootstrapPeers_parse:
  "\<forall>p \<in> set ps. \<exists>q. f p = Inr q \<Longrightarrow> \<exists>qs. bootstrapPeers f ps acc = Ret qs"
  by (induction ps arbitrary: acc) auto

lemma NewManager_generated:
  assumes "\<And>u. rpcDial r u = None" "\<And>a. rpcBindStateManager r a = None"
    "\<And>a. rpcBindEpochManager r a = None" "\<And>a. rpcBindRegistry r a = None"
    and "Chains cfg = [(11155111, Some x), (84532, Some y), (421614, Some z)]"
  shows "NewManager r cr cfg =
    Ret [(11155111, \<lparr>cl_chain = 11155111, cl_epochManager = True, cl_registry = True\<rparr>),
      (84532, \<lparr>cl_chain = 84532, cl_epochManager = False, cl_registry = False\<rparr>),
      (421614, \<lparr>cl_chain = 421614, cl_epochManager = False, cl_registry = False\<rparr>)]"
  using assms
  by (simp add: NewManager_def NewChainClient_def managerConfig_def MainnetChainID_def)


text \<open>The operator that accepts every default, with one bootstrap peer, and an endpoint that answers.\<close>

definition default_prompt :: "u32 \<Rightarrow> string \<Rightarrow> error + string" where
  "default_prompt i d = Inr (if d = [] then ''x'' else d)"


text \<open>
  What is written and not read back. The file of the docker-compose mode sets the lifetime and the
  idle time of a connection and the export of metrics, and the configuration that is loaded has none of
  the three: the keys are not the tags of the structure. The file of the docker mode leaves the size
  of both pools at zero.
\<close>

theorem init_settings_lost:
  assumes "runInit prompt firstNode peerAnswers (Inr mode) database redis = Some (Ret doc)"
  shows "db_MaxConnLifetime (Database (decodeConfig duration doc)) = 0 \<and>
    db_MaxConnIdleTime (Database (decodeConfig duration doc)) = 0 \<and>
    \<not> db_EnablePrometheus (Database (decodeConfig duration doc)) \<and>
    (mode = ''docker-compose'' \<longrightarrow>
       entry doc ''database'' ''max_conn_life'' = Some (YStr ''6h'') \<and>
       entry doc ''database'' ''max_conn_idle'' = Some (YStr ''1m'') \<and>
       entry doc ''database'' ''enable_metrics'' = Some (YBool True)) \<and>
    (mode \<noteq> ''docker-compose'' \<longrightarrow>
       db_MaxConns (Database (decodeConfig duration doc)) = 0 \<and>
       rd_PoolSize (Redis (decodeConfig duration doc)) = 0)"
proof -
  from runInit_Ret [OF assms] obtain a where "doc = generateConfig a" "mode = DeployMode a"
    by blast
  then show ?thesis
    by (cases "DeployMode a = ''docker-compose''")
      (simp_all add: decodeConfig_def decodeDatabase_def decodeRedis_def generateConfig_def entry_def
        durationOf_def boolOf_def intOf_def Let_def)
qed

theorem init_settings_lost_witness:
  "\<exists>doc. runInit default_prompt (Inr True) [] (Inr ''docker-compose'') (Inl (Err [])) (Inl (Err []))
       = Some (Ret doc) \<and>
     entry doc ''database'' ''max_conn_life'' = Some (YStr ''6h'') \<and>
     db_MaxConnLifetime (Database (decodeConfig (\<lambda>_. 21600) doc)) = 0"
proof -
  obtain doc where d: "runInit default_prompt (Inr True) [] (Inr ''docker-compose'') (Inl (Err []))
      (Inl (Err [])) = Some (Ret doc)"
    by (simp add: runInit_def chainConfigs_def default_prompt_def Let_def)
  with init_settings_lost [OF d, where duration = "\<lambda>_. 21600"] show ?thesis by simp
qed

section \<open>The environment that start sets\<close>

text \<open>How the library names a variable: the prefix and the field in upper case.\<close>

definition upper :: "string \<Rightarrow> string" where
  "upper s = map (\<lambda>c. if 97 \<le> (of_char c :: nat) \<and> (of_char c :: nat) \<le> 122
     then char_of (of_char c - 32 :: nat) else c) s"

text \<open>The variables that the client looks up and that \<open>start\<close> does not set.\<close>

definition unset_redis :: "string list" where
  "unset_redis = [''REDIS_ISFAILOVER'', ''REDIS_ISELASTICACHE'', ''REDIS_ISCLUSTERMODE'',
     ''REDIS_CLUSTERADDRS'', ''REDIS_CLUSTERMAXREDIRECTS'', ''REDIS_READTIMEOUT'', ''REDIS_POOLSIZE'']"

lemma setenv_other: "v \<notin> fst ` set vs \<Longrightarrow> setenv vs e v = e v"
  unfolding setenv_def by (induction vs arbitrary: e) auto

lemma setenv_append: "setenv (xs @ ys) e = setenv ys (setenv xs e)"
  by (simp add: setenv_def)

lemma setenv_Cons: "setenv ((k, x) # vs) e = setenv vs (e(k \<mapsto> x))"
  by (simp add: setenv_def)

definition redisNames :: "string list" where
  "redisNames = [''REDIS_HOST'', ''REDIS_PORT'', ''REDIS_PASSWORD'', ''REDIS_IS_FAILOVER'',
     ''REDIS_IS_ELASTICACHE'', ''REDIS_IS_CLUSTER_MODE'', ''REDIS_CLUSTER_MAX_REDIRECTS'',
     ''REDIS_READ_TIMEOUT'', ''REDIS_POOL_SIZE'']"

lemma names:
  "fst ` set (redisVariables sd c) = set redisNames"
  "v \<in> fst ` set (databaseVariables sd db) \<Longrightarrow> take 9 v = ''POSTGRES_''"
  by (auto simp: redisVariables_def redisNames_def databaseVariables_def)

lemma unset_names:
  assumes "v \<in> set unset_redis"
  shows "v \<notin> set redisNames \<and> take 9 v \<noteq> ''POSTGRES_'' \<and> v \<noteq> ''METRIC_PORT''"
proof -
  have "list_all (\<lambda>v. v \<notin> set redisNames \<and> take 9 v \<noteq> ''POSTGRES_'' \<and> v \<noteq> ''METRIC_PORT'') unset_redis"
    by code_simp
  with assms show ?thesis by (simp add: list_all_iff)
qed

lemma startEnvironment_redis:
  "startEnvironment sd cfg e ''REDIS_HOST'' = Some (rd_Host (Redis cfg))"
  "startEnvironment sd cfg e ''REDIS_PORT'' = Some (big_String (rd_Port (Redis cfg)))"
  "startEnvironment sd cfg e ''REDIS_PASSWORD'' = Some (rd_Password (Redis cfg))"
  by (simp_all add: startEnvironment_def setenv_append setenv_Cons redisVariables_def setenv_other)

lemma startEnvironment_unset:
  assumes "v \<in> set unset_redis"
  shows "startEnvironment sd cfg e v = e v"
proof -
  note v = unset_names [OF assms]
  have db: "v \<notin> fst ` set (databaseVariables sd (Database cfg))"
    using v names(2) by blast
  have rd: "v \<notin> fst ` set (redisVariables sd (Redis cfg))"
    using v unfolding names(1) by blast
  have m: "v \<notin> fst ` set [(''METRIC_PORT'', big_String (metric_Port cfg))]"
    using v by simp
  show ?thesis
    by (simp only: startEnvironment_def setenv_append setenv_other [OF m] setenv_other [OF rd]
        setenv_other [OF db])
qed

text \<open>
  The Redis settings of the configuration file that never reach the client. \<open>start\<close> exports them as
  \<open>REDIS_IS_FAILOVER\<close>, \<open>REDIS_IS_CLUSTER_MODE\<close>, \<open>REDIS_POOL_SIZE\<close> and so on, while the client looks up
  \<open>REDIS_ISFAILOVER\<close>, \<open>REDIS_ISCLUSTERMODE\<close>, \<open>REDIS_POOLSIZE\<close>. Unless the environment already has those,
  the client connects to the single configured host without TLS, with the default timeout and pool size,
  whatever the file says about failover, cluster mode, ElastiCache, timeout and pool size.
\<close>

theorem redis_settings_ignored:
  assumes "\<And>p f. envKey lib p f = upper p @ ''_'' @ upper f"
    and "\<And>n. envInt lib (big_String n) = Some n"
    and "envInt lib ''3'' = Some 3" "envInt lib ''50'' = Some 50" "envBool lib ''false'' = Some False"
      "envDuration lib ''3s'' = Some 3000000000"
    and "\<And>v. v \<in> set unset_redis \<Longrightarrow> e v = None"
    and "\<And>c. pings c"
  shows "NewRedisClient lib d pings (startEnvironment sd cfg e) ''redis'' =
    Some (Ret (SingleClient (rd_Host (Redis cfg) @ '':'' @ big_String (rd_Port (Redis cfg)))
      3000000000 50 (rd_Password (Redis cfg)) False))"
proof -
  have keys: "envKey lib ''redis'' ''Host'' = ''REDIS_HOST''" "envKey lib ''redis'' ''Port'' = ''REDIS_PORT''"
    "envKey lib ''redis'' ''Password'' = ''REDIS_PASSWORD''"
    "envKey lib ''redis'' ''IsFailover'' = ''REDIS_ISFAILOVER''"
    "envKey lib ''redis'' ''IsElastiCache'' = ''REDIS_ISELASTICACHE''"
    "envKey lib ''redis'' ''IsClusterMode'' = ''REDIS_ISCLUSTERMODE''"
    "envKey lib ''redis'' ''ClusterAddrs'' = ''REDIS_CLUSTERADDRS''"
    "envKey lib ''redis'' ''ClusterMaxRedirects'' = ''REDIS_CLUSTERMAXREDIRECTS''"
    "envKey lib ''redis'' ''ReadTimeout'' = ''REDIS_READTIMEOUT''"
    "envKey lib ''redis'' ''PoolSize'' = ''REDIS_POOLSIZE''"
    unfolding assms(1) by code_simp+
  have unset: "\<And>v. v \<in> set unset_redis \<Longrightarrow> startEnvironment sd cfg e v = None"
    using assms(7) by (simp add: startEnvironment_unset)
  have "processRedis lib (startEnvironment sd cfg e) ''redis'' =
    Some \<lparr>c_Host = rd_Host (Redis cfg), c_Port = rd_Port (Redis cfg),
      c_Password = rd_Password (Redis cfg), c_IsFailover = False, c_IsElastiCache = False,
      c_IsClusterMode = False, c_ClusterAddrs = [], c_ClusterMaxRedirects = 3,
      c_ReadTimeout = 3000000000, c_PoolSize = 50\<rparr>"
    using unset
    by (simp add: processRedis_def setting_def keys startEnvironment_redis assms(2-6) unset_redis_def)
  then show ?thesis
    by (simp add: NewRedisClient_def redisClient_def assms(8))
qed

text \<open>The library, with decimal numbers, and a file that asks for a cluster with a pool of 7.\<close>

definition toy_envlib :: envlib where
  "toy_envlib = \<lparr>envKey = (\<lambda>p f. upper p @ ''_'' @ upper f), envInt = big_SetString10,
     envBool = (\<lambda>s. if s = ''true'' then Some True else if s = ''false'' then Some False else None),
     envDuration = (\<lambda>s. if s = ''3s'' then Some 3000000000 else None),
     envStrings = (\<lambda>s. Some [s])\<rparr>"

definition toy_config :: FullConfig where
  "toy_config = decodeConfig (\<lambda>_. 0)
     [(''redis'', YMap [(''host'', YStr ''redis''), (''port'', YInt 63),
        (''is_cluster_mode'', YBool True), (''pool_size'', YInt 7)])]"

theorem redis_settings_ignored_witness:
  "rd_IsClusterMode (Redis toy_config) \<and> rd_PoolSize (Redis toy_config) = 7 \<and>
   NewRedisClient toy_envlib \<lparr>ClientConfigFromFile = Inl (Err []), ParseIP = (\<lambda>_. True), Fqdn = id,
       Exchange = (\<lambda>_ _ _. Inr None)\<rparr> (\<lambda>_. True)
     (startEnvironment (\<lambda>_. ''3s'') toy_config Map.empty) ''redis'' =
     Some (Ret (SingleClient ''redis:63'' 3000000000 50 [] False))"
proof -
  have r: "rd_Host (Redis toy_config) = ''redis''" "rd_Port (Redis toy_config) = 63"
    "rd_Password (Redis toy_config) = []" "rd_IsClusterMode (Redis toy_config)"
    "rd_PoolSize (Redis toy_config) = 7"
    by (simp_all add: toy_config_def Redis_decodeConfig decodeRedis_def entry_def strOf_def intOf_def
        boolOf_def)
  have p: "big_String 63 = ''63''" by code_simp
  have s: "big_SetString10 ''3'' = Some 3" "big_SetString10 ''50'' = Some 50" by code_simp+
  have lib: "envKey toy_envlib = (\<lambda>p f. upper p @ ''_'' @ upper f)" "envInt toy_envlib = big_SetString10"
    "envBool toy_envlib ''false'' = Some False" "envDuration toy_envlib ''3s'' = Some 3000000000"
    by (simp_all add: toy_envlib_def)
  have "NewRedisClient toy_envlib d (\<lambda>_. True) (startEnvironment (\<lambda>_. ''3s'') toy_config Map.empty) ''redis'' =
      Some (Ret (SingleClient (rd_Host (Redis toy_config) @ '':'' @ big_String (rd_Port (Redis toy_config)))
        3000000000 50 (rd_Password (Redis toy_config)) False))" for d
    by (rule redis_settings_ignored) (simp_all only: lib big_SetString10_String s)
  with r p show ?thesis by simp
qed

end
