(* ===== verification/Startup.thy ===== *)
theory Startup
  imports OperatorNode Peers Commands
begin

text \<open>
  How the services of a node are wired, \<open>cmd/operator/app/app.go\<close>, and the command \<open>start\<close> that runs
  them. The libraries that open connections are parameters; their answers are the record \<open>libs\<close>.
\<close>

record libs =
  readFile :: "string \<Rightarrow> error + string"
  expandEnv :: "string \<Rightarrow> string"
  yamlUnmarshal :: "string \<Rightarrow> error + FullConfig"
  addrInfo :: "string \<Rightarrow> error + peer_id"
  dbNewPool :: "error option"
  dbPing :: "error option"
  dbReplicas :: "error option list"
  envReader :: envlib
  resolver :: dnslib
  redisPings :: "redis_client \<Rightarrow> bool"
  dcacheNew :: "string \<Rightarrow> DCacheConfig \<Rightarrow> error option"
  ConfigDecodeKey :: "string \<Rightarrow> error + bytes"
  UnmarshalPrivateKey :: "bytes \<Rightarrow> error + bytes"
  libp2pNew :: "bytes \<Rightarrow> error option"
  dhtNew :: "peer_id list \<Rightarrow> error option"
  dhtBootstrap :: "error option"
  gossipSub :: "error option"
  joinTopic :: "error option"
  subscribeTopic :: "error option"

definition wrapped :: "string \<Rightarrow> 'a res \<Rightarrow> 'a res" where
  "wrapped msg r = (case r of Fail e \<Rightarrow> Fail (Wrap msg e) | _ \<Rightarrow> r)"

lemma wrapped_Ret [simp]: "wrapped msg r = Ret x \<longleftrightarrow> r = Ret x"
  by (cases r) (simp_all add: wrapped_def)

section \<open>The services\<close>

definition initConfig :: "libs \<Rightarrow> FullConfig res" where
  "initConfig l =
     wrapped ''failed to load config''
       (LoadConfig (readFile l) (expandEnv l) (yamlUnmarshal l) (addrInfo l) ''config/operator.yaml'')"

definition signerConfig :: "bool \<Rightarrow> string \<Rightarrow> string \<Rightarrow> signer_Config" where
  "signerConfig isKeyPath signingKey pw =
     (if isKeyPath then \<lparr>SigningKeyPath = signingKey, SigningKey = [], Password = pw\<rparr>
      else \<lparr>SigningKeyPath = [], SigningKey = signingKey, Password = []\<rparr>)"

definition initSigner :: "crypto \<Rightarrow> bool \<Rightarrow> string \<Rightarrow> string \<Rightarrow> privkey res" where
  "initSigner cr isKeyPath signingKey pw =
     wrapped ''failed to initialize signer''
       (NewLocalSigner cr (Some (signerConfig isKeyPath signingKey pw)))"

text \<open>\<open>None\<close> is the end of the process by \<open>log.Fatal\<close>.\<close>

definition initDatabase :: "libs \<Rightarrow> environment \<Rightarrow> (redis_client \<times> DCacheConfig) res option" where
  "initDatabase l e =
     (case NewWPGXPool (dbNewPool l) (dbPing l) (dbReplicas l) of
        Fail err \<Rightarrow> Some (Fail (Wrap ''failed to connect to database'' err))
      | Panic \<Rightarrow> Some Panic
      | Ret _ \<Rightarrow>
          map_option (wrapped ''failed to initialize cache'')
            (InitCache (envReader l) (resolver l) (redisPings l) (dcacheNew l) e ''operator''))"

definition initChainManagerAndMainnetClient ::
  "rpc \<Rightarrow> crypto \<Rightarrow> FullConfig \<Rightarrow> (chainManager \<times> chainClient) res" where
  "initChainManagerAndMainnetClient r cr cfg =
     (case NewManager r cr cfg of
        Fail e \<Rightarrow> Fail (Wrap ''failed to initialize chain manager'' e)
      | Panic \<Rightarrow> Panic
      | Ret m \<Rightarrow>
          (case GetMainnetClient m of
             Fail e \<Rightarrow> Fail (Wrap ''failed to create mainnet client'' e)
           | Panic \<Rightarrow> Panic
           | Ret c \<Rightarrow> Ret (m, c)))"

definition initEventListener :: "unit res" where
  "initEventListener = wrapped ''failed to create event listener'' (NewEventListener (Some (True, True)))"

definition initGater :: "unit res" where
  "initGater = wrapped ''failed to create gater'' (NewConnectionGater (Some (True, True)))"

text \<open>\<open>Base64ToPrivKey\<close> of \<open>pkg/common/crypto/signer/signer.go\<close>; a decoded key is its bytes.\<close>

definition Base64ToPrivKey :: "libs \<Rightarrow> string \<Rightarrow> bytes res" where
  "Base64ToPrivKey l encodedKey =
     (case ConfigDecodeKey l encodedKey of
        Inl e \<Rightarrow> Fail (Wrap ''failed to decode base64 key'' e)
      | Inr privKeyBytes \<Rightarrow>
          (case UnmarshalPrivateKey l privKeyBytes of
             Inl e \<Rightarrow> Fail (Wrap ''failed to unmarshal private key'' e)
           | Inr privKey \<Rightarrow> Ret privKey))"

definition initNode :: "libs \<Rightarrow> string \<Rightarrow> FullConfig \<Rightarrow> peer_id list res" where
  "initNode l p2pKey64 cfg =
     (case Base64ToPrivKey l p2pKey64 of
        Fail e \<Rightarrow> Fail (Wrap ''failed to load P2P key'' e)
      | Panic \<Rightarrow> Panic
      | Ret privKey \<Rightarrow>
     (case libp2pNew l privKey of
        Some e \<Rightarrow> Fail (Wrap ''failed to create host'' e)
      | None \<Rightarrow>
     (case GetBootstrapPeers (addrInfo l) (P2P cfg) of
        Fail e \<Rightarrow> Fail (Wrap ''failed to create bootstrap peers'' e)
      | Panic \<Rightarrow> Panic
      | Ret peers \<Rightarrow>
     (case NewNode (dhtNew l) (dhtBootstrap l)
             (Some \<lparr>has_Host = True, node_BootstrapPeers = peers,
                RendezvousString = Rendezvous (P2P cfg)\<rparr>) of
        Fail e \<Rightarrow> Fail (Wrap ''failed to create operator node'' e)
      | Panic \<Rightarrow> Panic
      | Ret _ \<Rightarrow> Ret peers))))"

definition initEpochUpdator :: "(EpochState \<times> u32) res" where
  "initEpochUpdator =
     wrapped ''failed to create epoch updator''
       (NewEpochUpdator (Some \<lparr>has_epoch_OperatorRepo = True, has_epoch_MainnetClient = True,
          has_TxManager = True\<rparr>))"

text \<open>As above, \<open>None\<close> is \<open>log.Fatalf\<close>, when the topic cannot be joined or subscribed to.\<close>

definition initTaskProcessor :: "libs \<Rightarrow> TaskResponseTrack res option" where
  "initTaskProcessor l =
     (case gossipSub l of
        Some e \<Rightarrow> Some (Fail (Wrap ''failed to create gossipsub'' e))
      | None \<Rightarrow>
          if joinTopic l \<noteq> None \<or> subscribeTopic l \<noteq> None then None
          else
            Some (wrapped ''failed to create task processor''
              (NewTaskProcessor (Some \<lparr>has_Signer = True, has_EpochStateQuerier = True,
                 has_TaskRepo = True, has_OperatorRepo = True, has_ConsensusResponseRepo = True,
                 has_BlacklistRepo = True, has_ChainManager = True, has_ResponseTopic = True\<rparr>))))"

definition initAPI :: "unit res" where
  "initAPI =
     wrapped ''failed to create API handler''
       (NewHandler \<lparr>has_api_TaskProcessor = True, has_api_ChainManager = True,
          has_api_TaskRepo = True, has_api_ConsensusResponseRepo = True\<rparr>)"

text \<open>
  \<open>initHealthChecker\<close> checks the peers once and then, by its \<open>defer\<close>, ends the context of the service:
  the loop that it started receives nothing but the end.
\<close>

definition initHealthChecker :: "host \<Rightarrow> Net \<Rightarrow> unit res \<times> Net" where
  "initHealthChecker h n =
     (case NewHealthChecker True True of
        Ret _ \<Rightarrow> (Ret (), health_start h [False] (snd (TriggerCheck h n)))
      | r \<Rightarrow> (wrapped ''failed to create health checker'' r, n))"

section \<open>Run and start\<close>

text \<open>What a start ends with; \<open>Running\<close> is the process that waits, \<open>Exited\<close> a \<open>log.Fatal\<close>.\<close>

datatype startup = Running privkey redis_client World | Failed error | Crashed | Exited

definition step :: "string \<Rightarrow> 'a res \<Rightarrow> ('a \<Rightarrow> startup) \<Rightarrow> startup" where
  "step msg r k =
     (case r of Ret x \<Rightarrow> k x | Fail e \<Rightarrow> Failed (Wrap msg e) | Panic \<Rightarrow> Crashed)"

definition step' :: "string \<Rightarrow> 'a res option \<Rightarrow> ('a \<Rightarrow> startup) \<Rightarrow> startup" where
  "step' msg r k = (case r of Some x \<Rightarrow> step msg x k | None \<Rightarrow> Exited)"

definition no_contacts :: Net where
  "no_contacts = \<lparr>asked = 0, acts = [], peerStatus = []\<rparr>"

definition Run ::
  "libs \<Rightarrow> env \<Rightarrow> host \<Rightarrow> environment \<Rightarrow> bool \<Rightarrow> string \<Rightarrow> string \<Rightarrow> string \<Rightarrow> World \<Rightarrow> startup" where
  "Run l env h e isKeyPath signingKey p2pKey64 pw tables =
     step ''failed to load config'' (initConfig l) (\<lambda>cfg.
     step ''failed to initialize signer'' (initSigner (crp env) isKeyPath signingKey pw) (\<lambda>key.
     step' ''failed to initialize database'' (initDatabase l e) (\<lambda>(redis, dcache).
     step ''failed to initialize chain manager and mainnet client''
       (initChainManagerAndMainnetClient (rpcp env) (crp env) cfg) (\<lambda>(m, mainnet).
     step ''failed to initialize event listener'' initEventListener (\<lambda>_.
     step ''failed to initialize gater'' initGater (\<lambda>_.
     step ''failed to initialize node'' (initNode l p2pKey64 cfg) (\<lambda>_.
     step ''failed to initialize epoch updator'' initEpochUpdator (\<lambda>(state, processed).
     step' ''failed to initialize task processor'' (initTaskProcessor l) (\<lambda>track.
     step ''failed to initialize API'' initAPI (\<lambda>_.
     step ''failed to initialize health checker'' (fst (initHealthChecker h no_contacts)) (\<lambda>_.
       Running key redis (tables\<lparr>currentEpochState := state, lastProcessedEpoch := processed,
         taskResponseTrack := track, manager := m, published := []\<rparr>))))))))))))"

text \<open>
  \<open>start\<close> without a signal: the flags are checked, the file named by \<open>--config\<close> sets the environment,
  and \<open>Run\<close> goes on with it.
\<close>

definition runStart ::
  "libs \<Rightarrow> env \<Rightarrow> host \<Rightarrow> (string \<Rightarrow> bool) \<Rightarrow> (int \<Rightarrow> string) \<Rightarrow> start_flags \<Rightarrow> environment \<Rightarrow> World \<Rightarrow>
     startup" where
  "runStart l env h exists showDuration fl e tables =
     (case chosenConfig exists (cfgFile fl) of
        None \<Rightarrow> Exited
      | Some path \<Rightarrow>
     (case validateStartFlags exists (fl\<lparr>cfgFile := path\<rparr>) of
        Fail err \<Rightarrow> Failed err
      | Panic \<Rightarrow> Crashed
      | Ret _ \<Rightarrow>
     (case LoadConfig (readFile l) (expandEnv l) (yamlUnmarshal l) (addrInfo l) path of
        Fail err \<Rightarrow> Failed (Wrap ''failed to load config'' err)
      | Panic \<Rightarrow> Crashed
      | Ret cfg \<Rightarrow>
          (let isKeyPath = signingKeyPath fl \<noteq> [];
               signingKey = (if isKeyPath then signingKeyPath fl else signingKeyPriv fl) in
           case Run l env h (startEnvironment showDuration cfg e) isKeyPath signingKey (p2pKey fl)
                  (password fl) tables of
             Failed err \<Rightarrow> Failed (Wrap ''application error'' err)
           | r \<Rightarrow> r))))"

section \<open>What a node that has started relies on\<close>

lemma step_Running:
  "step msg r k = Running key rc w \<longleftrightarrow> (\<exists>x. r = Ret x \<and> k x = Running key rc w)"
  by (cases r) (auto simp: step_def)

lemma step'_Running:
  "step' msg r k = Running key rc w \<longleftrightarrow> (\<exists>x. r = Some (Ret x) \<and> k x = Running key rc w)"
  by (cases r) (auto simp: step'_def step_Running)

lemma LoadConfig_valid:
  assumes "LoadConfig rf ex um ai path = Ret cfg"
  shows "validate ai cfg = Ret ()"
  using assms by (auto simp: LoadConfig_def split: sum.splits res.splits)

lemma Run_Running:
  assumes "Run l env h e isKeyPath signingKey p2pKey64 pw tables = Running key rc w"
  shows "\<exists>cfg c m. initConfig l = Ret cfg \<and> initSigner (crp env) isKeyPath signingKey pw = Ret key \<and>
    NewManager (rpcp env) (crp env) cfg = Ret m \<and> GetMainnetClient m = Ret c \<and>
    (\<exists>dc. initDatabase l e = Some (Ret (rc, dc))) \<and>
    w = tables\<lparr>currentEpochState := initialEpochState, lastProcessedEpoch := 0,
      taskResponseTrack := newTrack, manager := m, published := []\<rparr>"
proof -
  from assms obtain cfg dc m c where *: "initConfig l = Ret cfg"
    "initSigner (crp env) isKeyPath signingKey pw = Ret key" "initDatabase l e = Some (Ret (rc, dc))"
    "initChainManagerAndMainnetClient (rpcp env) (crp env) cfg = Ret (m, c)"
    "w = tables\<lparr>currentEpochState := initialEpochState, lastProcessedEpoch := 0,
      taskResponseTrack := newTrack, manager := m, published := []\<rparr>"
    by (auto simp: Run_def step_Running step'_Running initTaskProcessor_def initEpochUpdator_def
        NewEpochUpdator_def NewTaskProcessor_def split: option.splits if_splits)
  have "NewManager (rpcp env) (crp env) cfg = Ret m" "GetMainnetClient m = Ret c"
    using *(4) by (auto simp: initChainManagerAndMainnetClient_def split: res.splits)
  with * show ?thesis by blast
qed

lemma runStart_Running:
  assumes "runStart l env h exists sd fl e tables = Running key rc w"
  shows "\<exists>path cfg'. chosenConfig exists (cfgFile fl) = Some path \<and>
    validateStartFlags exists (fl\<lparr>cfgFile := path\<rparr>) = Ret () \<and>
    LoadConfig (readFile l) (expandEnv l) (yamlUnmarshal l) (addrInfo l) path = Ret cfg' \<and>
    Run l env h (startEnvironment sd cfg' e) (signingKeyPath fl \<noteq> [])
      (if signingKeyPath fl \<noteq> [] then signingKeyPath fl else signingKeyPriv fl) (p2pKey fl)
      (password fl) tables = Running key rc w"
  using assms by (auto simp: runStart_def Let_def split: res.splits startup.splits option.splits)

text \<open>
  C24. What holds once a node has started. If \<open>start\<close> gets to the waiting process, the configuration
  \<open>config/operator.yaml\<close> was validated, the chain manager has exactly its chains, and the client of the
  main chain is among them and has the registry and the epoch manager, so that neither the epoch
  updator nor the listener meets a nil contract. The tables are those of the database, nothing is
  tracked yet, the epoch state is the initial one, and the invariant that every step of the node keeps
  holds if the tables are well formed. The file chosen by \<open>--config\<close> decides only the connections: its
  values reach the database and Redis through the environment, and its chains are not used.
\<close>

theorem start_running:
  assumes "runStart l env h exists sd fl e tables = Running key rc w"
  shows "\<exists>cfg c. initConfig l = Ret cfg \<and> validate (addrInfo l) cfg = Ret () \<and>
    NewManager (rpcp env) (crp env) cfg = Ret (manager w) \<and>
    set (ListChains (manager w)) = fst ` set (Chains cfg) \<and>
    GetMainnetClient (manager w) = Ret c \<and> cl_registry c \<and> cl_epochManager c \<and>
    consensus_rows w = consensus_rows tables \<and> operators_rows w = operators_rows tables \<and>
    tasks_rows w = tasks_rows tables \<and> blacklist_rows w = blacklist_rows tables \<and>
    taskResponseTrack w = newTrack \<and> currentEpochState w = initialEpochState \<and>
    (db_ok tables \<longrightarrow> proc_inv env w) \<and>
    (\<exists>path cfg' dc. chosenConfig exists (cfgFile fl) = Some path \<and>
       LoadConfig (readFile l) (expandEnv l) (yamlUnmarshal l) (addrInfo l) path = Ret cfg' \<and>
       initDatabase l (startEnvironment sd cfg' e) = Some (Ret (rc, dc)))"
proof -
  from runStart_Running [OF assms] obtain path cfg' where cfg':
    "chosenConfig exists (cfgFile fl) = Some path"
    "LoadConfig (readFile l) (expandEnv l) (yamlUnmarshal l) (addrInfo l) path = Ret cfg'"
    and run: "Run l env h (startEnvironment sd cfg' e) (signingKeyPath fl \<noteq> [])
      (if signingKeyPath fl \<noteq> [] then signingKeyPath fl else signingKeyPriv fl) (p2pKey fl)
      (password fl) tables = Running key rc w" by blast
  from Run_Running [OF run] obtain cfg c m dc where r: "initConfig l = Ret cfg"
    "NewManager (rpcp env) (crp env) cfg = Ret m" "GetMainnetClient m = Ret c"
    "initDatabase l (startEnvironment sd cfg' e) = Some (Ret (rc, dc))"
    and w: "w = tables\<lparr>currentEpochState := initialEpochState, lastProcessedEpoch := 0,
      taskResponseTrack := newTrack, manager := m, published := []\<rparr>" by blast
  have valid: "validate (addrInfo l) cfg = Ret ()"
    using r(1) LoadConfig_valid by (auto simp: initConfig_def)
  have ok: "manager_ok m" "dom (map_of m) = fst ` set (Chains cfg)"
    using addChains_ok [OF r(2) [unfolded NewManager_def]] by (simp_all add: manager_ok_def)
  have "cl_registry c \<and> cl_epochManager c"
    using manager_ok_client [OF ok(1) r(3) [unfolded GetMainnetClient_def]] by simp
  with valid r ok cfg' show ?thesis
    by (intro exI [of _ cfg] exI [of _ c]) (simp add: w ListChains_def proc_inv_def db_ok_def)
qed

text \<open>A library that opens every connection, a file with the main chain, and flags with a private key.\<close>

definition toy_start_config :: FullConfig where
  "toy_start_config = decodeConfig (\<lambda>_. 0)
     [(''chains'', YChains [(11155111, chainConfigOf 11155111 \<lparr>ci_rpcURL = [], ci_registryAddr = ''a'',
         ci_epochMgrAddr = ''b'', ci_stateMgrAddr = ''c'', ci_requiredConfirmations = 2,
         ci_averageBlockTime = Finite 12 0\<rparr> ''wss'')]),
      (''p2p'', YMap [(''rendezvous'', YStr ''x'')])]"

definition toy_libs :: libs where
  "toy_libs =
     \<lparr>readFile = (\<lambda>_. Inr []), expandEnv = id, yamlUnmarshal = (\<lambda>_. Inr toy_start_config), addrInfo = Inr,
      dbNewPool = None, dbPing = None, dbReplicas = [],
      envReader = \<lparr>envKey = (\<lambda>_ f. f), envInt = (\<lambda>_. Some 1), envBool = (\<lambda>_. Some False),
        envDuration = (\<lambda>_. Some 1), envStrings = (\<lambda>_. Some [])\<rparr>,
      resolver = \<lparr>ClientConfigFromFile = Inl (Err []), ParseIP = (\<lambda>_. True), Fqdn = id,
        Exchange = (\<lambda>_ _ _. Inr None)\<rparr>,
      redisPings = (\<lambda>_. True), dcacheNew = (\<lambda>_ _. None), ConfigDecodeKey = (\<lambda>_. Inr [1]),
      UnmarshalPrivateKey = Inr, libp2pNew = (\<lambda>_. None), dhtNew = (\<lambda>_. None), dhtBootstrap = None,
      gossipSub = None, joinTopic = None, subscribeTopic = None\<rparr>"

definition toy_flags :: start_flags where
  "toy_flags = \<lparr>cfgFile = ''operator.yaml'', signingKeyPath = [], signingKeyPriv = ''0x01'',
     p2pKey = ''AQ=='', password = []\<rparr>"

lemma toy_start:
  "Chains toy_start_config = [(11155111, Some \<lparr>RPC = ''wss'', Contracts = \<lparr>Registry = ''a'',
     EpochManager = ''b'', StateManager = ''c''\<rparr>, RequiredConfirmations = 2,
     AverageBlockTime = Finite 12 0\<rparr>)]"
  "P2P toy_start_config = \<lparr>p2p_Port = 0, BootstrapPeers = [], Rendezvous = ''x''\<rparr>"
  by (simp_all add: toy_start_config_def decodeConfig_def chainConfigOf_def entry_def intOf_def
      strOf_def strsOf_def)

lemma toy_start_valid: "validate f toy_start_config = Ret ()"
  by (simp add: validate_Ret toy_start validateChain_def f64_le_zero_def)

lemma toy_start_loads: "LoadConfig rf id (\<lambda>_. Inr toy_start_config) f p =
  (case rf p of Inl e \<Rightarrow> Fail (Wrap ''failed to read config file'' e) | Inr _ \<Rightarrow> Ret toy_start_config)"
  by (simp add: LoadConfig_def toy_start_valid split: sum.split)

lemma toy_Run: "\<exists>rc w. Run toy_libs toy_env h e False ''0x01'' pk [] tables = Running [1] rc w"
proof -
  have man: "NewManager (rpcp toy_env) (crp toy_env) toy_start_config = Ret
      [(11155111, \<lparr>cl_chain = 11155111, cl_epochManager = True, cl_registry = True\<rparr>)]"
    by (simp add: NewManager_def toy_start NewChainClient_def managerConfig_def MainnetChainID_def
        toy_env_def toy_rpc_def)
  have chain: "\<exists>m c. initChainManagerAndMainnetClient (rpcp toy_env) (crp toy_env) toy_start_config = Ret (m, c)"
    unfolding initChainManagerAndMainnetClient_def man
    by (simp add: GetMainnetClient_def GetClientByChainId_def MainnetChainID_def)
  have key: "initSigner (crp toy_env) False ''0x01'' [] = Ret [1]"
    by (simp add: initSigner_def wrapped_def NewLocalSigner_def signerConfig_def toy_env_def
        toy_crypto_def TrimPrefix_def digit_val_def)
  have db: "\<exists>rc dc. initDatabase toy_libs e' = Some (Ret (rc, dc))" for e'
    by (simp add: initDatabase_def toy_libs_def NewWPGXPool_def InitCache_def NewRedisClient_def
        processRedis_def redisClient_def NewDCache_def processDCache_def wrapped_def
        split: option.split)
  have cfg: "initConfig toy_libs = Ret toy_start_config"
    by (simp add: initConfig_def toy_libs_def toy_start_loads)
  have node: "initNode toy_libs p toy_start_config = Ret []" for p
    by (simp add: initNode_def Base64ToPrivKey_def toy_libs_def GetBootstrapPeers_def toy_start
        NewNode_def initDHT_def)
  have task: "initTaskProcessor toy_libs = Some (Ret newTrack)"
    by (simp add: initTaskProcessor_def toy_libs_def NewTaskProcessor_def)
  have rest: "initEventListener = Ret ()" "initGater = Ret ()" "initAPI = Ret ()"
      "fst (initHealthChecker h n) = Ret ()" "initEpochUpdator = Ret (initialEpochState, 0)" for n
    by (simp_all add: initEventListener_def NewEventListener_def initGater_def NewConnectionGater_def
        initAPI_def NewHandler_def initHealthChecker_def NewHealthChecker_def initEpochUpdator_def
        NewEpochUpdator_def)
  show ?thesis
    using chain db [of e] key
    by (auto simp: Run_def step_Running step'_Running cfg node task rest)
qed

lemma toy_start_runs:
  "\<exists>rc w. runStart toy_libs toy_env h (\<lambda>_. True) sd toy_flags e tables = Running [1] rc w"
proof -
  obtain rc w where run: "Run toy_libs toy_env h (startEnvironment sd toy_start_config e) False
      ''0x01'' ''AQ=='' [] tables = Running [1] rc w"
    using toy_Run [of h "startEnvironment sd toy_start_config e" "''AQ==''" tables] by blast
  have load: "LoadConfig (readFile toy_libs) (expandEnv toy_libs) (yamlUnmarshal toy_libs)
      (addrInfo toy_libs) p = Ret toy_start_config" for p
    by (simp add: toy_libs_def toy_start_loads)
  show ?thesis
    by (simp add: runStart_def chosenConfig_def validateStartFlags_def toy_flags_def load run)
qed

theorem start_running_witness:
  "\<exists>rc w c. runStart toy_libs toy_env toy_host (\<lambda>_. True) (\<lambda>_. ''0s'') toy_flags Map.empty toy_world =
       Running [1] rc w \<and> GetMainnetClient (manager w) = Ret c \<and> cl_registry c \<and>
     consensus_rows w = []"
proof -
  obtain rc w where run: "runStart toy_libs toy_env toy_host (\<lambda>_. True) (\<lambda>_. ''0s'') toy_flags Map.empty
      toy_world = Running [1] rc w"
    using toy_start_runs [of toy_host "\<lambda>_. ''0s''" Map.empty toy_world] by blast
  from start_running [OF run] obtain c where "GetMainnetClient (manager w) = Ret c" "cl_registry c"
    "consensus_rows w = consensus_rows toy_world" by blast
  with run show ?thesis by (auto simp: toy_world_def)
qed

text \<open>
  Flags that pass the check suit the signer: it never fails for the number of its key sources. With
  a path the key is the one in that file under the given password, with a private key it is that key.
\<close>

theorem flags_suit_signer:
  assumes "runStart l env h exists sd fl e tables = Running key rc w"
  shows "if signingKeyPath fl \<noteq> []
    then signingKeyPriv fl = [] \<and> password fl \<noteq> [] \<and> exists (signingKeyPath fl) \<and>
      (\<exists>json. ReadFile (crp env) (signingKeyPath fl) = Inr json \<and>
         DecryptKey (crp env) json (password fl) = Inr key)
    else signingKeyPriv fl \<noteq> [] \<and>
      (\<exists>bs. hex_decode (TrimPrefix (signingKeyPriv fl) ''0x'') = Some bs \<and> ToECDSA (crp env) bs = Inr key)"
proof -
  from runStart_Running [OF assms] obtain path cfg' where
    flags: "validateStartFlags exists (fl\<lparr>cfgFile := path\<rparr>) = Ret ()"
    and run: "Run l env h (startEnvironment sd cfg' e) (signingKeyPath fl \<noteq> [])
      (if signingKeyPath fl \<noteq> [] then signingKeyPath fl else signingKeyPriv fl) (p2pKey fl)
      (password fl) tables = Running key rc w" by blast
  have signer: "NewLocalSigner (crp env) (Some (signerConfig (signingKeyPath fl \<noteq> [])
      (if signingKeyPath fl \<noteq> [] then signingKeyPath fl else signingKeyPriv fl) (password fl))) = Ret key"
    using Run_Running [OF run] by (auto simp: initSigner_def)
  show ?thesis
  proof (cases "signingKeyPath fl = []")
    case True
    with flags signer show ?thesis
      by (auto simp: validateStartFlags_def NewLocalSigner_def signerConfig_def
          split: if_splits option.splits sum.splits)
  next
    case False
    with flags signer show ?thesis
      by (auto simp: validateStartFlags_def NewLocalSigner_def signerConfig_def
          split: if_splits sum.splits)
  qed
qed

theorem flags_suit_signer_witness:
  "\<exists>rc w bs. runStart toy_libs toy_env toy_host (\<lambda>_. True) (\<lambda>_. ''0s'') toy_flags Map.empty toy_world =
       Running [1] rc w \<and>
     hex_decode (TrimPrefix ''0x01'' ''0x'') = Some bs \<and> ToECDSA (crp toy_env) bs = Inr [1]"
proof -
  obtain rc w where run: "runStart toy_libs toy_env toy_host (\<lambda>_. True) (\<lambda>_. ''0s'') toy_flags Map.empty
      toy_world = Running [1] rc w"
    using toy_start_runs [of toy_host "\<lambda>_. ''0s''" Map.empty toy_world] by blast
  from flags_suit_signer [OF run] have "\<exists>bs. hex_decode (TrimPrefix ''0x01'' ''0x'') = Some bs \<and>
      ToECDSA (crp toy_env) bs = Inr [1]"
    unfolding toy_flags_def start_flags.simps by simp
  with run show ?thesis by blast
qed

end
