(* ===== verification/Shutdown.thy ===== *)
theory Shutdown
  imports Startup
begin

text \<open>
  What a process opens and closes: the connections and goroutines that \<open>Run\<close> of
  \<open>cmd/operator/app/app.go\<close> starts, what the chain manager and the clients of chains close when they
  cannot be made, and \<open>Shutdown\<close>, with \<open>Stop\<close> of the node and \<open>Close\<close> of the chain manager. The results
  of the services are those of \<open>Startup\<close>.
\<close>

section \<open>What is in use\<close>

datatype resource =
    MetricServer
  | DbPool
  | RedisConn
  | Client u32
  | EventListener
  | Host
  | RoutingTable
  | NodeLoops
  | EpochUpdator
  | TaskProcessor
  | ApiServer
  | HealthChecker

datatype action = Opens resource | Closes resource

text \<open>
  What is in use after some actions, for a process in which nothing is opened twice and nothing is
  closed that is not in use.
\<close>

fun in_use :: "action list \<Rightarrow> resource set \<Rightarrow> resource set option" where
  "in_use [] S = Some S"
| "in_use (Opens r # us) S = (if r \<in> S then None else in_use us (insert r S))"
| "in_use (Closes r # us) S = (if r \<in> S then in_use us (S - {r}) else None)"

lemma in_use_append: "in_use (us @ vs) S = Option.bind (in_use us S) (in_use vs)"
  by (induction us S rule: in_use.induct) auto

text \<open>The fields of \<open>App\<close> that \<open>Shutdown\<close> reads, and what was done so far.\<close>

record App =
  app_db :: bool
  app_redisConn :: bool
  app_node :: bool
  app_chainManager :: "chainManager option"
  actions :: "action list"

definition app_New :: App where
  "app_New = \<lparr>app_db = False, app_redisConn = False, app_node = False, app_chainManager = None,
     actions = []\<rparr>"

definition does :: "action \<Rightarrow> App \<Rightarrow> App" where
  "does u a = a\<lparr>actions := actions a @ [u]\<rparr>"

definition held :: "App \<Rightarrow> resource set option" where
  "held a = in_use (actions a) {}"

section \<open>The chain clients\<close>

definition client_Close :: "chainClient \<Rightarrow> App \<Rightarrow> error option \<times> App" where
  "client_Close c a = (None, does (Closes (Client (cl_chain c))) a)"

definition openClient :: "rpc \<Rightarrow> client_Config \<Rightarrow> App \<Rightarrow> chainClient res \<times> App" where
  "openClient r cfg a =
     (case rpcDial r (cfg_RPCEndpoint cfg) of
        Some e \<Rightarrow> (Fail (Wrap ''[ChainClient] failed to connect to Ethereum node'' e), a)
      | None \<Rightarrow>
     (let a = does (Opens (Client (cfg_ChainID cfg))) a;
          a' = does (Closes (Client (cfg_ChainID cfg))) a in
      case rpcBindStateManager r (cfg_StateManagerAddress cfg) of
        Some e \<Rightarrow> (Fail (Wrap ''[ChainClient] failed to create state manager binding'' e), a')
      | None \<Rightarrow>
          if cfg_ChainID cfg = MainnetChainID then
            (case rpcBindEpochManager r (cfg_EpochManagerAddress cfg) of
               Some e \<Rightarrow> (Fail (Wrap ''[ChainClient] failed to create epoch manager binding'' e), a')
             | None \<Rightarrow>
                 (case rpcBindRegistry r (cfg_RegistryAddress cfg) of
                    Some e \<Rightarrow> (Fail (Wrap ''[ChainClient] failed to create registry binding'' e), a')
                  | None \<Rightarrow> (Ret \<lparr>cl_chain = cfg_ChainID cfg, cl_epochManager = True,
                               cl_registry = True\<rparr>, a)))
          else (Ret \<lparr>cl_chain = cfg_ChainID cfg, cl_epochManager = False, cl_registry = False\<rparr>, a)))"

text \<open>\<open>Close\<close> of the manager goes on after an error.\<close>

fun closeChains :: "chainManager \<Rightarrow> App \<Rightarrow> error list \<times> App" where
  "closeChains [] a = ([], a)"
| "closeChains ((chainID, chain) # rest) a =
     (case client_Close chain a of
        (Some e, a) \<Rightarrow>
          (case closeChains rest a of (errs, a) \<Rightarrow> (Wrap ''failed to close chain'' e # errs, a))
      | (None, a) \<Rightarrow> closeChains rest a)"

definition manager_Close :: "chainManager \<Rightarrow> App \<Rightarrow> unit res \<times> App" where
  "manager_Close m a =
     (case closeChains m a of
        (errs, a) \<Rightarrow> (if errs = [] then Ret () else Fail (Err ''errors closing chains''), a))"

fun openChains ::
  "rpc \<Rightarrow> crypto \<Rightarrow> (u32, ChainConfig option) gomap \<Rightarrow> chainManager \<Rightarrow> App \<Rightarrow> chainManager res \<times> App" where
  "openChains r cr [] m a = (Ret m, a)"
| "openChains r cr ((chainID, cc) # rest) m a =
     (case cc of
        None \<Rightarrow> (Panic, a)
      | Some chainCfg \<Rightarrow>
          (case openClient r (managerConfig cr chainID chainCfg) a of
             (Ret chain, a) \<Rightarrow> openChains r cr rest (AList.update chainID chain m) a
           | (Fail e, a) \<Rightarrow> (Fail (Wrap ''failed to initialize chain'' e), snd (manager_Close m a))
           | (Panic, a) \<Rightarrow> (Panic, a)))"

section \<open>The services\<close>

definition openMetrics :: "App \<Rightarrow> unit res option \<times> App" where
  "openMetrics a = (Some (Ret ()), does (Opens MetricServer) a)"

definition openDatabase :: "libs \<Rightarrow> environment \<Rightarrow> App \<Rightarrow> unit res option \<times> App" where
  "openDatabase l e a =
     (let a = (if dbNewPool l = None then does (Opens DbPool) a else a) in
      case NewWPGXPool (dbNewPool l) (dbPing l) (dbReplicas l) of
        Fail err \<Rightarrow> (Some (Fail (Wrap ''failed to connect to database'' err)), a)
      | Panic \<Rightarrow> (Some Panic, a)
      | Ret _ \<Rightarrow>
     (let a = a\<lparr>app_db := True\<rparr> in
      case NewRedisClient (envReader l) (resolver l) (redisPings l) e ''redis'' of
        None \<Rightarrow> (None, a)
      | Some (Fail err) \<Rightarrow> (Some (Fail (Wrap ''failed to initialize cache'' err)), a)
      | Some Panic \<Rightarrow> (Some Panic, a)
      | Some (Ret redis) \<Rightarrow>
     (let a = does (Opens RedisConn) a in
      case NewDCache (envReader l) (dcacheNew l) e ''operator'' ''dcache'' of
        Fail err \<Rightarrow>
          (Some (Fail (Wrap ''failed to initialize cache'' (Wrap ''failed to create dcache'' err))), a)
      | Panic \<Rightarrow> (Some Panic, a)
      | Ret _ \<Rightarrow> (Some (Ret ()), a\<lparr>app_redisConn := True\<rparr>))))"

definition openManager :: "rpc \<Rightarrow> crypto \<Rightarrow> FullConfig \<Rightarrow> App \<Rightarrow> unit res option \<times> App" where
  "openManager r cr cfg a =
     (case openChains r cr (Chains cfg) [] a of
        (Fail e, a) \<Rightarrow> (Some (Fail (Wrap ''failed to initialize chain manager'' e)), a)
      | (Panic, a) \<Rightarrow> (Some Panic, a)
      | (Ret m, a) \<Rightarrow>
          (case GetMainnetClient m of
             Fail e \<Rightarrow> (Some (Fail (Wrap ''failed to create mainnet client'' e)), a)
           | Panic \<Rightarrow> (Some Panic, a)
           | Ret c \<Rightarrow> (Some (Ret ()), a\<lparr>app_chainManager := Some m\<rparr>)))"

definition openNode :: "libs \<Rightarrow> string \<Rightarrow> FullConfig \<Rightarrow> App \<Rightarrow> unit res option \<times> App" where
  "openNode l p2pKey64 cfg a =
     (case Base64ToPrivKey l p2pKey64 of
        Fail e \<Rightarrow> (Some (Fail (Wrap ''failed to load P2P key'' e)), a)
      | Panic \<Rightarrow> (Some Panic, a)
      | Ret privKey \<Rightarrow>
     (case libp2pNew l privKey of
        Some e \<Rightarrow> (Some (Fail (Wrap ''failed to create host'' e)), a)
      | None \<Rightarrow>
     (let a = does (Opens Host) a in
      case GetBootstrapPeers (addrInfo l) (P2P cfg) of
        Fail e \<Rightarrow> (Some (Fail (Wrap ''failed to create bootstrap peers'' e)), a)
      | Panic \<Rightarrow> (Some Panic, a)
      | Ret peers \<Rightarrow>
     (let a = (if Rendezvous (P2P cfg) \<noteq> [] \<and> dhtNew l peers = None
               then does (Opens RoutingTable) a else a) in
      case NewNode (dhtNew l) (dhtBootstrap l)
             (Some \<lparr>has_Host = True, node_BootstrapPeers = peers,
                RendezvousString = Rendezvous (P2P cfg)\<rparr>) of
        Fail e \<Rightarrow> (Some (Fail (Wrap ''failed to create operator node'' e)), a)
      | Panic \<Rightarrow> (Some Panic, a)
      | Ret _ \<Rightarrow> (Some (Ret ()), (does (Opens NodeLoops) a)\<lparr>app_node := True\<rparr>)))))"

text \<open>The services that only start goroutines, when their constructor succeeds.\<close>

definition openService :: "resource \<Rightarrow> 'a res option \<Rightarrow> App \<Rightarrow> unit res option \<times> App" where
  "openService service r a =
     (case r of
        None \<Rightarrow> (None, a)
      | Some (Fail e) \<Rightarrow> (Some (Fail e), a)
      | Some Panic \<Rightarrow> (Some Panic, a)
      | Some (Ret _) \<Rightarrow> (Some (Ret ()), does (Opens service) a))"

text \<open>The health checker is stopped by the \<open>defer\<close> of the function that starts it.\<close>

definition health_Stop :: "App \<Rightarrow> App" where
  "health_Stop a = does (Closes HealthChecker) a"

definition openHealthChecker :: "host \<Rightarrow> App \<Rightarrow> unit res option \<times> App" where
  "openHealthChecker h a =
     (case openService HealthChecker (Some (fst (initHealthChecker h no_contacts))) a of
        (Some (Ret _), a) \<Rightarrow> (Some (Ret ()), health_Stop a)
      | (r, a) \<Rightarrow> (r, a))"

definition stage ::
  "string \<Rightarrow> 'a res option \<times> App \<Rightarrow> ('a \<Rightarrow> App \<Rightarrow> unit res option \<times> App) \<Rightarrow> unit res option \<times> App" where
  "stage msg r k =
     (case r of
        (None, a) \<Rightarrow> (None, a)
      | (Some (Fail e), a) \<Rightarrow> (Some (Fail (Wrap msg e)), a)
      | (Some Panic, a) \<Rightarrow> (Some Panic, a)
      | (Some (Ret x), a) \<Rightarrow> k x a)"

definition openApp ::
  "libs \<Rightarrow> env \<Rightarrow> host \<Rightarrow> environment \<Rightarrow> bool \<Rightarrow> string \<Rightarrow> string \<Rightarrow> string \<Rightarrow> App \<Rightarrow>
     unit res option \<times> App" where
  "openApp l env h e isKeyPath signingKey p2pKey64 pw a =
     stage ''failed to load config'' (Some (initConfig l), a) (\<lambda>cfg a.
     stage ''failed to initialize metrics'' (openMetrics a) (\<lambda>_ a.
     stage ''failed to initialize signer'' (Some (initSigner (crp env) isKeyPath signingKey pw), a) (\<lambda>_ a.
     stage ''failed to initialize database'' (openDatabase l e a) (\<lambda>_ a.
     stage ''failed to initialize chain manager and mainnet client''
       (openManager (rpcp env) (crp env) cfg a) (\<lambda>_ a.
     stage ''failed to initialize event listener''
       (openService EventListener (Some initEventListener) a) (\<lambda>_ a.
     stage ''failed to initialize gater'' (Some initGater, a) (\<lambda>_ a.
     stage ''failed to initialize node'' (openNode l p2pKey64 cfg a) (\<lambda>_ a.
     stage ''failed to initialize epoch updator''
       (openService EpochUpdator (Some initEpochUpdator) a) (\<lambda>_ a.
     stage ''failed to initialize task processor''
       (openService TaskProcessor (initTaskProcessor l) a) (\<lambda>_ a.
     stage ''failed to initialize API'' (openService ApiServer (Some initAPI) a) (\<lambda>_ a.
     stage ''failed to initialize health checker'' (openHealthChecker h a) (\<lambda>_ a.
       (Some (Ret ()), a)))))))))))))"

section \<open>The end\<close>

text \<open>\<open>Stop\<close> of the node; that the routing table cannot be closed is only logged.\<close>

definition node_Stop :: "error option \<Rightarrow> App \<Rightarrow> unit res \<times> App" where
  "node_Stop hostClose a =
     (case hostClose of Some e \<Rightarrow> Fail e | None \<Rightarrow> Ret (),
      does (Closes Host) (does (Closes RoutingTable) (does (Closes NodeLoops) a)))"

text \<open>\<open>Shutdown\<close> drops every error.\<close>

definition app_Shutdown :: "error option \<Rightarrow> App \<Rightarrow> unit res \<times> App" where
  "app_Shutdown hostClose a =
     (let a = (if app_db a then does (Closes DbPool) a else a);
          a = (if app_redisConn a then does (Closes RedisConn) a else a);
          a = (if app_node a then snd (node_Stop hostClose a) else a);
          a = (case app_chainManager a of None \<Rightarrow> a | Some m \<Rightarrow> snd (manager_Close m a))
      in (Ret (), a))"

text \<open>
  What nothing calls: \<open>Stop\<close> of the listener and of the updator, which close the client of the main
  chain that they share.
\<close>

definition listener_Stop :: "chainClient \<Rightarrow> App \<Rightarrow> App" where
  "listener_Stop mainnetClient a = does (Closes EventListener) (snd (client_Close mainnetClient a))"

definition updator_Stop :: "chainClient \<Rightarrow> App \<Rightarrow> App" where
  "updator_Stop mainnetClient a = does (Closes EpochUpdator) (snd (client_Close mainnetClient a))"

text \<open>The HTTP server, \<open>pkg/operator/api/server.go\<close>: its address, and its \<open>Stop\<close>, which nothing calls.\<close>

definition NewServer :: "int \<Rightarrow> string" where
  "NewServer port = '':'' @ big_String port"

definition server_Stop :: "error option \<Rightarrow> App \<Rightarrow> unit res \<times> App" where
  "server_Stop shutdown a =
     (case shutdown of Some e \<Rightarrow> Fail e | None \<Rightarrow> Ret (), does (Closes ApiServer) a)"

text \<open>
  How the command ends: \<open>runStart\<close> waits for a signal, which makes it shut down and return nil, or for
  the error of \<open>Run\<close>, which it returns and with which \<open>main\<close> exits with 1, as \<open>log.Fatal\<close> does; a panic
  ends the process with 2. \<open>None\<close> is a process that goes on. A signal before \<open>Run\<close> has returned is
  not modelled.
\<close>

definition start_ends :: "error option \<Rightarrow> bool \<Rightarrow> startup \<Rightarrow> App \<Rightarrow> (nat \<times> App) option" where
  "start_ends hostClose signal s a =
     (case s of
        Running _ _ _ \<Rightarrow> if signal then Some (0, snd (app_Shutdown hostClose a)) else None
      | Failed _ \<Rightarrow> Some (1, a)
      | Exited \<Rightarrow> Some (1, a)
      | Crashed \<Rightarrow> Some (2, a))"

section \<open>The results are those of Run\<close>

fun ended :: "startup \<Rightarrow> unit res option" where
  "ended (Running key rc w) = Some (Ret ())"
| "ended (Failed e) = Some (Fail e)"
| "ended Crashed = Some Panic"
| "ended Exited = None"

lemma ended_step:
  "(\<And>x u. fst (k' x u) = ended (k x)) \<Longrightarrow> fst (stage msg (Some r, a) k') = ended (step msg r k)"
  by (cases r) (simp_all add: stage_def step_def)

lemma openClient_result: "fst (openClient r cfg a) = NewChainClient r cfg"
  by (auto simp: openClient_def NewChainClient_def Let_def split: option.split)

lemma openChains_result: "fst (openChains r cr cs m a) = addChains r cr cs m"
proof (induction r cr cs m a rule: openChains.induct)
  case (2 r cr chainID cc rest m a)
  show ?case
  proof (cases cc)
    case (Some c)
    obtain x a' where x: "openClient r (managerConfig cr chainID c) a = (x, a')" by fastforce
    then have "NewChainClient r (managerConfig cr chainID c) = x"
      using openClient_result [of r "managerConfig cr chainID c" a] by simp
    with 2 Some x show ?thesis by (cases x) auto
  qed simp
qed simp

lemma openManager_result:
  "fst (openManager r cr cfg a) =
     Some (case initChainManagerAndMainnetClient r cr cfg of Ret _ \<Rightarrow> Ret () | Fail e \<Rightarrow> Fail e | Panic \<Rightarrow> Panic)"
proof -
  obtain x a' where x: "openChains r cr (Chains cfg) [] a = (x, a')" by fastforce
  then have "NewManager r cr cfg = x"
    using openChains_result [of r cr "Chains cfg" "[]" a] by (simp add: NewManager_def)
  with x show ?thesis
    by (auto simp: openManager_def initChainManagerAndMainnetClient_def split: res.split)
qed

fun forget :: "'a res \<Rightarrow> unit res" where
  "forget (Ret x) = Ret ()"
| "forget (Fail e) = Fail e"
| "forget Panic = Panic"

lemma forget_forget [simp]: "forget (forget r) = forget r"
  by (cases r) simp_all

lemma forget_comp [simp]: "forget \<circ> forget = forget"
  by (rule ext) simp

lemma ended_stage:
  assumes "map_option forget (fst p) = map_option forget r" and "\<And>y x u. fst (k' y u) = ended (k x)"
  shows "fst (stage msg p k') = ended (step' msg r k)"
proof (cases r)
  case None
  with assms(1) show ?thesis by (cases p) (simp add: stage_def step'_def)
next
  case (Some x)
  with assms(1) obtain y u where p: "p = (Some y, u)" "forget y = forget x" by (cases p) auto
  with Some assms(2) show ?thesis
    by (cases x; cases y) (simp_all add: stage_def step'_def step_def)
qed

lemma step_step': "step msg r k = step' msg (Some r) k"
  by (simp add: step'_def)

lemma openService_result: "fst (openService service r a) = map_option forget r"
  by (auto simp: openService_def split: option.split res.split)

lemma openHealthChecker_result:
  "fst (openHealthChecker h a) = Some (forget (fst (initHealthChecker h no_contacts)))"
  by (auto simp: openHealthChecker_def openService_def split: option.split res.split)

lemma openDatabase_result: "fst (openDatabase l e a) = map_option forget (initDatabase l e)"
  by (auto simp: openDatabase_def initDatabase_def InitCache_def Let_def wrapped_def
      split: option.split res.split)

lemma openNode_result: "fst (openNode l p cfg a) = Some (forget (initNode l p cfg))"
  by (auto simp: openNode_def initNode_def Let_def split: option.split res.split)

lemma openApp_result:
  "fst (openApp l env h e isKeyPath signingKey p2pKey64 pw a) =
     ended (Run l env h e isKeyPath signingKey p2pKey64 pw tables)"
proof -
  have manager: "fst (openManager r cr cfg u) = Some (forget (initChainManagerAndMainnetClient r cr cfg))"
    for r cr cfg u by (auto simp: openManager_result split: res.split)
  note results = manager openDatabase_result openNode_result openService_result openHealthChecker_result
    option.map_comp
  have metrics: "stage msg (openMetrics u) k = k () (does (Opens MetricServer) u)" for msg u k
    by (simp add: stage_def openMetrics_def)
  show ?thesis
    unfolding openApp_def Run_def
    apply (rule ended_step)
    apply (unfold metrics step_step' case_prod_beta)
    apply (rule ended_stage, simp add: results)+
    apply simp
    done
qed

section \<open>What is opened is closed\<close>

lemma does_simps [simp]:
  "app_db (does u a) = app_db a" "app_redisConn (does u a) = app_redisConn a"
  "app_node (does u a) = app_node a" "app_chainManager (does u a) = app_chainManager a"
  "actions (does u a) = actions a @ [u]"
  by (simp_all add: does_def)

lemma held_simps [simp]:
  "held (does (Opens r) a) =
     Option.bind (held a) (\<lambda>S. if r \<in> S then None else Some (insert r S))"
  "held (does (Closes r) a) =
     Option.bind (held a) (\<lambda>S. if r \<in> S then Some (S - {r}) else None)"
  "held (a\<lparr>app_db := b\<rparr>) = held a" "held (a\<lparr>app_redisConn := b\<rparr>) = held a"
  "held (a\<lparr>app_node := b\<rparr>) = held a" "held (a\<lparr>app_chainManager := m\<rparr>) = held a"
proof -
  have "in_use [Opens r] = (\<lambda>S. if r \<in> S then None else Some (insert r S))"
    "in_use [Closes r] = (\<lambda>S. if r \<in> S then Some (S - {r}) else None)" by (simp_all add: fun_eq_iff)
  then show "held (does (Opens r) a) =
     Option.bind (held a) (\<lambda>S. if r \<in> S then None else Some (insert r S))"
    "held (does (Closes r) a) =
     Option.bind (held a) (\<lambda>S. if r \<in> S then Some (S - {r}) else None)"
    by (simp_all add: held_def in_use_append)
qed (simp_all add: held_def)

definition same_fields :: "App \<Rightarrow> App \<Rightarrow> bool" where
  "same_fields a a' \<longleftrightarrow> app_db a' = app_db a \<and> app_redisConn a' = app_redisConn a \<and>
     app_node a' = app_node a \<and> app_chainManager a' = app_chainManager a"

definition client_keys :: "chainManager \<Rightarrow> bool" where
  "client_keys m \<longleftrightarrow> distinct (map fst m) \<and> (\<forall>(k, c) \<in> set m. cl_chain c = k)"

lemma closeChains_actions:
  assumes "\<forall>(k, c) \<in> set m. cl_chain c = k"
  shows "closeChains m a =
    ([], a\<lparr>actions := actions a @ map (\<lambda>chain. Closes (Client chain)) (map fst m)\<rparr>)"
  using assms
  by (induction m arbitrary: a) (auto simp: client_Close_def does_def)

lemma in_use_close_clients:
  assumes "distinct ks" and "S \<inter> range Client = {}"
  shows "in_use (map (\<lambda>chain. Closes (Client chain)) ks) (S \<union> Client ` set ks) = Some S"
  using assms
proof (induction ks)
  case (Cons k ks)
  then have "insert (Client k) (S \<union> Client ` set ks) - {Client k} = S \<union> Client ` set ks" by auto
  with Cons show ?case by simp
qed simp

lemma manager_Close_held:
  assumes "client_keys m" and "held a = Some (S \<union> Client ` fst ` set m)" and "S \<inter> range Client = {}"
  shows "held (snd (manager_Close m a)) = Some S"
  using assms in_use_close_clients [of "map fst m" S]
  by (simp add: manager_Close_def closeChains_actions client_keys_def held_def in_use_append image_comp)

lemma openClient_held:
  assumes "openClient r cfg a = (x, a')" and "held a = Some S" and "Client (cfg_ChainID cfg) \<notin> S"
  shows "same_fields a a' \<and>
    (case x of Ret c \<Rightarrow> cl_chain c = cfg_ChainID cfg \<and> held a' = Some (insert (Client (cfg_ChainID cfg)) S)
     | _ \<Rightarrow> held a' = Some S)"
  using assms
  by (auto simp: openClient_def Let_def same_fields_def split: option.splits if_splits)

lemma openChains_held:
  assumes "openChains r cr cs m a = (x, a')" and "held a = Some (S \<union> Client ` fst ` set m)"
    and "S \<inter> range Client = {}" and "client_keys m" and "distinct (map fst cs)"
    and "fst ` set cs \<inter> fst ` set m = {}"
  shows "case x of
      Ret m' \<Rightarrow> same_fields a a' \<and> client_keys m' \<and> held a' = Some (S \<union> Client ` fst ` set m')
    | Fail _ \<Rightarrow> same_fields a a' \<and> held a' = Some S
    | Panic \<Rightarrow> True"
  using assms
proof (induction r cr cs m a rule: openChains.induct)
  case (2 r cr chainID cc rest m a)
  show ?case
  proof (cases cc)
    case (Some c)
    obtain y b where y: "openClient r (managerConfig cr chainID c) a = (y, b)" by fastforce
    have new: "cfg_ChainID (managerConfig cr chainID c) = chainID"
      "Client chainID \<notin> S \<union> Client ` fst ` set m" "chainID \<notin> fst ` set m"
      using "2.prems"(3,6) by (auto simp: managerConfig_def)
    note held = openClient_held [OF y "2.prems"(2), unfolded new(1), OF new(2)]
    show ?thesis
    proof (cases y)
      case (Ret chain)
      have upd: "AList.update chainID chain m = m @ [(chainID, chain)]"
        using new(3) by (induction m) auto
      have keys: "client_keys (AList.update chainID chain m)"
        using "2.prems"(4) new(3) held Ret by (auto simp: upd client_keys_def)
      have held': "held b = Some (S \<union> Client ` fst ` set (AList.update chainID chain m))"
        using held Ret by (simp add: upd)
      have disjoint: "fst ` set rest \<inter> fst ` set (AList.update chainID chain m) = {}"
        using "2.prems"(5,6) by (auto simp: upd)
      have run: "openChains r cr rest (AList.update chainID chain m) b = (x, a')"
        using "2.prems"(1) Some y Ret by simp
      have "same_fields a b" "distinct (map fst rest)" using held "2.prems"(5) by simp_all
      with "2.IH" [OF Some y [symmetric] Ret run held' "2.prems"(3) keys _ disjoint]
      show ?thesis by (cases x) (simp_all add: same_fields_def)
    next
      case (Fail e)
      have "held (snd (manager_Close m b)) = Some S"
        using manager_Close_held [OF "2.prems"(4), of b S] held Fail "2.prems"(3) by simp
      moreover have "same_fields b (snd (manager_Close m b))"
        using "2.prems"(4)
        by (simp add: manager_Close_def closeChains_actions client_keys_def same_fields_def)
      ultimately show ?thesis using "2.prems"(1) Some y Fail held by (auto simp: same_fields_def)
    qed (use "2.prems"(1) Some y in simp)
  qed (use "2.prems"(1) in simp)
qed (auto simp: same_fields_def)

section \<open>A start that succeeds\<close>

lemma stage_Ret:
  "stage msg r k = (Some (Ret ()), b) \<longleftrightarrow> (\<exists>x a. r = (Some (Ret x), a) \<and> k x a = (Some (Ret ()), b))"
  by (auto simp: stage_def split: prod.splits option.splits res.splits)

lemma openDatabase_Ret:
  assumes "openDatabase l e a = (Some (Ret x), a')"
  shows "a' = (does (Opens RedisConn) ((does (Opens DbPool) a)\<lparr>app_db := True\<rparr>))\<lparr>app_redisConn := True\<rparr>"
proof -
  have "NewWPGXPool (dbNewPool l) (dbPing l) (dbReplicas l) = Ret y \<Longrightarrow> dbNewPool l = None" for y
    by (auto simp: NewWPGXPool_def split: option.splits)
  with assms show ?thesis
    by (auto simp: openDatabase_def Let_def split: option.splits res.splits)
qed

lemma openManager_Ret:
  assumes "openManager r cr cfg a = (Some (Ret x), a')"
  shows "\<exists>m b. openChains r cr (Chains cfg) [] a = (Ret m, b) \<and> a' = b\<lparr>app_chainManager := Some m\<rparr>"
  using assms by (auto simp: openManager_def split: prod.splits res.splits)

lemma openNode_Ret:
  assumes "openNode l p cfg a = (Some (Ret x), a')"
  shows "a' = (does (Opens NodeLoops) (does (Opens RoutingTable) (does (Opens Host) a)))\<lparr>app_node := True\<rparr>"
proof -
  have "NewNode dhtNew dhtBootstrap
      (Some \<lparr>has_Host = True, node_BootstrapPeers = ps, RendezvousString = rv\<rparr>) = Ret y
      \<Longrightarrow> rv \<noteq> [] \<and> dhtNew ps = None" for dhtNew dhtBootstrap ps rv y
    by (auto simp: NewNode_def initDHT_def split: option.splits if_splits)
  with assms show ?thesis
    by (auto simp: openNode_def Let_def split: option.splits res.splits)
qed

lemma openService_Ret:
  "openService service r a = (Some (Ret x), a') \<Longrightarrow> a' = does (Opens service) a"
  by (auto simp: openService_def split: option.splits res.splits)

lemma openHealthChecker_Ret:
  "openHealthChecker h a = (Some (Ret x), a') \<Longrightarrow>
     a' = does (Closes HealthChecker) (does (Opens HealthChecker) a)"
  by (auto simp: openHealthChecker_def health_Stop_def dest: openService_Ret
      split: prod.splits option.splits res.splits)

text \<open>Up to the database, and from the chain manager on.\<close>

definition base :: App where
  "base = (does (Opens RedisConn) ((does (Opens DbPool) (does (Opens MetricServer) app_New))\<lparr>app_db := True\<rparr>))
     \<lparr>app_redisConn := True\<rparr>"

lemma base_simps [simp]:
  "held base = Some {MetricServer, DbPool, RedisConn}" "app_db base" "app_redisConn base" "\<not> app_node base"
  "app_chainManager base = None"
  by (simp_all add: base_def app_New_def held_def) auto

definition served :: "App \<Rightarrow> App" where
  "served a = does (Closes HealthChecker) (does (Opens HealthChecker) (does (Opens ApiServer)
     (does (Opens TaskProcessor) (does (Opens EpochUpdator)
     ((does (Opens NodeLoops) (does (Opens RoutingTable) (does (Opens Host)
        (does (Opens EventListener) a))))\<lparr>app_node := True\<rparr>)))))"

lemma openApp_Ret:
  assumes "openApp l env h e isKeyPath signingKey p2pKey64 pw app_New = (Some (Ret ()), a)"
    and "initConfig l = Ret cfg"
  shows "\<exists>m b. openChains (rpcp env) (crp env) (Chains cfg) [] base = (Ret m, b) \<and>
    a = served (b\<lparr>app_chainManager := Some m\<rparr>)"
  using assms
  unfolding openApp_def stage_Ret openMetrics_def
  by (auto dest!: openDatabase_Ret openManager_Ret openNode_Ret openService_Ret openHealthChecker_Ret
      simp: base_def served_def)

lemma shutdown_held:
  assumes "client_keys m" and "held b = Some ({MetricServer, DbPool, RedisConn} \<union> Client ` fst ` set m)"
    and "same_fields base b"
  shows "held (snd (app_Shutdown hostClose (served (b\<lparr>app_chainManager := Some m\<rparr>)))) =
    Some {MetricServer, EventListener, EpochUpdator, TaskProcessor, ApiServer}"
proof -
  define before where "before = does (Closes Host) (does (Closes RoutingTable) (does (Closes NodeLoops)
    (does (Closes RedisConn) (does (Closes DbPool) (served (b\<lparr>app_chainManager := Some m\<rparr>))))))"
  have stop: "snd (app_Shutdown hostClose (served (b\<lparr>app_chainManager := Some m\<rparr>))) =
      snd (manager_Close m before)"
    using assms(3)
    by (simp add: app_Shutdown_def Let_def node_Stop_def before_def same_fields_def served_def)
  define S where "S = Client ` fst ` set m"
  have no: "r \<notin> S" if "r \<notin> range Client" for r using that by (auto simp: S_def)
  have "held before = Some ({MetricServer, EventListener, EpochUpdator, TaskProcessor, ApiServer} \<union> S)"
    using assms(2) unfolding before_def served_def S_def [symmetric]
    by (simp add: no image_iff) (auto simp: no image_iff)
  then show ?thesis
    unfolding stop S_def by (rule manager_Close_held [OF assms(1)]) auto
qed

lemma openChains_base:
  assumes "openChains r cr cs [] base = (x, b)" and "distinct (map fst cs)"
  shows "case x of
      Ret m \<Rightarrow> same_fields base b \<and> client_keys m \<and>
        held b = Some ({MetricServer, DbPool, RedisConn} \<union> Client ` fst ` set m)
    | Fail _ \<Rightarrow> same_fields base b \<and> held b = Some {MetricServer, DbPool, RedisConn}
    | Panic \<Rightarrow> True"
proof -
  have "{MetricServer, DbPool, RedisConn} \<inter> range Client = {}" by auto
  moreover have "held base = Some ({MetricServer, DbPool, RedisConn} \<union> Client ` fst ` set [])"
    "client_keys []" by (simp_all add: client_keys_def)
  ultimately show ?thesis
    using openChains_held [OF assms(1), of "{MetricServer, DbPool, RedisConn}"] assms(2) by auto
qed

lemma openApp_no_manager:
  assumes "initConfig l = Ret cfg" and "initSigner (crp env) isKeyPath signingKey pw = Ret key"
    and "initDatabase l e = Some (Ret rd)" and "NewManager (rpcp env) (crp env) cfg = Fail err"
    and "distinct (map fst (Chains cfg))"
  shows "\<exists>x b. openApp l env h e isKeyPath signingKey p2pKey64 pw app_New = (Some (Fail x), b) \<and>
    same_fields base b \<and> held b = Some {MetricServer, DbPool, RedisConn}"
proof -
  define a1 where "a1 = does (Opens MetricServer) app_New"
  obtain y a2 where y: "openDatabase l e a1 = (y, a2)" by fastforce
  have db: "openDatabase l e a1 = (Some (Ret ()), base)"
    using openDatabase_result [of l e a1] assms(3) y openDatabase_Ret [of l e a1 "()" a2]
    by (simp add: base_def a1_def)
  obtain z b where z: "openChains (rpcp env) (crp env) (Chains cfg) [] base = (z, b)" by fastforce
  then have "z = Fail err"
    using openChains_result [of "rpcp env" "crp env" "Chains cfg" "[]" base] assms(4)
    by (simp add: NewManager_def)
  with z openChains_base [OF z assms(5)]
  have "openManager (rpcp env) (crp env) cfg base =
      (Some (Fail (Wrap ''failed to initialize chain manager'' err)), b)"
    and held: "same_fields base b" "held b = Some {MetricServer, DbPool, RedisConn}"
    by (simp_all add: openManager_def)
  with assms(1,2) db show ?thesis
    by (simp add: openApp_def stage_def openMetrics_def a1_def)
qed



end
