(* ===== verification/Keys.thy ===== *)
theory Keys
  imports Startup
begin

text \<open>
  The scripts that generate the keys of operators, \<open>scripts/gen_keys/generate_keys.go\<close> and
  \<open>scripts/verify_address.go\<close>, and how the node reads what they produce: the private key for
  \<open>--p2p-key-64\<close>, the address under which the other operators find the row of a peer, and the key
  file. The generators and the encodings of keys are libraries.
\<close>

section \<open>The scripts\<close>

record keygen =
  GenerateEd25519Key :: "nat \<Rightarrow> error + bytes \<times> pubkey"
  MarshalPrivateKey :: "bytes \<Rightarrow> error + bytes"
  ConfigEncodeKey :: "bytes \<Rightarrow> string"
  GenerateKey :: "nat \<Rightarrow> error + privkey"
  FromECDSA :: "privkey \<Rightarrow> bytes"
  HexToECDSA :: "string \<Rightarrow> error + privkey"
  WriteFile :: "string \<Rightarrow> bytes \<Rightarrow> error option"
  MkdirAll :: "string \<Rightarrow> error option"

text \<open>The keys drawn so far, what was printed, one text for each call of \<open>Printf\<close>, and the files.\<close>

record script =
  drawn :: nat
  stdout :: "string list"
  files :: "(string \<times> bytes) list"

definition print :: "string \<Rightarrow> script \<Rightarrow> script" where
  "print text s = s\<lparr>stdout := stdout s @ [text]\<rparr>"

definition newline :: string where
  "newline = [CHR 0x0A]"

definition generateAddress :: "crypto \<Rightarrow> pubkey \<Rightarrow> string res" where
  "generateAddress cr pubKey =
     (case MarshalPublicKey cr pubKey of
        Inl e \<Rightarrow> Fail (Wrap ''failed to marshal public key'' e)
      | Inr pubKeyBytes \<Rightarrow>
          (let hash = keccak256 cr pubKeyBytes in
           if length hash < 20 then Panic
           else Ret (''0x'' @ hex_encode (drop (length hash - 20) hash))))"

definition p2p_line :: "nat \<Rightarrow> string" where
  "p2p_line operatorNum = ''Generated P2P key for operator'' @ show_nat operatorNum @ '':'' @ newline"

definition public_line :: "string \<Rightarrow> string" where
  "public_line pubKeyStr = ''  Public key (base64): '' @ pubKeyStr @ newline"

definition private_line :: "string \<Rightarrow> string" where
  "private_line privKeyStr = ''  Private key (base64): '' @ privKeyStr @ newline"

definition address_line :: "string \<Rightarrow> string" where
  "address_line address = ''  Address: '' @ address @ newline @ newline"

definition generateP2PKey :: "crypto \<Rightarrow> keygen \<Rightarrow> nat \<Rightarrow> script \<Rightarrow> unit res \<times> script" where
  "generateP2PKey cr kg operatorNum s =
     call ''failed to generate P2P key''
       (of_sum (GenerateEd25519Key kg (drawn s)), s\<lparr>drawn := Suc (drawn s)\<rparr>) (\<lambda>(privKey, pubKey) s.
     call ''failed to marshal private key'' (of_sum (MarshalPrivateKey kg privKey), s) (\<lambda>privKeyBytes s.
     call ''failed to marshal public key'' (of_sum (MarshalPublicKey cr pubKey), s) (\<lambda>pubKeyBytes s.
     call ''failed to generate address'' (generateAddress cr pubKey, s) (\<lambda>address s.
       (Ret (),
        print (address_line address)
       (print (public_line (ConfigEncodeKey kg pubKeyBytes))
       (print (private_line (ConfigEncodeKey kg privKeyBytes))
       (print (p2p_line operatorNum) s))))))))"

definition key_file :: "nat \<Rightarrow> string" where
  "key_file operatorNum = ''keys/signing/operator'' @ show_nat operatorNum @ ''.ecdsa.key''"

definition generateECDSAKey :: "crypto \<Rightarrow> keygen \<Rightarrow> nat \<Rightarrow> script \<Rightarrow> unit res \<times> script" where
  "generateECDSAKey cr kg operatorNum s =
     call ''failed to generate ECDSA key''
       (of_sum (GenerateKey kg (drawn s)), s\<lparr>drawn := Suc (drawn s)\<rparr>) (\<lambda>key s.
       (let address = addressHex cr (PubkeyToAddress cr (publicKey cr key));
            filename = key_file operatorNum;
            keyBytes = FromECDSA kg key
        in case WriteFile kg filename keyBytes of
             Some e \<Rightarrow> (Fail (Wrap ''failed to write key file'' e), s)
           | None \<Rightarrow>
               (Ret (),
                print (address_line address)
               (print (''  Key file: '' @ filename @ newline)
               (print (''Generated ECDSA key for operator'' @ show_nat operatorNum @ '':'' @ newline)
                  (s\<lparr>files := files s @ [(filename, keyBytes)]\<rparr>))))))"

text \<open>The loop over the operators, with the exit code of the script; a panic ends it with code 2.\<close>

fun for_operators ::
  "(nat \<Rightarrow> script \<Rightarrow> unit res \<times> script) \<Rightarrow> string \<Rightarrow> nat list \<Rightarrow> script \<Rightarrow> nat \<times> script" where
  "for_operators gen msg [] s = (0, s)"
| "for_operators gen msg (i # is) s =
     (case gen i s of
        (Ret _, s) \<Rightarrow> for_operators gen msg is s
      | (Fail e, s) \<Rightarrow> (1, print (msg @ show_nat i @ '': '' @ error_text e @ newline) s)
      | (Panic, s) \<Rightarrow> (2, s))"

definition gen_keys :: "crypto \<Rightarrow> keygen \<Rightarrow> string \<Rightarrow> script \<Rightarrow> nat \<times> script" where
  "gen_keys cr kg keyType s =
     (case MkdirAll kg ''./keys/signing'' of
        Some e \<Rightarrow> (1, print (''Failed to create keys directory: '' @ error_text e @ newline) s)
      | None \<Rightarrow>
          if keyType = ''ed25519'' then
            for_operators (generateP2PKey cr kg) ''Failed to generate P2P key for operator'' [1, 2, 3] s
          else if keyType = ''ecdsa'' then
            for_operators (generateECDSAKey cr kg) ''Failed to generate ECDSA key for operator'' [1, 2, 3] s
          else (1, print (''Unsupported key type: '' @ keyType @ newline) s))"

definition verify_address :: "crypto \<Rightarrow> keygen \<Rightarrow> script \<Rightarrow> script" where
  "verify_address cr kg s =
     (let hexKey = ''1234567890123456789012345678901234567890123456789012345678901234'' in
      case HexToECDSA kg hexKey of
        Inl e \<Rightarrow> print (''Error generating private key: '' @ error_text e @ newline) s
      | Inr privateKey \<Rightarrow>
          print (''Address: '' @ addressHex cr (PubkeyToAddress cr (publicKey cr privateKey)) @ newline)
            (print (''Private Key: 0x'' @ hexKey @ newline) s))"

section \<open>What a successful run produced\<close>

lemma for_operators_ok:
  assumes "for_operators gen msg is s = (0, s')" and "i \<in> set is"
    and "\<And>j u u'. gen j u = (Ret (), u') \<Longrightarrow> P j u'"
    and "\<And>i j u u'. gen j u = (Ret (), u') \<Longrightarrow> P i u \<Longrightarrow> P i u'"
  shows "P i s'"
proof -
  have keep: "for_operators gen msg is u = (0, u') \<Longrightarrow> P i u \<Longrightarrow> P i u'" for "is" i u u'
  proof (induction "is" arbitrary: u)
    case (Cons j js)
    then show ?case using assms(4) by (auto split: prod.splits res.splits)
  qed simp
  from assms(1,2) show ?thesis
  proof (induction "is" arbitrary: s)
    case (Cons j js)
    then obtain u where u: "gen j s = (Ret (), u)" "for_operators gen msg js u = (0, s')"
      by (auto split: prod.splits res.splits)
    then show ?case
      using Cons keep [OF u(2)] assms(3) [OF u(1)] by auto
  qed simp
qed

text \<open>Hexadecimal text is in lower case.\<close>

lemma ascii_lower_digit [simp]: "d < 16 \<Longrightarrow> ascii_lower (digit_char d) = digit_char d"
  by (auto simp: ascii_lower_def digit_char_def of_char_char_of_small simp del: of_char_of)

lemma lower_hex_encode [simp]: "lower (hex_encode bs) = hex_encode bs"
proof (induction bs)
  case (Cons b bs)
  have "unat b < 256" using unsigned_less [of b] by simp
  then show ?case using Cons by (simp add: hex_encode_def lower_def)
qed (simp add: hex_encode_def lower_def)

lemma generateAddress_PeerIDToP2PKey:
  assumes "ExtractPublicKey cr peer = Inr pubKey"
  shows "PeerIDToP2PKey cr peer = generateAddress cr pubKey"
  using assms
  by (cases "MarshalPublicKey cr pubKey") (simp_all add: PeerIDToP2PKey_def generateAddress_def Let_def)

text \<open>What is printed for one operator.\<close>

definition p2p_lines :: "nat \<Rightarrow> string \<Rightarrow> string \<Rightarrow> string \<Rightarrow> string list" where
  "p2p_lines i privText pubText address =
     [p2p_line i, private_line privText, public_line pubText, address_line address]"

definition p2p_printed ::
  "crypto \<Rightarrow> keygen \<Rightarrow> nat \<Rightarrow> bytes \<Rightarrow> pubkey \<Rightarrow> bytes \<Rightarrow> string \<Rightarrow> nat \<Rightarrow> script \<Rightarrow> bool" where
  "p2p_printed cr kg n priv pub b address i s \<longleftrightarrow>
     GenerateEd25519Key kg n = Inr (priv, pub) \<and> MarshalPrivateKey kg priv = Inr b \<and>
     generateAddress cr pub = Ret address \<and>
     (\<exists>before pubText after. stdout s = 
        before @ p2p_lines i (ConfigEncodeKey kg b) pubText address @ after)"

lemma generateP2PKey_prints:
  assumes "generateP2PKey cr kg i s = (Ret (), s')"
  shows "\<exists>priv pub b address. p2p_printed cr kg (drawn s) priv pub b address i s'"
    and "\<exists>lines. stdout s' = stdout s @ lines"
proof -
  from assms obtain priv pub where g1: "GenerateEd25519Key kg (drawn s) = Inr (priv, pub)"
    by (cases "GenerateEd25519Key kg (drawn s)") (auto simp: generateP2PKey_def call_def of_sum_def)
  with assms obtain b where g2: "MarshalPrivateKey kg priv = Inr b"
    by (cases "MarshalPrivateKey kg priv") (auto simp: generateP2PKey_def call_def of_sum_def)
  with assms g1 obtain pb where g3: "MarshalPublicKey cr pub = Inr pb"
    by (cases "MarshalPublicKey cr pub") (auto simp: generateP2PKey_def call_def of_sum_def)
  with assms g1 g2 obtain address where g4: "generateAddress cr pub = Ret address"
    by (cases "generateAddress cr pub") (auto simp: generateP2PKey_def call_def of_sum_def)
  have s': "stdout s' = 
      stdout s @ p2p_lines i (ConfigEncodeKey kg b) (ConfigEncodeKey kg pb) address @ []"
    using assms g1 g2 g3 g4
    by (auto simp: generateP2PKey_def call_def of_sum_def print_def p2p_lines_def)
  then show "\<exists>lines. stdout s' = stdout s @ lines" ..
  from s' g1 g2 g4 show "\<exists>priv pub b address. p2p_printed cr kg (drawn s) priv pub b address i s'"
    unfolding p2p_printed_def by blast
qed

lemma p2p_printed_later:
  assumes "p2p_printed cr kg n priv pub b address i s" and "stdout s' = stdout s @ lines"
  shows "p2p_printed cr kg n priv pub b address i s'"
proof -
  from assms(1) obtain before pubText after where
    "stdout s = before @ p2p_lines i (ConfigEncodeKey kg b) pubText address @ after"
    unfolding p2p_printed_def by blast
  with assms(2) have "stdout s' =
      before @ p2p_lines i (ConfigEncodeKey kg b) pubText address @ (after @ lines)" by simp
  with assms(1) show ?thesis unfolding p2p_printed_def by blast
qed

lemma generateECDSAKey_writes:
  assumes "generateECDSAKey cr kg i s = (Ret (), s')"
  shows "\<exists>n key. GenerateKey kg n = Inr key \<and> (key_file i, FromECDSA kg key) \<in> set (files s') \<and>
      address_line (addressHex cr (GetSigningAddress cr key)) \<in> set (stdout s')"
    and "set (stdout s) \<subseteq> set (stdout s')" and "set (files s) \<subseteq> set (files s')"
proof -
  from assms obtain key where g1: "GenerateKey kg (drawn s) = Inr key"
    by (cases "GenerateKey kg (drawn s)") (auto simp: generateECDSAKey_def call_def of_sum_def)
  with assms have g2: "WriteFile kg (key_file i) (FromECDSA kg key) = None"
    by (cases "WriteFile kg (key_file i) (FromECDSA kg key)")
      (auto simp: generateECDSAKey_def call_def of_sum_def Let_def)
  have s': "s' = print (address_line (addressHex cr (PubkeyToAddress cr (publicKey cr key))))
       (print (''  Key file: '' @ key_file i @ newline)
       (print (''Generated ECDSA key for operator'' @ show_nat i @ '':'' @ newline)
          (s\<lparr>drawn := Suc (drawn s), files := files s @ [(key_file i, FromECDSA kg key)]\<rparr>)))"
    using assms g1 g2 by (simp add: generateECDSAKey_def call_def of_sum_def Let_def)
  show "set (stdout s) \<subseteq> set (stdout s')" "set (files s) \<subseteq> set (files s')"
    by (auto simp: s' print_def)
  show "\<exists>n key. GenerateKey kg n = Inr key \<and> (key_file i, FromECDSA kg key) \<in> set (files s') \<and>
      address_line (addressHex cr (GetSigningAddress cr key)) \<in> set (stdout s')"
    by (intro exI conjI, rule g1) (simp_all add: s' print_def GetSigningAddress_def)
qed

section \<open>The node reads the keys\<close>

text \<open>
  C40. Keys for the node. When the script ends with success for P2P keys, then for each of the three
  operators it printed a private key that the node reads, as \<open>--p2p-key-64\<close>, as the key that was
  drawn, and the address it printed is the one under which the other operators look for the row of
  every peer that has the public key drawn with it; the decoders of the key library invert its
  encoders.
\<close>

theorem generated_p2p_keys:
  assumes "gen_keys cr kg ''ed25519'' s = (0, s')" and "i \<in> {1, 2, 3}"
    and "\<And>priv b. MarshalPrivateKey kg priv = Inr b \<Longrightarrow>
      ConfigDecodeKey l (ConfigEncodeKey kg b) = Inr b \<and> UnmarshalPrivateKey l b = Inr priv"
  shows "\<exists>n priv pub before privText pubText address after.
    GenerateEd25519Key kg n = Inr (priv, pub) \<and>
    stdout s' = before @ p2p_lines i privText pubText address @ after \<and>
    Base64ToPrivKey l privText = Ret priv \<and>
    (\<forall>peer. ExtractPublicKey cr peer = Inr pub \<longrightarrow> PeerIDToP2PKey cr peer = Ret address)"
proof -
  let ?P = "\<lambda>i s'. \<exists>n priv pub b address. p2p_printed cr kg n priv pub b address i s'"
  have run: "for_operators (generateP2PKey cr kg) ''Failed to generate P2P key for operator'' [1, 2, 3] s
      = (0, s')"
    using assms(1) by (simp add: gen_keys_def split: option.splits)
  have "?P i s'"
  proof (rule for_operators_ok [where P = ?P, OF run])
    show "i \<in> set [1, 2, 3]" using assms(2) by simp
  next
    fix j u u'
    assume "generateP2PKey cr kg j u = (Ret (), u')"
    then show "?P j u'" using generateP2PKey_prints(1) by blast
  next
    fix i j u u'
    assume g: "generateP2PKey cr kg j u = (Ret (), u')" and P: "?P i u"
    from generateP2PKey_prints(2) [OF g] P p2p_printed_later show "?P i u'" by blast
  qed
  then obtain n priv pub b address where *: "p2p_printed cr kg n priv pub b address i s'" by blast
  then have "Base64ToPrivKey l (ConfigEncodeKey kg b) = Ret priv"
    using assms(3) [of priv b] by (simp add: Base64ToPrivKey_def p2p_printed_def)
  moreover have "\<forall>peer. ExtractPublicKey cr peer = Inr pub \<longrightarrow> PeerIDToP2PKey cr peer = Ret address"
    using * by (simp add: generateAddress_PeerIDToP2PKey p2p_printed_def)
  ultimately show ?thesis using * unfolding p2p_printed_def by blast
qed

text \<open>
  Key files. When the script ends with success for signing keys, then for each of the three
  operators it wrote a key to the operator's file, and the bytes of the file in hexadecimal, given as
  the signing key, make a signer whose address is the one the script printed. The file itself, given
  as the path of the signing key, is no such signer when the bytes of a key are not a keystore.
\<close>

theorem generated_ecdsa_keys:
  assumes "gen_keys cr kg ''ecdsa'' s = (0, s')" and "i \<in> {1, 2, 3}"
    and "\<And>key. FromECDSA kg key \<noteq> [] \<and> ToECDSA cr (FromECDSA kg key) = Inr key"
    and "\<And>key pw. \<exists>e. DecryptKey cr (FromECDSA kg key) pw = Inl e"
  shows "\<exists>n key. GenerateKey kg n = Inr key \<and>
    (key_file i, FromECDSA kg key) \<in> set (files s') \<and>
    NewLocalSigner cr (Some \<lparr>SigningKeyPath = [], SigningKey = hex_encode (FromECDSA kg key),
      Password = pw\<rparr>) = Ret key \<and>
    address_line (addressHex cr (GetSigningAddress cr key)) \<in> set (stdout s') \<and>
    (ReadFile cr (key_file i) = Inr (FromECDSA kg key) \<longrightarrow>
      (\<exists>e. NewLocalSigner cr (Some \<lparr>SigningKeyPath = key_file i, SigningKey = [], Password = pw\<rparr>)
        = Fail e))"
proof -
  let ?P = "\<lambda>i s'. \<exists>n key. GenerateKey kg n = Inr key \<and>
      (key_file i, FromECDSA kg key) \<in> set (files s') \<and>
      address_line (addressHex cr (GetSigningAddress cr key)) \<in> set (stdout s')"
  have run: "for_operators (generateECDSAKey cr kg) ''Failed to generate ECDSA key for operator'' [1, 2, 3] s
      = (0, s')"
    using assms(1) by (simp add: gen_keys_def split: option.splits)
  have "?P i s'"
  proof (rule for_operators_ok [where P = ?P, OF run])
    show "i \<in> set [1, 2, 3]" using assms(2) by simp
  next
    fix j u u'
    assume "generateECDSAKey cr kg j u = (Ret (), u')"
    then show "?P j u'" by (rule generateECDSAKey_writes(1))
  next
    fix i j u u'
    assume g: "generateECDSAKey cr kg j u = (Ret (), u')" and P: "?P i u"
    from generateECDSAKey_writes(2,3) [OF g] P show "?P i u'" by blast
  qed
  then obtain n key where *: "GenerateKey kg n = Inr key"
    "(key_file i, FromECDSA kg key) \<in> set (files s')"
    "address_line (addressHex cr (GetSigningAddress cr key)) \<in> set (stdout s')"
    by blast
  have "hex_encode (FromECDSA kg key) \<noteq> []"
    using assms(3) by (cases "FromECDSA kg key") (auto simp: hex_encode_def)
  then have "NewLocalSigner cr (Some \<lparr>SigningKeyPath = [], SigningKey = hex_encode (FromECDSA kg key),
      Password = pw\<rparr>) = Ret key"
    using assms(3) by (simp add: NewLocalSigner_def TrimPrefix_hex hex_decode_encode)
  moreover have "ReadFile cr (key_file i) = Inr (FromECDSA kg key) \<longrightarrow>
      (\<exists>e. NewLocalSigner cr (Some \<lparr>SigningKeyPath = key_file i, SigningKey = [], Password = pw\<rparr>)
        = Fail e)"
    using assms(4) [of key pw] by (auto simp: NewLocalSigner_def key_file_def)
  ultimately show ?thesis using * by blast
qed

text \<open>A library of keys for the witnesses.\<close>

definition toy_keygen :: keygen where
  "toy_keygen =
     \<lparr>GenerateEd25519Key = (\<lambda>n. Inr ([word_of_nat n], [word_of_nat n])), MarshalPrivateKey = Inr,
      ConfigEncodeKey = hex_encode, GenerateKey = (\<lambda>n. Inr [word_of_nat n]),
      FromECDSA = (\<lambda>k. 1 # k), HexToECDSA = (\<lambda>s. Inr []), WriteFile = (\<lambda>_ _. None),
      MkdirAll = (\<lambda>_. None)\<rparr>"

definition toy_decoder :: "string \<Rightarrow> error + bytes" where
  "toy_decoder s = (case hex_decode s of None \<Rightarrow> Inl (Err ''hex'') | Some bs \<Rightarrow> Inr bs)"

definition toy_key_files :: crypto where
  "toy_key_files = toy_crypto\<lparr>ToECDSA := (\<lambda>b. Inr (tl b)), ReadFile := (\<lambda>f. Inr [1, 2]),
     DecryptKey := (\<lambda>b p. Inl (Err ''no keystore''))\<rparr>"

definition toy_script :: script where
  "toy_script = \<lparr>drawn = 0, stdout = [], files = []\<rparr>"

theorem generated_p2p_keys_witness:
  "fst (gen_keys toy_crypto toy_keygen ''ed25519'' toy_script) = 0 \<and>
   (\<exists>n priv pub before privText pubText address after.
      GenerateEd25519Key toy_keygen n = Inr (priv, pub) \<and>
      stdout (snd (gen_keys toy_crypto toy_keygen ''ed25519'' toy_script)) =
        before @ p2p_lines 2 privText pubText address @ after \<and>
      Base64ToPrivKey (toy_libs\<lparr>ConfigDecodeKey := toy_decoder\<rparr>) privText = Ret priv \<and>
      (\<forall>peer. ExtractPublicKey toy_crypto peer = Inr pub \<longrightarrow>
         PeerIDToP2PKey toy_crypto peer = Ret address))"
proof
  show ok: "fst (gen_keys toy_crypto toy_keygen ''ed25519'' toy_script) = 0"
    by (simp add: gen_keys_def generateP2PKey_def generateAddress_def toy_keygen_def toy_crypto_def
        toy_script_def call_def of_sum_def print_def)
  show "\<exists>n priv pub before privText pubText address after.
      GenerateEd25519Key toy_keygen n = Inr (priv, pub) \<and>
      stdout (snd (gen_keys toy_crypto toy_keygen ''ed25519'' toy_script)) =
        before @ p2p_lines 2 privText pubText address @ after \<and>
      Base64ToPrivKey (toy_libs\<lparr>ConfigDecodeKey := toy_decoder\<rparr>) privText = Ret priv \<and>
      (\<forall>peer. ExtractPublicKey toy_crypto peer = Inr pub \<longrightarrow>
         PeerIDToP2PKey toy_crypto peer = Ret address)"
  proof (rule generated_p2p_keys)
    show "gen_keys toy_crypto toy_keygen ''ed25519'' toy_script =
        (0, snd (gen_keys toy_crypto toy_keygen ''ed25519'' toy_script))"
      using ok by (simp add: prod_eq_iff)
  qed (auto simp: toy_keygen_def toy_libs_def toy_decoder_def hex_decode_encode)
qed

theorem generated_ecdsa_keys_witness:
  "fst (gen_keys toy_key_files toy_keygen ''ecdsa'' toy_script) = 0 \<and>
   (\<exists>n key. GenerateKey toy_keygen n = Inr key \<and>
      (key_file 3, FromECDSA toy_keygen key) \<in>
        set (files (snd (gen_keys toy_key_files toy_keygen ''ecdsa'' toy_script))) \<and>
      NewLocalSigner toy_key_files (Some \<lparr>SigningKeyPath = [],
        SigningKey = hex_encode (FromECDSA toy_keygen key), Password = []\<rparr>) = Ret key \<and>
      address_line (addressHex toy_key_files (GetSigningAddress toy_key_files key)) \<in>
        set (stdout (snd (gen_keys toy_key_files toy_keygen ''ecdsa'' toy_script))) \<and>
      (ReadFile toy_key_files (key_file 3) = Inr (FromECDSA toy_keygen key) \<longrightarrow>
        (\<exists>e. NewLocalSigner toy_key_files
          (Some \<lparr>SigningKeyPath = key_file 3, SigningKey = [], Password = []\<rparr>) = Fail e)))"
proof
  show ok: "fst (gen_keys toy_key_files toy_keygen ''ecdsa'' toy_script) = 0"
    by (simp add: gen_keys_def generateECDSAKey_def toy_key_files_def toy_keygen_def toy_crypto_def
        toy_script_def call_def of_sum_def print_def Let_def)
  show "\<exists>n key. GenerateKey toy_keygen n = Inr key \<and>
      (key_file 3, FromECDSA toy_keygen key) \<in>
        set (files (snd (gen_keys toy_key_files toy_keygen ''ecdsa'' toy_script))) \<and>
      NewLocalSigner toy_key_files (Some \<lparr>SigningKeyPath = [],
        SigningKey = hex_encode (FromECDSA toy_keygen key), Password = []\<rparr>) = Ret key \<and>
      address_line (addressHex toy_key_files (GetSigningAddress toy_key_files key)) \<in>
        set (stdout (snd (gen_keys toy_key_files toy_keygen ''ecdsa'' toy_script))) \<and>
      (ReadFile toy_key_files (key_file 3) = Inr (FromECDSA toy_keygen key) \<longrightarrow>
        (\<exists>e. NewLocalSigner toy_key_files
          (Some \<lparr>SigningKeyPath = key_file 3, SigningKey = [], Password = []\<rparr>) = Fail e))"
  proof (rule generated_ecdsa_keys)
    show "gen_keys toy_key_files toy_keygen ''ecdsa'' toy_script =
        (0, snd (gen_keys toy_key_files toy_keygen ''ecdsa'' toy_script))"
      using ok by (simp add: prod_eq_iff)
  qed (auto simp: toy_keygen_def toy_key_files_def)
qed

end
