(* ===== verification/Goroutines.thy ===== *)
theory Goroutines
  imports OperatorNode
begin

text \<open>
  The handlers of the task processor as the goroutines they are: programs whose steps can be
  interleaved with the steps of other goroutines. A step is one statement of the database, one call of
  a chain, one publication, or one access to a shared variable under its mutex. Run without
  interruption, each program is the handler of \<open>TaskProc\<close>.

  The check for consensus takes the two maps of a task out of the critical section and reads them
  without the mutex; here they are read at once, at the moment at which the check takes them.
\<close>

section \<open>Programs\<close>

text \<open>\<open>Act f k\<close> changes the state by \<open>f\<close> and goes on with \<open>k\<close>, which depends on the state before.\<close>

datatype 'a prog = Done "'a res" | Act "World \<Rightarrow> World" "World \<Rightarrow> 'a prog"

primrec run :: "'a prog \<Rightarrow> World \<Rightarrow> 'a res \<times> World" where
  "run (Done r) w = (r, w)"
| "run (Act f k) w = run (k w) (f w)"

primrec bind :: "'a prog \<Rightarrow> ('a res \<Rightarrow> 'b prog) \<Rightarrow> 'b prog" where
  "bind (Done r) h = h r"
| "bind (Act f k) h = Act f (\<lambda>w. bind (k w) h)"

definition atom :: "(World \<Rightarrow> 'a res \<times> World) \<Rightarrow> 'a prog" where
  "atom c = Act (\<lambda>w. snd (c w)) (\<lambda>w. Done (fst (c w)))"

definition peek :: "(World \<Rightarrow> 'a prog) \<Rightarrow> 'a prog" where
  "peek k = Act (\<lambda>w. w) k"

text \<open>The counterparts of \<open>call\<close>, \<open>call'\<close> and \<open>ignoring\<close>.\<close>

definition and_then :: "string \<Rightarrow> 'a prog \<Rightarrow> ('a \<Rightarrow> 'b prog) \<Rightarrow> 'b prog" where
  "and_then msg p k =
     bind p (\<lambda>r. case r of Ret x \<Rightarrow> k x | Fail e \<Rightarrow> Done (Fail (Wrap msg e)) | Panic \<Rightarrow> Done Panic)"

definition and_then' :: "'a prog \<Rightarrow> ('a \<Rightarrow> 'b prog) \<Rightarrow> 'b prog" where
  "and_then' p k =
     bind p (\<lambda>r. case r of Ret x \<Rightarrow> k x | Fail e \<Rightarrow> Done (Fail e) | Panic \<Rightarrow> Done Panic)"

definition despite :: "'a prog \<Rightarrow> unit prog \<Rightarrow> unit prog" where
  "despite p q = bind p (\<lambda>r. case r of Panic \<Rightarrow> Done Panic | _ \<Rightarrow> q)"

lemma run_bind: "run (bind p h) w = (case run p w of (r, w') \<Rightarrow> run (h r) w')"
  by (induction p arbitrary: w) auto

lemma run_steps [simp]:
  "run (atom c) w = c w"
  "run (peek k) w = run (k w) w"
  by (simp_all add: atom_def peek_def)

lemma run_and_then [simp]:
  "run (and_then msg p k) w = call msg (run p w) (\<lambda>x. run (k x))"
  "run (and_then' p k) w = call' (run p w) (\<lambda>x. run (k x))"
  "run (despite p q) w = ignoring (run p w) (run q)"
  by (auto simp: and_then_def and_then'_def despite_def run_bind call_def call'_def ignoring_def
      split: prod.split res.split)

text \<open>Continuations that agree everywhere; this is how the two forms of a handler are compared.\<close>

lemma continue_cong:
  "(\<And>x u. k x u = k' x u) \<Longrightarrow> call msg r k = call msg r k'"
  "(\<And>x u. k x u = k' x u) \<Longrightarrow> call' r k = call' r k'"
  "(\<And>u. q u = q' u) \<Longrightarrow> ignoring r q = ignoring r q'"
  by (auto simp: call_def call'_def ignoring_def split: prod.split res.split)

section \<open>The handlers\<close>

fun collectP ::
  "env \<Rightarrow> (string, taskResponse) gomap \<Rightarrow> string list \<Rightarrow> bytes list \<Rightarrow> string list \<Rightarrow>
     (bytes list \<times> string list) prog" where
  "collectP env rs [] signatures addresses = Done (Ret (signatures, addresses))"
| "collectP env rs (key # keys) signatures addresses =
     and_then ''failed to get operator for signing key'' (atom (GetOperatorBySigningKey (pgp env) key))
       (\<lambda>operator.
          case operator of
            None \<Rightarrow> Done (Fail (Err ''operator not found for signing key''))
          | Some op \<Rightarrow>
              collectP env rs keys
                (signatures @ [case map_of rs key of None \<Rightarrow> [] | Some r \<Rightarrow> r_signature r])
                (addresses @ [o_Address op]))"

definition markTaskAsCompletedP :: "env \<Rightarrow> string \<Rightarrow> unit prog" where
  "markTaskAsCompletedP env taskID =
     and_then ''failed to get task'' (atom (GetTaskByID (pgp env) taskID)) (\<lambda>_.
     and_then ''failed to update task status'' (atom (UpdateTaskToCompleted (pgp env) taskID)) (\<lambda>_.
       Done (Ret ())))"

definition checkConsensusP :: "env \<Rightarrow> taskResponse \<Rightarrow> unit prog" where
  "checkConsensusP env response =
     peek (\<lambda>w.
       let taskID = r_taskID response;
           rs = (case map_of (responses (taskResponseTrack w)) taskID of None \<Rightarrow> [] | Some m \<Rightarrow> m);
           ws = (case map_of (weights (taskResponseTrack w)) taskID of None \<Rightarrow> [] | Some m \<Rightarrow> m)
       in if length rs = 0 then Done (Ret ())
          else
            and_then' (Done (calculateTotalWeight ws)) (\<lambda>totalWeight.
            peek (\<lambda>w.
              case querier_GetThresholdWeight w of
                None \<Rightarrow> Done Panic
              | Some threshold \<Rightarrow>
                  if totalWeight < threshold then Done (Ret ())
                  else
                    and_then ''failed to collect signatures and addresses''
                      (collectP env rs (sort (gokeys rs)) [] []) (\<lambda>(signatures, addresses).
                    and_then ''failed to create consensus response''
                      (atom (CreateConsensusResponse (pgp env)
                         \<lparr>cc_TaskID = taskID, cc_Epoch = r_epoch response,
                          cc_Value = StringToNumeric (r_value response),
                          cc_Key = StringToNumeric (r_key response),
                          cc_ChainID = r_chainID response,
                          cc_BlockNumber = r_blockNumber response,
                          cc_TargetAddress = r_targetAddress response,
                          cc_AggregatedSignatures = signatures,
                          cc_OperatorAddresses = addresses\<rparr>)) (\<lambda>_.
                    and_then ''failed to mark task as completed'' (markTaskAsCompletedP env taskID)
                      (\<lambda>_. Done (Ret ())))))))"

lemma run_collectP: "run (collectP env rs ks ss as) w = collectLoop env rs ks ss as w"
  by (induction ks arbitrary: ss as w) (auto intro!: continue_cong split: option.split)

lemma run_markTask: "run (markTaskAsCompletedP env t) w = markTaskAsCompleted env t w"
  by (auto simp: markTaskAsCompletedP_def markTaskAsCompleted_def intro!: continue_cong)

lemma run_checkConsensus: "run (checkConsensusP env response) w = checkConsensus env response w"
  by (auto simp: checkConsensusP_def checkConsensus_def Let_def run_collectP run_markTask
      collectSignaturesAndAddresses_def intro!: continue_cong split: option.split prod.split)

text \<open>Processing a task.\<close>

fun stateAttemptsP :: "env \<Rightarrow> chainClient \<Rightarrow> address \<Rightarrow> int option \<Rightarrow> u64 \<Rightarrow> nat \<Rightarrow> int prog" where
  "stateAttemptsP env c target key blockNumber 0 = Done (Fail (Err ''failed to get state after retries''))"
| "stateAttemptsP env c target key blockNumber (Suc n) =
     bind (atom (BlockNumber (rpcp env) c)) (\<lambda>r.
       case r of
         Panic \<Rightarrow> Done Panic
       | Fail _ \<Rightarrow> stateAttemptsP env c target key blockNumber n
       | Ret latestBlock \<Rightarrow>
           if latestBlock < blockNumber then Done (Fail (Err ''block number is in the future''))
           else
             bind (atom (GetStateAtBlock (rpcp env) c target key blockNumber)) (\<lambda>r.
               case r of
                 Panic \<Rightarrow> Done Panic
               | Fail e \<Rightarrow>
                   if contains (error_text e) ''0x7c44ec9a'' then
                     Done (Fail (Err ''block not found in state history''))
                   else if contains (error_text e) ''StateManager__KeyNotFound'' then
                     Done (Fail (Err ''key not found for address''))
                   else if contains (error_text e) ''StateManager__NoHistoryFound'' then
                     Done (Fail (Err ''no state history found for block and key''))
                   else stateAttemptsP env c target key blockNumber n
               | Ret state \<Rightarrow> Done (Ret state)))"

definition signedResponseP :: "env \<Rightarrow> Tasks \<Rightarrow> taskResponse prog" where
  "signedResponseP env task =
     (if t_BlockNumber task = 0 then Done (Fail (Err ''task block number is nil''))
      else
        peek (\<lambda>w.
        and_then ''failed to get state client'' (Done (GetClientByChainId (manager w) (t_ChainID task)))
          (\<lambda>chainClient.
        and_then ''failed to convert key to big.Int'' (Done (NumericToBigInt (t_Key task)))
          (\<lambda>KeyBig.
        and_then ''failed to get state''
          (stateAttemptsP env chainClient (HexToAddress (crp env) (t_TargetAddress task)) KeyBig
             (t_BlockNumber task) 3)
          (\<lambda>value.
        and_then ''failed to convert task value to big.Int'' (Done (NumericToBigInt (t_Value task)))
          (\<lambda>taskValueBig.
        case taskValueBig of
          None \<Rightarrow> Done Panic
        | Some taskValue \<Rightarrow>
            if value \<noteq> taskValue then Done (Fail (Err ''state value mismatch''))
            else
              and_then ''failed to sign response''
                (Done (SignTaskResponse (crp env) (signKey env)
                   \<lparr>sp_User = HexToAddress (crp env) (t_TargetAddress task),
                    sp_ChainID = t_ChainID task, sp_BlockNumber = t_BlockNumber task,
                    sp_Key = KeyBig, sp_Value = Some value\<rparr>))
                (\<lambda>signature.
                   Done (Ret \<lparr>r_taskID = t_TaskID task, r_signature = signature,
                         r_epoch = t_Epoch task, r_chainID = t_ChainID task,
                         r_targetAddress = t_TargetAddress task,
                         r_key = NumericToString (t_Key task), r_value = big_String value,
                         r_blockNumber = t_BlockNumber task\<rparr>))))))))"

definition ownWeightP :: "env \<Rightarrow> int option prog" where
  "ownWeightP env =
     and_then ''failed to get operator'' (atom (GetOperatorBySigningKey (pgp env) (self env))) (\<lambda>operator.
       case operator of
         None \<Rightarrow> Done Panic
       | Some op \<Rightarrow>
           and_then ''failed to convert operator weight to big int'' (Done (NumericToBigInt (o_Weight op)))
             (\<lambda>weight. Done (Ret weight)))"

definition ProcessTaskP :: "env \<Rightarrow> Tasks option \<Rightarrow> unit prog" where
  "ProcessTaskP env taskPtr =
     (case taskPtr of
        None \<Rightarrow> Done (Fail (Err ''task is nil''))
      | Some task \<Rightarrow>
          peek (\<lambda>w.
            if alreadyProcessed (taskResponseTrack w) (t_TaskID task) (self env) then Done (Ret ())
            else
              and_then' (signedResponseP env task) (\<lambda>response.
              and_then' (ownWeightP env) (\<lambda>weight.
              and_then' (atom (on_track (storeResponseAndWeight response (self env) weight))) (\<lambda>_.
              and_then ''failed to broadcast response'' (atom (broadcastResponse env response)) (\<lambda>_.
              despite (checkConsensusP env response) (Done (Ret ()))))))))"

lemma run_stateAttempts:
  "run (stateAttemptsP env c a k b n) w = stateAttempts env c a k b n w"
  by (induction n arbitrary: w) (auto simp: run_bind split: prod.split res.split)

lemma run_signedResponse: "run (signedResponseP env task) w = signedResponse env task w"
  by (auto simp: signedResponseP_def signedResponse_def getStateWithRetries_def run_stateAttempts
      intro!: continue_cong split: option.split)

lemma run_ownWeight: "run (ownWeightP env) w = ownWeight env w"
  by (auto simp: ownWeightP_def ownWeight_def intro!: continue_cong split: option.split)

lemma run_ProcessTask: "run (ProcessTaskP env t) w = ProcessTask env t w"
  by (auto simp: ProcessTaskP_def ProcessTask_def run_signedResponse run_ownWeight run_checkConsensus
      intro!: continue_cong split: option.split)

text \<open>Processing a response.\<close>

definition incrementPeerViolationP :: "env \<Rightarrow> peerID \<Rightarrow> error \<Rightarrow> unit prog" where
  "incrementPeerViolationP env peer originalErr =
     (let peerIDStr = peerIDString (crp env) peer in
      bind (atom (IncrementViolationCount (pgp env) Pool
             \<lparr>iv_PeerID = peerIDStr, iv_ViolationCount = 1, iv_ExpiresAt = None\<rparr>
             (Some peerIDStr))) (\<lambda>r.
        case r of
          Panic \<Rightarrow> Done Panic
        | Fail err \<Rightarrow> Done (Fail (Wrap (error_text originalErr) err))
        | Ret _ \<Rightarrow> Done (Fail (Wrap (error_text originalErr) (Err ''%!w(<nil>)'')))))"

definition processActiveP :: "env \<Rightarrow> peerID \<Rightarrow> taskResponse \<Rightarrow> Operators \<Rightarrow> unit prog" where
  "processActiveP env peer response operator =
     (let signerKey = o_SigningKey operator in
      peek (\<lambda>w.
      if alreadyProcessed (taskResponseTrack w) (r_taskID response) signerKey then Done (Ret ())
      else
        bind (atom (GetConsensusResponseByTaskId (pgp env) (r_taskID response))) (\<lambda>r.
          case r of
            Panic \<Rightarrow> Done Panic
          | Ret (Some _) \<Rightarrow> Done (Ret ())
          | _ \<Rightarrow>
              (case verifyResponse env response signerKey of
                 Panic \<Rightarrow> Done Panic
               | Fail e \<Rightarrow> incrementPeerViolationP env peer (Wrap ''failed to verify response'' e)
               | Ret _ \<Rightarrow>
                   and_then ''failed to convert operator weight to big int''
                     (Done (NumericToBigInt (o_Weight operator))) (\<lambda>weight.
                   and_then' (atom (on_track (storeResponseAndWeight response signerKey weight))) (\<lambda>_.
                   despite (checkConsensusP env response)
                     (peek (\<lambda>w.
                        if alreadyProcessed (taskResponseTrack w) (r_taskID response) (self env)
                        then Done (Ret ())
                        else
                          and_then ''failed to process task''
                            (ProcessTaskP env (Some (taskOfResponse response)))
                            (\<lambda>_. Done (Ret ()))))))))))"

definition processResponseP :: "env \<Rightarrow> bytes \<Rightarrow> peerID \<Rightarrow> unit prog" where
  "processResponseP env data peer =
     (case unmarshal env data of
        Inl e \<Rightarrow> Done (Fail (Wrap ''failed to unmarshal message'' e))
      | Inr pb \<Rightarrow>
          (let response = convertProtoToResponse pb in
           peek (\<lambda>w.
             if r_epoch response \<noteq> GetCurrentEpochNumber w then Done (Ret ())
             else
               (case PeerIDToP2PKey (crp env) peer of
                  Panic \<Rightarrow> Done Panic
                | Fail e \<Rightarrow>
                    incrementPeerViolationP env peer (Wrap ''failed to convert peer ID to P2P key'' e)
                | Ret p2pKey \<Rightarrow>
                    bind (atom (GetOperatorByP2PKey (pgp env) p2pKey)) (\<lambda>r.
                      case r of
                        Panic \<Rightarrow> Done Panic
                      | Fail e \<Rightarrow>
                          incrementPeerViolationP env peer (Wrap ''failed to get operator state'' e)
                      | Ret None \<Rightarrow>
                          incrementPeerViolationP env peer (Err ''operator not exist or not active'')
                      | Ret (Some operator) \<Rightarrow>
                          if \<not> o_IsActive operator then
                            incrementPeerViolationP env peer (Err ''operator not exist or not active'')
                          else processActiveP env peer response operator)))))"

lemma run_incrementPeerViolation:
  "run (incrementPeerViolationP env peer e) w = incrementPeerViolation env peer e w"
  by (auto simp: incrementPeerViolationP_def incrementPeerViolation_def Let_def run_bind
      split: prod.split res.split)

lemma run_processActive:
  "run (processActiveP env peer response op) w = processActive env peer response op w"
proof -
  have tail: "run (despite (checkConsensusP env response) (peek (\<lambda>w.
        if alreadyProcessed (taskResponseTrack w) (r_taskID response) (self env) then Done (Ret ())
        else and_then ''failed to process task'' (ProcessTaskP env (Some (taskOfResponse response)))
               (\<lambda>_. Done (Ret ()))))) u =
      ignoring (checkConsensus env response u) (\<lambda>w.
        if alreadyProcessed (taskResponseTrack w) (r_taskID response) (self env) then (Ret (), w)
        else call ''failed to process task'' (ProcessTask env (Some (taskOfResponse response)) w)
               (\<lambda>_ w. (Ret (), w)))" for u
    by (auto simp: run_checkConsensus run_ProcessTask intro!: continue_cong)
  show ?thesis
    by (auto simp: processActiveP_def processActive_def Let_def run_bind run_incrementPeerViolation
        tail intro!: continue_cong simp del: run_and_then(3) split: prod.split res.split option.split)
qed

lemma run_processResponse: "run (processResponseP env data peer) w = processResponse env data peer w"
  by (auto simp: processResponseP_def processResponse_def Let_def run_bind run_incrementPeerViolation
      run_processActive split: prod.split res.split option.split sum.split)

text \<open>The periodic checks.\<close>

fun for_eachP :: "('a \<Rightarrow> unit prog) \<Rightarrow> 'a list \<Rightarrow> unit prog" where
  "for_eachP body [] = Done (Ret ())"
| "for_eachP body (x # xs) = despite (body x) (for_eachP body xs)"

definition timeoutTaskP :: "env \<Rightarrow> Tasks \<Rightarrow> unit prog" where
  "timeoutTaskP env task =
     bind (atom (IncrementRetryCount (pgp env) (t_TaskID task))) (\<lambda>r.
       case r of
         Panic \<Rightarrow> Done Panic
       | Fail _ \<Rightarrow> Done (Ret ())
       | Ret None \<Rightarrow> Done Panic
       | Ret (Some new) \<Rightarrow>
           if maxRetryCount \<le> t_RetryCount new then
             despite (atom (DeleteTaskByID (pgp env) (t_TaskID task)))
               (atom (on_track (\<lambda>tr. (Ret (), cleanupTask (t_TaskID task) tr))))
           else ProcessTaskP env (Some task))"

definition checkTimeoutsP :: "env \<Rightarrow> unit prog" where
  "checkTimeoutsP env =
     bind (atom (ListPendingTasks (pgp env))) (\<lambda>r.
       case r of
         Panic \<Rightarrow> Done Panic
       | Fail _ \<Rightarrow> Done (Ret ())
       | Ret ts \<Rightarrow> for_eachP (timeoutTaskP env) ts)"

definition confirmTaskP :: "env \<Rightarrow> Tasks \<Rightarrow> unit prog" where
  "confirmTaskP env task =
     peek (\<lambda>w.
       case GetClientByChainId (manager w) (t_ChainID task) of
         Panic \<Rightarrow> Done Panic
       | Fail _ \<Rightarrow> Done (Ret ())
       | Ret chainClient \<Rightarrow>
           bind (atom (BlockNumber (rpcp env) chainClient)) (\<lambda>r.
             case r of
               Panic \<Rightarrow> Done Panic
             | Fail _ \<Rightarrow> Done (Ret ())
             | Ret latestBlock \<Rightarrow>
                 if t_BlockNumber task = 0 then Done (Ret ())
                 else
                   (let targetBlock = t_BlockNumber task + ucast (t_RequiredConfirmations task) in
                    if targetBlock \<le> latestBlock then
                      bind (atom (UpdateTaskToPending (pgp env) (t_TaskID task))) (\<lambda>r.
                        case r of
                          Panic \<Rightarrow> Done Panic
                        | Fail _ \<Rightarrow> Done (Ret ())
                        | Ret _ \<Rightarrow> despite (ProcessTaskP env (Some task)) (Done (Ret ())))
                    else Done (Ret ()))))"

definition checkConfirmationsP :: "env \<Rightarrow> unit prog" where
  "checkConfirmationsP env =
     bind (atom (ListConfirmingTasks (pgp env))) (\<lambda>r.
       case r of
         Panic \<Rightarrow> Done Panic
       | Fail _ \<Rightarrow> Done (Ret ())
       | Ret ts \<Rightarrow> for_eachP (confirmTaskP env) ts)"

lemma run_for_each:
  assumes "\<And>x u. run (bodyP x) u = body x u"
  shows "run (for_eachP bodyP xs) w = for_each body xs w"
  by (induction xs arbitrary: w) (auto simp: assms intro!: continue_cong)

lemma run_timeoutTask: "run (timeoutTaskP env task) w = timeoutTask env task w"
  by (auto simp: timeoutTaskP_def timeoutTask_def run_bind run_ProcessTask intro!: continue_cong
      split: prod.split res.split option.split)

lemma run_confirmTask: "run (confirmTaskP env task) w = confirmTask env task w"
  by (auto simp: confirmTaskP_def confirmTask_def Let_def run_bind run_ProcessTask
      intro!: continue_cong split: prod.split res.split)

lemma run_checks:
  "run (checkTimeoutsP env) w = checkTimeouts env w"
  "run (checkConfirmationsP env) w = checkConfirmations env w"
  by (auto simp: checkTimeoutsP_def checkTimeouts_def checkConfirmationsP_def checkConfirmations_def
      run_bind run_for_each [OF run_timeoutTask] run_for_each [OF run_confirmTask]
      split: prod.split res.split)

section \<open>Programs that keep an invariant at every step\<close>

inductive safe :: "(World \<Rightarrow> bool) \<Rightarrow> ('a res \<Rightarrow> bool) \<Rightarrow> 'a prog \<Rightarrow> bool" for Q P where
  safe_Done: "P r \<Longrightarrow> safe Q P (Done r)"
| safe_Act: "(\<And>w. Q w \<Longrightarrow> Q (f w)) \<Longrightarrow> (\<And>w. Q w \<Longrightarrow> safe Q P (k w)) \<Longrightarrow> safe Q P (Act f k)"

inductive_simps safe_simps [simp]:
  "safe Q P (Done r)"
  "safe Q P (Act f k)"

lemma safe_bind:
  assumes "safe Q P p" and "\<And>r. P r \<Longrightarrow> safe Q P' (h r)"
  shows "safe Q P' (bind p h)"
  using assms by induction auto

lemma safe_atom:
  assumes "\<And>w. Q w \<Longrightarrow> Q (snd (c w))" and "\<And>w. Q w \<Longrightarrow> P (fst (c w))"
  shows "safe Q P (atom c)"
  using assms by (simp add: atom_def)

lemma safe_peek: "(\<And>w. Q w \<Longrightarrow> safe Q P (k w)) \<Longrightarrow> safe Q P (peek k)"
  by (simp add: peek_def)

text \<open>What is known of a value, when a call returns one.\<close>

definition returns :: "('a \<Rightarrow> bool) \<Rightarrow> 'a res \<Rightarrow> bool" where
  "returns P r \<longleftrightarrow> (\<forall>x. r = Ret x \<longrightarrow> P x)"

lemma returns_simps [simp]:
  "returns P (Ret x) \<longleftrightarrow> P x" "returns P (Fail e)" "returns P Panic"
  by (simp_all add: returns_def)

lemma safe_and_then:
  assumes "safe Q (returns P) p" and "\<And>x. P x \<Longrightarrow> safe Q (returns P') (k x)"
  shows "safe Q (returns P') (and_then msg p k)" "safe Q (returns P') (and_then' p k)"
  unfolding and_then_def and_then'_def
  by (rule safe_bind [OF assms(1)]; use assms(2) in \<open>simp add: returns_def split: res.split\<close>)+

lemma safe_despite:
  assumes "safe Q (returns P) p" and "safe Q (returns P') q"
  shows "safe Q (returns P') (despite p q)"
  unfolding despite_def
  by (rule safe_bind [OF assms(1)]) (use assms(2) in \<open>simp split: res.split\<close>)

end
