(* ===== verification/Requests.thy ===== *)
theory Requests
  imports Goroutines
begin

text \<open>
  The handlers of the HTTP API (\<open>pkg/operator/api\<close>) as programs whose steps can be interleaved, as in
  \<open>Goroutines\<close>: a step is one call of a chain or one statement of the database. The search of a block by
  its timestamp is one step, and it may not end: then the handler never answers, which is the value
  \<open>None\<close>. Run without interruption, each program is the handler of \<open>Api\<close>.
\<close>

section \<open>Programs that answer\<close>

text \<open>The counterpart of \<open>orError\<close>.\<close>

definition or_error ::
  "nat \<Rightarrow> (error \<Rightarrow> string) \<Rightarrow> 'a prog \<Rightarrow> ('a \<Rightarrow> api_answer option prog) \<Rightarrow> api_answer option prog" where
  "or_error status msg p k =
     bind p (\<lambda>r. case r of
        Ret x \<Rightarrow> k x
      | Fail e \<Rightarrow> Done (Ret (Some (writeError status (msg e))))
      | Panic \<Rightarrow> Done Panic)"

text \<open>What a run ends with, for a handler that may not end.\<close>

fun outcome :: "'a option res \<times> World \<Rightarrow> ('a res \<times> World) option" where
  "outcome (Ret None, w) = None"
| "outcome (Ret (Some a), w) = Some (Ret a, w)"
| "outcome (Fail e, w) = Some (Fail e, w)"
| "outcome (Panic, w) = Some (Panic, w)"

lemma outcome_or_error [simp]:
  "outcome (run (or_error status msg p k) w) = orError status msg (run p w) (\<lambda>x w. outcome (run (k x) w))"
  by (auto simp: or_error_def orError_def run_bind split: prod.split res.split)

lemma orError_cong:
  "(\<And>x u. k x u = k' x u) \<Longrightarrow> orError status msg r k = orError status msg r k'"
  by (auto simp: orError_def split: prod.split res.split)

section \<open>The handlers\<close>

definition validateRequestP :: "env \<Rightarrow> Config \<Rightarrow> int \<Rightarrow> SendRequestParams \<Rightarrow> unit prog" where
  "validateRequestP env cfg now params =
     (if sr_ChainID params = 0 then Done (Fail (Err ''invalid chain ID: must be positive integer''))
      else if map_of (Chains cfg) (sr_ChainID params) = None then
        Done (Fail (Err ''unsupported chain ID''))
      else if \<not> IsHexAddress (crp env) (sr_TargetAddress params) then
        Done (Fail (Err ''invalid target address: must be valid EVM address''))
      else
        (case big_SetString0 (sr_Key params) of
           None \<Rightarrow> Done (Fail (Err ''invalid key: must be valid uint256''))
         | Some keyBig \<Rightarrow>
             if keyBig < 0 \<or> 2 ^ 256 - 1 < keyBig then
               Done (Fail (Err ''invalid key: must be within uint256 range''))
             else if sr_BlockNumber params = 0 \<and> sr_Timestamp params = 0 then
               Done (Fail (Err ''either block number or timestamp must be provided''))
             else if sr_BlockNumber params \<noteq> 0 \<and> sr_Timestamp params \<noteq> 0 then
               Done (Fail (Err ''only one of block number or timestamp should be provided''))
             else
               and_then' (if sr_BlockNumber params \<noteq> 0 then
                            peek (\<lambda>w.
                            and_then ''failed to get state client''
                              (Done (GetClientByChainId (manager w) (sr_ChainID params))) (\<lambda>chainClient.
                            and_then ''failed to get latest block'' (atom (BlockNumber (rpcp env) chainClient))
                              (\<lambda>latestBlock.
                                 if latestBlock < sr_BlockNumber params then
                                   Done (Fail (Err ''block number is in the future''))
                                 else Done (Ret ()))))
                          else Done (Ret ()))
                 (\<lambda>_.
                    if sr_Timestamp params \<noteq> 0 \<and> word_of_int now < sr_Timestamp params then
                      Done (Fail (Err ''timestamp is in the future''))
                    else Done (Ret ()))))"

definition requestBlockP :: "env \<Rightarrow> chainClient \<Rightarrow> SendRequestParams \<Rightarrow> u64 option prog" where
  "requestBlockP env c params =
     (if sr_Timestamp params \<noteq> 0 then
        atom (\<lambda>w. case TimestampToBlockNumber (rpcBlockNumber (rpcp env) (calls w) (cl_chain c))
                  (rpcBlockTime (rpcp env) (calls w) (cl_chain c)) (sr_ChainID params)
                  (sr_Timestamp params) of
             None \<Rightarrow> (Ret None, w)
           | Some (Inl e) \<Rightarrow> (Fail e, tick w)
           | Some (Inr n) \<Rightarrow> (Ret (Some n), tick w))
      else Done (Ret (Some (sr_BlockNumber params))))"

definition processCreatedP :: "env \<Rightarrow> string \<Rightarrow> Tasks option \<Rightarrow> api_answer option prog" where
  "processCreatedP env statusMessage taskPtr =
     (case taskPtr of
        None \<Rightarrow> Done (Ret (Some (writeError 500 ''Internal server error'')))
      | Some task \<Rightarrow>
          if t_Status task = TaskStatusConfirming then
            Done (Ret (Some (writeSuccess (t_TaskID task) (t_Status task)
                               (t_RequiredConfirmations task) statusMessage)))
          else if t_Status task = TaskStatusPending then
            bind (ProcessTaskP env (Some task)) (\<lambda>r.
              case r of
                Panic \<Rightarrow> Done Panic
              | Fail _ \<Rightarrow>
                  Done (Ret (Some (writeSuccess (t_TaskID task) (t_Status task)
                     (t_RequiredConfirmations task) ''Task created but processing failed'')))
              | Ret _ \<Rightarrow>
                  Done (Ret (Some (writeSuccess (t_TaskID task) (t_Status task)
                                     (t_RequiredConfirmations task) statusMessage))))
          else
            Done (Ret (Some (writeSuccess (t_TaskID task) (t_Status task)
                               (t_RequiredConfirmations task) statusMessage))))"

definition submitTaskP ::
  "env \<Rightarrow> Config \<Rightarrow> SendRequestParams \<Rightarrow> u32 \<Rightarrow> chainClient \<Rightarrow> u64 \<Rightarrow> int option \<Rightarrow> int \<Rightarrow> string \<Rightarrow>
     api_answer option prog" where
  "submitTaskP env cfg params currentEpoch stateClient blockNumber keyBig value taskID =
     or_error 500 error_text (Done (getRequiredConfirmations cfg (sr_ChainID params)))
       (\<lambda>requiredConfirmations.
     or_error 500 (\<lambda>e. ''Failed to get latest block'') (atom (BlockNumber (rpcp env) stateClient))
       (\<lambda>latestBlock.
     or_error 500 (\<lambda>e. ''Failed to create task'')
       (atom (CreateTask (pgp env)
          (newTaskParams params currentEpoch blockNumber keyBig value taskID requiredConfirmations
             latestBlock)))
       (processCreatedP env (requestMessage latestBlock blockNumber requiredConfirmations))))"

definition lookupOrSubmitP ::
  "env \<Rightarrow> Config \<Rightarrow> SendRequestParams \<Rightarrow> u32 \<Rightarrow> chainClient \<Rightarrow> u64 \<Rightarrow> int option \<Rightarrow> int \<Rightarrow>
     api_answer option prog" where
  "lookupOrSubmitP env cfg params currentEpoch stateClient blockNumber keyBig value =
     (let taskID = generateTaskID (crp env) params (big_String value) in
      or_error 500 (\<lambda>e. ''Internal server error'')
        (atom (GetConsensusResponseByTaskId (pgp env) taskID)) (\<lambda>consensus.
      case consensus of
        Some _ \<Rightarrow>
          Done (Ret (Some (writeSuccess taskID TaskStatusCompleted 0
                             ''Task already completed with consensus reached'')))
      | None \<Rightarrow>
          or_error 500 (\<lambda>e. ''Internal server error'') (atom (GetTaskByID (pgp env) taskID))
            (\<lambda>existingTask.
               case existingTask of
                 Some task \<Rightarrow>
                   Done (Ret (Some (writeSuccess (t_TaskID task) (t_Status task)
                      (t_RequiredConfirmations task) ''Task already exists with status'')))
               | None \<Rightarrow>
                   submitTaskP env cfg params currentEpoch stateClient blockNumber keyBig value taskID)))"

definition readStateP ::
  "env \<Rightarrow> Config \<Rightarrow> SendRequestParams \<Rightarrow> u32 \<Rightarrow> chainClient \<Rightarrow> u64 \<Rightarrow> api_answer option prog" where
  "readStateP env cfg params currentEpoch stateClient blockNumber =
     (let keyBig = StringToBigInt (sr_Key params) in
      or_error 500 (\<lambda>e. ''Failed to get state at block'')
        (atom (GetStateAtBlock (rpcp env) stateClient
           (HexToAddress (crp env) (sr_TargetAddress params)) keyBig blockNumber))
        (lookupOrSubmitP env cfg params currentEpoch stateClient blockNumber keyBig))"

definition requestForP ::
  "env \<Rightarrow> Config \<Rightarrow> SendRequestParams \<Rightarrow> chainClient \<Rightarrow> u32 \<Rightarrow> api_answer option prog" where
  "requestForP env cfg params mainnetClient currentEpoch =
     peek (\<lambda>w.
     or_error 400 (\<lambda>e. ''Failed to get state client for chain'')
       (Done (if sr_ChainID params = 1 then Ret mainnetClient
              else GetClientByChainId (manager w) (sr_ChainID params))) (\<lambda>stateClient.
     or_error 500 (\<lambda>e. ''Failed to convert timestamp to block number'')
       (requestBlockP env stateClient params) (\<lambda>block.
     case block of
       None \<Rightarrow> Done (Ret None)
     | Some blockNumber \<Rightarrow> readStateP env cfg params currentEpoch stateClient blockNumber)))"

definition SendRequestP :: "env \<Rightarrow> Config \<Rightarrow> int \<Rightarrow> request \<Rightarrow> api_answer option prog" where
  "SendRequestP env cfg now r =
     (if req_Method r \<noteq> ''POST'' then Done (Ret (Some (writeError 405 ''Method not allowed'')))
      else
        (case req_Body r of
           None \<Rightarrow> Done (Ret (Some (writeError 400 ''Invalid request body'')))
         | Some params \<Rightarrow>
             or_error 400 error_text (validateRequestP env cfg now params) (\<lambda>_.
             peek (\<lambda>w.
             or_error 500 (\<lambda>e. ''Failed to get mainnet client'') (Done (GetMainnetClient (manager w)))
               (\<lambda>mainnetClient.
             or_error 500 (\<lambda>e. ''Failed to get current epoch'')
               (atom (GetCurrentEpoch (rpcp env) mainnetClient))
               (requestForP env cfg params mainnetClient))))))"

text \<open>
  The routes. Each query for a consensus is one statement. The \<open>Recoverer\<close> answers for a handler that
  panics.
\<close>

definition recovererP :: "api_answer option prog \<Rightarrow> (nat \<times> api_body option) option prog" where
  "recovererP p =
     bind p (\<lambda>r. Done (Ret (case r of
        Ret None \<Rightarrow> None
      | Ret (Some (status, body)) \<Rightarrow> Some (status, Some body)
      | Fail _ \<Rightarrow> Some (500, None)
      | Panic \<Rightarrow> Some (500, None))))"

definition queryP :: "(World \<Rightarrow> api_answer res \<times> World) \<Rightarrow> api_answer option prog" where
  "queryP q =
     bind (atom q) (\<lambda>r. Done (case r of Ret a \<Rightarrow> Ret (Some a) | Fail e \<Rightarrow> Fail e | Panic \<Rightarrow> Panic))"

definition RegisterRoutesP ::
  "env \<Rightarrow> Config \<Rightarrow> int \<Rightarrow> route \<Rightarrow> request \<Rightarrow> (nat \<times> api_body option) option prog" where
  "RegisterRoutesP env cfg now route r =
     (case route of
        TasksRoute \<Rightarrow>
          if req_Method r = ''POST'' then recovererP (SendRequestP env cfg now r)
          else Done (Ret (Some (405, None)))
      | ConsensusRoute \<Rightarrow>
          if req_Method r = ''GET'' then recovererP (queryP (GetConsensusByRequest env r))
          else Done (Ret (Some (405, None)))
      | ConsensusTaskRoute \<Rightarrow>
          if req_Method r = ''GET'' then recovererP (queryP (GetTaskConsensusByTaskID env r))
          else Done (Ret (Some (405, None)))
      | OtherRoute \<Rightarrow> Done (Ret (Some (404, None))))"

section \<open>The programs are the handlers\<close>

lemma run_validateRequest: "run (validateRequestP env cfg now params) w = validateRequest env cfg now params w"
proof -
  have latest: "run (and_then ''failed to get state client'' (Done (GetClientByChainId m n)) (\<lambda>chainClient.
        and_then ''failed to get latest block'' (atom (BlockNumber (rpcp env) chainClient)) (\<lambda>latestBlock.
          if latestBlock < b then Done (Fail (Err ''block number is in the future'')) else Done (Ret ())))) u =
      call ''failed to get state client'' (GetClientByChainId m n, u) (\<lambda>chainClient u.
        call ''failed to get latest block'' (BlockNumber (rpcp env) chainClient u) (\<lambda>latestBlock u.
          if latestBlock < b then (Fail (Err ''block number is in the future''), u) else (Ret (), u)))"
    for m n b u
    by (auto intro!: continue_cong)
  show ?thesis
    by (auto simp: validateRequestP_def validateRequest_def latest simp del: run_and_then(1)
        intro!: continue_cong split: option.split)
qed

lemma run_processCreated:
  "outcome (run (processCreatedP env msg t) w) = processCreated env msg t w"
  by (auto simp: processCreatedP_def processCreated_def run_bind run_ProcessTask
      split: option.split prod.split res.split)

lemma run_submitTask:
  "outcome (run (submitTaskP env cfg params e c b key v t) w) = submitTask env cfg params e c b key v t w"
  by (simp add: submitTaskP_def submitTask_def run_processCreated)

lemma run_lookupOrSubmit:
  "outcome (run (lookupOrSubmitP env cfg params e c b key v) w) = lookupOrSubmit env cfg params e c b key v w"
  by (auto simp: lookupOrSubmitP_def lookupOrSubmit_def Let_def run_submitTask intro!: orError_cong
      split: option.split)

lemma run_readState:
  "outcome (run (readStateP env cfg params e c b) w) = readState env cfg params e c b w"
  by (simp add: readStateP_def readState_def Let_def run_lookupOrSubmit)

lemma run_requestFor:
  "outcome (run (requestForP env cfg params m e) w) = requestFor env cfg params m e w"
proof -
  have block: "orError 500 msg (run (requestBlockP env c params) u)
      (\<lambda>block u. outcome (run (case block of None \<Rightarrow> Done (Ret None) | Some n \<Rightarrow> readStateP env cfg params e c n) u)) =
    (case requestBlock env c params u of None \<Rightarrow> None | Some br \<Rightarrow> orError 500 msg br (readState env cfg params e c))"
    for msg c u
    by (auto simp: requestBlockP_def requestBlock_def orError_def run_readState split: option.split sum.split)
  show ?thesis
    by (simp add: requestForP_def requestFor_def block)
qed

lemma run_SendRequest: "outcome (run (SendRequestP env cfg now r) w) = SendRequest env cfg now r w"
  by (auto simp: SendRequestP_def SendRequest_def run_validateRequest run_requestFor
      intro!: orError_cong split: option.split)

text \<open>An answer, if there is one.\<close>

fun answered :: "'a option res \<times> World \<Rightarrow> ('a \<times> World) option" where
  "answered (Ret (Some a), w) = Some (a, w)"
| "answered (r, w) = None"

lemma answered_recoverer: "answered (run (recovererP p) w) = map_option recoverer (outcome (run p w))"
  by (cases "run p w" rule: outcome.cases)
    (auto simp: recovererP_def run_bind recoverer_def split: prod.split)

lemma run_query: "outcome (run (queryP q) w) = Some (q w)"
  by (auto simp: queryP_def run_bind split: prod.split res.split)

lemma run_RegisterRoutes:
  "answered (run (RegisterRoutesP env cfg now route r) w) = RegisterRoutes env cfg now route r w"
  by (auto simp: RegisterRoutesP_def RegisterRoutes_def answered_recoverer run_SendRequest run_query
      split: route.split)


end
