(* ===== verification/Interleaving.thy ===== *)
theory Interleaving
  imports Requests
begin

text \<open>
  The process with its goroutines: up to 20 messages are handled at the same time (\<open>handleResponses\<close>
  of \<open>pkg/operator/task/response.go\<close>) and up to 50 HTTP requests (the throttle of
  \<open>pkg/operator/api/router.go\<close>), next to the two periodic checks and the other services. Every step of
  every goroutine may be followed by a step of any other. What holds of all runs of \<open>OperatorNode\<close>
  holds of these too; \<open>Races\<close> has what does not.
\<close>

section \<open>Goroutines and their steps\<close>

text \<open>
  The messages and the requests that are being handled, and how far the two periodic checks have got.
  The handler of a message that has come to its end, by a panic too, still holds its place until it
  releases the semaphore. A request whose handler never answers holds its place for ever.
\<close>

definition maxConcurrent :: nat where
  "maxConcurrent = 20"

definition maxRequests :: nat where
  "maxRequests = 50"

record pool =
  handling :: "unit prog list"
  serving :: "(nat \<times> api_body option) option prog list"
  timeouts_at :: "unit prog"
  confirmations_at :: "unit prog"

definition idle :: pool where
  "idle = \<lparr>handling = [], serving = [], timeouts_at = Done (Ret ()), confirmations_at = Done (Ret ())\<rparr>"

text \<open>The services other than the task processor and the API take one step for each event.\<close>

fun other_service :: "event \<Rightarrow> bool" where
  "other_service (Message data peer) \<longleftrightarrow> False"
| "other_service Timeouts \<longleftrightarrow> False"
| "other_service Confirmations \<longleftrightarrow> False"
| "other_service (Http now route r) \<longleftrightarrow> False"
| "other_service Restart \<longleftrightarrow> False"
| "other_service e \<longleftrightarrow> True"

text \<open>
  A message is received when the semaphore has a place, and is dropped otherwise; a request is accepted
  when the throttle has a place, and is refused otherwise. Any goroutine may
  take the next step; a check starts when its ticker fires and the last one has ended.
\<close>

inductive moves :: "env \<Rightarrow> Config \<Rightarrow> chainClient \<Rightarrow> pool \<times> World \<Rightarrow> pool \<times> World \<Rightarrow> bool"
  for env cfg mainnet where
  receive: "length (handling p) < maxConcurrent \<Longrightarrow>
    moves env cfg mainnet (p, w) (p\<lparr>handling := handling p @ [processResponseP env data peer]\<rparr>, w)"
| drop: "length (handling p) = maxConcurrent \<Longrightarrow> moves env cfg mainnet (p, w) (p, w)"
| handle: "i < length (handling p) \<Longrightarrow> handling p ! i = Act f k \<Longrightarrow>
    moves env cfg mainnet (p, w) (p\<lparr>handling := (handling p)[i := k w]\<rparr>, f w)"
| release: "handling p = ps @ Done r # qs \<Longrightarrow>
    moves env cfg mainnet (p, w) (p\<lparr>handling := ps @ qs\<rparr>, w)"
| accept: "length (serving p) < maxRequests \<Longrightarrow>
    moves env cfg mainnet (p, w) (p\<lparr>serving := serving p @ [RegisterRoutesP env cfg now route r]\<rparr>, w)"
| refuse: "length (serving p) = maxRequests \<Longrightarrow> moves env cfg mainnet (p, w) (p, w)"
| serve: "i < length (serving p) \<Longrightarrow> serving p ! i = Act f k \<Longrightarrow>
    moves env cfg mainnet (p, w) (p\<lparr>serving := (serving p)[i := k w]\<rparr>, f w)"
| answer: "serving p = ps @ Done (Ret (Some a)) # qs \<Longrightarrow>
    moves env cfg mainnet (p, w) (p\<lparr>serving := ps @ qs\<rparr>, w)"
| timeouts_tick: "timeouts_at p = Done r \<Longrightarrow>
    moves env cfg mainnet (p, w) (p\<lparr>timeouts_at := checkTimeoutsP env\<rparr>, w)"
| timeouts_step: "timeouts_at p = Act f k \<Longrightarrow>
    moves env cfg mainnet (p, w) (p\<lparr>timeouts_at := k w\<rparr>, f w)"
| confirmations_tick: "confirmations_at p = Done r \<Longrightarrow>
    moves env cfg mainnet (p, w) (p\<lparr>confirmations_at := checkConfirmationsP env\<rparr>, w)"
| confirmations_step: "confirmations_at p = Act f k \<Longrightarrow>
    moves env cfg mainnet (p, w) (p\<lparr>confirmations_at := k w\<rparr>, f w)"
| service: "node_step env cfg mainnet w e w' \<Longrightarrow> other_service e \<Longrightarrow>
    moves env cfg mainnet (p, w) (p, w')"
| restart: "moves env cfg mainnet (p, w) (idle, restarted w)"

text \<open>Every program of the pool keeps an invariant, step by step.\<close>

definition pool_safe :: "(World \<Rightarrow> bool) \<Rightarrow> pool \<Rightarrow> bool" where
  "pool_safe Q p \<longleftrightarrow> (\<forall>q \<in> set (handling p). safe Q (returns (\<lambda>_. True)) q) \<and>
     (\<forall>q \<in> set (serving p). safe Q (returns (\<lambda>_. True)) q) \<and>
     safe Q (returns (\<lambda>_. True)) (timeouts_at p) \<and> safe Q (returns (\<lambda>_. True)) (confirmations_at p)"

section \<open>The contract of an invariant under interleaving\<close>

text \<open>
  \<open>snap t rs\<close> is what is known for good of the responses \<open>rs\<close> of a task that a check has taken. The
  store of a response keeps the invariant although another goroutine may have stored one meanwhile.
\<close>

locale interleaved_invariant = node_invariant +
  fixes snap :: "string \<Rightarrow> (string, taskResponse) gomap \<Rightarrow> bool"
  assumes Q_restore: "Q w \<Longrightarrow> okr r k \<Longrightarrow> Q (snd (on_track (storeResponseAndWeight r k x) w))"
    and Q_snap: "Q w \<Longrightarrow> map_of (responses (taskResponseTrack w)) t = Some rs \<Longrightarrow> snap t rs"
    and Q_decide: "Q w \<Longrightarrow> snap (cc_TaskID arg) rs \<Longrightarrow> rs \<noteq> [] \<Longrightarrow>
      cc_AggregatedSignatures arg = map (signature_of rs) (sort (gokeys rs)) \<Longrightarrow>
      length (cc_OperatorAddresses arg) = length rs \<Longrightarrow>
      Q (snd (CreateConsensusResponse (pgp env) arg w))"
    and Q_complete: "Q w \<Longrightarrow> Q (snd (UpdateTaskToCompleted (pgp env) t w))"
    and own_signed: "SignTaskResponse (crp env) (signKey env)
        \<lparr>sp_User = HexToAddress (crp env) (t_TargetAddress task), sp_ChainID = t_ChainID task,
         sp_BlockNumber = t_BlockNumber task, sp_Key = KeyBig, sp_Value = Some v\<rparr> = Ret sig \<Longrightarrow>
      NumericToBigInt (t_Key task) = Ret KeyBig \<Longrightarrow> task_valid env task \<Longrightarrow>
      okr \<lparr>r_taskID = t_TaskID task, r_signature = sig, r_epoch = t_Epoch task,
        r_chainID = t_ChainID task, r_targetAddress = t_TargetAddress task,
        r_key = NumericToString (t_Key task), r_value = big_String v,
        r_blockNumber = t_BlockNumber task\<rparr> (self env)"
begin

lemma safe_call:
  assumes "\<And>w. Q w \<Longrightarrow> Q (snd (c w))"
  shows "safe Q (returns (\<lambda>_. True)) (atom c)"
  using assms by (rule safe_atom) (simp_all add: returns_def)

lemma safe_read:
  assumes "\<And>w. only_calls w (snd (c w))"
  shows "safe Q (returns (\<lambda>_. True)) (atom c)"
  by (rule safe_call) (use assms Q_calls in blast)

lemma Q_tick: "Q w \<Longrightarrow> Q (tick w)"
  by (rule Q_calls [OF only_calls_tick])

lemma safe_pure: "safe Q (returns (\<lambda>x. r = Ret x)) (Done r)"
  by (simp add: returns_def)

lemma safe_weaken:
  assumes "safe Q (returns P) p" and "\<And>x. P x \<Longrightarrow> P' x"
  shows "safe Q (returns P') p"
  using assms(1) by induction (auto simp: returns_def assms(2))

lemma safe_collectP:
  "safe Q (returns (\<lambda>(ss', as'). ss' = ss @ map (signature_of rs) ks \<and> length as' = length as + length ks))
     (collectP env rs ks ss as)"
proof (induction ks arbitrary: ss as)
  case (Cons k ks)
  have "safe Q (returns (\<lambda>(ss', as'). ss' = ss @ map (signature_of rs) (k # ks) \<and>
      length as' = length as + length (k # ks)))
    (collectP env rs ks (ss @ [signature_of rs k]) (as @ [o_Address op]))" for op
    by (rule safe_weaken [OF Cons]) auto
  then show ?case
    by (auto intro!: safe_and_then [OF safe_read] operator_reads_only_calls
        simp: signature_of_def [symmetric] split: option.split)
qed simp

lemma safe_markTaskP: "safe Q (returns (\<lambda>_. True)) (markTaskAsCompletedP env t)"
  unfolding markTaskAsCompletedP_def
  by (auto intro!: safe_and_then [OF safe_read] safe_and_then [OF safe_call] Q_tick Q_complete)

lemma safe_checkConsensusP: "safe Q (returns (\<lambda>_. True)) (checkConsensusP env response)"
proof -
  have decide: "safe Q (returns (\<lambda>_. True))
      (and_then m1 (collectP env rs (sort (gokeys rs)) [] []) (\<lambda>(signatures, addresses).
       and_then m2 (atom (CreateConsensusResponse (pgp env)
         \<lparr>cc_TaskID = t, cc_Epoch = e, cc_Value = v, cc_Key = key, cc_ChainID = c,
          cc_BlockNumber = b, cc_TargetAddress = a, cc_AggregatedSignatures = signatures,
          cc_OperatorAddresses = addresses\<rparr>)) (\<lambda>_.
       and_then m3 (markTaskAsCompletedP env t) (\<lambda>_. Done (Ret ())))))"
    if "snap t rs" and "rs \<noteq> []" for t rs m1 m2 m3 e v key c b a
    using that
    by (auto intro!: safe_and_then [OF safe_collectP] safe_and_then [OF safe_markTaskP]
        safe_and_then [OF safe_call] Q_decide [where rs = rs] simp: gokeys_def)
  show ?thesis
    unfolding checkConsensusP_def Let_def
    by (auto intro!: safe_peek safe_and_then [OF safe_pure] decide Q_snap split: option.split)
qed

lemma safe_stateAttemptsP: "safe Q (returns (\<lambda>_. True)) (stateAttemptsP env c a k b n)"
  by (induction n)
    (auto intro!: safe_bind [OF safe_read] client_only_calls split: res.split)

lemma safe_signedResponseP:
  assumes "task_valid env task"
  shows "safe Q (returns (\<lambda>r. okr r (self env))) (signedResponseP env task)"
  unfolding signedResponseP_def
  by (auto intro!: safe_peek safe_and_then [OF safe_pure] safe_and_then [OF safe_stateAttemptsP]
      own_signed assms split: option.split)

lemma safe_ownWeightP: "safe Q (returns (\<lambda>_. True)) (ownWeightP env)"
  unfolding ownWeightP_def
  by (auto intro!: safe_and_then [OF safe_read] safe_and_then [OF safe_pure] operator_reads_only_calls
      split: option.split)

lemma safe_ProcessTaskP:
  assumes "\<And>task. t = Some task \<Longrightarrow> task_valid env task"
  shows "safe Q (returns (\<lambda>_. True)) (ProcessTaskP env t)"
  unfolding ProcessTaskP_def
  by (auto intro!: safe_peek safe_and_then [OF safe_signedResponseP] safe_and_then [OF safe_ownWeightP]
      safe_and_then [OF safe_call] safe_despite [OF safe_checkConsensusP] Q_restore Q_broadcast assms
      split: option.split)

lemma safe_incrementPeerViolationP: "safe Q (returns (\<lambda>_. True)) (incrementPeerViolationP env peer e)"
  unfolding incrementPeerViolationP_def Let_def
  by (auto intro!: safe_bind [OF safe_call] Q_violation split: res.split)

lemma safe_processActiveP: "safe Q (returns (\<lambda>_. True)) (processActiveP env peer response op)"
  unfolding processActiveP_def Let_def
  by (auto intro!: safe_peek safe_bind [OF safe_read] safe_and_then [OF safe_pure]
      safe_and_then [OF safe_call] safe_and_then [OF safe_ProcessTaskP]
      safe_despite [OF safe_checkConsensusP] safe_incrementPeerViolationP Q_tick Q_restore
      foreign taskOfResponse_valid split: res.split option.split)

lemma safe_processResponseP: "safe Q (returns (\<lambda>_. True)) (processResponseP env data peer)"
  unfolding processResponseP_def Let_def
  by (auto intro!: safe_peek safe_bind [OF safe_read] safe_incrementPeerViolationP safe_processActiveP
      operator_reads_only_calls split: sum.split res.split option.split)

lemma safe_for_eachP:
  assumes "\<And>x. x \<in> set xs \<Longrightarrow> safe Q (returns (\<lambda>_. True)) (body x)"
  shows "safe Q (returns (\<lambda>_. True)) (for_eachP body xs)"
  using assms by (induction xs) (auto intro!: safe_despite)

lemma safe_timeoutTaskP:
  assumes "task_valid env task"
  shows "safe Q (returns (\<lambda>_. True)) (timeoutTaskP env task)"
proof -
  have forget: "Q (snd (on_track (\<lambda>tr. (Ret (), cleanupTask t tr)) w))" if "Q w" for t w
    using Q_forget [OF that] by (simp add: on_track_def)
  show ?thesis
    unfolding timeoutTaskP_def
    by (auto intro!: safe_bind [OF safe_call] safe_despite [OF safe_call] safe_call safe_ProcessTaskP
        Q_retry Q_delete forget assms split: res.split option.split)
qed

lemma safe_confirmTaskP:
  assumes "task_valid env task"
  shows "safe Q (returns (\<lambda>_. True)) (confirmTaskP env task)"
  unfolding confirmTaskP_def Let_def
  by (auto intro!: safe_peek safe_bind [OF safe_call] safe_despite [OF safe_ProcessTaskP]
      Q_reads(1) Q_pending assms split: res.split)

lemma safe_listed:
  assumes "c = ListPendingTasks (pgp env) \<or> c = ListConfirmingTasks (pgp env)"
  shows "safe Q (returns (\<lambda>ts. \<forall>task \<in> set ts. task_valid env task)) (atom c)"
proof (rule safe_atom)
  fix w assume w: "Q w"
  show "Q (snd (c w))" using assms Q_tick [OF w] by auto
  show "returns (\<lambda>ts. \<forall>task \<in> set ts. task_valid env task) (fst (c w))"
    using listed_valid [OF w] assms unfolding returns_def
    by (metis prod.collapse)
qed

lemma safe_periodicP:
  "safe Q (returns (\<lambda>_. True)) (checkTimeoutsP env)"
  "safe Q (returns (\<lambda>_. True)) (checkConfirmationsP env)"
  unfolding checkTimeoutsP_def checkConfirmationsP_def
  by (auto intro!: safe_bind [OF safe_listed] safe_for_eachP safe_timeoutTaskP safe_confirmTaskP
      split: res.split)

text \<open>The handlers of requests.\<close>

lemma safe_or_error:
  assumes "safe Q (returns P) p" and "\<And>x. P x \<Longrightarrow> safe Q (returns P') (k x)"
    and "\<And>a. P' (Some a)"
  shows "safe Q (returns P') (or_error status msg p k)"
  unfolding or_error_def
  by (rule safe_bind [OF assms(1)]) (use assms(2,3) in \<open>simp add: returns_def split: res.split\<close>)

lemmas safe_or_error' = safe_or_error [where P' = "\<lambda>_. True"]

lemma safe_validateRequestP: "safe Q (returns (\<lambda>_. True)) (validateRequestP env cfg now params)"
  unfolding validateRequestP_def
  by (auto intro!: safe_peek safe_and_then [OF safe_pure] safe_and_then [OF safe_call] Q_reads(1)
      safe_and_then [where P = "\<lambda>_. True"] safe_call split: option.split)

lemma safe_processCreatedP:
  assumes "\<And>task. t = Some task \<Longrightarrow> task_valid env task"
  shows "safe Q (returns (\<lambda>_. True)) (processCreatedP env msg t)"
  unfolding processCreatedP_def
  by (auto intro!: safe_bind [OF safe_ProcessTaskP] assms split: option.split res.split)

lemma CreateTask_valid:
  assumes "CreateTask (pgp env) arg w = (Ret t, u)"
  shows "\<exists>task. t = Some task \<and> task_valid env task"
proof -
  obtain now where t: "t = Some (scan_task (pgp env) (row_of_params arg now))"
    and "tasks_check (row_of_params arg now)"
    using CreateTask_cases [OF assms] by auto
  then have "num_Valid (t_Key (row_of_params arg now))"
    by (simp add: tasks_check_def not_null_def)
  then show ?thesis by (simp add: t task_valid_def scan_valid_def scan_task_def)
qed

lemma safe_CreateTask:
  "safe Q (returns (\<lambda>t. \<exists>task. t = Some task \<and> task_valid env task)) (atom (CreateTask (pgp env) arg))"
proof (rule safe_atom)
  fix w assume "Q w"
  then show "Q (snd (CreateTask (pgp env) arg w))" by (rule Q_task)
  show "returns (\<lambda>t. \<exists>task. t = Some task \<and> task_valid env task) (fst (CreateTask (pgp env) arg w))"
    unfolding returns_def using CreateTask_valid [of arg w] by (metis prod.collapse)
qed

lemma safe_submitTaskP: "safe Q (returns (\<lambda>_. True)) (submitTaskP env cfg params e c b key v t)"
  unfolding submitTaskP_def
  by (auto intro!: safe_or_error' [OF safe_pure] safe_or_error' [OF safe_call] Q_reads(1)
      safe_or_error' [OF safe_CreateTask] safe_processCreatedP)

lemma safe_readStateP: "safe Q (returns (\<lambda>_. True)) (readStateP env cfg params e c b)"
  unfolding readStateP_def lookupOrSubmitP_def Let_def
  by (auto intro!: safe_or_error' [OF safe_call] Q_reads safe_submitTaskP Q_tick split: option.split)

lemma safe_requestBlockP: "safe Q (returns (\<lambda>_. True)) (requestBlockP env c params)"
  unfolding requestBlockP_def
  by (auto intro!: safe_call Q_tick split: option.split sum.split)

lemma safe_requestForP: "safe Q (returns (\<lambda>_. True)) (requestForP env cfg params m e)"
  unfolding requestForP_def
  by (auto intro!: safe_peek safe_or_error' [OF safe_pure] safe_or_error' [OF safe_requestBlockP]
      safe_readStateP split: option.split)

lemma safe_SendRequestP: "safe Q (returns (\<lambda>_. True)) (SendRequestP env cfg now r)"
  unfolding SendRequestP_def
  by (auto intro!: safe_peek safe_or_error' [OF safe_pure] safe_or_error' [OF safe_validateRequestP]
      safe_or_error' [OF safe_call] Q_reads(2) safe_requestForP split: option.split)

lemma safe_queryP:
  assumes "\<And>w. ledger_frame w (snd (q w))"
  shows "safe Q (returns (\<lambda>_. True)) (queryP q)"
  unfolding queryP_def
  by (rule safe_bind [OF safe_call]) (use assms Q_frame in \<open>auto split: res.split\<close>)

lemma safe_RegisterRoutesP: "safe Q (returns (\<lambda>_. True)) (RegisterRoutesP env cfg now route r)"
proof -
  have rec: "safe Q (returns (\<lambda>_. True)) (recovererP p)" if "safe Q (returns (\<lambda>_. True)) p" for p
    unfolding recovererP_def by (rule safe_bind [OF that]) simp
  show ?thesis
    by (auto simp: RegisterRoutesP_def intro!: rec safe_SendRequestP safe_queryP consensus_query_frame
        split: route.split)
qed

lemma moves_safe:
  "moves env cfg mainnet s s' \<Longrightarrow> Q (snd s) \<Longrightarrow> pool_safe Q (fst s) \<Longrightarrow>
     Q (snd s') \<and> pool_safe Q (fst s')"
proof (induction rule: moves.induct)
  case (handle i p f k w)
  then have "safe Q (returns (\<lambda>_. True)) (Act f k)"
    unfolding pool_safe_def by (metis fst_conv nth_mem)
  with handle show ?case
    by (auto simp: pool_safe_def dest!: set_update_subset_insert [THEN subsetD])
next
  case (serve i p f k w)
  then have "safe Q (returns (\<lambda>_. True)) (Act f k)"
    unfolding pool_safe_def by (metis fst_conv nth_mem)
  with serve show ?case
    by (auto simp: pool_safe_def dest!: set_update_subset_insert [THEN subsetD])
qed (auto simp: pool_safe_def idle_def safe_processResponseP safe_RegisterRoutesP safe_periodicP returns_def Q_restarted
    intro: Q_node_step)

end

text \<open>
  What is known for good of the responses of a task that a check has taken: if the libraries do what
  they promise, each has a signature that verifies for the task.
\<close>

definition taken_signed :: "env \<Rightarrow> string \<Rightarrow> (string, taskResponse) gomap \<Rightarrow> bool" where
  "taken_signed env t rs \<longleftrightarrow> distinct (gokeys rs) \<and>
     (trusted env \<longrightarrow> (\<forall>k \<in> set (gokeys rs).
        \<exists>r. verifyResponse env r k = Ret () \<and> r_taskID r = t \<and> r_signature r = signature_of rs k))"

lemma taken_signed_now:
  assumes "proc_inv env w" and "map_of (responses (taskResponseTrack w)) t = Some rs"
  shows "taken_signed env t rs"
proof -
  have "track_ok (taskResponseTrack w)" using assms(1) by (simp add: proc_inv_def)
  from responses_of_distinct [OF this, of t] have "distinct (gokeys rs)"
    by (simp add: responses_of_def assms(2))
  moreover have "\<exists>r. verifyResponse env r k = Ret () \<and> r_taskID r = t \<and> r_signature r = signature_of rs k"
    if "trusted env" and "k \<in> set (gokeys rs)" for k
  proof -
    from that(2) obtain r where r: "map_of rs k = Some r" by auto
    have "stored_signed env (taskResponseTrack w)"
      using assms(1) that(1) by (simp add: proc_inv_def trusted_def)
    moreover have "lookup2 (responses (taskResponseTrack w)) t k = Some r"
      using r assms(2) by (simp add: lookup2_def)
    ultimately have "r_taskID r = t \<and> verifyResponse env r k = Ret ()"
      unfolding stored_signed_def by blast
    with r show ?thesis by (auto simp: signature_of_def)
  qed
  ultimately show ?thesis by (simp add: taken_signed_def)
qed

lemma taken_certified:
  assumes "taken_signed env (c_TaskID d) rs" and "rs \<noteq> []" and "trusted env"
    and "c_AggregatedSignatures d = map (signature_of rs) (sort (gokeys rs))"
    and "length (c_OperatorAddresses d) = length rs"
  shows "certified env d"
  unfolding certified_def
proof (intro exI conjI)
  show "sort (gokeys rs) \<noteq> []"
    using assms(2) by (cases rs) (auto simp: gokeys_def dest: arg_cong [where f = length])
  show "distinct (sort (gokeys rs))" using assms(1) by (simp add: taken_signed_def)
  show "length (c_OperatorAddresses d) = length (sort (gokeys rs))"
    using assms(5) by (simp add: gokeys_def)
  show "list_all2 (\<lambda>k sig. \<exists>r. verifyResponse env r k = Ret () \<and> r_taskID r = c_TaskID d \<and>
      r_signature r = sig) (sort (gokeys rs)) (c_AggregatedSignatures d)"
    using assms(1,3,4) by (simp add: taken_signed_def list_all2_map2 list_all2_same del: set_gokeys)
qed

lemma CreateConsensus_decides:
  assumes "taken_signed env (cc_TaskID arg) rs" and "rs \<noteq> []"
    and "cc_AggregatedSignatures arg = map (signature_of rs) (sort (gokeys rs))"
    and "length (cc_OperatorAddresses arg) = length rs"
  shows "(decide env)\<^sup>*\<^sup>* (ledger_of w) (ledger_of (snd (CreateConsensusResponse (pgp env) arg w)))"
  using CreateConsensus_rows [of "pgp env" arg w]
proof (elim disjE exE conjE)
  assume "consensus_rows (snd (CreateConsensusResponse (pgp env) arg w)) = consensus_rows w"
  then have "ledger_of (snd (CreateConsensusResponse (pgp env) arg w)) = ledger_of w"
    by (simp add: ledger_of_def fun_eq_iff)
  then show ?thesis by simp
next
  fix d
  assume d: "consensus_rows (snd (CreateConsensusResponse (pgp env) arg w)) = consensus_rows w @ [d]"
    "cc_TaskID arg \<notin> set (map c_TaskID (consensus_rows w))" "c_TaskID d = cc_TaskID arg"
    "c_AggregatedSignatures d = cc_AggregatedSignatures arg"
    "c_OperatorAddresses d = cc_OperatorAddresses arg"
  have "certified env d" if "trusted env"
    by (rule taken_certified [of env d rs]) (use assms d that in simp_all)
  with ledger_of_append [OF d(1) d(2) [folded d(3)]]
  have "decide env (ledger_of w) (ledger_of (snd (CreateConsensusResponse (pgp env) arg w)))"
    by (auto intro: decide.intros)
  then show ?thesis by blast
qed

interpretation interleaved: interleaved_invariant env "node_ok env m"
  "\<lambda>r k. scan_valid env \<and> recovers (crp env) \<longrightarrow> verifyResponse env r k = Ret ()"
  "taken_signed env" for env m
proof
  fix w :: World and r k x t rs arg
  assume w: "node_ok env m w"
  show "scan_valid env \<and> recovers (crp env) \<longrightarrow> verifyResponse env r k = Ret () \<Longrightarrow>
      node_ok env m (snd (on_track (storeResponseAndWeight r k x) w))"
    by (rule node_ok_keep [OF w proc_inv_store]) (auto simp: on_track_def case_prod_beta)
  show "map_of (responses (taskResponseTrack w)) t = Some rs \<Longrightarrow> taken_signed env t rs"
    using w by (intro taken_signed_now) (simp_all add: node_ok_def)
  show "node_ok env m (snd (CreateConsensusResponse (pgp env) arg w))"
    if "taken_signed env (cc_TaskID arg) rs" "rs \<noteq> []"
      "cc_AggregatedSignatures arg = map (signature_of rs) (sort (gokeys rs))"
      "length (cc_OperatorAddresses arg) = length rs"
    using w CreateConsensus_decides [OF that, of w] proc_inv_writes(1)
    unfolding node_ok_def by (blast intro: rtranclp_trans)
  show "node_ok env m (snd (UpdateTaskToCompleted (pgp env) t w))"
    by (rule node_ok_keep [OF w proc_inv_writes(2)])
      (simp_all add: UpdateTaskToCompleted_def on_tasks_def case_prod_beta)
qed (auto simp: task_valid_def intro: signed_verifies)

section \<open>Runs with goroutines\<close>

text \<open>What holds of every state of a run.\<close>

definition pool_ok :: "env \<Rightarrow> (string \<rightharpoonup> ConsensusResponse) \<Rightarrow> pool \<times> World \<Rightarrow> bool" where
  "pool_ok env m s \<longleftrightarrow> node_ok env m (snd s) \<and> pool_safe (node_ok env m) (fst s) \<and>
     length (handling (fst s)) \<le> maxConcurrent \<and> length (serving (fst s)) \<le> maxRequests"

lemma moves_bounded:
  "moves env cfg mainnet s s' \<Longrightarrow>
     length (handling (fst s)) \<le> maxConcurrent \<and> length (serving (fst s)) \<le> maxRequests \<Longrightarrow>
     length (handling (fst s')) \<le> maxConcurrent \<and> length (serving (fst s')) \<le> maxRequests"
  by (induction rule: moves.induct) (simp_all add: idle_def)

interpretation goroutines: step_invariant
  "\<lambda>s. fst s = idle \<and> proc_inv env (snd s) \<and> ledger_of (snd s) = m"
  "moves env cfg mainnet" "pool_ok env m" for env cfg mainnet m
proof
  fix s t
  show "pool_ok env m s" if "fst s = idle \<and> proc_inv env (snd s) \<and> ledger_of (snd s) = m"
    using that by (auto simp: pool_ok_def node_ok_def pool_safe_def idle_def)
  show "pool_ok env m t" if "pool_ok env m s" and "moves env cfg mainnet s t"
    using that interleaved.moves_safe [OF that(2)] moves_bounded [OF that(2)]
    by (auto simp: pool_ok_def)
qed

lemma interleaved_run:
  assumes "proc_inv env w" and "(moves env cfg mainnet)\<^sup>*\<^sup>* (idle, w) (p, w')"
  shows "pool_ok env (ledger_of w) (p, w')"
  by (rule goroutines.inv_reachable [OF _ assms(2)]) (simp add: assms(1))

lemma find_by_filter: "filter P xs = [x] \<Longrightarrow> find P xs = Some x"
  by (induction xs) (auto split: if_splits)


text \<open>
  C6. Tables and tracker under interleaving. From a state that satisfies the invariant, every state
  that the goroutines can reach has well-formed tables and a tracker with a weight exactly for each
  response; a decision is never changed or withdrawn; and at most 20 messages and 50 requests are being
  handled.
\<close>

theorem interleaved_state_ok:
  assumes "proc_inv env w" and "(moves env cfg mainnet)\<^sup>*\<^sup>* (idle, w) (p, w')"
  shows "db_ok w' \<and> track_ok (taskResponseTrack w') \<and> ledger_of w \<subseteq>\<^sub>m ledger_of w' \<and>
    length (handling p) \<le> 20 \<and> length (serving p) \<le> 50"
  using interleaved_run [OF assms]
  by (auto simp: pool_ok_def node_ok_def proc_inv_def maxConcurrent_def maxRequests_def
      intro: decided_keeps)

section \<open>The runs in which nothing interleaves\<close>

lemma program_ends:
  "handling p = ps @ q # qs \<Longrightarrow> (moves env cfg mainnet)\<^sup>*\<^sup>* (p, w)
     (p\<lparr>handling := ps @ Done (fst (run q w)) # qs\<rparr>, snd (run q w))"
  "timeouts_at p = q \<Longrightarrow> (moves env cfg mainnet)\<^sup>*\<^sup>* (p, w)
     (p\<lparr>timeouts_at := Done (fst (run q w))\<rparr>, snd (run q w))"
  "confirmations_at p = q \<Longrightarrow> (moves env cfg mainnet)\<^sup>*\<^sup>* (p, w)
     (p\<lparr>confirmations_at := Done (fst (run q w))\<rparr>, snd (run q w))"
proof (induction q arbitrary: p w)
  case (Done r)
  {
    case 1
    then have "p\<lparr>handling := ps @ Done r # qs\<rparr> = p" by (cases p) simp
    then show ?case by simp
  next
    case 2
    then have "p\<lparr>timeouts_at := Done r\<rparr> = p" by (cases p) simp
    then show ?case by simp
  next
    case 3
    then have "p\<lparr>confirmations_at := Done r\<rparr> = p" by (cases p) simp
    then show ?case by simp
  }
next
  case (Act f k)
  {
    case 1
    then have "moves env cfg mainnet (p, w) (p\<lparr>handling := (handling p)[length ps := k w]\<rparr>, f w)"
      by (intro moves.handle) simp_all
    moreover have "(moves env cfg mainnet)\<^sup>*\<^sup>* (p\<lparr>handling := ps @ k w # qs\<rparr>, f w)
        (p\<lparr>handling := ps @ Done (fst (run (k w) (f w))) # qs\<rparr>, snd (run (k w) (f w)))"
      using Act(1) [of "k w" "p\<lparr>handling := ps @ k w # qs\<rparr>" "f w"] by simp
    ultimately show ?case using 1 by (simp add: converse_rtranclp_into_rtranclp)
  next
    case 2
    from Act(2) [of "k w" "p\<lparr>timeouts_at := k w\<rparr>" "f w"] show ?case
      by (simp add: converse_rtranclp_into_rtranclp [of "moves env cfg mainnet", OF moves.timeouts_step [OF 2]])
  next
    case 3
    from Act(3) [of "k w" "p\<lparr>confirmations_at := k w\<rparr>" "f w"] show ?case
      by (simp add: converse_rtranclp_into_rtranclp [of "moves env cfg mainnet", OF moves.confirmations_step [OF 3]])
  }
qed

lemma request_ends:
  "serving p = ps @ q # qs \<Longrightarrow> (moves env cfg mainnet)\<^sup>*\<^sup>* (p, w)
     (p\<lparr>serving := ps @ Done (fst (run q w)) # qs\<rparr>, snd (run q w))"
proof (induction q arbitrary: p w)
  case (Done r)
  then have "p\<lparr>serving := ps @ Done r # qs\<rparr> = p" by (cases p) simp
  then show ?case by simp
next
  case (Act f k)
  then have "moves env cfg mainnet (p, w) (p\<lparr>serving := (serving p)[length ps := k w]\<rparr>, f w)"
    by (intro moves.serve) simp_all
  moreover have "(moves env cfg mainnet)\<^sup>*\<^sup>* (p\<lparr>serving := ps @ k w # qs\<rparr>, f w)
      (p\<lparr>serving := ps @ Done (fst (run (k w) (f w))) # qs\<rparr>, snd (run (k w) (f w)))"
    using Act.IH [of "k w" "p\<lparr>serving := ps @ k w # qs\<rparr>" "f w"] by simp
  ultimately show ?case using Act.prems by (simp add: converse_rtranclp_into_rtranclp)
qed

text \<open>No goroutine is on its way.\<close>

definition resting :: "pool \<Rightarrow> bool" where
  "resting p \<longleftrightarrow> handling p = [] \<and> serving p = [] \<and> (\<exists>r. timeouts_at p = Done r) \<and> (\<exists>r. confirmations_at p = Done r)"

lemma resting_step:
  assumes "resting p" and "node_step env cfg mainnet w e w'"
  shows "\<exists>p'. resting p' \<and> (moves env cfg mainnet)\<^sup>*\<^sup>* (p, w) (p', w')"
proof -
  have service: ?thesis if "other_service e"
    using moves.service [OF assms(2) that, of p] assms(1) by blast
  from assms(2,1) show ?thesis
  proof cases
    case (message data peer)
    define p1 where "p1 = p\<lparr>handling := [processResponseP env data peer]\<rparr>"
    have "moves env cfg mainnet (p, w) (p1, w)"
      using assms(1) moves.receive [of p env cfg mainnet w data peer]
      by (simp add: resting_def p1_def maxConcurrent_def)
    also have "(moves env cfg mainnet)\<^sup>*\<^sup>* (p1, w)
        (p1\<lparr>handling := [Done (fst (processResponse env data peer w))]\<rparr>, w')"
      using program_ends(1) [of p1 "[]" "processResponseP env data peer" "[]"] message(2)
      by (simp add: p1_def run_processResponse handleResponse_def)
    also have "moves env cfg mainnet \<dots> (p1\<lparr>handling := []\<rparr>, w')"
      using moves.release [of "p1\<lparr>handling := [Done r]\<rparr>" "[]" r "[]" for r] by simp
    finally show ?thesis
      using assms(1) by (intro exI [of _ "p1\<lparr>handling := []\<rparr>"]) (simp add: resting_def p1_def)
  next
    case timeouts
    define p1 where "p1 = p\<lparr>timeouts_at := checkTimeoutsP env\<rparr>"
    have "moves env cfg mainnet (p, w) (p1, w)"
      using assms(1) by (auto simp: resting_def p1_def intro: moves.timeouts_tick)
    also have "(moves env cfg mainnet)\<^sup>*\<^sup>* (p1, w)
        (p1\<lparr>timeouts_at := Done (fst (checkTimeouts env w))\<rparr>, w')"
      using program_ends(2) [of p1 "checkTimeoutsP env"] timeouts(2)
      by (simp add: p1_def run_checks)
    finally show ?thesis
      using assms(1)
      by (intro exI [of _ "p1\<lparr>timeouts_at := Done (fst (checkTimeouts env w))\<rparr>"])
        (simp add: resting_def p1_def)
  next
    case confirmations
    define p1 where "p1 = p\<lparr>confirmations_at := checkConfirmationsP env\<rparr>"
    have "moves env cfg mainnet (p, w) (p1, w)"
      using assms(1) by (auto simp: resting_def p1_def intro: moves.confirmations_tick)
    also have "(moves env cfg mainnet)\<^sup>*\<^sup>* (p1, w)
        (p1\<lparr>confirmations_at := Done (fst (checkConfirmations env w))\<rparr>, w')"
      using program_ends(3) [of p1 "checkConfirmationsP env"] confirmations(2)
      by (simp add: p1_def run_checks)
    finally show ?thesis
      using assms(1)
      by (intro exI [of _ "p1\<lparr>confirmations_at := Done (fst (checkConfirmations env w))\<rparr>"])
        (simp add: resting_def p1_def)
  next
    case (http now route r a)
    define p1 where "p1 = p\<lparr>serving := [RegisterRoutesP env cfg now route r]\<rparr>"
    have "answered (run (RegisterRoutesP env cfg now route r) w) = Some (a, w')"
      using http(2) by (simp add: run_RegisterRoutes)
    then have r: "run (RegisterRoutesP env cfg now route r) w = (Ret (Some a), w')"
      by (cases "run (RegisterRoutesP env cfg now route r) w" rule: answered.cases) auto
    have "moves env cfg mainnet (p, w) (p1, w)"
      using assms(1) moves.accept [of p env cfg mainnet w now route r]
      by (simp add: resting_def p1_def maxRequests_def)
    also have "(moves env cfg mainnet)\<^sup>*\<^sup>* (p1, w) (p1\<lparr>serving := [Done (Ret (Some a))]\<rparr>, w')"
      using request_ends [of p1 "[]" "RegisterRoutesP env cfg now route r" "[]" env cfg mainnet w]
      by (simp add: p1_def r)
    also have "moves env cfg mainnet \<dots> (p1\<lparr>serving := []\<rparr>, w')"
      using moves.answer [of "p1\<lparr>serving := [Done (Ret (Some a))]\<rparr>" "[]" a "[]"] by simp
    finally show ?thesis
      using assms(1) by (intro exI [of _ "p1\<lparr>serving := []\<rparr>"]) (simp add: resting_def p1_def)
  next
    case restart
    then show ?thesis
      using moves.restart [of env cfg mainnet p w]
      by (intro exI [of _ idle]) (simp add: resting_def idle_def)
  qed (use service in simp_all)
qed

lemma resting_run:
  assumes "(node_moves env cfg mainnet)\<^sup>*\<^sup>* w w'"
  shows "\<exists>p. resting p \<and> (moves env cfg mainnet)\<^sup>*\<^sup>* (idle, w) (p, w')"
  using assms
proof (induction rule: rtranclp_induct)
  case base
  show ?case by (intro exI [of _ idle]) (simp add: resting_def idle_def)
next
  case (step u v)
  then show ?case
    unfolding node_moves_def by (meson resting_step rtranclp_trans)
qed


section \<open>Concrete runs\<close>


theorem interleaved_state_ok_witness:
  "db_ok (restarted (handleResponse run_env [] ''P'' run_world))"
proof -
  obtain cfg mainnet p where "(moves run_env cfg mainnet)\<^sup>*\<^sup>* (idle, run_world)
      (p, restarted (handleResponse run_env [] ''P'' run_world))"
    using resting_run [OF runs(2)] by blast
  from interleaved_state_ok [OF run_world_ok this] show ?thesis by blast
qed


end
