(* ===== verification/Races.thy ===== *)
theory Races
  imports Interleaving
begin

text \<open>
  What holds when handlers run one after the other and not when they interleave: that the first
  response of an operator counts, and that a request for a task that exists is answered with the task.
\<close>

section \<open>Two responses of one operator\<close>

text \<open>Some steps of a handler, and the goroutine that takes them.\<close>

fun steps :: "nat \<Rightarrow> 'a prog \<Rightarrow> World \<Rightarrow> 'a prog \<times> World" where
  "steps (Suc n) (Act f k) w = steps n (k w) (f w)"
| "steps n p w = (p, w)"

lemma steps_numeral: "steps (numeral n) (Act f k) w = steps (pred_numeral n) (k w) (f w)"
  by (simp add: numeral_eq_Suc)

lemma handler_steps:
  "handling p = ps @ q # qs \<Longrightarrow> (moves env cfg mainnet)\<^sup>*\<^sup>* (p, w)
     (p\<lparr>handling := ps @ fst (steps n q w) # qs\<rparr>, snd (steps n q w))"
proof (induction n arbitrary: p q w)
  case 0
  then have "p\<lparr>handling := ps @ q # qs\<rparr> = p" by (cases p) simp
  then show ?case by simp
next
  case (Suc n)
  show ?case
  proof (cases q)
    case (Done r)
    then have "p\<lparr>handling := ps @ q # qs\<rparr> = p" using Suc.prems by (cases p) simp
    with Done show ?thesis by simp
  next
    case (Act f k)
    with Suc.prems have
      "moves env cfg mainnet (p, w) (p\<lparr>handling := (handling p)[length ps := k w]\<rparr>, f w)"
      by (intro moves.handle) simp_all
    moreover have "(moves env cfg mainnet)\<^sup>*\<^sup>* (p\<lparr>handling := ps @ k w # qs\<rparr>, f w)
        (p\<lparr>handling := ps @ fst (steps n (k w) (f w)) # qs\<rparr>, snd (steps n (k w) (f w)))"
      using Suc.IH [of "p\<lparr>handling := ps @ k w # qs\<rparr>"] by simp
    ultimately show ?thesis using Suc.prems Act by (simp add: converse_rtranclp_into_rtranclp)
  qed
qed

text \<open>An operator that sends two responses with different values for one task.\<close>

definition race_message :: "bytes \<Rightarrow> TaskResponseMessage" where
  "race_message data = toy_message ''T'' (if data = [] then ''1'' else ''2'')"

definition race_env :: env where
  "race_env = one_key_env\<lparr>unmarshal := (\<lambda>data. Inr (race_message data))\<rparr>"

definition race_response :: "bytes \<Rightarrow> taskResponse" where
  "race_response data = convertProtoToResponse (race_message data)"

definition race_store :: "bytes \<Rightarrow> World \<Rightarrow> World" where
  "race_store data w =
     snd (on_track (storeResponseAndWeight (race_response data) ''01'' (Some 6)) w)"

lemma race_env_simps [simp]:
  "pgp race_env = toy_pg" "unmarshal race_env data = Inr (race_message data)"
  "PeerIDToP2PKey (crp race_env) ''P'' = Ret peer_key"
  by (simp_all add: race_env_def one_key_env_def peer_key_def PeerIDToP2PKey_def toy_crypto_def Let_def)

lemma race_verifies: "verifyResponse race_env (race_response data) ''01'' = Ret ()"
  by (simp add: race_response_def race_message_def verifyResponse_def race_env_def one_key_env_def
      toy_env_def toy_crypto_def toy_message_def convertProtoToResponse_def VerifyTaskResponse_def
      pack_def StringToBigInt_def big_SetString10_def parse_nat_def digit_val_def hex_encode_def
      digit_char_def char_of_def bit_0)

text \<open>A handler that has passed all tests, and is about to store the response.\<close>

lemma race_handler:
  assumes "operators_rows w = operators_rows run_world" and "GetCurrentEpochNumber w = 8"
    and "consensus_rows w = []" and "taskResponseTrack w = newTrack"
  shows "\<exists>k. steps 4 (processResponseP race_env data ''P'') w = (Act (race_store data) k, tick (tick w))"
proof -
  define q where "q = (toy_operator ''A'' ''01'' 6)\<lparr>o_P2pKey := peer_key\<rparr>"
  have r: "r_taskID (race_response data) = ''T''" "r_epoch (race_response data) = 8"
    by (simp_all add: race_response_def race_message_def convertProtoToResponse_def toy_message_def)
  have q: "scan_operator toy_pg q = q" "o_IsActive q" "o_SigningKey q = ''01''"
    "NumericToBigInt (o_Weight q) = Ret (Some 6)" "o_P2pKey q = peer_key" "operators_rows w = [q]"
    by (simp_all add: q_def scan_operator_def toy_operator_def NumericToBigInt_def
        BigIntToNumeric_def assms(1) run_world_def)
  have op: "GetOperatorByP2PKey toy_pg peer_key w = (Ret (Some q), tick w)"
    using GetOperatorByP2PKey_exact [of toy_pg w peer_key] q by simp
  have none: "GetConsensusResponseByTaskId toy_pg t (tick w) = (Ret None, tick (tick w))" for t
    using GetConsensus_answer [of toy_pg t "tick w" None]
      consensus_reads(2) [of toy_pg t "tick w"] assms(3)
    by (simp add: prod_eq_iff ledger_of_def tick_def)
  have new: "\<not> alreadyProcessed (taskResponseTrack (tick w)) ''T'' ''01''"
    by (simp add: assms(4) tick_def alreadyProcessed_def lookup2_def newTrack_def)
  show ?thesis
    by (simp add: processResponseP_def processActiveP_def race_response_def [symmetric] Let_def r q
        op none new race_verifies assms(2) race_store_def [abs_def] eval_nat_numeral peek_def atom_def and_then_def and_then'_def)
qed

text \<open>Two handlers, both about to store.\<close>

lemma race_both:
  "\<exists>k l w. (moves race_env cfg mainnet)\<^sup>*\<^sup>* (idle, run_world)
     (idle\<lparr>handling := [Act (race_store []) k, Act (race_store [1]) l]\<rparr>, w) \<and>
     taskResponseTrack w = newTrack"
proof -
  define P where "P data = processResponseP race_env data ''P''" for data
  define u where "u = tick (tick run_world)"
  have w: "operators_rows u = operators_rows run_world" "GetCurrentEpochNumber run_world = 8"
    "GetCurrentEpochNumber u = 8" "consensus_rows run_world = []" "consensus_rows u = []"
    "taskResponseTrack run_world = newTrack" "taskResponseTrack u = newTrack"
    by (simp_all add: u_def tick_def run_world_def toy_world_def GetCurrentEpochNumber_def)
  obtain k where k: "steps 4 (P []) run_world = (Act (race_store []) k, u)"
    using race_handler [of run_world "[]"] w unfolding P_def u_def by auto
  obtain l where l: "steps 4 (P [1]) u = (Act (race_store [1]) l, tick (tick u))"
    using race_handler [of u "[1]"] w unfolding P_def by auto
  note go = handler_steps [where env = race_env and cfg = cfg and mainnet = mainnet]
  have "(moves race_env cfg mainnet)\<^sup>*\<^sup>* (idle, run_world) (idle\<lparr>handling := [P []]\<rparr>, run_world)"
    using moves.receive [of idle race_env cfg mainnet run_world "[]" "''P''"]
    by (intro r_into_rtranclp) (simp add: idle_def maxConcurrent_def P_def)
  also have "moves race_env cfg mainnet \<dots> (idle\<lparr>handling := [P [], P [1]]\<rparr>, run_world)"
    using moves.receive [of "idle\<lparr>handling := [P []]\<rparr>" race_env cfg mainnet run_world "[1]" "''P''"]
    by (simp add: maxConcurrent_def P_def)
  also have "(moves race_env cfg mainnet)\<^sup>*\<^sup>* \<dots>
      (idle\<lparr>handling := [Act (race_store []) k, P [1]]\<rparr>, u)"
    using go [of "idle\<lparr>handling := [P [], P [1]]\<rparr>" "[]" "P []" "[P [1]]" run_world 4] k by simp
  also have "(moves race_env cfg mainnet)\<^sup>*\<^sup>* \<dots>
      (idle\<lparr>handling := [Act (race_store []) k, Act (race_store [1]) l]\<rparr>, tick (tick u))"
    using go [of "idle\<lparr>handling := [Act (race_store []) k, P [1]]\<rparr>" "[Act (race_store []) k]" "P [1]"
        "[]" u 4] l by simp
  finally show ?thesis
    using w(7) by (intro exI [of _ k] exI [of _ l] exI [of _ "tick (tick u)"]) (simp add: tick_def)
qed

lemma race_stored:
  assumes "taskResponseTrack w = newTrack"
  shows "lookup2 (responses (taskResponseTrack (race_store [] w))) ''T'' ''01'' = Some (race_response [])"
    "lookup2 (responses (taskResponseTrack (race_store [1] (race_store [] w)))) ''T'' ''01'' =
       Some (race_response [1])"
    "r_value (race_response []) = ''1''" "r_value (race_response [1]) = ''2''"
  by (simp_all add: race_store_def on_track_def storeResponseAndWeight_def assms newTrack_def Let_def
      lookup2_def race_response_def race_message_def convertProtoToResponse_def toy_message_def)


section \<open>Two requests for one task\<close>

lemma request_steps:
  "serving p = ps @ q # qs \<Longrightarrow> (moves env cfg mainnet)\<^sup>*\<^sup>* (p, w)
     (p\<lparr>serving := ps @ fst (steps n q w) # qs\<rparr>, snd (steps n q w))"
proof (induction n arbitrary: p q w)
  case 0
  then have "p\<lparr>serving := ps @ q # qs\<rparr> = p" by (cases p) simp
  then show ?case by simp
next
  case (Suc n)
  show ?case
  proof (cases q)
    case (Done r)
    then have "p\<lparr>serving := ps @ q # qs\<rparr> = p" using Suc.prems by (cases p) simp
    with Done show ?thesis by simp
  next
    case (Act f k)
    with Suc.prems have
      "moves env cfg mainnet (p, w) (p\<lparr>serving := (serving p)[length ps := k w]\<rparr>, f w)"
      by (intro moves.serve) simp_all
    moreover have "(moves env cfg mainnet)\<^sup>*\<^sup>* (p\<lparr>serving := ps @ k w # qs\<rparr>, f w)
        (p\<lparr>serving := ps @ fst (steps n (k w) (f w)) # qs\<rparr>, snd (steps n (k w) (f w)))"
      using Suc.IH [of "p\<lparr>serving := ps @ k w # qs\<rparr>"] by simp
    ultimately show ?thesis using Suc.prems Act by (simp add: converse_rtranclp_into_rtranclp)
  qed
qed

text \<open>The request of \<open>Api\<close>, and what is left of it when it is about to insert the task.\<close>

definition toy_serve :: "(nat \<times> api_body option) option prog" where
  "toy_serve = RegisterRoutesP toy_api_env toy_config 0 TasksRoute toy_request"

definition toy_create :: CreateTaskParams where
  "toy_create = newTaskParams toy_params 8 7698590 (Some 5) 42
     (generateTaskID (crp toy_api_env) toy_params (big_String 42)) 20 7698600"

definition toy_insert :: "(nat \<times> api_body option) option prog" where
  "toy_insert = recovererP (or_error 500 (\<lambda>e. ''Failed to create task'')
     (atom (CreateTask toy_pg toy_create))
     (processCreatedP toy_api_env (requestMessage 7698600 7698590 20)))"

lemma toy_api_simps [simp]:
  "pgp toy_api_env = toy_pg" "rpcp toy_api_env = toy_rpc"
  by (simp_all add: toy_api_env_def toy_env_def)

lemma toy_before:
  assumes "manager w = manager toy_api_world" and "consensus_rows w = []" and "tasks_rows w = []"
  shows "steps 9 toy_serve w = (toy_insert, w\<lparr>calls := calls w + 6\<rparr>)"
proof -
  have "IsHexAddress (crp toy_api_env) (sr_TargetAddress toy_params)"
    by (simp add: toy_api_env_def toy_crypto_def toy_params_def)
  then show ?thesis
    using assms
  by (simp add: toy_serve_def toy_insert_def RegisterRoutesP_def SendRequestP_def validateRequestP_def
      requestForP_def requestBlockP_def readStateP_def lookupOrSubmitP_def submitTaskP_def Let_def
      or_error_def recovererP_def and_then_def and_then'_def peek_def atom_def steps_numeral
      toy_create_def toy_request_def toy_params_def toy_config_def toy_api_world_def
      big_SetString0_def scan_nat0_def with_digits_def digit_val_def GetMainnetClient_def
      GetClientByChainId_def MainnetChainID_def GetCurrentEpoch_def getRequiredConfirmations_def
      GetStateAtBlock_def BlockNumber_def rpc_call_def of_sum_def toy_rpc_def tick_def
      GetConsensusResponseByTaskId_def getConsensusResponseByTaskId_def select_one_def
      on_consensus_def run_stmt_def scanned_def GetTaskByID_def getTaskByID_def on_tasks_def
      toy_pg_def StringToBigInt_def big_SetString10_def parse_nat_def)
qed

definition toy_row :: Tasks where
  "toy_row = row_of_params toy_create 0"

lemma toy_row_check: "tasks_check toy_row"
  by (simp add: toy_row_def row_of_params_def toy_create_def newTaskParams_def requestStatus_def
      tasks_check_def toy_params_def toy_api_env_def toy_crypto_def generateTaskID_def hex_encode_def
      fits_varchar_def fits_int4_def fits_int8_def fits_int2_def fits_numeric_def not_null_def
      BigIntToNumeric_def TaskStatusConfirming_def TaskStatusPending_def length_concat
      sum_list_replicate)

lemma toy_status: "t_Status toy_row = TaskStatusConfirming"
  by (simp add: toy_row_def row_of_params_def toy_create_def newTaskParams_def requestStatus_def)

lemma toy_first:
  assumes "tasks_rows w = []"
  shows "\<exists>body u. run toy_insert w = (Ret (Some (200, Some body)), u) \<and> tasks_rows u = [toy_row] \<and>
    manager u = manager w \<and> consensus_rows u = consensus_rows w"
proof -
  have "CreateTask toy_pg toy_create w =
      (Ret (Some toy_row), (tick w)\<lparr>tasks_rows := [toy_row]\<rparr>)"
    using toy_row_check assms
    by (simp add: CreateTask_def on_tasks_def run_stmt_def toy_pg_def createTask_def
        insert_row_def toy_row_def row_of_params_def scanned_def scan_task_def)
  then show ?thesis
    by (simp add: toy_insert_def recovererP_def or_error_def run_bind processCreatedP_def toy_status
        writeSuccess_def tick_def)
qed

lemma toy_second:
  assumes "tasks_rows w = [toy_row]"
  shows "run toy_insert w =
    (Ret (Some (500, Some (snd (writeError 500 ''Failed to create task'')))), tick w)"
proof -
  have "\<exists>e. CreateTask toy_pg toy_create w = (Fail e, tick w)"
    using toy_row_check assms
    by (simp add: CreateTask_def on_tasks_def run_stmt_def toy_pg_def createTask_def
        insert_row_def toy_row_def row_of_params_def scanned_def tick_def)
  then show ?thesis
    by (auto simp: toy_insert_def recovererP_def or_error_def run_bind writeError_def)
qed

lemma toy_sequential:
  assumes "manager w = manager toy_api_world" and "consensus_rows w = []" and "tasks_rows w = [toy_row]"
  shows "\<exists>body u. RegisterRoutes toy_api_env toy_config 0 TasksRoute toy_request w =
    Some ((200, Some body), u) \<and> tasks_rows u = [toy_row]"
proof -
  have "t_TaskID toy_row = generateTaskID (crp toy_api_env) toy_params (big_String 42)"
    by (simp add: toy_row_def row_of_params_def toy_create_def newTaskParams_def)
  moreover have "IsHexAddress (crp toy_api_env) (sr_TargetAddress toy_params)"
    by (simp add: toy_api_env_def toy_crypto_def toy_params_def)
  ultimately show ?thesis
    using assms
  by (simp add: RegisterRoutes_def recoverer_def SendRequest_def validateRequest_def orError_def
      requestFor_def requestBlock_def readState_def lookupOrSubmit_def Let_def writeSuccess_def
      toy_request_def toy_params_def toy_config_def toy_api_world_def scan_task_def
      big_SetString0_def scan_nat0_def with_digits_def digit_val_def GetMainnetClient_def
      GetClientByChainId_def MainnetChainID_def GetCurrentEpoch_def
      GetStateAtBlock_def BlockNumber_def rpc_call_def of_sum_def toy_rpc_def tick_def
      GetConsensusResponseByTaskId_def getConsensusResponseByTaskId_def select_one_def
      on_consensus_def run_stmt_def scanned_def GetTaskByID_def getTaskByID_def on_tasks_def
      toy_pg_def StringToBigInt_def big_SetString10_def parse_nat_def)
qed

text \<open>Two handlers, both about to insert.\<close>

lemma toy_both:
  "\<exists>w. (moves toy_api_env toy_config mainnet)\<^sup>*\<^sup>* (idle, toy_api_world)
     (idle\<lparr>serving := [toy_insert, toy_insert]\<rparr>, w) \<and>
   manager w = manager toy_api_world \<and> consensus_rows w = [] \<and> tasks_rows w = []"
proof -
  define R where "R = moves toy_api_env toy_config mainnet"
  note steps = request_steps [where env = toy_api_env and cfg = toy_config and mainnet = mainnet,
      folded R_def]
    and accept = moves.accept [where env = toy_api_env and cfg = toy_config and mainnet = mainnet and
      now = 0 and route = TasksRoute and r = toy_request, folded R_def toy_serve_def]
  define v where "v = toy_api_world\<lparr>calls := calls toy_api_world + 6\<rparr>"
  define v' where "v' = v\<lparr>calls := calls v + 6\<rparr>"
  have w: "manager v = manager toy_api_world" "consensus_rows toy_api_world = []"
    "tasks_rows toy_api_world = []" "consensus_rows v = []" "tasks_rows v = []"
    "manager v' = manager toy_api_world" "consensus_rows v' = []" "tasks_rows v' = []"
    by (simp_all add: v_def v'_def toy_api_world_def toy_world_def)
  have "R (idle, toy_api_world) (idle\<lparr>serving := [toy_serve]\<rparr>, toy_api_world)"
    using accept [of idle toy_api_world] by (simp add: idle_def maxRequests_def)
  moreover have "R (idle\<lparr>serving := [toy_serve]\<rparr>, toy_api_world)
      (idle\<lparr>serving := [toy_serve, toy_serve]\<rparr>, toy_api_world)"
    using accept [of "idle\<lparr>serving := [toy_serve]\<rparr>" toy_api_world] by (simp add: maxRequests_def)
  moreover have "R\<^sup>*\<^sup>* (idle\<lparr>serving := [toy_serve, toy_serve]\<rparr>, toy_api_world)
      (idle\<lparr>serving := [toy_insert, toy_serve]\<rparr>, v)"
    using steps [of "idle\<lparr>serving := [toy_serve, toy_serve]\<rparr>" "[]" toy_serve "[toy_serve]" toy_api_world 9]
      toy_before [of toy_api_world] w by (simp add: v_def)
  moreover have "R\<^sup>*\<^sup>* (idle\<lparr>serving := [toy_insert, toy_serve]\<rparr>, v)
      (idle\<lparr>serving := [toy_insert, toy_insert]\<rparr>, v')"
    using steps [of "idle\<lparr>serving := [toy_insert, toy_serve]\<rparr>" "[toy_insert]" toy_serve "[]" v 9]
      toy_before [of v] w by (simp add: v'_def)
  ultimately have "R\<^sup>*\<^sup>* (idle, toy_api_world) (idle\<lparr>serving := [toy_insert, toy_insert]\<rparr>, v')"
    by (meson converse_rtranclp_into_rtranclp rtranclp_trans)
  with w show ?thesis unfolding R_def by blast
qed


end
