(* ===== verification/Upkeep.thy ===== *)
theory Upkeep
  imports Peers
begin

text \<open>
  The rest of the node and of the health checker: what the node prints of itself and its peers, \<open>pkg/operator/node/state.go\<close>, and the
  start of the discovery with the refresh of the routing table, \<open>pkg/operator/node/node.go\<close>. The
  library that reads the IP of an address is a parameter; printing gives the lines of the log.
\<close>

section \<open>Printing\<close>

record 'ip iplib =
  ToIP :: "string \<Rightarrow> error + 'ip"
  IsLoopback :: "'ip \<Rightarrow> bool"
  IsPrivate :: "'ip \<Rightarrow> bool"

text \<open>The loop over the addresses of the host, with the two slices it appends to.\<close>

fun splitAddrs :: "'ip iplib \<Rightarrow> string list \<Rightarrow> string list \<Rightarrow> string list \<Rightarrow> string list \<times> string list" where
  "splitAddrs il [] localAddrs externalAddrs = (localAddrs, externalAddrs)"
| "splitAddrs il (addr # addrs) localAddrs externalAddrs =
     (case ToIP il addr of
        Inl e \<Rightarrow> splitAddrs il addrs localAddrs externalAddrs
      | Inr ip \<Rightarrow>
          if IsLoopback il ip \<or> IsPrivate il ip then splitAddrs il addrs (localAddrs @ [addr]) externalAddrs
          else splitAddrs il addrs localAddrs (externalAddrs @ [addr]))"

text \<open>The second loop, five seconds later.\<close>

fun newExternals :: "'ip iplib \<Rightarrow> string list \<Rightarrow> string list \<Rightarrow> string list" where
  "newExternals il [] newExternalAddrs = newExternalAddrs"
| "newExternals il (addr # addrs) newExternalAddrs =
     (case ToIP il addr of
        Inl e \<Rightarrow> newExternals il addrs newExternalAddrs
      | Inr ip \<Rightarrow>
          if \<not> IsLoopback il ip \<and> \<not> IsPrivate il ip then newExternals il addrs (newExternalAddrs @ [addr])
          else newExternals il addrs newExternalAddrs)"

definition PrintPeerInfo ::
  "'ip iplib \<Rightarrow> peer_id \<Rightarrow> string list \<Rightarrow> string list \<Rightarrow> string list \<times> string list" where
  "PrintPeerInfo il peerID addrs newAddrs =
     (case splitAddrs il addrs [] [] of
        (localAddrs, externalAddrs) \<Rightarrow>
          ([''Node Peer Info:'', ''PeerID: '' @ peerID, ''Local Addresses:''] @
             map (\<lambda>addr. ''  '' @ addr) localAddrs @ [''External Addresses:''] @
             map (\<lambda>addr. ''  '' @ addr) externalAddrs,
           (case newExternals il newAddrs [] of
              [] \<Rightarrow> []
            | found \<Rightarrow> ''Discovered External Addresses:'' # map (\<lambda>addr. ''  '' @ addr) found)))"

text \<open>\<open>startPrintPeerInfo\<close> prints once and then at each tick, until the context ends.\<close>

fun printTicks :: "(nat \<Rightarrow> string list) \<Rightarrow> bool list \<Rightarrow> nat \<Rightarrow> string list" where
  "printTicks info [] n = []"
| "printTicks info (tick # rest) n =
     (if tick then info n @ printTicks info rest (Suc n)
      else [''[Node] Stopping peer info printer''])"

definition startPrintPeerInfo :: "(nat \<Rightarrow> string list) \<Rightarrow> bool list \<Rightarrow> string list" where
  "startPrintPeerInfo info received = info 0 @ printTicks info received 1"

definition PrintConnectedPeers :: "host \<Rightarrow> (peer_id \<Rightarrow> string) \<Rightarrow> Net \<Rightarrow> string list \<times> Net" where
  "PrintConnectedPeers h peerAddrs n =
     (let peers = peersAt h (asked n) in
      ((''[Node] Connected to '' @ show_nat (length peers) @ '' peers:'') #
         map (\<lambda>peer. ''[Node] - Peer '' @ peer @ '' at '' @ peerAddrs peer) peers,
       ask n))"

section \<open>Discovery and routing\<close>

text \<open>A failed advertisement is accepted, as the first node has nobody to tell.\<close>

definition startPeerDiscovery :: "error + string \<Rightarrow> unit res \<times> string" where
  "startPeerDiscovery advertised =
     (Ret (),
      case advertised of
        Inl err \<Rightarrow>
          ''Warning: Failed to advertise (this is normal for the first node): '' @ error_text err
      | Inr ttl \<Rightarrow> ''Advertising this node with TTL: '' @ ttl)"

text \<open>
  One tick of \<open>maintainRoutingTable\<close>: the peers in the table before and after the refresh, which may
  fail, and the connections to each.
\<close>

definition routingTick ::
  "peer_id list \<Rightarrow> error option \<Rightarrow> peer_id list \<Rightarrow> (peer_id \<Rightarrow> nat) \<Rightarrow> string list" where
  "routingTick peers refresh newPeers conns =
     [''Starting routing table refresh...'',
      ''Current routing table has '' @ show_nat (length peers) @ '' peers''] @
     (case refresh of
        Some err \<Rightarrow>
          (''No new peers to refresh routing table: '' @ error_text err @ '' (peers: '' @
             show_nat (length peers) @ '')'') #
          map (\<lambda>p. ''Peer '' @ p @ '' connections: '' @ show_nat (conns p)) peers
      | None \<Rightarrow>
          [''Routing table refreshed successfully. Peers: '' @ show_nat (length peers) @ '' -> '' @
             show_nat (length newPeers)])"

text \<open>
  The interval of the health checker; the loop that \<open>NewHealthChecker\<close> starts reads it once, before
  anybody can set it.
\<close>

record healthChecker =
  checkInterval :: int

definition SetCheckInterval :: "int \<Rightarrow> healthChecker \<Rightarrow> healthChecker" where
  "SetCheckInterval d hc = hc\<lparr>checkInterval := d\<rparr>"

section \<open>What is printed\<close>

definition is_local :: "'ip iplib \<Rightarrow> string \<Rightarrow> bool" where
  "is_local il addr = (case ToIP il addr of Inl _ \<Rightarrow> False | Inr ip \<Rightarrow> IsLoopback il ip \<or> IsPrivate il ip)"

definition is_external :: "'ip iplib \<Rightarrow> string \<Rightarrow> bool" where
  "is_external il addr =
     (case ToIP il addr of Inl _ \<Rightarrow> False | Inr ip \<Rightarrow> \<not> IsLoopback il ip \<and> \<not> IsPrivate il ip)"

lemma splitAddrs_filter:
  "splitAddrs il addrs ls es = (ls @ filter (is_local il) addrs, es @ filter (is_external il) addrs)"
  by (induction addrs arbitrary: ls es) (auto simp: is_local_def is_external_def split: sum.split)

lemma newExternals_filter: "newExternals il addrs es = es @ filter (is_external il) addrs"
  by (induction addrs arbitrary: es) (auto simp: is_external_def split: sum.split)

text \<open>
  The loops of the printer are filters: an address with an IP is listed under exactly one heading, in
  the order of the host, and one without is not listed. The later message lists the addresses that
  are then external, also those that were listed before, and is left out when there is none.
\<close>

theorem PrintPeerInfo_lists:
  "PrintPeerInfo il peerID addrs newAddrs =
     ([''Node Peer Info:'', ''PeerID: '' @ peerID, ''Local Addresses:''] @
        map (\<lambda>addr. ''  '' @ addr) (filter (is_local il) addrs) @ [''External Addresses:''] @
        map (\<lambda>addr. ''  '' @ addr) (filter (is_external il) addrs),
      if filter (is_external il) newAddrs = [] then []
      else ''Discovered External Addresses:'' #
        map (\<lambda>addr. ''  '' @ addr) (filter (is_external il) newAddrs)) \<and>
   \<not> (is_local il addr \<and> is_external il addr) \<and>
   (is_local il addr \<or> is_external il addr) = (\<not> isl (ToIP il addr))"
  by (auto simp: PrintPeerInfo_def splitAddrs_filter newExternals_filter is_local_def is_external_def
      split: sum.split list.split)

end
