(* ===== verification/Cache.thy ===== *)
theory Cache
  imports Prelude
begin

text \<open>
  The read-through cache, \<open>internal/database/cache/cache.go\<close>. Redis is a parameter: what it answers
  to the n-th command, and how long that takes. Other processes use the same server, so nothing is
  assumed about how its answers are related. Time is in nanoseconds.
\<close>

section \<open>The server, and what a client has done\<close>

datatype redis_cmd =
    Get_cmd string
  | Set_cmd string bytes int
  | SetNX_cmd string int
  | Del_cmd "string list"

record redis =
  redisGet :: "nat \<Rightarrow> string \<Rightarrow> error + bytes option"
  redisSet :: "nat \<Rightarrow> string \<Rightarrow> error option"
  redisSetNX :: "nat \<Rightarrow> string \<Rightarrow> error + bool"
  redisDel :: "nat \<Rightarrow> string list \<Rightarrow> error option"
  redisTime :: "nat \<Rightarrow> nat"

text \<open>The commands sent so far, the clock, and how often the data source was read.\<close>

record progress =
  sent :: "redis_cmd list"
  clock :: int
  reads :: nat

definition send :: "redis \<Rightarrow> redis_cmd \<Rightarrow> progress \<Rightarrow> progress" where
  "send r cmd st =
     st\<lparr>sent := sent st @ [cmd], clock := clock st + int (redisTime r (length (sent st)))\<rparr>"

text \<open>
  How the run-time wakes a waiting call: how late its timer is, which of two events that fall together
  is taken, and when the context of the caller ends.
\<close>

record timing =
  late :: "nat \<Rightarrow> nat"
  timer_first :: "nat \<Rightarrow> bool"
  ctxDone :: "int option"

section \<open>Keys and values\<close>

definition minSleep :: int where
  "minSleep = 50000000"

definition store :: "string \<Rightarrow> string" where
  "store key = ''#'' @ key @ ''#''"

definition lock :: "string \<Rightarrow> string" where
  "lock key = ''#'' @ key @ ''#_lock''"

text \<open>A value of an interface type, and the variable that a pointer of such a type points to.\<close>

datatype 'a goval = NilVal | BytesVal bytes | TextVal string | ObjVal 'a

definition byte_text :: "bytes \<Rightarrow> string" where
  "byte_text bs = map (\<lambda>b. char_of (unat b)) bs"

definition text_byte :: "string \<Rightarrow> bytes" where
  "text_byte s = map (\<lambda>c. of_nat (of_char c)) s"

definition cache_marshal :: "('a \<Rightarrow> error + bytes) \<Rightarrow> 'a goval \<Rightarrow> bytes res" where
  "cache_marshal msgpackMarshal v =
     (case v of
        NilVal \<Rightarrow> Ret []
      | BytesVal b \<Rightarrow> Ret b
      | TextVal s \<Rightarrow> Ret (text_byte s)
      | ObjVal x \<Rightarrow> (case msgpackMarshal x of Inl e \<Rightarrow> Fail e | Inr b \<Rightarrow> Ret b))"

definition cache_unmarshal :: "(bytes \<Rightarrow> error + 'a) \<Rightarrow> bytes \<Rightarrow> 'a goval \<Rightarrow> 'a goval res" where
  "cache_unmarshal msgpackUnmarshal b target =
     (if length b = 0 then Ret target
      else
        (case target of
           NilVal \<Rightarrow> Ret NilVal
         | BytesVal _ \<Rightarrow> Ret (BytesVal b)
         | TextVal _ \<Rightarrow> Ret (TextVal (byte_text b))
         | ObjVal _ \<Rightarrow> (case msgpackUnmarshal b of Inl e \<Rightarrow> Fail e | Inr x \<Rightarrow> Ret (ObjVal x))))"

section \<open>The client\<close>

record 'a Client =
  primaryConn :: redis
  readThroughPerKeyLimit :: int
  maxWaitingTime :: int
  msgpackMarshal :: "'a \<Rightarrow> error + bytes"
  msgpackUnmarshal :: "bytes \<Rightarrow> error + 'a"

text \<open>A call of the data source: a value with its time to live, or an error.\<close>

type_synonym 'a source = "error + 'a goval \<times> int"

definition invalidKey :: "'a Client \<Rightarrow> string list \<Rightarrow> progress \<Rightarrow> unit res \<times> progress" where
  "invalidKey c keys st =
     (let st' = send (primaryConn c) (Del_cmd keys) st in
      case redisDel (primaryConn c) (length (sent st)) keys of
        Some e \<Rightarrow> (Fail e, st')
      | None \<Rightarrow> (Ret (), st'))"

definition getNoCache ::
  "'a Client \<Rightarrow> string \<Rightarrow> 'a source \<Rightarrow> 'a goval \<Rightarrow> progress \<Rightarrow> 'a goval res \<times> progress" where
  "getNoCache c queryKey f v st =
     (let st = st\<lparr>reads := Suc (reads st)\<rparr> in
      case f of
        Inl err \<Rightarrow> (Fail err, snd (invalidKey c [lock queryKey] st))
      | Inr (dbres, expire) \<Rightarrow>
          (case cache_marshal (msgpackMarshal c) dbres of
             Ret bs \<Rightarrow>
               (cache_unmarshal (msgpackUnmarshal c) bs v,
                send (primaryConn c) (Set_cmd (store queryKey) bs expire) st)
           | Fail e \<Rightarrow> (Fail e, st)
           | Panic \<Rightarrow> (Panic, st)))"

text \<open>One pass from the label \<open>retry\<close>: \<open>None\<close> when another caller holds the lock.\<close>

definition attempt ::
  "'a Client \<Rightarrow> string \<Rightarrow> 'a goval \<Rightarrow> 'a source \<Rightarrow> progress \<Rightarrow> 'a goval res option \<times> progress" where
  "attempt c queryKey target f st =
     (let st1 = send (primaryConn c) (Get_cmd (store queryKey)) st in
      case redisGet (primaryConn c) (length (sent st)) (store queryKey) of
        Inl e \<Rightarrow> apfst Some (getNoCache c queryKey f target st1)
      | Inr (Some bs) \<Rightarrow> (Some (cache_unmarshal (msgpackUnmarshal c) bs target), st1)
      | Inr None \<Rightarrow>
          (let st2 = send (primaryConn c) (SetNX_cmd (lock queryKey) (readThroughPerKeyLimit c)) st1 in
           case redisSetNX (primaryConn c) (length (sent st1)) (lock queryKey) of
             Inl err \<Rightarrow> apfst Some (getNoCache c queryKey f target st2)
           | Inr updated \<Rightarrow>
               if updated then apfst Some (getNoCache c queryKey f target st2)
               else (None, st2)))"

definition ErrTimeout :: error where
  "ErrTimeout = Err ''timeout''"

text \<open>
  The \<open>select\<close> at the end of a pass, for a wait that ends at \<open>deadline\<close>: the time at which the timer
  wakes the call, or \<open>None\<close> when the context of the caller or of the wait is done first.
\<close>

definition wake :: "timing \<Rightarrow> int \<Rightarrow> progress \<Rightarrow> int option" where
  "wake tm deadline st =
     (let timer = clock st + minSleep + int (late tm (length (sent st)));
          done = (case ctxDone tm of None \<Rightarrow> deadline | Some d \<Rightarrow> min d deadline)
      in if timer < done \<or> timer = done \<and> timer_first tm (length (sent st)) then Some timer
         else None)"

lemma wake_later: "wake tm deadline st = Some t \<Longrightarrow> clock st + minSleep \<le> t \<and> t \<le> deadline"
  by (auto simp: wake_def Let_def split: if_splits option.splits)

lemma send_clock: "clock st \<le> clock (send r cmd st)"
  by (simp add: send_def)

lemma getNoCache_clock: "clock st \<le> clock (snd (getNoCache c k f v st))"
  by (auto simp: getNoCache_def invalidKey_def send_def Let_def split: sum.split res.split option.split)

lemma attempt_clock: "clock st \<le> clock (snd (attempt c k v f st))"
proof -
  define st1 where "st1 = send (primaryConn c) (Get_cmd (store k)) st"
  define st2 where "st2 = send (primaryConn c) (SetNX_cmd (lock k) (readThroughPerKeyLimit c)) st1"
  have "clock st \<le> clock st1" "clock st1 \<le> clock st2"
    by (simp_all add: st1_def st2_def send_clock)
  then show ?thesis
    using getNoCache_clock [of st1 c k f v] getNoCache_clock [of st2 c k f v]
    by (simp add: attempt_def Let_def st1_def [symmetric] st2_def [symmetric]
        split: sum.split option.split)
qed

text \<open>The passes after the first one that had to wait. The loop ends because every pass takes at least
  \<open>minSleep\<close> of the time that is left.\<close>

function waitLoop ::
  "'a Client \<Rightarrow> timing \<Rightarrow> string \<Rightarrow> 'a goval \<Rightarrow> 'a source \<Rightarrow> int \<Rightarrow> progress \<Rightarrow> 'a goval res \<times> progress" where
  "waitLoop c tm queryKey target f deadline st =
     (case wake tm deadline st of
        None \<Rightarrow> (Fail ErrTimeout, st)
      | Some t \<Rightarrow>
          (case attempt c queryKey target f (st\<lparr>clock := t\<rparr>) of
             (Some res, st) \<Rightarrow> (res, st)
           | (None, st) \<Rightarrow> waitLoop c tm queryKey target f deadline st))"
  by pat_completeness auto

termination
proof (relation "measure (\<lambda>(c, tm, k, v, f, deadline, st). nat (deadline - clock st))", goal_cases)
  case (2 c tm k v f deadline st t p st')
  then have "attempt c k v f (st\<lparr>clock := t\<rparr>) = (None, st')" by simp
  then have "t \<le> clock st'" using attempt_clock [of "st\<lparr>clock := t\<rparr>" c k v f] by simp
  moreover have "clock st + minSleep \<le> t \<and> t \<le> deadline" by (rule wake_later [OF 2(1)])
  ultimately show ?case by (simp add: minSleep_def)
qed simp

declare waitLoop.simps [simp del]

definition GetWithExpire ::
  "'a Client \<Rightarrow> timing \<Rightarrow> string \<Rightarrow> 'a goval \<Rightarrow> 'a source \<Rightarrow> progress \<Rightarrow> 'a goval res \<times> progress" where
  "GetWithExpire c tm queryKey target f st =
     (case attempt c queryKey target f st of
        (Some res, st) \<Rightarrow> (res, st)
      | (None, st) \<Rightarrow> waitLoop c tm queryKey target f (clock st + maxWaitingTime c) st)"

definition cache_Get ::
  "'a Client \<Rightarrow> timing \<Rightarrow> string \<Rightarrow> 'a goval \<Rightarrow> int \<Rightarrow> error + 'a goval \<Rightarrow> progress \<Rightarrow>
     'a goval res \<times> progress" where
  "cache_Get c tm queryKey target expire f =
     GetWithExpire c tm queryKey target (case f of Inl e \<Rightarrow> Inl e | Inr res \<Rightarrow> Inr (res, expire))"

fun cache_Invalidate :: "'a Client \<Rightarrow> string list \<Rightarrow> progress \<Rightarrow> unit res \<times> progress" where
  "cache_Invalidate c [] st = (Ret (), st)"
| "cache_Invalidate c (key # keys) st =
     call' (invalidKey c [lock key, store key] st) (\<lambda>_. cache_Invalidate c keys)"

definition cache_Set ::
  "'a Client \<Rightarrow> string \<Rightarrow> 'a goval \<Rightarrow> int \<Rightarrow> progress \<Rightarrow> unit res \<times> progress" where
  "cache_Set c key val ttl st =
     (case cache_marshal (msgpackMarshal c) val of
        Fail e \<Rightarrow> (Fail e, st)
      | Panic \<Rightarrow> (Panic, st)
      | Ret bs \<Rightarrow>
          (let st' = send (primaryConn c) (Set_cmd (store key) bs ttl) st in
           case redisSet (primaryConn c) (length (sent st)) (store key) of
             Some e \<Rightarrow> (Fail e, st')
           | None \<Rightarrow> (Ret (), st')))"

section \<open>Keys\<close>

text \<open>
  Entries and locks are kept apart. The keys under which two entries, or two locks, are kept are
  equal only if the query keys are, and no entry is kept under the key of a lock.
\<close>

lemma cache_keys_apart:
  "(store k = store j \<longleftrightarrow> k = j) \<and> (lock k = lock j \<longleftrightarrow> k = j) \<and> store k \<noteq> lock j"
proof -
  have "last (store k) \<noteq> last (lock j)" by (simp add: store_def lock_def)
  then show ?thesis by (auto simp: store_def lock_def)
qed

section \<open>Reading through\<close>

lemma attempt_sent:
  assumes "attempt c k v f st = (x, st')"
  shows "\<exists>cmds. sent st' = sent st @ cmds \<and> length cmds \<le> (if x = None then 2 else 3)"
  using assms
  by (auto simp: attempt_def getNoCache_def invalidKey_def send_def Let_def
      split: sum.splits option.splits if_splits res.splits prod.splits)

lemma waitLoop_sent:
  "\<exists>cmds. sent (snd (waitLoop c tm k v f d st)) = sent st @ cmds \<and>
     length cmds \<le> 2 * (nat (d - clock st) div nat minSleep) + 1"
proof (induction c tm k v f d st rule: waitLoop.induct)
  case (1 c tm k v f d st)
  show ?case
  proof (cases "wake tm d st")
    case None
    then show ?thesis by (simp add: waitLoop.simps [of c tm k v f d st])
  next
    case (Some t)
    obtain x st1 where a: "attempt c k v f (st\<lparr>clock := t\<rparr>) = (x, st1)" by fastforce
    obtain cmds where cmds: "sent st1 = sent st @ cmds" "length cmds \<le> (if x = None then 2 else 3)"
      using attempt_sent [OF a] by auto
    have late: "clock st + minSleep \<le> t" "t \<le> d" using wake_later [OF Some] by auto
    then have one: "1 \<le> nat (d - clock st) div nat minSleep" by (simp add: minSleep_def)
    show ?thesis
    proof (cases x)
      case None
      obtain more where more: "sent (snd (waitLoop c tm k v f d st1)) = sent st1 @ more"
        "length more \<le> 2 * (nat (d - clock st1) div nat minSleep) + 1"
        using 1 [OF Some a [symmetric] None] by auto
      have "t \<le> clock st1" using attempt_clock [of "st\<lparr>clock := t\<rparr>" c k v f] a by simp
      then have "nat (d - clock st1) \<le> nat (d - clock st) - nat minSleep"
        using late by (simp add: minSleep_def)
      then have "nat (d - clock st1) div nat minSleep \<le> (nat (d - clock st) - nat minSleep) div nat minSleep"
        by (rule div_le_mono)
      also have "\<dots> = nat (d - clock st) div nat minSleep - 1"
        using late by (simp add: minSleep_def)
      finally have "length (cmds @ more) \<le> 2 * (nat (d - clock st) div nat minSleep) + 1"
        using cmds(2) more(2) one None unfolding length_append if_P [OF None] by linarith
      moreover have "sent (snd (waitLoop c tm k v f d st)) = sent st @ cmds @ more"
        using Some a None cmds(1) more(1) by (simp add: waitLoop.simps [of c tm k v f d st])
      ultimately show ?thesis by blast
    next
      case (Some y)
      with \<open>wake tm d st = Some t\<close> a cmds one show ?thesis
        by (auto simp: waitLoop.simps [of c tm k v f d st])
    qed
  qed
qed

text \<open>
  C32. A read through the cache ends. Whatever the server answers, however long it takes and whatever
  the timers do, the call returns after a number of commands that is bounded by how often \<open>minSleep\<close>
  fits into the waiting time.
\<close>

theorem GetWithExpire_bounded:
  "\<exists>cmds. sent (snd (GetWithExpire c tm k v f st)) = sent st @ cmds \<and>
     length cmds \<le> 2 * (nat (maxWaitingTime c) div 50000000) + 3"
proof -
  obtain x st1 where a: "attempt c k v f st = (x, st1)" by fastforce
  obtain cmds where cmds: "sent st1 = sent st @ cmds" "length cmds \<le> (if x = None then 2 else 3)"
    using attempt_sent [OF a] by blast
  show ?thesis
  proof (cases x)
    case None
    obtain more where "sent (snd (waitLoop c tm k v f (clock st1 + maxWaitingTime c) st1)) =
        sent st1 @ more" "length more \<le> 2 * (nat (maxWaitingTime c) div nat minSleep) + 1"
      using waitLoop_sent [of c tm k v f "clock st1 + maxWaitingTime c" st1] by auto
    with None a cmds show ?thesis
      by (auto simp: GetWithExpire_def minSleep_def intro!: exI [of _ "cmds @ more"])
  next
    case (Some y)
    with a cmds show ?thesis by (auto simp: GetWithExpire_def)
  qed
qed

text \<open>A call ends with a pass that did not have to wait, or with a timeout.\<close>

lemma attempt_blocked:
  assumes "attempt c k v f st = (None, st')"
  shows "reads st' = reads st \<and> sent st' = sent st @
    [Get_cmd (store k), SetNX_cmd (lock k) (readThroughPerKeyLimit c)]"
proof -
  have "apfst Some r \<noteq> (None, st')" for r :: "'a goval res \<times> progress" by (cases r) simp
  with assms show ?thesis
    by (auto simp: attempt_def send_def Let_def split: sum.splits option.splits if_splits)
qed

definition waited :: "'a Client \<Rightarrow> string \<Rightarrow> progress \<Rightarrow> progress \<Rightarrow> bool" where
  "waited c k st st' \<longleftrightarrow> reads st' = reads st \<and>
     (\<exists>cmds. sent st' = sent st @ cmds \<and>
        set cmds \<subseteq> {Get_cmd (store k), SetNX_cmd (lock k) (readThroughPerKeyLimit c)})"

lemma waited_trans: "waited c k st st1 \<Longrightarrow> waited c k st1 st2 \<Longrightarrow> waited c k st st2"
  by (auto simp: waited_def)

lemma waited_blocked: "attempt c k v f st = (None, st') \<Longrightarrow> waited c k st st'"
  using attempt_blocked [of c k v f st st'] by (auto simp: waited_def)

lemma waitLoop_cases:
  "waitLoop c tm k v f d st = (res, st') \<Longrightarrow>
   \<exists>st0. waited c k st st0 \<and>
     (res = Fail ErrTimeout \<and> st' = st0 \<or> attempt c k v f st0 = (Some res, st'))"
proof (induction c tm k v f d st rule: waitLoop.induct)
  case (1 c tm k v f d st)
  show ?case
  proof (cases "wake tm d st")
    case None
    with 1(2) show ?thesis
      by (intro exI [of _ st]) (simp add: waitLoop.simps [of c tm k v f d st] waited_def)
  next
    case (Some t)
    obtain x st1 where a: "attempt c k v f (st\<lparr>clock := t\<rparr>) = (x, st1)" by fastforce
    have t: "waited c k st (st\<lparr>clock := t\<rparr>)" by (simp add: waited_def)
    show ?thesis
    proof (cases x)
      case None
      have "waitLoop c tm k v f d st1 = (res, st')"
        using 1(2) Some a None by (simp add: waitLoop.simps [of c tm k v f d st])
      from 1(1) [OF Some a [symmetric] None this] show ?thesis
        using waited_trans [OF waited_trans [OF t waited_blocked [OF a [unfolded None]]]] by blast
    next
      case (Some y)
      with 1(2) \<open>wake tm d st = Some t\<close> a have "attempt c k v f (st\<lparr>clock := t\<rparr>) = (Some res, st')"
        by (simp add: waitLoop.simps [of c tm k v f d st])
      with t show ?thesis by blast
    qed
  qed
qed

lemma GetWithExpire_cases:
  assumes "GetWithExpire c tm k v f st = (res, st')"
  shows "\<exists>st0. waited c k st st0 \<and>
     (res = Fail ErrTimeout \<and> st' = st0 \<or> attempt c k v f st0 = (Some res, st'))"
proof -
  obtain x st1 where a: "attempt c k v f st = (x, st1)" by fastforce
  show ?thesis
  proof (cases x)
    case None
    then have "waitLoop c tm k v f (clock st1 + maxWaitingTime c) st1 = (res, st')"
      using assms a by (simp add: GetWithExpire_def)
    from waitLoop_cases [OF this] show ?thesis
      using waited_trans [OF waited_blocked [OF a [unfolded None]]] by blast
  next
    case (Some y)
    then show ?thesis using assms a by (intro exI [of _ st]) (simp add: GetWithExpire_def waited_def)
  qed
qed

text \<open>
  C33. A failed read leaves nothing behind. When the data source fails, the call reads it at most once;
  if it was read, its error is returned, the last command releases the lock, and nothing was stored;
  if it was not, only the entry was asked for and the lock tried.
\<close>

theorem GetWithExpire_failed_read:
  "reads (snd (GetWithExpire c tm k v (Inl e) st)) = reads st \<and> waited c k st
     (snd (GetWithExpire c tm k v (Inl e) st)) \<or>
   reads (snd (GetWithExpire c tm k v (Inl e) st)) = Suc (reads st) \<and>
   fst (GetWithExpire c tm k v (Inl e) st) = Fail e \<and>
   (\<exists>cmds. sent (snd (GetWithExpire c tm k v (Inl e) st)) = sent st @ cmds @ [Del_cmd [lock k]] \<and>
      set cmds \<subseteq> {Get_cmd (store k), SetNX_cmd (lock k) (readThroughPerKeyLimit c)})"
proof -
  obtain res st' where g: "GetWithExpire c tm k v (Inl e) st = (res, st')" by fastforce
  obtain st0 where w: "waited c k st st0"
    "res = Fail ErrTimeout \<and> st' = st0 \<or> attempt c k v (Inl e) st0 = (Some res, st')"
    using GetWithExpire_cases [OF g] by blast
  have "waited c k st0 st' \<or> reads st' = Suc (reads st0) \<and> res = Fail e \<and>
      (\<exists>cmds. sent st' = sent st0 @ cmds @ [Del_cmd [lock k]] \<and>
         set cmds \<subseteq> {Get_cmd (store k), SetNX_cmd (lock k) (readThroughPerKeyLimit c)})"
    if "attempt c k v (Inl e) st0 = (Some res, st')"
    using that
    by (auto simp: attempt_def getNoCache_def invalidKey_def send_def Let_def waited_def
        split: sum.splits option.splits if_splits)
  with w show ?thesis
    unfolding g fst_conv snd_conv
    by (auto simp: waited_def)
qed

section \<open>Round trip\<close>

text \<open>A variable that can take the value.\<close>

fun same_kind :: "'a goval \<Rightarrow> 'a goval \<Rightarrow> bool" where
  "same_kind (BytesVal _) (BytesVal _) = True"
| "same_kind (TextVal _) (TextVal _) = True"
| "same_kind (ObjVal _) (ObjVal _) = True"
| "same_kind _ _ = False"

lemma byte_text_byte: "byte_text (text_byte s) = s"
  by (induction s) (simp_all add: byte_text_def text_byte_def unat_of_nat)

text \<open>
  What is set is what is read. If a value was set and the server answers the next read of the key
  with the bytes it was sent, then the read puts that value into the variable and does not read the
  data source. A value without bytes (nil, or an empty text) leaves the variable as it is.
\<close>

theorem cache_Set_Get:
  assumes "cache_Set c k x ttl st = (Ret (), st1)"
    and "cache_marshal (msgpackMarshal c) x = Ret bs"
    and "redisGet (primaryConn c) (length (sent st1)) (store k) = Inr (Some bs)"
    and "same_kind x v"
    and "\<And>y b. msgpackMarshal c y = Inr b \<Longrightarrow> msgpackUnmarshal c b = Inr y"
  shows "fst (GetWithExpire c tm k v f st1) = Ret (if bs = [] then v else x) \<and>
    reads (snd (GetWithExpire c tm k v f st1)) = reads st \<and>
    sent (snd (GetWithExpire c tm k v f st1)) =
      sent st @ [Set_cmd (store k) bs ttl, Get_cmd (store k)]"
proof -
  have "cache_unmarshal (msgpackUnmarshal c) bs v = Ret (if bs = [] then v else x)"
    using assms(2,4,5)
    by (cases "(x, v)" rule: same_kind.cases)
      (auto simp: cache_marshal_def cache_unmarshal_def byte_text_byte split: sum.splits)
  moreover have "st1 = send (primaryConn c) (Set_cmd (store k) bs ttl) st"
    using assms(1,2) by (simp add: cache_Set_def Let_def split: option.splits)
  ultimately show ?thesis
    using assms(3) by (simp add: GetWithExpire_def attempt_def Let_def send_def)
qed

text \<open>A server that finds the bytes of the text \<open>v\<close> under every key.\<close>

definition toy_client :: "nat Client" where
  "toy_client = \<lparr>primaryConn = \<lparr>redisGet = (\<lambda>n k. Inr (Some [118])), redisSet = (\<lambda>n k. None),
       redisSetNX = (\<lambda>n k. Inr True), redisDel = (\<lambda>n k. None), redisTime = (\<lambda>n. 1000)\<rparr>,
     readThroughPerKeyLimit = 10, maxWaitingTime = 500000000,
     msgpackMarshal = (\<lambda>n. Inl (Err ''msgpack'')), msgpackUnmarshal = (\<lambda>b. Inl (Err ''msgpack''))\<rparr>"

theorem cache_Set_Get_witness:
  "\<exists>tm f. fst (GetWithExpire toy_client tm ''k'' (TextVal ''w'') f
     \<lparr>sent = [Set_cmd ''#k#'' [118] 7], clock = 1000, reads = 0\<rparr>) = Ret (TextVal ''v'')"
proof -
  define st where "st = \<lparr>sent = [Set_cmd ''#k#'' [118] 7], clock = 1000, reads = 0\<rparr>"
  have "cache_Set toy_client ''k'' (TextVal ''v'') 7 \<lparr>sent = [], clock = 0, reads = 0\<rparr> = (Ret (), st)"
    by (simp add: cache_Set_def toy_client_def st_def cache_marshal_def text_byte_def send_def
        Let_def store_def)
  moreover have "cache_marshal (msgpackMarshal toy_client) (TextVal ''v'') = Ret [118]"
    by (simp add: cache_marshal_def text_byte_def)
  moreover have "redisGet (primaryConn toy_client) n k = Inr (Some [118])" for n k
    by (simp add: toy_client_def)
  moreover have "msgpackMarshal toy_client y \<noteq> Inr b" for y b by (simp add: toy_client_def)
  ultimately show ?thesis
    using cache_Set_Get [of toy_client "''k''" "TextVal ''v''" 7 _ st "[118]" "TextVal ''w''"]
    unfolding st_def [symmetric] by simp
qed

end
