(* ===== verification/Dumps.thy ===== *)
theory Dumps
  imports TasksRepo BlacklistRepo ConsensusRepo "HOL-Library.Multiset"
begin

text \<open>
  \<open>Dump\<close> and \<open>Load\<close> of the four repositories (\<open>pkg/repos/*/query.sql.go\<close>): a table as JSON, and JSON
  inserted row by row. The order of a dump is that of the collation of the server, a parameter, and so
  is the JSON form of the rows, which the types of the driver determine.
\<close>

section \<open>The two methods\<close>

record 'r json =
  MarshalIndent :: "'r list \<Rightarrow> error + bytes"
  Unmarshal :: "bytes \<Rightarrow> error + 'r list"

text \<open>The edits of \<open>beforeDump\<close>, in the order of the arguments.\<close>

definition applyBeforeDump :: "('r \<Rightarrow> 'r) list \<Rightarrow> 'r \<Rightarrow> 'r" where
  "applyBeforeDump fs v = foldl (\<lambda>v f. f v) v fs"

definition dump ::
  "'r json \<Rightarrow> ('r \<Rightarrow> 'r) \<Rightarrow> ('r \<Rightarrow> 'r) list \<Rightarrow> 'r list res \<times> 'w \<Rightarrow> bytes res \<times> 'w" where
  "dump js scan fs rows =
     call' rows (\<lambda>rows w.
       (case MarshalIndent js (map (\<lambda>r. applyBeforeDump fs (scan r)) rows) of
          Inl e \<Rightarrow> Fail e
        | Inr b \<Rightarrow> Ret b, w))"

text \<open>Rows are inserted until one is refused; those before it stay.\<close>

fun load_rows :: "('r \<Rightarrow> 'w \<Rightarrow> unit res \<times> 'w) \<Rightarrow> 'r list \<Rightarrow> 'w \<Rightarrow> unit res \<times> 'w" where
  "load_rows ins [] w = (Ret (), w)"
| "load_rows ins (r # rs) w = call' (ins r w) (\<lambda>_. load_rows ins rs)"

definition load ::
  "'r json \<Rightarrow> ('r \<Rightarrow> 'w \<Rightarrow> unit res \<times> 'w) \<Rightarrow> bytes \<Rightarrow> 'w \<Rightarrow> unit res \<times> 'w" where
  "load js ins data w =
     (case Unmarshal js data of Inl e \<Rightarrow> (Fail e, w) | Inr rows \<Rightarrow> load_rows ins rows w)"

definition tasks_Dump ::
  "pg \<Rightarrow> (Tasks list \<Rightarrow> Tasks list) \<Rightarrow> Tasks json \<Rightarrow> (Tasks \<Rightarrow> Tasks) list \<Rightarrow> ('z) DB_scheme \<Rightarrow>
     bytes res \<times> ('z) DB_scheme" where
  "tasks_Dump p order js fs w = dump js (scan_task p) fs (on_tasks p (\<lambda>_. select_many order) w)"

definition tasks_Load :: "pg \<Rightarrow> Tasks json \<Rightarrow> bytes \<Rightarrow> ('z) DB_scheme \<Rightarrow> unit res \<times> ('z) DB_scheme" where
  "tasks_Load p js = load js (\<lambda>r. on_tasks p (\<lambda>_. exec_stmt (insert_row t_TaskID tasks_check r)))"

definition operators_Dump ::
  "pg \<Rightarrow> (Operators list \<Rightarrow> Operators list) \<Rightarrow> Operators json \<Rightarrow> (Operators \<Rightarrow> Operators) list \<Rightarrow>
     ('z) DB_scheme \<Rightarrow> bytes res \<times> ('z) DB_scheme" where
  "operators_Dump p order js fs w =
     dump js (scan_operator p) fs (on_operators p (\<lambda>_. select_many order) w)"

definition operators_Load ::
  "pg \<Rightarrow> Operators json \<Rightarrow> bytes \<Rightarrow> ('z) DB_scheme \<Rightarrow> unit res \<times> ('z) DB_scheme" where
  "operators_Load p js =
     load js (\<lambda>r. on_operators p (\<lambda>_. exec_stmt (insert_row o_Address operators_check r)))"

definition consensus_Dump ::
  "pg \<Rightarrow> (ConsensusResponse list \<Rightarrow> ConsensusResponse list) \<Rightarrow> ConsensusResponse json \<Rightarrow>
     (ConsensusResponse \<Rightarrow> ConsensusResponse) list \<Rightarrow> ('z) DB_scheme \<Rightarrow> bytes res \<times> ('z) DB_scheme" where
  "consensus_Dump p order js fs w =
     dump js (scan_consensus p) fs (on_consensus p (\<lambda>_. select_many order) w)"

definition insert_consensus :: "ConsensusResponse \<Rightarrow> (ConsensusResponse, ConsensusResponse option) stmt" where
  "insert_consensus r t =
     (if list_ex (\<lambda>s. same_request s r) t \<and> consensus_check r then Inl (Err ''duplicate key value'')
      else insert_row c_TaskID consensus_check r t)"

definition consensus_Load ::
  "pg \<Rightarrow> ConsensusResponse json \<Rightarrow> bytes \<Rightarrow> ('z) DB_scheme \<Rightarrow> unit res \<times> ('z) DB_scheme" where
  "consensus_Load p js = load js (\<lambda>r. on_consensus p (\<lambda>_. exec_stmt (insert_consensus r)))"

definition blacklist_Dump ::
  "pg \<Rightarrow> (Blacklist list \<Rightarrow> Blacklist list) \<Rightarrow> Blacklist json \<Rightarrow> (Blacklist \<Rightarrow> Blacklist) list \<Rightarrow>
     ('z) DB_scheme \<Rightarrow> bytes res \<times> ('z) DB_scheme" where
  "blacklist_Dump p order js fs w = dump js (\<lambda>r. r) fs (on_blacklist p (\<lambda>_. select_many order) w)"

definition blacklist_Load ::
  "pg \<Rightarrow> Blacklist json \<Rightarrow> bytes \<Rightarrow> ('z) DB_scheme \<Rightarrow> unit res \<times> ('z) DB_scheme" where
  "blacklist_Load p js =
     load js (\<lambda>r. on_blacklist p (\<lambda>_. exec_stmt (insert_row b_PeerID blacklist_check r)))"

text \<open>The JSON form of a list of rows can be read back.\<close>

definition reads_back :: "'r json \<Rightarrow> 'r list \<Rightarrow> bool" where
  "reads_back js rs \<longleftrightarrow>
     (case MarshalIndent js rs of Inl e \<Rightarrow> False | Inr b \<Rightarrow> Unmarshal js b = Inr rs)"

lemma reads_back: "reads_back js rs \<longleftrightarrow> (\<exists>b. MarshalIndent js rs = Inr b \<and> Unmarshal js b = Inr rs)"
  by (auto simp: reads_back_def split: sum.splits)

lemma dump_Ret: "MarshalIndent js (map scan rs) = Inr b \<Longrightarrow> dump js scan [] (Ret rs, w) = (Ret b, w)"
  by (simp add: dump_def applyBeforeDump_def)

section \<open>Loading\<close>

text \<open>
  The contract of a table with its insertion: a row is accepted exactly when the table with the row
  satisfies the constraints, which do not depend on the order of the rows, nor on the form in which
  the driver reads numbers.
\<close>

definition quiet :: "pg \<Rightarrow> bool" where
  "quiet p \<longleftrightarrow> (\<forall>n. fault_at p n = NoFault)"

text \<open>The driver reads a number back as the same number, possibly with another exponent.\<close>

definition keeps_numbers :: "pg \<Rightarrow> bool" where
  "keeps_numbers p \<longleftrightarrow>
     (\<forall>n. num_Valid (scan_numeric p n) = num_Valid n \<and>
          (num_Int (scan_numeric p n) = None \<longleftrightarrow> num_Int n = None)) \<and>
     (\<forall>a b. num_eq (scan_numeric p a) (scan_numeric p b) = num_eq a b)"

locale loadable =
  fixes p :: pg
    and ok :: "'r list \<Rightarrow> bool"
    and ins :: "'r \<Rightarrow> 'r list \<Rightarrow> error + 'r option \<times> 'r list"
    and scan :: "'r \<Rightarrow> 'r"
    and rows_of :: "'w \<Rightarrow> 'r list"
    and exec :: "('r list \<Rightarrow> error + unit \<times> 'r list) \<Rightarrow> 'w \<Rightarrow> unit res \<times> 'w"
  assumes ins_accepts: "ok (t @ [r]) \<Longrightarrow> ins r t = Inr (Some r, t @ [r])"
    and ins_keeps: "ok t \<Longrightarrow> ins r t = Inr (x, t') \<Longrightarrow> ok t'"
    and ok_prefix: "ok (t @ t') \<Longrightarrow> ok t"
    and ok_order: "mset t = mset t' \<Longrightarrow> ok t \<Longrightarrow> ok t'"
    and ok_scan: "keeps_numbers p \<Longrightarrow> ok t \<Longrightarrow> ok (map scan t)"
    and exec_quiet: "quiet p \<Longrightarrow> s (rows_of w) = Inr ((), t) \<Longrightarrow>
      \<exists>w'. exec s w = (Ret (), w') \<and> rows_of w' = t"
    and exec_rows: "rows_of (snd (exec s w)) = rows_of w \<or>
      s (rows_of w) = Inr ((), rows_of (snd (exec s w)))"
begin

lemma load_restores:
  assumes "quiet p" and "ok (rows_of w @ rs)"
  shows "\<exists>w'. load_rows (\<lambda>r. exec (exec_stmt (ins r))) rs w = (Ret (), w') \<and>
    rows_of w' = rows_of w @ rs"
  using assms(2)
proof (induction rs arbitrary: w)
  case (Cons r rs)
  then have "ok (rows_of w @ [r])" using ok_prefix [of "rows_of w @ [r]" rs] by simp
  then have "exec_stmt (ins r) (rows_of w) = Inr ((), rows_of w @ [r])"
    using ins_accepts by (simp add: exec_stmt_def)
  then obtain w' where "exec (exec_stmt (ins r)) w = (Ret (), w')" "rows_of w' = rows_of w @ [r]"
    using exec_quiet [OF assms(1)] by blast
  with Cons.IH [of w'] Cons.prems show ?case by simp
qed simp

lemma load_keeps: "ok (rows_of w) \<Longrightarrow> ok (rows_of (snd (load_rows (\<lambda>r. exec (exec_stmt (ins r))) rs w)))"
proof (induction rs arbitrary: w)
  case (Cons r rs)
  obtain x u where e: "exec (exec_stmt (ins r)) w = (x, u)" by fastforce
  with exec_rows [of "exec_stmt (ins r)" w] Cons.prems ins_keeps have "ok (rows_of u)"
    by (auto simp: exec_stmt_Inr)
  with Cons.IH show ?case by (cases x) (simp_all add: e)
qed simp

lemma load_dump:
  assumes "quiet p" and "keeps_numbers p" and "ok (rows_of w)" and "rows_of v = []"
    and "mset (order (rows_of w)) = mset (rows_of w)"
    and "reads_back js (map scan (order (rows_of w)))"
  shows "\<exists>b v'. dump js scan [] (Ret (order (rows_of w)), u) = (Ret b, u) \<and>
    load js (\<lambda>r. exec (exec_stmt (ins r))) b v = (Ret (), v') \<and>
    rows_of v' = map scan (order (rows_of w))"
proof -
  obtain b where b: "MarshalIndent js (map scan (order (rows_of w))) = Inr b"
    "Unmarshal js b = Inr (map scan (order (rows_of w)))"
    using assms(6) by (auto simp: reads_back)
  have "ok (order (rows_of w))" by (rule ok_order [OF assms(5) [symmetric] assms(3)])
  from ok_scan [OF assms(2) this] load_restores [OF assms(1), of v "map scan (order (rows_of w))"]
  show ?thesis
    using dump_Ret [OF b(1), of u] b(2) assms(4) by (intro exI [of _ b]) (simp add: load_def)
qed

end

section \<open>The four tables\<close>

lemma keyed_order: "mset t = mset t' \<Longrightarrow> keyed key check t = keyed key check t'"
  using mset_eq_imp_distinct_iff [of "map key t" "map key t'"] mset_eq_setD [of t t']
  by (auto simp: keyed_def list_all_iff)

lemma keyed_prefix: "keyed key check (t @ t') \<Longrightarrow> keyed key check t"
  by (simp add: keyed_def)

lemma keyed_scan:
  assumes "keyed key check t" and "\<And>r. key (scan r) = key r" and "\<And>r. check r \<Longrightarrow> check (scan r)"
  shows "keyed key check (map scan t)"
  using assms by (auto simp: keyed_def list_all_iff comp_def)

lemma insert_row_accepts:
  "keyed key check (t @ [r]) \<Longrightarrow> insert_row key check r t = Inr (Some r, t @ [r])"
  by (simp add: keyed_def insert_row_def)

lemma num_eq_sym: "num_eq a b = num_eq b a"
  by (simp add: num_eq_def Let_def min.commute eq_commute split: option.split)

lemma pairwise_distinct_middle:
  assumes "\<And>x y. same x y = same y x"
  shows "pairwise_distinct same (xs @ a # ys) \<longleftrightarrow> pairwise_distinct same (a # xs @ ys)"
  using assms by (induction xs) auto

lemma pairwise_distinct_order:
  assumes "\<And>x y. same x y = same y x"
  shows "mset t = mset t' \<Longrightarrow> pairwise_distinct same t \<Longrightarrow> pairwise_distinct same t'"
proof (induction t arbitrary: t')
  case (Cons a t)
  then have "a \<in> set t'" by (metis list.set_intros(1) mset_eq_setD)
  then obtain xs ys where t': "t' = xs @ a # ys" by (meson split_list)
  with Cons.prems(1) have m: "mset t = mset (xs @ ys)" by simp
  with Cons have "pairwise_distinct same (xs @ ys)" by simp
  moreover have "list_all (\<lambda>y. \<not> same a y) (xs @ ys)"
    using Cons.prems(2) mset_eq_setD [OF m] by (simp add: list_all_iff)
  ultimately show ?case
    by (simp add: t' pairwise_distinct_middle [of same, OF assms])
qed simp

lemma same_request_sym: "same_request r s = same_request s r"
  using num_eq_sym by (auto simp: same_request_def)

lemma pairwise_distinct_scan:
  assumes "pairwise_distinct same t" and "\<And>r s. same (scan r) (scan s) = same r s"
  shows "pairwise_distinct same (map scan t)"
  using assms by (induction t) (auto simp: list_all_iff)

lemma pairwise_distinct_prefix: "pairwise_distinct same (t @ t') \<Longrightarrow> pairwise_distinct same t"
  by (induction t) auto

lemma insert_consensus_Inr:
  assumes "insert_consensus r t = Inr (x, t')" and "consensus_ok t"
  shows "consensus_ok t'"
  using assms
  by (auto simp: insert_consensus_def insert_row_def consensus_ok_def keyed_def
      pairwise_distinct_append split: if_splits)

lemma consensus_order: "mset t = mset t' \<Longrightarrow> consensus_ok t \<Longrightarrow> consensus_ok t'"
  using keyed_order [of t t' c_TaskID consensus_check] pairwise_distinct_order [OF same_request_sym]
  by (auto simp: consensus_ok_def)

text \<open>One statement on the rows, with and without faults.\<close>

lemma run_quiet: "quiet p \<Longrightarrow> s t = Inr (x, t') \<Longrightarrow> run_stmt (fault_at p n) s t = (Ret x, t')"
  by (simp add: quiet_def run_stmt_def)

lemma run_rows:
  fixes s :: "('r, unit) stmt"
  shows "snd (run_stmt f s t) = t \<or> s t = Inr ((), snd (run_stmt f s t))"
  by (auto simp: run_stmt_def split: fault.split sum.split)

lemmas scan_keeps = keeps_numbers_def not_null_def fits_numeric_def

interpretation tasks_load: loadable p tasks_ok "insert_row t_TaskID tasks_check" "scan_task p"
  "tasks_rows :: ('z) DB_scheme \<Rightarrow> Tasks list" "\<lambda>s. on_tasks p (\<lambda>_. s)" for p
proof
  fix t t' r x and w :: "('z) DB_scheme" and s :: "(Tasks, unit) stmt"
  show "tasks_ok (t @ [r]) \<Longrightarrow> insert_row t_TaskID tasks_check r t = Inr (Some r, t @ [r])"
    unfolding tasks_ok_def by (rule insert_row_accepts)
  show "tasks_ok t \<Longrightarrow> insert_row t_TaskID tasks_check r t = Inr (x, t') \<Longrightarrow> tasks_ok t'"
    unfolding tasks_ok_def by (rule insert_row_keyed)
  show "tasks_ok (t @ t') \<Longrightarrow> tasks_ok t" unfolding tasks_ok_def by (rule keyed_prefix)
  show "mset t = mset t' \<Longrightarrow> tasks_ok t \<Longrightarrow> tasks_ok t'" unfolding tasks_ok_def by (rule keyed_order [THEN iffD1])
  show "keeps_numbers p \<Longrightarrow> tasks_ok t \<Longrightarrow> tasks_ok (map (scan_task p) t)"
    unfolding tasks_ok_def by (rule keyed_scan) (auto simp: scan_task_def tasks_check_def scan_keeps)
  show "quiet p \<Longrightarrow> s (tasks_rows w) = Inr ((), t) \<Longrightarrow>
      \<exists>w'. on_tasks p (\<lambda>_. s) w = (Ret (), w') \<and> tasks_rows w' = t"
    by (simp add: on_tasks_def run_quiet)
  show "tasks_rows (snd (on_tasks p (\<lambda>_. s) w)) = tasks_rows w \<or>
      s (tasks_rows w) = Inr ((), tasks_rows (snd (on_tasks p (\<lambda>_. s) w)))"
    using run_rows [of "fault_at p (calls w)" s "tasks_rows w"] by (simp add: on_tasks_def case_prod_beta)
qed

interpretation operators_load: loadable p operators_ok "insert_row o_Address operators_check" "scan_operator p"
  "operators_rows :: ('z) DB_scheme \<Rightarrow> Operators list" "\<lambda>s. on_operators p (\<lambda>_. s)" for p
proof
  fix t t' r x and w :: "('z) DB_scheme" and s :: "(Operators, unit) stmt"
  show "operators_ok (t @ [r]) \<Longrightarrow> insert_row o_Address operators_check r t = Inr (Some r, t @ [r])"
    unfolding operators_ok_def by (rule insert_row_accepts)
  show "operators_ok t \<Longrightarrow> insert_row o_Address operators_check r t = Inr (x, t') \<Longrightarrow> operators_ok t'"
    unfolding operators_ok_def by (rule insert_row_keyed)
  show "operators_ok (t @ t') \<Longrightarrow> operators_ok t" unfolding operators_ok_def by (rule keyed_prefix)
  show "mset t = mset t' \<Longrightarrow> operators_ok t \<Longrightarrow> operators_ok t'" unfolding operators_ok_def by (rule keyed_order [THEN iffD1])
  show "keeps_numbers p \<Longrightarrow> operators_ok t \<Longrightarrow> operators_ok (map (scan_operator p) t)"
    unfolding operators_ok_def by (rule keyed_scan) (auto simp: scan_operator_def operators_check_def scan_keeps)
  show "quiet p \<Longrightarrow> s (operators_rows w) = Inr ((), t) \<Longrightarrow>
      \<exists>w'. on_operators p (\<lambda>_. s) w = (Ret (), w') \<and> operators_rows w' = t"
    by (simp add: on_operators_def run_quiet)
  show "operators_rows (snd (on_operators p (\<lambda>_. s) w)) = operators_rows w \<or>
      s (operators_rows w) = Inr ((), operators_rows (snd (on_operators p (\<lambda>_. s) w)))"
    using run_rows [of "fault_at p (calls w)" s "operators_rows w"] by (simp add: on_operators_def case_prod_beta)
qed

interpretation blacklist_load: loadable p blacklist_ok "insert_row b_PeerID blacklist_check" "\<lambda>r. r"
  "blacklist_rows :: ('z) DB_scheme \<Rightarrow> Blacklist list" "\<lambda>s. on_blacklist p (\<lambda>_. s)" for p
proof
  fix t t' r x and w :: "('z) DB_scheme" and s :: "(Blacklist, unit) stmt"
  show "blacklist_ok (t @ [r]) \<Longrightarrow> insert_row b_PeerID blacklist_check r t = Inr (Some r, t @ [r])"
    unfolding blacklist_ok_def by (rule insert_row_accepts)
  show "blacklist_ok t \<Longrightarrow> insert_row b_PeerID blacklist_check r t = Inr (x, t') \<Longrightarrow> blacklist_ok t'"
    unfolding blacklist_ok_def by (rule insert_row_keyed)
  show "blacklist_ok (t @ t') \<Longrightarrow> blacklist_ok t" unfolding blacklist_ok_def by (rule keyed_prefix)
  show "mset t = mset t' \<Longrightarrow> blacklist_ok t \<Longrightarrow> blacklist_ok t'" unfolding blacklist_ok_def by (rule keyed_order [THEN iffD1])
  show "keeps_numbers p \<Longrightarrow> blacklist_ok t \<Longrightarrow> blacklist_ok (map (\<lambda>r. r) t)" by simp
  show "quiet p \<Longrightarrow> s (blacklist_rows w) = Inr ((), t) \<Longrightarrow>
      \<exists>w'. on_blacklist p (\<lambda>_. s) w = (Ret (), w') \<and> blacklist_rows w' = t"
    by (simp add: on_blacklist_def run_quiet)
  show "blacklist_rows (snd (on_blacklist p (\<lambda>_. s) w)) = blacklist_rows w \<or>
      s (blacklist_rows w) = Inr ((), blacklist_rows (snd (on_blacklist p (\<lambda>_. s) w)))"
    using run_rows [of "fault_at p (calls w)" s "blacklist_rows w"] by (simp add: on_blacklist_def case_prod_beta)
qed

lemma scan_consensus_ok:
  assumes "keeps_numbers p" and "consensus_ok t"
  shows "consensus_ok (map (scan_consensus p) t)"
proof -
  have "keyed c_TaskID consensus_check (map (scan_consensus p) t)"
    using assms
    by (intro keyed_scan) (auto simp: consensus_ok_def scan_consensus_def consensus_check_def scan_keeps)
  moreover have "pairwise_distinct same_request (map (scan_consensus p) t)"
    using assms
    by (intro pairwise_distinct_scan) (auto simp: consensus_ok_def scan_consensus_def same_request_def
        keeps_numbers_def)
  ultimately show ?thesis by (simp add: consensus_ok_def)
qed

interpretation consensus_load: loadable p consensus_ok insert_consensus "scan_consensus p"
  "consensus_rows :: ('z) DB_scheme \<Rightarrow> ConsensusResponse list" "\<lambda>s. on_consensus p (\<lambda>_. s)" for p
proof
  fix t t' r x and w :: "('z) DB_scheme" and s :: "(ConsensusResponse, unit) stmt"
  show "consensus_ok (t @ [r]) \<Longrightarrow> insert_consensus r t = Inr (Some r, t @ [r])"
    by (simp add: insert_consensus_def consensus_ok_def insert_row_accepts pairwise_distinct_append)
  show "consensus_ok t \<Longrightarrow> insert_consensus r t = Inr (x, t') \<Longrightarrow> consensus_ok t'"
    by (rule insert_consensus_Inr)
  show "consensus_ok (t @ t') \<Longrightarrow> consensus_ok t"
    by (auto simp: consensus_ok_def elim: keyed_prefix pairwise_distinct_prefix)
  show "mset t = mset t' \<Longrightarrow> consensus_ok t \<Longrightarrow> consensus_ok t'" by (rule consensus_order)
  show "keeps_numbers p \<Longrightarrow> consensus_ok t \<Longrightarrow> consensus_ok (map (scan_consensus p) t)"
    by (rule scan_consensus_ok)
  show "quiet p \<Longrightarrow> s (consensus_rows w) = Inr ((), t) \<Longrightarrow>
      \<exists>w'. on_consensus p (\<lambda>_. s) w = (Ret (), w') \<and> consensus_rows w' = t"
    by (simp add: on_consensus_def run_quiet)
  show "consensus_rows (snd (on_consensus p (\<lambda>_. s) w)) = consensus_rows w \<or>
      s (consensus_rows w) = Inr ((), consensus_rows (snd (on_consensus p (\<lambda>_. s) w)))"
    using run_rows [of "fault_at p (calls w)" s "consensus_rows w"] by (simp add: on_consensus_def case_prod_beta)
qed

section \<open>Round trip\<close>

lemma quiet_select:
  assumes "quiet p"
  shows "on_tasks p (\<lambda>_. select_many f) w = (Ret (f (tasks_rows w)), tick w)"
    "on_operators p (\<lambda>_. select_many g) w = (Ret (g (operators_rows w)), tick w)"
    "on_consensus p (\<lambda>_. select_many h) w = (Ret (h (consensus_rows w)), tick w)"
    "on_blacklist p (\<lambda>_. select_many k) w = (Ret (k (blacklist_rows w)), tick w)"
  using assms
  by (simp_all add: quiet_def on_tasks_def on_operators_def on_consensus_def on_blacklist_def
      run_stmt_def select_many_def tick_def)

text \<open>
  C38. A dump can be loaded. If no statement fails, the driver keeps numbers and the JSON of the rows
  can be read back, then each of the four tables can be dumped, and the dump loads into a database
  whose table is empty: no constraint refuses a row, and the table then holds the rows that the
  dumped table has, in the order of the dump and as the driver read them.
\<close>

theorem Dump_Load:
  fixes v w :: "('z) DB_scheme"
  assumes "quiet p" and "keeps_numbers p" and "db_ok w"
    and "\<And>t. mset (ot t) = mset t" "\<And>t. mset (oo t) = mset t" "\<And>t. mset (oc t) = mset t"
      "\<And>t. mset (ob t) = mset t"
    and "reads_back jt (map (scan_task p) (ot (tasks_rows w)))"
      "reads_back jo (map (scan_operator p) (oo (operators_rows w)))"
      "reads_back jc (map (scan_consensus p) (oc (consensus_rows w)))"
      "reads_back jb (ob (blacklist_rows w))"
    and "tasks_rows v = []" "operators_rows v = []" "consensus_rows v = []" "blacklist_rows v = []"
  shows "(\<exists>b v'. tasks_Dump p ot jt [] w = (Ret b, tick w) \<and> tasks_Load p jt b v = (Ret (), v') \<and>
      tasks_rows v' = map (scan_task p) (ot (tasks_rows w))) \<and>
    (\<exists>b v'. operators_Dump p oo jo [] w = (Ret b, tick w) \<and> operators_Load p jo b v = (Ret (), v') \<and>
      operators_rows v' = map (scan_operator p) (oo (operators_rows w))) \<and>
    (\<exists>b v'. consensus_Dump p oc jc [] w = (Ret b, tick w) \<and> consensus_Load p jc b v = (Ret (), v') \<and>
      consensus_rows v' = map (scan_consensus p) (oc (consensus_rows w))) \<and>
    (\<exists>b v'. blacklist_Dump p ob jb [] w = (Ret b, tick w) \<and> blacklist_Load p jb b v = (Ret (), v') \<and>
      blacklist_rows v' = ob (blacklist_rows w))"
  using assms(3) tasks_load.load_dump [where order = ot and w = w and u = "tick w", OF assms(1,2) _ assms(12,4,8)]
    operators_load.load_dump [where order = oo and w = w and u = "tick w", OF assms(1,2) _ assms(13,5,9)]
    consensus_load.load_dump [where order = oc and w = w and u = "tick w", OF assms(1,2) _ assms(14,6,10)]
    blacklist_load.load_dump [where order = ob and w = w and js = jb and u = "tick w", OF assms(1,2) _ assms(15,7)]
    assms(11)
  by (simp add: db_ok_def quiet_select [OF assms(1)] tasks_Dump_def tasks_Load_def operators_Dump_def
      operators_Load_def consensus_Dump_def consensus_Load_def blacklist_Dump_def blacklist_Load_def)

text \<open>A database with a blocked peer and an operator, and JSON for their rows.\<close>

definition dump_pg :: pg where
  "dump_pg = \<lparr>fault_at = (\<lambda>_. NoFault), now_at = (\<lambda>_. 0), scan_numeric = (\<lambda>n. n), cache_at = None,
     sha256 = (\<lambda>_. [])\<rparr>"

definition dump_db :: DB where
  "dump_db = \<lparr>calls = 0, tasks_rows = [],
     operators_rows = [\<lparr>o_Address = ''A'', o_SigningKey = ''B'', o_P2pKey = ''C'',
       o_RegisteredAtBlockNumber = 1, o_ActiveEpoch = 2, o_ExitEpoch = 3, o_IsActive = True,
       o_Weight = BigIntToNumeric (Some 5), o_CreatedAt = 0, o_UpdatedAt = 0\<rparr>],
     consensus_rows = [],
     blacklist_rows = [\<lparr>b_PeerID = ''P'', b_ViolationCount = 3, b_CreatedAt = 0, b_UpdatedAt = 0,
       b_ExpiresAt = None\<rparr>],
     invalidated = [], post_exec = []\<rparr>"

definition one_json :: "'r list \<Rightarrow> 'r json" where
  "one_json rs = \<lparr>MarshalIndent = (\<lambda>_. Inr [1]), Unmarshal = (\<lambda>_. Inr rs)\<rparr>"

lemma reads_back_one [simp]: "reads_back (one_json rs) rs"
  by (simp add: reads_back_def one_json_def)

theorem Dump_Load_witness:
  "\<exists>b v'. blacklist_Dump dump_pg (\<lambda>t. t) (one_json (blacklist_rows dump_db)) [] dump_db =
      (Ret b, tick dump_db) \<and>
    blacklist_Load dump_pg (one_json (blacklist_rows dump_db)) b (dump_db\<lparr>tasks_rows := [],
      operators_rows := [], consensus_rows := [], blacklist_rows := []\<rparr>) = (Ret (), v') \<and>
    map b_PeerID (blacklist_rows v') = [''P'']"
proof -
  have "quiet dump_pg" "keeps_numbers dump_pg"
    by (simp_all add: quiet_def keeps_numbers_def dump_pg_def)
  moreover have "db_ok dump_db"
    by (simp add: db_ok_def dump_db_def tasks_ok_def operators_ok_def consensus_ok_def
        blacklist_ok_def keyed_def operators_check_def blacklist_check_def fits_varchar_def
        fits_int8_def fits_numeric_def not_null_def BigIntToNumeric_def)
  ultimately have "\<exists>b v'. blacklist_Dump dump_pg (\<lambda>t. t) (one_json (blacklist_rows dump_db)) [] dump_db =
      (Ret b, tick dump_db) \<and>
    blacklist_Load dump_pg (one_json (blacklist_rows dump_db)) b (dump_db\<lparr>tasks_rows := [],
      operators_rows := [], consensus_rows := [], blacklist_rows := []\<rparr>) = (Ret (), v') \<and>
    blacklist_rows v' = blacklist_rows dump_db"
    using Dump_Load [where p = dump_pg and w = dump_db and ot = "\<lambda>t. t" and oo = "\<lambda>t. t" and
        oc = "\<lambda>t. t" and ob = "\<lambda>t. t" and jt = "one_json (map (scan_task dump_pg) (tasks_rows dump_db))" and
        jo = "one_json (map (scan_operator dump_pg) (operators_rows dump_db))" and
        jc = "one_json (map (scan_consensus dump_pg) (consensus_rows dump_db))" and
        jb = "one_json (blacklist_rows dump_db)" and
        v = "dump_db\<lparr>tasks_rows := [], operators_rows := [], consensus_rows := [], blacklist_rows := []\<rparr>"]
    by simp
  moreover have "map b_PeerID (blacklist_rows dump_db) = [''P'']" by (simp add: dump_db_def)
  ultimately show ?thesis by metis
qed

end
